(* ===== verification/Prelude.thy ===== *)
theory Prelude
  imports Main "HOL-Library.Word"
begin

text \<open>
  Shared vocabulary of the development: the machine types of the Rust sources, panics and
  results as values, the iterator adaptors the sources use (\<open>find_map\<close>, \<open>collect\<close> into a
  \<open>Result\<close>), the big-endian byte codec of the \<open>byteorder\<close> readers and writers, the
  contracts (\<open>codec\<close>, \<open>machine\<close>) the components are measured against, and the named
  collections of facts that carry the component proofs.
\<close>

unbundle bit_operations_syntax

named_theorems rust_simps \<open>unfoldings and rewrite rules of the modelled operations\<close>
named_theorems rust_elims \<open>inversion facts for successful runs of the modelled operations\<close>

section \<open>Machine types\<close>

type_synonym u8 = "8 word"
type_synonym u16 = "16 word"
type_synonym u32 = "32 word"
type_synonym bytes = "u8 list"

text \<open>\<open>usize\<close> values are naturals; where the code parses one, the bound of a 64-bit target is
  checked explicitly.\<close>

type_synonym usize = nat

section \<open>Panics and results\<close>

text \<open>The ways the modelled code can abort the thread it runs on.\<close>

datatype panic =
    OutOfBounds       \<comment> \<open>slice or index out of range\<close>
  | UnwrapFailed      \<comment> \<open>\<open>unwrap\<close> or \<open>expect\<close> on \<open>None\<close> or \<open>Err\<close>\<close>
  | ArithOverflow     \<comment> \<open>checked arithmetic of a debug build\<close>
  | ExplicitPanic     \<comment> \<open>\<open>panic!\<close>, \<open>todo!\<close>, \<open>unreachable!\<close>\<close>
  | AllocFailed       \<comment> \<open>an allocation of more memory than there is\<close>

text \<open>\<open>bind_res\<close> is the \<open>?\<close> operator: an error leaves the function, a value goes on.\<close>

definition bind_res :: "'e + 'a \<Rightarrow> ('a \<Rightarrow> 'e + 'b) \<Rightarrow> 'e + 'b" where
  "bind_res r f = (case r of Inl e \<Rightarrow> Inl e | Inr a \<Rightarrow> f a)"

definition map_res :: "('a \<Rightarrow> 'b) \<Rightarrow> 'e + 'a \<Rightarrow> 'e + 'b" where
  "map_res f r = (case r of Inl e \<Rightarrow> Inl e | Inr a \<Rightarrow> Inr (f a))"

definition ok_or :: "'e \<Rightarrow> 'a option \<Rightarrow> 'e + 'a" where
  "ok_or e x = (case x of None \<Rightarrow> Inl e | Some a \<Rightarrow> Inr a)"

definition ok :: "'e + 'a \<Rightarrow> 'a option" where
  "ok r = (case r of Inl _ \<Rightarrow> None | Inr a \<Rightarrow> Some a)"

definition is_ok :: "'e + 'a \<Rightarrow> bool" where
  "is_ok r = (case r of Inl _ \<Rightarrow> False | Inr _ \<Rightarrow> True)"

lemma bind_res_simps [simp]:
  "bind_res (Inl e) f = Inl e"
  "bind_res (Inr a) f = f a"
  by (simp_all add: bind_res_def)

lemma map_res_simps [simp]:
  "map_res f (Inl e) = Inl e"
  "map_res f (Inr a) = Inr (f a)"
  by (simp_all add: map_res_def)

lemma ok_or_simps [simp]:
  "ok_or e None = Inl e"
  "ok_or e (Some a) = Inr a"
  by (simp_all add: ok_or_def)

lemma ok_simps [simp]:
  "ok (Inl e) = None"
  "ok (Inr a) = Some a"
  by (simp_all add: ok_def)

lemma is_ok_simps [simp]:
  "\<not> is_ok (Inl e)"
  "is_ok (Inr a)"
  by (simp_all add: is_ok_def)

lemma bind_res_eq_Inr [rust_elims]:
  "bind_res r f = Inr b \<longleftrightarrow> (\<exists>a. r = Inr a \<and> f a = Inr b)"
  by (cases r) auto

lemma bind_res_eq_Inl:
  "bind_res r f = Inl e \<longleftrightarrow> r = Inl e \<or> (\<exists>a. r = Inr a \<and> f a = Inl e)"
  by (cases r) auto

lemma map_res_eq_Inr [rust_elims]:
  "map_res f r = Inr b \<longleftrightarrow> (\<exists>a. r = Inr a \<and> b = f a)"
  by (cases r) auto

lemma ok_or_eq_Inr [rust_elims]: "ok_or e x = Inr a \<longleftrightarrow> x = Some a"
  by (cases x) auto

lemma ok_or_eq_Inl: "ok_or e x = Inl e' \<longleftrightarrow> x = None \<and> e' = e"
  by (cases x) auto

lemma ok_eq_Some [rust_elims]: "ok r = Some a \<longleftrightarrow> r = Inr a"
  by (cases r) auto

lemma bind_resE: "bind_res r f = Inr b \<Longrightarrow> (\<And>a. r = Inr a \<Longrightarrow> f a = Inr b \<Longrightarrow> P) \<Longrightarrow> P"
  by (cases r) auto

lemma is_ok_ex: "is_ok r \<longleftrightarrow> (\<exists>a. r = Inr a)"
  by (cases r) auto

lemma bind_res_cong [fundef_cong]:
  "r = r' \<Longrightarrow> (\<And>a. r' = Inr a \<Longrightarrow> f a = f' a) \<Longrightarrow> bind_res r f = bind_res r' f'"
  by (cases r') auto

section \<open>Iterator adaptors\<close>

fun find_map :: "('a \<Rightarrow> 'b option) \<Rightarrow> 'a list \<Rightarrow> 'b option" where
  "find_map f [] = None"
| "find_map f (x # xs) = (case f x of None \<Rightarrow> find_map f xs | Some y \<Rightarrow> Some y)"

fun filter_map :: "('a \<Rightarrow> 'b option) \<Rightarrow> 'a list \<Rightarrow> 'b list" where
  "filter_map f [] = []"
| "filter_map f (x # xs) = (case f x of None \<Rightarrow> filter_map f xs | Some y \<Rightarrow> y # filter_map f xs)"

text \<open>\<open>collect::<Result<Vec<_>, _>>\<close>: the first error wins.\<close>

fun collect_res :: "('a \<Rightarrow> 'e + 'b) \<Rightarrow> 'a list \<Rightarrow> 'e + 'b list" where
  "collect_res f [] = Inr []"
| "collect_res f (x # xs) = bind_res (f x) (\<lambda>y. bind_res (collect_res f xs) (\<lambda>ys. Inr (y # ys)))"

lemma find_map_Some:
  "find_map f xs = Some y \<longleftrightarrow>
     (\<exists>as x bs. xs = as @ x # bs \<and> f x = Some y \<and> (\<forall>a \<in> set as. f a = None))"
proof (induction xs)
  case Nil
  then show ?case by simp
next
  case (Cons x xs)
  show ?case
  proof (cases "f x")
    case None
    then have "find_map f (x # xs) = Some y \<longleftrightarrow>
        (\<exists>as z bs. xs = as @ z # bs \<and> f z = Some y \<and> (\<forall>a \<in> set as. f a = None))"
      using Cons.IH by simp
    also have "\<dots> \<longleftrightarrow> (\<exists>as z bs. x # xs = as @ z # bs \<and> f z = Some y \<and> (\<forall>a \<in> set as. f a = None))"
      (is "?L \<longleftrightarrow> ?R")
    proof
      assume ?L
      then obtain as z bs where "xs = as @ z # bs" "f z = Some y" "\<forall>a \<in> set as. f a = None"
        by blast
      with None have "x # xs = (x # as) @ z # bs \<and> f z = Some y \<and> (\<forall>a \<in> set (x # as). f a = None)"
        by simp
      then show ?R by blast
    next
      assume ?R
      then obtain as z bs where *: "x # xs = as @ z # bs" "f z = Some y" "\<forall>a \<in> set as. f a = None"
        by blast
      with None obtain as' where "as = x # as'" by (cases as) auto
      with * show ?L by auto
    qed
    finally show ?thesis .
  next
    case (Some v)
    then show ?thesis by (force simp: Cons_eq_append_conv)
  qed
qed

lemma find_map_SomeD:
  "find_map f xs = Some y \<Longrightarrow> \<exists>x \<in> set xs. f x = Some y"
  by (auto simp: find_map_Some)

lemma find_map_None [simp]: "find_map f xs = None \<longleftrightarrow> (\<forall>x \<in> set xs. f x = None)"
  by (induction xs) (auto split: option.splits)

lemma find_map_append:
  "find_map f (xs @ ys) = (case find_map f xs of None \<Rightarrow> find_map f ys | Some y \<Rightarrow> Some y)"
  by (induction xs) (simp_all del: find_map_None split: option.split)

lemma set_filter_map: "set (filter_map f xs) = {y. \<exists>x \<in> set xs. f x = Some y}"
  by (induction xs) (auto split: option.splits)

lemma filter_map_cong: "(\<And>x. x \<in> set xs \<Longrightarrow> f x = g x) \<Longrightarrow> filter_map f xs = filter_map g xs"
  by (induction xs) (auto split: option.splits)

lemma filter_map_append: "filter_map f (xs @ ys) = filter_map f xs @ filter_map f ys"
  by (induction xs) (auto split: option.splits)

lemma filter_map_Nil [simp]: "filter_map f xs = [] \<longleftrightarrow> (\<forall>x \<in> set xs. f x = None)"
  by (induction xs) (auto split: option.splits)

lemma filter_map_Cons:
  "filter_map f xs = y # ys \<Longrightarrow>
     \<exists>as x bs. xs = as @ x # bs \<and> f x = Some y \<and> filter_map f bs = ys \<and> (\<forall>a \<in> set as. f a = None)"
proof (induction xs)
  case (Cons x xs)
  show ?case
  proof (cases "f x")
    case None
    with Cons obtain as z bs where
      "xs = as @ z # bs \<and> f z = Some y \<and> filter_map f bs = ys \<and> (\<forall>a \<in> set as. f a = None)"
      by auto
    with None have "x # xs = (x # as) @ z # bs \<and> f z = Some y \<and> filter_map f bs = ys
        \<and> (\<forall>a \<in> set (x # as). f a = None)"
      by simp
    then show ?thesis by blast
  next
    case (Some v)
    with Cons.prems have "x # xs = [] @ x # xs \<and> f x = Some y \<and> filter_map f xs = ys
        \<and> (\<forall>a \<in> set []. f a = None)"
      by simp
    then show ?thesis by blast
  qed
qed simp

lemma collect_res_map:
  "(\<And>x. x \<in> set xs \<Longrightarrow> f x = Inr (g x)) \<Longrightarrow> collect_res f xs = Inr (map g xs)"
  by (induction xs) auto

lemma collect_res_Inr:
  "collect_res f xs = Inr ys \<longleftrightarrow> length xs = length ys \<and> (\<forall>i < length xs. f (xs ! i) = Inr (ys ! i))"
proof (induction xs arbitrary: ys)
  case Nil
  then show ?case by auto
next
  case (Cons x xs)
  show ?case
    by (cases ys) (auto simp: bind_res_eq_Inr Cons.IH nth_Cons split: nat.splits)
qed

lemma collect_res_length: "collect_res f xs = Inr ys \<Longrightarrow> length ys = length xs"
  by (simp add: collect_res_Inr)

section \<open>Big-endian bytes\<close>

text \<open>\<open>byteorder\<close>'s \<open>BigEndian\<close> (also named \<open>NetworkEndian\<close>): the most significant byte first.\<close>

definition be16 :: "u16 \<Rightarrow> bytes" where
  "be16 w = [ucast (drop_bit 8 w), ucast w]"

definition be32 :: "u32 \<Rightarrow> bytes" where
  "be32 w = [ucast (drop_bit 24 w), ucast (drop_bit 16 w), ucast (drop_bit 8 w), ucast w]"

definition rd16 :: "u8 \<Rightarrow> u8 \<Rightarrow> u16" where
  "rd16 a b = push_bit 8 (ucast a) OR ucast b"

definition rd32 :: "u8 \<Rightarrow> u8 \<Rightarrow> u8 \<Rightarrow> u8 \<Rightarrow> u32" where
  "rd32 a b c d = push_bit 24 (ucast a) OR push_bit 16 (ucast b) OR push_bit 8 (ucast c) OR ucast d"

fun read_u8 :: "bytes \<Rightarrow> (u8 \<times> bytes) option" where
  "read_u8 (a # bs) = Some (a, bs)"
| "read_u8 _ = None"

fun read_u16 :: "bytes \<Rightarrow> (u16 \<times> bytes) option" where
  "read_u16 (a # b # bs) = Some (rd16 a b, bs)"
| "read_u16 _ = None"

fun read_u32 :: "bytes \<Rightarrow> (u32 \<times> bytes) option" where
  "read_u32 (a # b # c # d # bs) = Some (rd32 a b c d, bs)"
| "read_u32 _ = None"

definition read_exact :: "nat \<Rightarrow> bytes \<Rightarrow> (bytes \<times> bytes) option" where
  "read_exact n bs = (if length bs < n then None else Some (take n bs, drop n bs))"

lemma length_be16 [simp]: "length (be16 w) = 2"
  by (simp add: be16_def)

lemma length_be32 [simp]: "length (be32 w) = 4"
  by (simp add: be32_def)

lemma rd16_be16 [simp]: "rd16 (ucast (drop_bit 8 w)) (ucast w) = w"
  by (rule bit_word_eqI) (auto simp: rd16_def bit_simps)

lemma rd32_be32 [simp]:
  "rd32 (ucast (drop_bit 24 w)) (ucast (drop_bit 16 w)) (ucast (drop_bit 8 w)) (ucast w) = w"
proof (rule bit_word_eqI)
  fix n :: nat
  assume n: "n < LENGTH(32)"
  consider "n < 8" | "8 \<le> n" "n < 16" | "16 \<le> n" "n < 24" | "24 \<le> n"
    by linarith
  then show "bit (rd32 (ucast (drop_bit 24 w)) (ucast (drop_bit 16 w)) (ucast (drop_bit 8 w)) (ucast w)) n
      = bit w n"
    using n by cases (auto simp: rd32_def bit_simps)
qed

lemma read_u16_be16 [simp]: "read_u16 (be16 w @ bs) = Some (w, bs)"
  by (simp add: be16_def)

lemma read_u32_be32 [simp]: "read_u32 (be32 w @ bs) = Some (w, bs)"
  by (simp add: be32_def)

lemma read_exact_append [simp]: "length xs = n \<Longrightarrow> read_exact n (xs @ ys) = Some (xs, ys)"
  by (simp add: read_exact_def)

lemma read_u16_length: "read_u16 bs = Some (w, rest) \<Longrightarrow> length bs = length rest + 2"
  by (cases bs rule: read_u16.cases) auto

lemma read_exact_length: "read_exact n bs = Some (v, rest) \<Longrightarrow> length bs = length rest + n"
  by (auto simp: read_exact_def split: if_splits)

section \<open>Contracts\<close>

text \<open>
  A codec prints values, possibly panicking, and parses them back. Every value the predicate admits
  is printed and survives the round trip, so printing is injective on the admitted values, and
  lists of admitted values survive it too.
\<close>

locale codec =
  fixes enc :: "'a \<Rightarrow> panic + 'c"
    and dec :: "'c \<Rightarrow> 'e + 'a"
    and valid :: "'a \<Rightarrow> bool"
  assumes print_ok: "valid x \<Longrightarrow> is_ok (enc x)"
    and parse_print: "valid x \<Longrightarrow> enc x = Inr c \<Longrightarrow> dec c = Inr x"
begin

lemma roundtrip: "valid x \<Longrightarrow> \<exists>c. enc x = Inr c \<and> dec c = Inr x"
  using print_ok [of x] parse_print [of x] by (auto simp: is_ok_ex)

lemma enc_inj: "valid x \<Longrightarrow> valid y \<Longrightarrow> enc x = enc y \<Longrightarrow> x = y"
  by (metis roundtrip sum.inject(2))

lemma collect_roundtrip:
  "list_all valid xs \<Longrightarrow> \<exists>cs. collect_res enc xs = Inr cs \<and> collect_res dec cs = Inr xs"
proof (induction xs)
  case (Cons x xs)
  then obtain cs where "collect_res enc xs = Inr cs" "collect_res dec cs = Inr xs" by auto
  moreover from Cons.prems obtain c where "enc x = Inr c" "dec c = Inr x"
    using roundtrip by auto
  ultimately show ?case by simp
qed simp

end

text \<open>
  A machine: an initial-state predicate, a step that may panic, an invariant, and the inputs the
  environment may present in a state. The two laws say that admitted inputs never make the step
  panic and that the step keeps the invariant; runs of any length inherit both.
\<close>

locale machine =
  fixes step :: "'i \<Rightarrow> 's \<Rightarrow> panic + 's"
    and inv :: "'s \<Rightarrow> bool"
    and admits :: "'s \<Rightarrow> 'i \<Rightarrow> bool"
  assumes step_ok: "inv s \<Longrightarrow> admits s i \<Longrightarrow> \<exists>s'. step i s = Inr s'"
    and step_inv: "inv s \<Longrightarrow> admits s i \<Longrightarrow> step i s = Inr s' \<Longrightarrow> inv s'"

text \<open>The run of a list of inputs, and the same for a list whose every input is admitted in the
  state it meets.\<close>

fun run :: "('i \<Rightarrow> 's \<Rightarrow> panic + 's) \<Rightarrow> 'i list \<Rightarrow> 's \<Rightarrow> panic + 's" where
  "run step [] s = Inr s"
| "run step (i # is) s = bind_res (step i s) (run step is)"

fun admitted :: "('i \<Rightarrow> 's \<Rightarrow> panic + 's) \<Rightarrow> ('s \<Rightarrow> 'i \<Rightarrow> bool) \<Rightarrow> 'i list \<Rightarrow> 's \<Rightarrow> bool" where
  "admitted step ad [] s = True"
| "admitted step ad (i # is) s =
     (ad s i \<and> (case step i s of Inl _ \<Rightarrow> True | Inr s' \<Rightarrow> admitted step ad is s'))"

context machine
begin

lemma run_safe:
  "inv s \<Longrightarrow> admitted step admits is s \<Longrightarrow> \<exists>s'. run step is s = Inr s' \<and> inv s'"
proof (induction "is" arbitrary: s)
  case Nil
  then show ?case by simp
next
  case (Cons i "is")
  then have "admits s i" by simp
  with Cons.prems(1) obtain s1 where s1: "step i s = Inr s1" "inv s1"
    using step_ok step_inv by blast
  with Cons.prems(2) have "admitted step admits is s1" by simp
  with s1 Cons.IH show ?case by simp
qed

end

text \<open>
  A simulation: a machine, a view of its states, and an abstract step relation labelled by the same
  inputs that every admitted step of the machine obeys. Runs of the machine are then runs of the
  abstract relation.
\<close>

inductive abs_run :: "('i \<Rightarrow> 'a \<Rightarrow> 'a \<Rightarrow> bool) \<Rightarrow> 'i list \<Rightarrow> 'a \<Rightarrow> 'a \<Rightarrow> bool" for astep where
  abs_nil: "abs_run astep [] a a"
| abs_cons: "astep i a b \<Longrightarrow> abs_run astep inputs b c \<Longrightarrow> abs_run astep (i # inputs) a c"

inductive_simps abs_run_simps [simp]: "abs_run astep [] a b" "abs_run astep (i # inputs) a b"

lemma abs_run_inv:
  assumes "abs_run astep inputs a b" "P a" "\<And>i x y. astep i x y \<Longrightarrow> P x \<Longrightarrow> P y"
  shows "P b"
  using assms by (induction rule: abs_run.induct) blast+

locale simulation = machine +
  fixes view :: "'b \<Rightarrow> 'v"
    and astep :: "'a \<Rightarrow> 'v \<Rightarrow> 'v \<Rightarrow> bool"
  assumes step_sim: "inv s \<Longrightarrow> admits s i \<Longrightarrow> step i s = Inr s' \<Longrightarrow> astep i (view s) (view s')"
begin

lemma run_simulates:
  "inv s \<Longrightarrow> admitted step admits inputs s \<Longrightarrow> \<exists>s'. run step inputs s = Inr s' \<and> inv s' \<and> abs_run astep inputs (view s) (view s')"
proof (induction inputs arbitrary: s)
  case (Cons i inputs)
  then have ad: "admits s i" by simp
  with Cons.prems(1) obtain s1 where s1: "step i s = Inr s1" "inv s1"
    using step_ok step_inv by blast
  with Cons.prems(2) have "admitted step admits inputs s1" by simp
  with Cons.IH [OF s1(2)] s1(1) step_sim [OF Cons.prems(1) ad s1(1)] show ?case by auto
qed simp

end

text \<open>
  A simulation whose panics are known: what the environment may send, and which of it makes a step panic.
  A run then either ends in a state the abstract relation reaches, or stops at an input that panics.
\<close>

locale exact_simulation = simulation +
  fixes allows :: "'b \<Rightarrow> 'a \<Rightarrow> bool"
    and panics :: "'b \<Rightarrow> 'a \<Rightarrow> bool"
  assumes admits_iff: "admits s i \<longleftrightarrow> allows s i \<and> \<not> panics s i"
    and panic_stops: "inv s \<Longrightarrow> allows s i \<Longrightarrow> panics s i \<Longrightarrow> \<exists>p. step i s = Inl p"
begin

lemma step_stops_iff: "inv s \<Longrightarrow> allows s i \<Longrightarrow> (\<exists>p. step i s = Inl p) \<longleftrightarrow> panics s i"
  using step_ok [of s i] panic_stops [of s i] by (cases "panics s i") (auto simp: admits_iff)

lemma run_until_panic:
  "inv s \<Longrightarrow> admitted step allows inputs s \<Longrightarrow>
     (case run step inputs s of
        Inl p \<Rightarrow> \<exists>before i rest s1. inputs = before @ i # rest \<and> run step before s = Inr s1 \<and> panics s1 i
      | Inr s' \<Rightarrow> inv s' \<and> abs_run astep inputs (view s) (view s'))"
proof (induction inputs arbitrary: s)
  case (Cons i inputs)
  from Cons.prems(2) have al: "allows s i" by simp
  show ?case
  proof (cases "panics s i")
    case True
    with panic_stops [OF Cons.prems(1) al] obtain p where "step i s = Inl p" by blast
    with True show ?thesis by (auto intro!: exI [of _ "[]"])
  next
    case False
    with al have ad: "admits s i" by (simp add: admits_iff)
    with Cons.prems(1) obtain s1 where s1: "step i s = Inr s1" "inv s1" using step_ok step_inv by blast
    with Cons.prems(2) have "admitted step allows inputs s1" by simp
    note IH = Cons.IH [OF s1(2) this] and sim = step_sim [OF Cons.prems(1) ad s1(1)]
    show ?thesis
    proof (cases "run step inputs s1")
      case (Inl p)
      with IH obtain before j rest s2 where "inputs = before @ j # rest" "run step before s1 = Inr s2" "panics s2 j" by auto
      with s1(1) Inl show ?thesis by (auto intro!: exI [of _ "i # before"])
    next
      case (Inr s')
      with IH sim s1(1) show ?thesis by auto
    qed
  qed
qed simp

end

end
