(* ===== verification/Rust_Str.thy ===== *)
theory Rust_Str
  imports Prelude
begin

text \<open>
  The string operations of Rust's standard library that the sources use, on strings as lists of
  bytes: \<open>split_once\<close>, \<open>split\<close>, \<open>join\<close>, \<open>lines\<close>, decimal printing and parsing of unsigned
  integers, ASCII case folding. A Rust \<open>str\<close> is UTF-8, and every pattern the sources search for
  is ASCII, so the byte view gives the same splits. The lemmas are the round trips the printers and
  parsers of the SDP and HTTP components rest on.
\<close>

abbreviation LF :: char where "LF \<equiv> CHR 0x0A"
abbreviation CR :: char where "CR \<equiv> CHR 0x0D"
abbreviation SP :: char where "SP \<equiv> CHR 0x20"
abbreviation COLON :: char where "COLON \<equiv> CHR 0x3A"
abbreviation CRLF :: string where "CRLF \<equiv> [CR, LF]"

section \<open>Splitting and joining\<close>

text \<open>\<open>str::split_once(pat)\<close>: the text before and after the first occurrence of the pattern.\<close>

fun split_once :: "string \<Rightarrow> string \<Rightarrow> (string \<times> string) option" where
  "split_once p [] = (if p = [] then Some ([], []) else None)"
| "split_once p (c # cs) =
     (if take (length p) (c # cs) = p then Some ([], drop (length p) (c # cs))
      else map_option (\<lambda>(a, b). (c # a, b)) (split_once p cs))"

text \<open>\<open>str::split(c)\<close> for a one-character pattern: never empty, one piece more than there are
  separators.\<close>

fun split_on :: "char \<Rightarrow> string \<Rightarrow> string list" where
  "split_on c [] = [[]]"
| "split_on c (x # xs) =
     (if x = c then [] # split_on c xs
      else (case split_on c xs of [] \<Rightarrow> [[x]] | y # ys \<Rightarrow> (x # y) # ys))"

text \<open>\<open>[String]::join(sep)\<close>\<close>

fun join :: "string \<Rightarrow> string list \<Rightarrow> string" where
  "join sep [] = []"
| "join sep [x] = x"
| "join sep (x # y # ys) = x @ sep @ join sep (y # ys)"

definition strip_cr :: "string \<Rightarrow> string" where
  "strip_cr s = (if s \<noteq> [] \<and> last s = CR then butlast s else s)"

text \<open>\<open>str::lines\<close>: lines end in \<open>\n\<close> or \<open>\r\n\<close>; a last line without terminator is kept as it
  is, an empty one is dropped.\<close>

definition str_lines :: "string \<Rightarrow> string list" where
  "str_lines s = (let ps = split_on LF s in
     map strip_cr (butlast ps) @ (if last ps = [] then [] else [last ps]))"

lemma split_on_ne [simp]: "split_on c s \<noteq> []"
  by (cases s) (auto split: list.splits)

lemma split_once_prefix [simp]:
  "p \<noteq> [] \<Longrightarrow> split_once p (p @ s) = Some ([], s)"
  by (cases p) auto

lemma split_once_sound: "split_once p s = Some (a, b) \<Longrightarrow> s = a @ p @ b"
proof (induction p s arbitrary: a b rule: split_once.induct)
  case (1 p)
  then show ?case by (simp split: if_splits)
next
  case (2 p c cs)
  show ?case
  proof (cases "take (length p) (c # cs) = p")
    case True
    with "2.prems" show ?thesis by (metis append_Nil append_take_drop_id option.inject prod.inject split_once.simps(2))
  next
    case False
    with 2 show ?thesis by auto
  qed
qed

lemma split_once_char [simp]:
  "c \<notin> set a \<Longrightarrow> split_once [c] (a @ c # b) = Some (a, b)"
  by (induction a) auto

lemma split_once_char_None [simp]: "split_once [c] s = None \<longleftrightarrow> c \<notin> set s"
  by (induction s) auto

lemma split_once_char_Some:
  "split_once [c] s = Some (a, b) \<longleftrightarrow> s = a @ c # b \<and> c \<notin> set a"
proof
  assume L: "split_once [c] s = Some (a, b)"
  have "c \<notin> set a" using L
    by (induction s arbitrary: a) (auto split: if_splits)
  with split_once_sound [OF L] show "s = a @ c # b \<and> c \<notin> set a" by simp
qed auto

lemma split_on_notin [simp]: "c \<notin> set s \<Longrightarrow> split_on c s = [s]"
  by (induction s) auto

lemma split_on_append [simp]:
  "c \<notin> set a \<Longrightarrow> split_on c (a @ c # b) = a # split_on c b"
  by (induction a) (auto split: list.splits)

lemma split_on_pieces: "x \<in> set (split_on c s) \<Longrightarrow> c \<notin> set x"
  by (induction s arbitrary: x) (auto split: list.splits if_splits)

lemma join_Cons: "ys \<noteq> [] \<Longrightarrow> join sep (x # ys) = x @ sep @ join sep ys"
  by (cases ys) auto

lemma join_split_on: "join [c] (split_on c s) = s"
proof (induction s)
  case (Cons x xs)
  then show ?case
    by (cases "split_on c xs"; cases "tl (split_on c xs)") (auto simp: join_Cons)
qed simp

lemma join_piece: "x \<in> set xs \<Longrightarrow> set x \<subseteq> set (join sep xs)"
  by (induction sep xs rule: join.induct) auto

lemma split_on_chars: "x \<in> set (split_on c s) \<Longrightarrow> set x \<subseteq> set s"
  using join_piece [of x "split_on c s" "[c]"] by (simp add: join_split_on)

lemma split_on_join [simp]:
  "xs \<noteq> [] \<Longrightarrow> (\<And>x. x \<in> set xs \<Longrightarrow> c \<notin> set x) \<Longrightarrow> split_on c (join [c] xs) = xs"
proof (induction xs)
  case (Cons x xs)
  then show ?case by (cases xs) auto
qed simp

lemma set_join: "set (join sep xs) \<subseteq> \<Union>(set ` set xs) \<union> set sep"
  by (induction sep xs rule: join.induct) auto

lemma strip_cr_snoc [simp]: "strip_cr (s @ [CR]) = s"
  by (simp add: strip_cr_def)

lemma str_lines_line [simp]: "LF \<notin> set l \<Longrightarrow> str_lines (l @ CR # LF # s) = l # str_lines s"
proof -
  assume "LF \<notin> set l"
  then have "split_on LF ((l @ [CR]) @ LF # s) = (l @ [CR]) # split_on LF s"
    by (intro split_on_append) auto
  then show ?thesis by (simp add: str_lines_def Let_def)
qed

lemma str_lines_Nil [simp]: "str_lines [] = []"
  by (simp add: str_lines_def)

lemma str_lines_join:
  "(\<And>l. l \<in> set ls \<Longrightarrow> LF \<notin> set l) \<Longrightarrow> ls \<noteq> [] \<Longrightarrow>
     str_lines (join CRLF ls @ CRLF @ s) = ls @ str_lines s"
  by (induction CRLF ls rule: join.induct) auto

lemma set_strip_cr: "set (strip_cr x) \<subseteq> set x"
  by (auto simp: strip_cr_def dest: in_set_butlastD)

lemma str_lines_piece: "l \<in> set (str_lines s) \<Longrightarrow> \<exists>x \<in> set (split_on LF s). set l \<subseteq> set x"
proof -
  assume "l \<in> set (str_lines s)"
  then consider x where "x \<in> set (butlast (split_on LF s))" "l = strip_cr x" | "l = last (split_on LF s)"
    by (auto simp: str_lines_def Let_def split: if_splits)
  then show ?thesis
  proof cases
    case 1
    then have "x \<in> set (split_on LF s)" by (simp add: in_set_butlastD)
    then show ?thesis using 1(2) set_strip_cr [of x] by blast
  next
    case 2
    then have "l \<in> set (split_on LF s)" by simp
    then show ?thesis by blast
  qed
qed

lemma str_lines_no_LF: "l \<in> set (str_lines s) \<Longrightarrow> LF \<notin> set l"
  using str_lines_piece [of l s] split_on_pieces [of _ LF s] by blast

section \<open>Decimal numbers\<close>

definition digit :: "nat \<Rightarrow> char" where
  "digit d = char_of (48 + d)"

definition digit_val :: "char \<Rightarrow> nat option" where
  "digit_val c = (let n = of_char c in if 48 \<le> n \<and> n \<le> 57 then Some (n - 48) else None)"

text \<open>\<open>to_string\<close> and \<open>{}\<close> formatting of an unsigned integer.\<close>

fun show_nat :: "nat \<Rightarrow> string" where
  "show_nat n = (if n < 10 then [digit n] else show_nat (n div 10) @ [digit (n mod 10)])"

declare show_nat.simps [simp del]

fun parse_digits :: "nat \<Rightarrow> string \<Rightarrow> nat option" where
  "parse_digits acc [] = Some acc"
| "parse_digits acc (c # cs) =
     (case digit_val c of None \<Rightarrow> None | Some d \<Rightarrow> parse_digits (10 * acc + d) cs)"

text \<open>\<open>str::parse\<close> for an unsigned type with the given maximum: an optional leading plus sign,
  at least one digit, no overflow.\<close>

definition parse_uint :: "nat \<Rightarrow> string \<Rightarrow> nat option" where
  "parse_uint mx s =
     (let body = (case s of [] \<Rightarrow> [] | c # cs \<Rightarrow> if c = CHR ''+'' then cs else s) in
      if body = [] then None
      else (case parse_digits 0 body of None \<Rightarrow> None
            | Some n \<Rightarrow> if n \<le> mx then Some n else None))"

definition usize_max :: nat where "usize_max = 2 ^ 64 - 1"
definition u32_max :: nat where "u32_max = 2 ^ 32 - 1"
definition u16_max :: nat where "u16_max = 2 ^ 16 - 1"

definition parse_usize :: "string \<Rightarrow> usize option" where
  "parse_usize s = parse_uint usize_max s"

definition parse_u32 :: "string \<Rightarrow> u32 option" where
  "parse_u32 s = map_option word_of_nat (parse_uint u32_max s)"

definition parse_u16 :: "string \<Rightarrow> u16 option" where
  "parse_u16 s = map_option word_of_nat (parse_uint u16_max s)"

lemma digit_val_digit [simp]: "d < 10 \<Longrightarrow> digit_val (digit d) = Some d"
  by (simp add: digit_val_def digit_def)

lemma digit_val_range: "digit_val c = Some d \<Longrightarrow> d < 10 \<and> c = digit d"
  by (auto simp: digit_val_def digit_def Let_def split: if_splits)

lemma digit_code [simp]: "d < 10 \<Longrightarrow> of_char (digit d) = (48 + d :: nat)"
  by (simp add: digit_def)

lemma parse_digits_append:
  "parse_digits acc (xs @ ys) =
     (case parse_digits acc xs of None \<Rightarrow> None | Some n \<Rightarrow> parse_digits n ys)"
  by (induction xs arbitrary: acc) (auto split: option.splits)

lemma show_nat_ne [simp]: "show_nat n \<noteq> []"
  by (subst show_nat.simps) simp

lemma show_nat_chars: "c \<in> set (show_nat n) \<Longrightarrow> 48 \<le> (of_char c :: nat) \<and> (of_char c :: nat) \<le> 57"
proof (induction n rule: show_nat.induct)
  case (1 n)
  show ?case
  proof (cases "n < 10")
    case True
    with "1.prems" show ?thesis by (subst (asm) show_nat.simps) auto
  next
    case False
    with 1 show ?thesis by (subst (asm) (2) show_nat.simps) auto
  qed
qed

lemma show_nat_notin [simp]:
  "(of_char c :: nat) < 48 \<or> 57 < (of_char c :: nat) \<Longrightarrow> c \<notin> set (show_nat n)"
  using show_nat_chars [of c n] by auto

lemma parse_digits_show_nat [simp]: "parse_digits 0 (show_nat n) = Some n"
proof (induction n rule: show_nat.induct)
  case (1 n)
  show ?case
  proof (cases "n < 10")
    case True
    then show ?thesis by (subst show_nat.simps) simp
  next
    case False
    with 1 have "parse_digits 0 (show_nat (n div 10)) = Some (n div 10)" by simp
    with False show ?thesis by (subst show_nat.simps) (simp add: parse_digits_append)
  qed
qed

lemma parse_uint_show_nat [simp]: "n \<le> mx \<Longrightarrow> parse_uint mx (show_nat n) = Some n"
proof -
  assume n: "n \<le> mx"
  obtain c cs where s: "show_nat n = c # cs" by (cases "show_nat n") auto
  then have "c \<in> set (show_nat n)" by simp
  then have "c \<noteq> CHR ''+''" by auto
  then have "(case show_nat n of [] \<Rightarrow> [] | c # cs \<Rightarrow> if c = CHR ''+'' then cs else show_nat n) = show_nat n"
    using s by simp
  with n show ?thesis by (simp add: parse_uint_def Let_def)
qed

lemma parse_uint_le: "parse_uint mx s = Some n \<Longrightarrow> n \<le> mx"
  by (auto simp: parse_uint_def Let_def split: option.splits if_splits)

lemma parse_usize_show [simp]: "n \<le> usize_max \<Longrightarrow> parse_usize (show_nat n) = Some n"
  by (simp add: parse_usize_def)

lemma unat_le_max:
  "unat (w32 :: u32) \<le> u32_max" "unat (w16 :: u16) \<le> u16_max"
proof -
  have "unat w32 < 2 ^ 32" "unat w16 < 2 ^ 16"
    using unsigned_less [of w32, where ?'a = nat] unsigned_less [of w16, where ?'a = nat] by simp_all
  then show "unat w32 \<le> u32_max" "unat w16 \<le> u16_max"
    by (simp_all add: u32_max_def u16_max_def)
qed

lemma parse_u32_show [simp]: "parse_u32 (show_nat (unat w)) = Some w"
  by (simp add: parse_u32_def unat_le_max)

lemma parse_u16_show [simp]: "parse_u16 (show_nat (unat w)) = Some w"
  by (simp add: parse_u16_def unat_le_max)

section \<open>ASCII case\<close>

definition ascii_lower :: "char \<Rightarrow> char" where
  "ascii_lower c = (let n = of_char c in if (65::nat) \<le> n \<and> n \<le> 90 then char_of (n + 32) else c)"

definition to_ascii_lowercase :: "string \<Rightarrow> string" where
  "to_ascii_lowercase s = map ascii_lower s"

definition eq_ignore_ascii_case :: "string \<Rightarrow> string \<Rightarrow> bool" where
  "eq_ignore_ascii_case s t \<longleftrightarrow> to_ascii_lowercase s = to_ascii_lowercase t"

lemma ascii_lower_idem [simp]: "ascii_lower (ascii_lower c) = ascii_lower c"
  by (auto simp: ascii_lower_def Let_def)

lemma to_ascii_lowercase_idem [simp]: "to_ascii_lowercase (to_ascii_lowercase s) = to_ascii_lowercase s"
  by (simp add: to_ascii_lowercase_def)

end
