(* ===== verification/Rust_Io.thy ===== *)
theory Rust_Io
  imports Rust_Str
begin

text \<open>
  What the byte-level components use of Rust's standard library: UTF-8 validation, strings as
  bytes, slices, and \<open>BufWriter\<close> over a mutable slice with its internal buffer, cold path and
  flush, since several functions measure that buffer and flush into a slice that may be too short.
\<close>

section \<open>Strings and bytes\<close>

definition as_bytes :: "string \<Rightarrow> bytes" where
  "as_bytes s = map (\<lambda>c. of_nat (of_char c)) s"

definition str_of_bytes :: "bytes \<Rightarrow> string" where
  "str_of_bytes bs = map (\<lambda>b. char_of (unat b)) bs"

lemma str_of_as_bytes [simp]: "str_of_bytes (as_bytes s) = s"
proof -
  have "char_of (unat (of_nat (of_char c) :: u8)) = c" for c
    by (simp add: unat_of_nat nat_of_char_less_256)
  then show ?thesis by (simp add: str_of_bytes_def as_bytes_def map_idI)
qed

lemma length_as_bytes [simp]: "length (as_bytes s) = length s"
  by (simp add: as_bytes_def)

lemma as_bytes_simps [simp]:
  "as_bytes [] = []" "as_bytes (c # s) = of_nat (of_char c) # as_bytes s" "as_bytes (s @ t) = as_bytes s @ as_bytes t"
  "as_bytes (replicate n c) = replicate n (of_nat (of_char c))"
  by (simp_all add: as_bytes_def)

lemma str_of_bytes_append [simp]: "str_of_bytes (a @ b) = str_of_bytes a @ str_of_bytes b"
  by (simp add: str_of_bytes_def)

text \<open>\<open>String::from_utf8\<close> accepts exactly the well-formed byte sequences of Unicode.\<close>

definition utf8_cont :: "u8 \<Rightarrow> bool" where
  "utf8_cont b \<longleftrightarrow> 0x80 \<le> b \<and> b \<le> 0xBF"

fun utf8_valid :: "bytes \<Rightarrow> bool" where
  "utf8_valid [] = True"
| "utf8_valid (b # bs) =
     (if b < 0x80 then utf8_valid bs else
      (case bs of [] \<Rightarrow> False | b1 # bs1 \<Rightarrow>
        if 0xC2 \<le> b \<and> b \<le> 0xDF then utf8_cont b1 \<and> utf8_valid bs1 else
        (case bs1 of [] \<Rightarrow> False | b2 # bs2 \<Rightarrow>
          if b = 0xE0 \<and> 0xA0 \<le> b1 \<and> b1 \<le> 0xBF \<or> b = 0xED \<and> 0x80 \<le> b1 \<and> b1 \<le> 0x9F
             \<or> 0xE1 \<le> b \<and> b \<le> 0xEF \<and> b \<noteq> 0xED \<and> utf8_cont b1
          then utf8_cont b2 \<and> utf8_valid bs2 else
          (case bs2 of [] \<Rightarrow> False | b3 # bs3 \<Rightarrow>
            (b = 0xF0 \<and> 0x90 \<le> b1 \<and> b1 \<le> 0xBF \<or> 0xF1 \<le> b \<and> b \<le> 0xF3 \<and> utf8_cont b1
              \<or> b = 0xF4 \<and> 0x80 \<le> b1 \<and> b1 \<le> 0x8F)
            \<and> utf8_cont b2 \<and> utf8_cont b3 \<and> utf8_valid bs3))))"

definition string_from_utf8 :: "bytes \<Rightarrow> string option" where
  "string_from_utf8 bs = (if utf8_valid bs then Some (str_of_bytes bs) else None)"

definition is_ascii :: "string \<Rightarrow> bool" where
  "is_ascii s \<longleftrightarrow> (\<forall>c \<in> set s. of_char c < (0x80 :: nat))"

lemma utf8_valid_ascii: "\<forall>b \<in> set bs. b < 0x80 \<Longrightarrow> utf8_valid bs"
  by (induction bs) auto

lemma ascii_utf8: "is_ascii s \<Longrightarrow> utf8_valid (as_bytes s)"
proof (rule utf8_valid_ascii)
  assume "is_ascii s"
  then show "\<forall>b \<in> set (as_bytes s). b < 0x80"
    by (auto simp: is_ascii_def as_bytes_def word_less_nat_alt unat_of_nat)
qed

lemma is_ascii_simps [simp]: "is_ascii []" "is_ascii (c # s) \<longleftrightarrow> of_char c < (0x80 :: nat) \<and> is_ascii s"
  "is_ascii (s @ t) \<longleftrightarrow> is_ascii s \<and> is_ascii t"
  "is_ascii (replicate n c) \<longleftrightarrow> n = 0 \<or> of_char c < (0x80 :: nat)"
  by (auto simp: is_ascii_def)

text \<open>\<open>trim_end_matches\<close> of one character.\<close>

definition trim_end_char :: "char \<Rightarrow> string \<Rightarrow> string" where
  "trim_end_char c s = rev (dropWhile (\<lambda>x. x = c) (rev s))"

lemma trim_end_replicate:
  "c \<notin> set s \<Longrightarrow> trim_end_char c (s @ replicate n c) = s"
proof -
  assume "c \<notin> set s"
  then have "dropWhile (\<lambda>x. x = c) (replicate n c @ rev s) = rev s"
    by (subst dropWhile_append2) (auto simp: dropWhile_eq_self_iff hd_rev)
  then show ?thesis by (simp add: trim_end_char_def)
qed

section \<open>Slices\<close>

definition slice_to :: "nat \<Rightarrow> 'a list \<Rightarrow> panic + 'a list" where
  "slice_to n xs = (if n \<le> length xs then Inr (take n xs) else Inl OutOfBounds)"

definition slice_from :: "nat \<Rightarrow> 'a list \<Rightarrow> panic + 'a list" where
  "slice_from n xs = (if n \<le> length xs then Inr (drop n xs) else Inl OutOfBounds)"

definition index_at :: "'a list \<Rightarrow> nat \<Rightarrow> panic + 'a" where
  "index_at xs i = (if i < length xs then Inr (xs ! i) else Inl OutOfBounds)"

text \<open>Overwriting a part of a buffer from a position on.\<close>

definition write_at :: "nat \<Rightarrow> 'a list \<Rightarrow> 'a list \<Rightarrow> 'a list" where
  "write_at n ys xs = take n xs @ ys @ drop (n + length ys) xs"

section \<open>BufWriter over a slice\<close>

datatype io_error = WriteZero

record buf_writer =
  bw_buf :: bytes    \<comment> \<open>the internal buffer\<close>
  bw_out :: bytes    \<comment> \<open>what reached the slice\<close>
  bw_room :: nat     \<comment> \<open>what is left of the slice\<close>

definition BUF_CAPACITY :: nat where "BUF_CAPACITY = 8192"

definition bw_new :: "nat \<Rightarrow> buf_writer" where
  "bw_new room = \<lparr>bw_buf = [], bw_out = [], bw_room = room\<rparr>"

definition bw_flush :: "buf_writer \<Rightarrow> io_error + buf_writer" where
  "bw_flush w = (if length (bw_buf w) \<le> bw_room w
     then Inr \<lparr>bw_buf = [], bw_out = bw_out w @ bw_buf w, bw_room = bw_room w - length (bw_buf w)\<rparr>
     else Inl WriteZero)"

definition bw_write :: "bytes \<Rightarrow> buf_writer \<Rightarrow> io_error + buf_writer" where
  "bw_write d w = (let spare = BUF_CAPACITY - length (bw_buf w) in
     if length d < spare then Inr (w\<lparr>bw_buf := bw_buf w @ d\<rparr>)
     else bind_res (if spare < length d then bw_flush w else Inr w) (\<lambda>w.
       if BUF_CAPACITY \<le> length d
       then (let n = min (length d) (bw_room w)
             in Inr (w\<lparr>bw_out := bw_out w @ take n d, bw_room := bw_room w - n\<rparr>))
       else Inr (w\<lparr>bw_buf := bw_buf w @ d\<rparr>)))"

fun bw_writes :: "bytes list \<Rightarrow> buf_writer \<Rightarrow> io_error + buf_writer" where
  "bw_writes [] w = Inr w"
| "bw_writes (d # ds) w = bind_res (bw_write d w) (bw_writes ds)"

text \<open>\<open>unwrap\<close> of an I/O result.\<close>

definition unwrap_io :: "io_error + 'a \<Rightarrow> panic + 'a" where
  "unwrap_io r = (case r of Inl _ \<Rightarrow> Inl UnwrapFailed | Inr a \<Rightarrow> Inr a)"

lemma unwrap_io_simps [simp]: "unwrap_io (Inl e) = Inl UnwrapFailed" "unwrap_io (Inr a) = Inr a"
  by (simp_all add: unwrap_io_def)

text \<open>Writes that stay below the capacity only fill the internal buffer.\<close>

lemma bw_writes_small:
  "length (bw_buf w) + length (concat ds) < BUF_CAPACITY \<Longrightarrow>
     bw_writes ds w = Inr (w\<lparr>bw_buf := bw_buf w @ concat ds\<rparr>)"
  by (induction ds arbitrary: w) (auto simp: bw_write_def Let_def)

lemma bw_flush_fits:
  "length (bw_buf w) \<le> bw_room w \<Longrightarrow> bw_flush w = Inr \<lparr>bw_buf = [], bw_out = bw_out w @ bw_buf w, bw_room = bw_room w - length (bw_buf w)\<rparr>"
  by (simp add: bw_flush_def)

end
