(* ===== verification/Rust_Text.thy ===== *)
theory Rust_Text
  imports Rust_Io
begin

text \<open>
  What the HTTP front end uses of the standard library: trimming of Unicode white space, reading lines
  from a byte stream, file names of paths and joining a name to a directory, and hexadecimal bytes.
  A string is its UTF-8 bytes.
\<close>

section \<open>White space\<close>

text \<open>The UTF-8 encodings of the characters with the property \<open>White_Space\<close>.\<close>

definition white_space :: "string list" where
  "white_space = [[CHR 0x09], [CHR 0x0A], [CHR 0x0B], [CHR 0x0C], [CHR 0x0D], [CHR 0x20]]
     @ map (map (char_of :: nat \<Rightarrow> char)) ([[0xC2, 0x85], [0xC2, 0xA0], [0xE1, 0x9A, 0x80]]
     @ map (\<lambda>n. [0xE2, 0x80, n]) [0x80 ..< 0x8B]
     @ [[0xE2, 0x80, 0xA8], [0xE2, 0x80, 0xA9], [0xE2, 0x80, 0xAF], [0xE2, 0x81, 0x9F], [0xE3, 0x80, 0x80]])"

function trim_front :: "string list \<Rightarrow> string \<Rightarrow> string" where
  "trim_front ws s = (case find (\<lambda>w. w \<noteq> [] \<and> take (length w) s = w) ws of
       None \<Rightarrow> s
     | Some w \<Rightarrow> trim_front ws (drop (length w) s))"
  by pat_completeness auto
termination
proof (relation "measure (\<lambda>(_, s). length s)")
  fix ws :: "string list" and s w
  assume "find (\<lambda>w. w \<noteq> [] \<and> take (length w) s = w) ws = Some w"
  then have "w \<noteq> []" "take (length w) s = w" by (auto simp: find_Some_iff)
  then show "((ws, drop (length w) s), ws, s) \<in> measure (\<lambda>(_, s). length s)"
    by (cases s) (auto simp: diff_less)
qed simp

declare trim_front.simps [simp del]

text \<open>\<open>str::trim\<close>: no encoding is a proper part of another's end, so the end is trimmed on the reversal.\<close>

definition trim :: "string \<Rightarrow> string" where
  "trim s = rev (trim_front (map rev white_space) (rev (trim_front white_space s)))"

text \<open>On ASCII text only six characters count.\<close>

definition ascii_space :: "char \<Rightarrow> bool" where
  "ascii_space c \<longleftrightarrow> c \<in> {CHR 0x09, CHR 0x0A, CHR 0x0B, CHR 0x0C, CHR 0x0D, CHR 0x20}"

definition ascii_trims :: "string list \<Rightarrow> bool" where
  "ascii_trims ws \<longleftrightarrow> (\<forall>w \<in> set ws. w \<noteq> [] \<and> (of_char (hd w) < (128 :: nat) \<longrightarrow> length w = 1))
     \<and> (\<forall>c. of_char c < (128 :: nat) \<longrightarrow> ([c] \<in> set ws \<longleftrightarrow> ascii_space c))"

lemma trim_front_Nil: "ascii_trims ws \<Longrightarrow> trim_front ws [] = []"
  by (subst trim_front.simps) (auto simp: find_None_iff find_Some_iff split: option.splits)

lemma trim_front_Cons:
  assumes "ascii_trims ws" "of_char c < (128 :: nat)"
  shows "trim_front ws (c # s) = (if ascii_space c then trim_front ws s else c # s)"
proof (cases "find (\<lambda>w. w \<noteq> [] \<and> take (length w) (c # s) = w) ws")
  case None
  with assms have "\<not> ascii_space c" by (force simp: find_None_iff ascii_trims_def)
  with None show ?thesis by (subst trim_front.simps) simp
next
  case (Some w)
  then have w: "w \<in> set ws" "w \<noteq> []" "take (length w) (c # s) = w"
    by (auto simp: find_Some_iff in_set_conv_nth)
  from w(2,3) obtain u where u: "w = c # u" by (cases w) auto
  with assms w(1) have "w = [c]" by (auto simp: ascii_trims_def)
  with assms w(1) have "ascii_space c" by (simp add: ascii_trims_def)
  with Some \<open>w = [c]\<close> show ?thesis by (subst trim_front.simps) simp
qed

lemma trim_front_ascii:
  "ascii_trims ws \<Longrightarrow> is_ascii s \<Longrightarrow> trim_front ws s = dropWhile ascii_space s"
  by (induction s) (auto simp: trim_front_Nil trim_front_Cons)

lemma white_space_trims: "ascii_trims white_space" "ascii_trims (map rev white_space)"
proof -
  have w: "w \<noteq> [] \<and> (of_char (hd w) < (128 :: nat) \<longrightarrow> length w = 1) \<and> (of_char (last w) < (128 :: nat) \<longrightarrow> length w = 1)"
    if "w \<in> set white_space" for w
    using that by (auto simp: white_space_def)
  have c: "[c] \<in> set white_space \<longleftrightarrow> ascii_space c" if "of_char c < (128 :: nat)" for c
    using that by (auto simp: white_space_def ascii_space_def)
  have r: "[c] \<in> rev ` set white_space \<longleftrightarrow> [c] \<in> set white_space" for c by (force simp: image_iff)
  show "ascii_trims white_space" using w c by (simp add: ascii_trims_def)
  show "ascii_trims (map rev white_space)" using w c by (auto simp: ascii_trims_def r hd_rev)
qed

lemma trim_ascii: "is_ascii s \<Longrightarrow> trim s = rev (dropWhile ascii_space (rev (dropWhile ascii_space s)))"
proof -
  assume a: "is_ascii s"
  then have "is_ascii (rev (dropWhile ascii_space s))"
    by (auto simp: is_ascii_def dest: set_dropWhileD)
  with a show ?thesis by (simp add: trim_def trim_front_ascii white_space_trims)
qed

definition trimmed :: "string \<Rightarrow> bool" where
  "trimmed s \<longleftrightarrow> s = [] \<or> \<not> ascii_space (hd s) \<and> \<not> ascii_space (last s)"

lemma trim_padded:
  assumes "is_ascii (a @ s @ b)" "trimmed s" "list_all ascii_space a" "list_all ascii_space b"
  shows "trim (a @ s @ b) = s"
proof -
  have a: "dropWhile ascii_space (a @ x) = dropWhile ascii_space x" for x
    using assms(3) by (induction a) auto
  have b: "dropWhile ascii_space (rev b @ x) = dropWhile ascii_space x" for x
    using assms(4) by (induction b arbitrary: x) auto
  show ?thesis
  proof (cases s)
    case Nil
    have "dropWhile ascii_space (a @ b) = []" using assms(3,4) by (auto simp: list_all_iff dropWhile_eq_Nil_conv)
    then have "dropWhile ascii_space (a @ s @ b) = []" using Nil by simp
    with assms(1) show ?thesis unfolding Nil by (subst trim_ascii) (simp_all del: dropWhile_eq_Nil_conv)
  next
    case (Cons c u)
    with assms(2) have "dropWhile ascii_space (s @ b) = s @ b" by (simp add: trimmed_def)
    moreover have "dropWhile ascii_space (rev s) = rev s"
      using assms(2) hd_rev [of s] unfolding dropWhile_eq_self_iff trimmed_def by auto
    ultimately have "dropWhile ascii_space (s @ b) = s @ b" "dropWhile ascii_space (rev s) = rev s" by simp_all
    with assms(1) a b show ?thesis by (simp add: trim_ascii)
  qed
qed

section \<open>Reading lines\<close>

text \<open>\<open>read_line\<close> into an empty string: the bytes up to and including the first line feed, or the end of
  the stream. Bytes that are not UTF-8 are consumed but not given.\<close>

definition read_line :: "bytes \<Rightarrow> string \<times> bytes" where
  "read_line bs = (let n = length (takeWhile (\<lambda>b. b \<noteq> 10) bs); l = take (Suc n) bs in
     (if utf8_valid l then str_of_bytes l else [], drop (Suc n) bs))"

lemma read_line_length: "bs \<noteq> [] \<Longrightarrow> length (snd (read_line bs)) < length bs"
  by (simp add: read_line_def Let_def)

lemma read_line_text:
  assumes "is_ascii s" "LF \<notin> set s"
  shows "read_line (as_bytes (s @ [LF]) @ bs) = (s @ [LF], bs)"
proof -
  have ne: "b \<noteq> 10" if "b \<in> set (as_bytes s)" for b
  proof -
    from that obtain c where c: "c \<in> set s" "b = of_nat (of_char c)" by (auto simp: as_bytes_def)
    then have "c \<noteq> LF" "(of_char c :: nat) < 128" using assms by (auto simp: is_ascii_def)
    moreover have "(of_char LF :: nat) = 10" by simp
    ultimately have "(of_char c :: nat) \<noteq> 10" by (metis of_char_eq_iff)
    with c(2) \<open>(of_char c :: nat) < 128\<close> show ?thesis by (simp add: word_unat_eq_iff unat_of_nat)
  qed
  have lf: "as_bytes [LF] = [10]" by simp
  have "takeWhile (\<lambda>b. b \<noteq> 10) (as_bytes s @ 10 # bs) = as_bytes s"
    using ne by (simp add: takeWhile_tail takeWhile_append2)
  moreover have "utf8_valid (as_bytes (s @ [LF]))" using assms(1) by (intro ascii_utf8) simp
  ultimately show ?thesis
    by (simp add: read_line_def Let_def lf) (metis as_bytes_simps(3) lf str_of_as_bytes)
qed

section \<open>Paths\<close>

text \<open>\<open>Path::file_name\<close> on Unix: the last component, if it is a name. Empty components and \<open>.\<close> do not
  count, wherever they stand.\<close>

definition path_file_name :: "string \<Rightarrow> string option" where
  "path_file_name p = (let cs = filter (\<lambda>c. c \<noteq> [] \<and> c \<noteq> ''.'') (split_on (CHR ''/'') p) in
     if cs = [] \<or> last cs = ''..'' then None else Some (last cs))"

text \<open>\<open>PathBuf::push\<close> and \<open>Path::join\<close> of a relative name.\<close>

definition path_push :: "string \<Rightarrow> string \<Rightarrow> string" where
  "path_push dir name = (if dir = [] \<or> last dir = CHR ''/'' then dir @ name else dir @ ''/'' @ name)"

lemma path_file_name_plain:
  assumes "path_file_name p = Some n"
  shows "CHR ''/'' \<notin> set n \<and> n \<notin> {[], ''.'', ''..''}"
proof -
  let ?cs = "filter (\<lambda>c. c \<noteq> [] \<and> c \<noteq> ''.'') (split_on (CHR ''/'') p)"
  from assms have n: "?cs \<noteq> []" "n = last ?cs" "n \<noteq> ''..''"
    by (auto simp: path_file_name_def Let_def split: if_splits)
  then have "n \<in> set ?cs" using last_in_set [of ?cs] by metis
  with n(3) show ?thesis using split_on_pieces [of n "CHR ''/''" p] by auto
qed

section \<open>Hexadecimal bytes\<close>

definition upper_hex :: "nat \<Rightarrow> char" where
  "upper_hex d = (if d < 10 then digit d else char_of (55 + d))"

text \<open>\<open>\{:02X\}\<close>.\<close>

definition show_hex02 :: "u8 \<Rightarrow> string" where
  "show_hex02 b = [upper_hex (unat b div 16), upper_hex (unat b mod 16)]"

end
