(* ===== verification/Net_Addr.thy ===== *)
theory Net_Addr
  imports Rust_Str
begin

text \<open>
  Internet addresses as \<open>std::net\<close> has them, with the textual forms the SDP code reads
  (\<open>from_str\<close>) and writes (\<open>to_string\<close>). An IPv4 address is its 32-bit value, an IPv6 address
  its 128-bit value; the octets and segments are read off the words.
\<close>

datatype ip_addr = V4 "32 word" | V6 "128 word"

text \<open>A socket address; the IPv6 form carries the flow information and scope id, which take part
  in equality and hashing.\<close>

datatype socket_addr =
    SockV4 (sock_ip4: "32 word") (sock_port4: u16)
  | SockV6 (sock_ip6: "128 word") (sock_port6: u16) (flowinfo: u32) (scope_id: u32)

fun sock_ip :: "socket_addr \<Rightarrow> ip_addr" where
  "sock_ip (SockV4 ip p) = V4 ip"
| "sock_ip (SockV6 ip p f s) = V6 ip"

fun sock_port :: "socket_addr \<Rightarrow> u16" where
  "sock_port (SockV4 ip p) = p"
| "sock_port (SockV6 ip p f s) = p"

fun sock_new :: "ip_addr \<Rightarrow> u16 \<Rightarrow> socket_addr" where
  "sock_new (V4 ip) p = SockV4 ip p"
| "sock_new (V6 ip) p = SockV6 ip p 0 0"

definition octets4 :: "32 word \<Rightarrow> bytes" where
  "octets4 w = be32 w"

definition octets6 :: "128 word \<Rightarrow> bytes" where
  "octets6 w = map (\<lambda>i. ucast (drop_bit (8 * (15 - i)) w)) [0..<16]"

definition segments6 :: "128 word \<Rightarrow> u16 list" where
  "segments6 w = map (\<lambda>i. ucast (drop_bit (16 * (7 - i)) w)) [0..<8]"

definition of_segments6 :: "u16 list \<Rightarrow> 128 word" where
  "of_segments6 gs = foldl (\<lambda>acc g. push_bit 16 acc OR ucast g) 0 gs"

lemma length_octets [simp]: "length (octets4 w) = 4" "length (octets6 w6) = 16"
  by (simp_all add: octets4_def octets6_def)

section \<open>Reading addresses\<close>

text \<open>The character reader of \<open>std::net\<close>'s address parser: each reader returns the value and
  the rest of the input, or nothing and leaves the input as it was.\<close>

type_synonym 'a reader = "string \<Rightarrow> ('a \<times> string) option"

definition to_digit :: "nat \<Rightarrow> char \<Rightarrow> nat option" where
  "to_digit radix c = (let n = of_char c;
     v = (if 48 \<le> n \<and> n \<le> 57 then Some (n - 48)
          else if 97 \<le> n \<and> n \<le> 122 then Some (n - 87)
          else if 65 \<le> n \<and> n \<le> 90 then Some (n - 55) else None)
     in case v of None \<Rightarrow> None | Some d \<Rightarrow> if d < radix then Some d else None)"

fun number_loop :: "nat \<Rightarrow> nat \<Rightarrow> nat \<Rightarrow> nat \<Rightarrow> string \<Rightarrow> (nat \<times> nat \<times> string) option" where
  "number_loop radix maxd acc n [] = Some (acc, n, [])"
| "number_loop radix maxd acc n (c # cs) =
     (case to_digit radix c of
        None \<Rightarrow> Some (acc, n, c # cs)
      | Some d \<Rightarrow> if maxd < n + 1 then None else number_loop radix maxd (acc * radix + d) (n + 1) cs)"

definition read_number :: "nat \<Rightarrow> nat \<Rightarrow> nat \<Rightarrow> bool \<Rightarrow> nat reader" where
  "read_number radix maxd mx allow_zero_prefix s =
     (case number_loop radix maxd 0 0 s of None \<Rightarrow> None
      | Some (v, n, rest) \<Rightarrow>
          if mx < v then None
          else if n = 0 then None
          else if \<not> allow_zero_prefix \<and> hd s = CHR ''0'' \<and> 1 < n then None
          else Some (v, rest))"

definition read_given_char :: "char \<Rightarrow> unit reader" where
  "read_given_char c s = (case s of [] \<Rightarrow> None | x # xs \<Rightarrow> if x = c then Some ((), xs) else None)"

definition read_separator :: "char \<Rightarrow> nat \<Rightarrow> 'a reader \<Rightarrow> 'a reader" where
  "read_separator sep i inner s =
     (if i = 0 then inner s
      else (case read_given_char sep s of None \<Rightarrow> None | Some (_, r) \<Rightarrow> inner r))"

definition octet_reader :: "nat \<Rightarrow> nat reader" where
  "octet_reader i = read_separator (CHR ''.'') i (read_number 10 3 255 False)"

definition read_ipv4_addr :: "32 word reader" where
  "read_ipv4_addr s =
     Option.bind (octet_reader 0 s) (\<lambda>(a, s1).
     Option.bind (octet_reader 1 s1) (\<lambda>(b, s2).
     Option.bind (octet_reader 2 s2) (\<lambda>(c, s3).
     Option.bind (octet_reader 3 s3) (\<lambda>(d, s4).
       Some (rd32 (word_of_nat a) (word_of_nat b) (word_of_nat c) (word_of_nat d), s4)))))"

text \<open>\<open>read_groups\<close> of the IPv6 reader: up to \<open>lim\<close> hexadecimal groups; while two groups are
  left an embedded IPv4 address may take their place and ends the run.\<close>

function read_groups :: "nat \<Rightarrow> nat \<Rightarrow> string \<Rightarrow> u16 list \<times> bool \<times> string" where
  "read_groups lim i s =
     (if lim \<le> i then ([], False, s)
      else (case (if i < lim - 1 then read_separator COLON i read_ipv4_addr s else None) of
              Some (w, r) \<Rightarrow> ([ucast (drop_bit 16 w), ucast w], True, r)
            | None \<Rightarrow>
               (case read_separator COLON i (read_number 16 4 65535 True) s of
                  None \<Rightarrow> ([], False, s)
                | Some (g, r) \<Rightarrow>
                    (case read_groups lim (Suc i) r of
                       (gs, v4, r') \<Rightarrow> (word_of_nat g # gs, v4, r')))))"
  by pat_completeness auto
termination by (relation "measure (\<lambda>(lim, i, s). lim - i)") auto

declare read_groups.simps [simp del]

definition read_ipv6_addr :: "128 word reader" where
  "read_ipv6_addr s =
     (case read_groups 8 0 s of (head, head_ipv4, r) \<Rightarrow>
        if length head = 8 then Some (of_segments6 head, r)
        else if head_ipv4 then None
        else Option.bind (read_given_char COLON r) (\<lambda>(_, r1).
             Option.bind (read_given_char COLON r1) (\<lambda>(_, r2).
               (case read_groups (8 - (length head + 1)) 0 r2 of (tail, _, r3) \<Rightarrow>
                  Some (of_segments6 (head @ replicate (8 - length head - length tail) 0 @ tail), r3)))))"

definition parse_all :: "'a reader \<Rightarrow> string \<Rightarrow> 'a option" where
  "parse_all p s = (case p s of None \<Rightarrow> None | Some (v, rest) \<Rightarrow> if rest = [] then Some v else None)"

definition ipv4_from_str :: "string \<Rightarrow> 32 word option" where
  "ipv4_from_str s = (if 15 < length s then None else parse_all read_ipv4_addr s)"

definition ipv6_from_str :: "string \<Rightarrow> 128 word option" where
  "ipv6_from_str s = parse_all read_ipv6_addr s"

definition ip_from_str :: "string \<Rightarrow> ip_addr option" where
  "ip_from_str s = parse_all (\<lambda>s. case read_ipv4_addr s of
       Some (w, r) \<Rightarrow> Some (V4 w, r)
     | None \<Rightarrow> (case read_ipv6_addr s of Some (w, r) \<Rightarrow> Some (V6 w, r) | None \<Rightarrow> None)) s"

section \<open>Writing addresses\<close>

definition show_ipv4 :: "32 word \<Rightarrow> string" where
  "show_ipv4 w = join ''.'' (map (\<lambda>b. show_nat (unat b)) (octets4 w))"

definition hex_digit :: "nat \<Rightarrow> char" where
  "hex_digit d = (if d < 10 then char_of (48 + d) else char_of (87 + d))"

fun show_hex :: "nat \<Rightarrow> string" where
  "show_hex n = (if n < 16 then [hex_digit n] else show_hex (n div 16) @ [hex_digit (n mod 16)])"

declare show_hex.simps [simp del]

text \<open>The longest run of zero segments, the first of the longest (start and length).\<close>

fun zero_span :: "nat \<Rightarrow> nat \<times> nat \<Rightarrow> nat \<times> nat \<Rightarrow> u16 list \<Rightarrow> nat \<times> nat" where
  "zero_span i cur longest [] = longest"
| "zero_span i cur longest (g # gs) =
     (if g = 0 then
        (let cur' = (if snd cur = 0 then (i, 1) else (fst cur, snd cur + 1)) in
         zero_span (Suc i) cur' (if snd longest < snd cur' then cur' else longest) gs)
      else zero_span (Suc i) (0, 0) longest gs)"

definition show_groups :: "u16 list \<Rightarrow> string" where
  "show_groups gs = join '':'' (map (\<lambda>g. show_hex (unat g)) gs)"

definition show_ipv6 :: "128 word \<Rightarrow> string" where
  "show_ipv6 w = (let gs = segments6 w in
     if take 6 gs = [0, 0, 0, 0, 0, 0xffff] then ''::ffff:'' @ show_ipv4 (ucast w)
     else (case zero_span 0 (0, 0) (0, 0) gs of (start, len) \<Rightarrow>
        if 1 < len
        then show_groups (take start gs) @ ''::'' @ show_groups (drop (start + len) gs)
        else show_groups gs))"

fun show_ip :: "ip_addr \<Rightarrow> string" where
  "show_ip (V4 w) = show_ipv4 w"
| "show_ip (V6 w) = show_ipv6 w"

section \<open>Written IPv4 addresses are read back\<close>

lemma to_digit_digit [simp]: "d < 10 \<Longrightarrow> to_digit 10 (digit d) = Some d"
  by (simp add: to_digit_def)

lemma digit_eq_zero [simp]: "d < 10 \<Longrightarrow> digit d = CHR ''0'' \<longleftrightarrow> d = 0"
proof -
  assume d: "d < 10"
  have "digit d = CHR ''0'' \<longleftrightarrow> (of_char (digit d) :: nat) = of_char (CHR ''0'')"
    by (simp only: of_char_eq_iff)
  with d show ?thesis by simp
qed

lemma to_digit_dot [simp]: "to_digit 10 (CHR ''.'') = None"
  by (simp add: to_digit_def)

lemma show_nat_1: "n < 10 \<Longrightarrow> show_nat n = [digit n]"
  by (simp add: show_nat.simps)

lemma show_nat_2: "10 \<le> n \<Longrightarrow> n < 100 \<Longrightarrow> show_nat n = [digit (n div 10), digit (n mod 10)]"
  by (subst show_nat.simps) (simp add: show_nat_1)

lemma show_nat_3:
  "100 \<le> n \<Longrightarrow> n < 1000 \<Longrightarrow> show_nat n = [digit (n div 100), digit (n div 10 mod 10), digit (n mod 10)]"
  by (subst show_nat.simps) (simp add: show_nat_2 div_mult2_eq [symmetric])

lemma number_loop_stop:
  "rest = [] \<or> hd rest = CHR ''.'' \<Longrightarrow> number_loop 10 maxd acc n rest = Some (acc, n, rest)"
  by (cases rest) auto

lemma length_show_octet: "n < 256 \<Longrightarrow> length (show_nat n) \<le> 3"
proof -
  assume "n < 256"
  then consider "n < 10" | "10 \<le> n" "n < 100" | "100 \<le> n" "n < 1000" by linarith
  then show ?thesis by cases (simp_all add: show_nat_1 show_nat_2 show_nat_3)
qed

lemma read_number_show_octet:
  assumes "n < 256" and rest: "rest = [] \<or> hd rest = CHR ''.''"
  shows "read_number 10 3 255 False (show_nat n @ rest) = Some (n, rest)"
proof -
  have d: "n div 100 < 10" "n div 10 mod 10 < 10" "n mod 10 < 10"
    using assms(1) by simp_all
  from assms(1) consider "n < 10" | "10 \<le> n" "n < 100" | "100 \<le> n" by linarith
  then show ?thesis
  proof cases
    case 1
    then show ?thesis using rest
      by (simp add: read_number_def show_nat_1 number_loop_stop)
  next
    case 2
    then have "n div 10 < 10" "n div 10 \<noteq> 0" by auto
    moreover have "n div 10 * 10 + n mod 10 = n" by simp
    ultimately show ?thesis using rest d 2 assms(1)
      by (simp add: read_number_def show_nat_2 number_loop_stop)
  next
    case 3
    then have ne: "n div 100 \<noteq> 0" by auto
    have "(n div 100 * 10 + n div 10 mod 10) = n div 10"
      using div_mult_mod_eq [of "n div 10" 10] by (simp add: div_mult2_eq [symmetric])
    then have "(n div 100 * 10 + n div 10 mod 10) * 10 + n mod 10 = n" by simp
    then show ?thesis using rest d ne 3 assms(1)
      by (simp add: read_number_def show_nat_3 number_loop_stop)
  qed
qed

lemma octet_reader_0:
  "n < 256 \<Longrightarrow> rest = [] \<or> hd rest = CHR ''.'' \<Longrightarrow> octet_reader 0 (show_nat n @ rest) = Some (n, rest)"
  by (simp add: octet_reader_def read_separator_def read_number_show_octet)

lemma octet_reader_pos:
  "0 < i \<Longrightarrow> n < 256 \<Longrightarrow> rest = [] \<or> hd rest = CHR ''.'' \<Longrightarrow>
     octet_reader i (CHR ''.'' # show_nat n @ rest) = Some (n, rest)"
  by (simp add: octet_reader_def read_separator_def read_given_char_def read_number_show_octet)

lemma unat_u8_bound [simp]: "unat (b :: u8) < 256"
  using unsigned_less [of b, where ?'a = nat] by simp

lemma show_ipv4_alt:
  "show_ipv4 w = show_nat (unat (ucast (drop_bit 24 w) :: u8)) @ ''.''
     @ show_nat (unat (ucast (drop_bit 16 w) :: u8)) @ ''.''
     @ show_nat (unat (ucast (drop_bit 8 w) :: u8)) @ ''.'' @ show_nat (unat (ucast w :: u8)) @ []"
  by (simp add: show_ipv4_def octets4_def be32_def)

lemma read_ipv4_octets:
  "read_ipv4_addr (show_nat (unat (a :: u8)) @ ''.'' @ show_nat (unat (b :: u8)) @ ''.''
     @ show_nat (unat (c :: u8)) @ ''.'' @ show_nat (unat (d :: u8)) @ []) = Some (rd32 a b c d, [])"
  by (simp add: read_ipv4_addr_def octet_reader_0 octet_reader_pos [of _ "unat d" "[]", simplified]
      octet_reader_pos)

lemma read_ipv4_show: "read_ipv4_addr (show_ipv4 w) = Some (w, [])"
  by (simp only: show_ipv4_alt read_ipv4_octets rd32_be32)

lemma length_show_ipv4: "length (show_ipv4 w) \<le> 15"
proof -
  have "length (show_nat (unat (b :: u8))) \<le> 3" for b
    by (simp add: length_show_octet)
  from this [of "ucast (drop_bit 24 w)"] this [of "ucast (drop_bit 16 w)"]
    this [of "ucast (drop_bit 8 w)"] this [of "ucast w"]
  show ?thesis by (simp add: show_ipv4_alt)
qed

lemma ipv4_from_str_show [simp]: "ipv4_from_str (show_ipv4 w) = Some w"
  using length_show_ipv4 [of w] by (simp add: ipv4_from_str_def parse_all_def read_ipv4_show)

text \<open>Written addresses hold no separator of the SDP grammar.\<close>

lemma show_ipv4_chars: "c \<in> set (show_ipv4 w) \<Longrightarrow> c = CHR ''.'' \<or> 48 \<le> (of_char c :: nat)"
  using show_nat_chars by (auto simp: show_ipv4_alt)

lemma hex_digit_chars: "d < 16 \<Longrightarrow> 48 \<le> (of_char (hex_digit d) :: nat)"
  by (simp add: hex_digit_def)

lemma show_hex_chars: "c \<in> set (show_hex n) \<Longrightarrow> 48 \<le> (of_char c :: nat)"
proof (induction n rule: show_hex.induct)
  case (1 n)
  show ?case
  proof (cases "n < 16")
    case True
    with "1.prems" show ?thesis by (subst (asm) show_hex.simps) (auto simp: hex_digit_chars)
  next
    case False
    with 1 show ?thesis by (subst (asm) (2) show_hex.simps) (auto simp: hex_digit_chars)
  qed
qed

lemma show_groups_chars: "c \<in> set (show_groups gs) \<Longrightarrow> 48 \<le> (of_char c :: nat)"
proof -
  assume "c \<in> set (show_groups gs)"
  then have "c \<in> (\<Union>g \<in> set gs. set (show_hex (unat g))) \<union> {COLON}"
    using set_join [of "'':''" "map (\<lambda>g. show_hex (unat g)) gs"] by (auto simp: show_groups_def)
  then show ?thesis using show_hex_chars by auto
qed

lemma show_ip_chars: "c \<in> set (show_ip ip) \<Longrightarrow> c = CHR ''.'' \<or> 48 \<le> (of_char c :: nat)"
proof (cases ip)
  case (V4 w)
  assume "c \<in> set (show_ip ip)"
  with V4 show ?thesis using show_ipv4_chars by simp
next
  case (V6 w)
  assume "c \<in> set (show_ip ip)"
  with V6 show ?thesis
    using show_ipv4_chars show_groups_chars
    by (auto simp: show_ipv6_def Let_def split: if_splits prod.splits)
qed

lemma show_ip_notin [simp]: "(of_char c :: nat) < 46 \<Longrightarrow> c \<notin> set (show_ip ip)"
  using show_ip_chars [of c ip] by auto

end
