(* ===== verification/Config.thy ===== *)
theory Config
  imports Rust_Text Net_Addr
begin

text \<open>
  The configuration (\<open>src/config.rs\<close>) and the certificate's fingerprint (\<open>src/acceptor.rs\<close>). The
  environment is a partial map; a variable that is missing or not Unicode is absent. What the \<open>openssl\<close>
  crate does with the two files is a pair of functions: whether an acceptor can be built from the key and
  the certificate, and the SHA-256 digest of the certificate, if it can be read.
\<close>

section \<open>The certificate\<close>

record tls_library =
  tls_acceptor :: "string \<Rightarrow> string \<Rightarrow> bool"      \<comment> \<open>certificate path, key path\<close>
  tls_digest :: "string \<Rightarrow> bytes option"          \<comment> \<open>certificate path\<close>

record ssl_config =
  fingerprint :: string

text \<open>The formatting loop: a separator after every byte whose index is not the last one.\<close>

fun write_fingerprint :: "bytes \<Rightarrow> nat \<Rightarrow> nat \<Rightarrow> string \<Rightarrow> string" where
  "write_fingerprint digest i 0 out = out"
| "write_fingerprint digest i (Suc n) out =
     (let out1 = out @ show_hex02 (digest ! i) in
      write_fingerprint digest (Suc i) n (if i \<noteq> length digest - 1 then out1 @ '':'' else out1))"

definition ssl_config_new :: "tls_library \<Rightarrow> string \<Rightarrow> panic + ssl_config" where
  "ssl_config_new tls cert_dir =
     (let cert_path = path_push cert_dir ''cert.pem''; cert_key_path = path_push cert_dir ''key.pem'' in
      if \<not> tls_acceptor tls cert_path cert_key_path then Inl UnwrapFailed else
      bind_res (ok_or UnwrapFailed (tls_digest tls cert_path)) (\<lambda>digest.
        Inr \<lparr>fingerprint = write_fingerprint digest 0 (length digest) []\<rparr>))"

section \<open>The configuration\<close>

record tcp_server_config =
  tcp_address :: socket_addr
  whip_token :: string

record udp_server_config =
  udp_address :: socket_addr

record config =
  ssl_config :: ssl_config
  tcp_server_config :: tcp_server_config
  udp_server_config :: udp_server_config
  frontend_url :: string
  storage_dir :: string

definition TCP_IP_ENV :: string where "TCP_IP_ENV = ''TCP_ADDRESS''"
definition TCP_PORT_ENV :: string where "TCP_PORT_ENV = ''TCP_PORT''"
definition UDP_IP_ENV :: string where "UDP_IP_ENV = ''UDP_ADDRESS''"
definition UDP_PORT_ENV :: string where "UDP_PORT_ENV = ''UDP_PORT''"
definition WHIP_TOKEN_ENV :: string where "WHIP_TOKEN_ENV = ''WHIP_TOKEN''"
definition FRONTEND_URL_ENV :: string where "FRONTEND_URL_ENV = ''FRONTEND_URL''"
definition STORAGE_DIR :: string where "STORAGE_DIR = ''STORAGE_DIR''"
definition CERTS_DIR :: string where "CERTS_DIR = ''CERTS_DIR''"

lemmas env_names = TCP_IP_ENV_def TCP_PORT_ENV_def UDP_IP_ENV_def UDP_PORT_ENV_def WHIP_TOKEN_ENV_def
  FRONTEND_URL_ENV_def STORAGE_DIR_def CERTS_DIR_def

abbreviation expect :: "'a option \<Rightarrow> panic + 'a" where "expect \<equiv> ok_or UnwrapFailed"

definition config_initialize :: "tls_library \<Rightarrow> (string \<rightharpoonup> string) \<Rightarrow> panic + config" where
  "config_initialize tls env =
     bind_res (expect (Option.bind (env TCP_IP_ENV) ip_from_str)) (\<lambda>tcp_ip.
     bind_res (expect (Option.bind (env TCP_PORT_ENV) parse_u16)) (\<lambda>tcp_port.
     bind_res (expect (Option.bind (env UDP_IP_ENV) ip_from_str)) (\<lambda>udp_ip.
     bind_res (expect (Option.bind (env UDP_PORT_ENV) parse_u16)) (\<lambda>udp_port.
     bind_res (expect (env WHIP_TOKEN_ENV)) (\<lambda>token.
     bind_res (expect (env FRONTEND_URL_ENV)) (\<lambda>url.
     bind_res (expect (env STORAGE_DIR)) (\<lambda>storage.
     bind_res (expect (env CERTS_DIR)) (\<lambda>certs.
     bind_res (ssl_config_new tls certs) (\<lambda>ssl.
       Inr \<lparr>ssl_config = ssl,
            tcp_server_config = \<lparr>tcp_address = sock_new tcp_ip tcp_port, whip_token = token\<rparr>,
            udp_server_config = \<lparr>udp_address = sock_new udp_ip udp_port\<rparr>,
            frontend_url = url, storage_dir = storage\<rparr>)))))))))"

text \<open>The global: the first call initialises it, every later call returns what the first one made, whatever
  has become of the environment since.\<close>

definition get_global_config :: "tls_library \<Rightarrow> (string \<rightharpoonup> string) \<Rightarrow> config option \<Rightarrow> panic + (config \<times> config option)" where
  "get_global_config tls env GLOBAL_CONFIG = (case GLOBAL_CONFIG of
       Some c \<Rightarrow> Inr (c, Some c)
     | None \<Rightarrow> map_res (\<lambda>c. (c, Some c)) (config_initialize tls env))"

lemma global_config_once:
  "get_global_config tls env cell = Inr (c, cell') \<Longrightarrow> get_global_config tls' env' cell' = Inr (c, cell')"
  by (auto simp: get_global_config_def map_res_eq_Inr split: option.splits)

section \<open>The fingerprint\<close>

lemma write_fingerprint_join:
  "i + n = length digest \<Longrightarrow> write_fingerprint digest i n out = out @ join '':'' (map show_hex02 (drop i digest))"
proof (induction n arbitrary: i out)
  case (Suc n)
  then have d: "drop i digest = digest ! i # drop (Suc i) digest" by (simp add: Cons_nth_drop_Suc)
  show ?case
  proof (cases "n = 0")
    case True
    with Suc.prems d show ?thesis by (auto simp: Let_def)
  next
    case False
    with Suc.prems have "drop (Suc i) digest \<noteq> []" "i \<noteq> length digest - 1" by auto
    with Suc d show ?thesis by (simp add: join_Cons Let_def)
  qed
qed simp

text \<open>Reading a fingerprint back.\<close>

definition hex_value :: "char \<Rightarrow> nat" where
  "hex_value c = (if of_char c < (58 :: nat) then of_char c - 48 else of_char c - 55)"

fun read_hex02 :: "string \<Rightarrow> u8" where
  "read_hex02 [a, b] = of_nat (16 * hex_value a + hex_value b)"
| "read_hex02 _ = 0"

lemma of_char_upper_hex: "d < 16 \<Longrightarrow> of_char (upper_hex d) = (if d < 10 then 48 + d else 55 + d)"
proof (cases "d < 10")
  case False
  assume "d < 16"
  then have "(55 + d) mod 256 = 55 + d" by (intro mod_less) linarith
  with False show ?thesis by (simp only: upper_hex_def of_char_of if_False)
qed (simp add: upper_hex_def)

lemma hex_value_digit: "d < 16 \<Longrightarrow> hex_value (upper_hex d) = d"
  by (simp add: hex_value_def of_char_upper_hex)

lemma read_show_hex02 [simp]: "read_hex02 (show_hex02 b) = b"
proof -
  have "unat b < 256" using unsigned_less [of b] by simp
  then have "unat b div 16 < 16" "unat b mod 16 < 16" by (simp_all add: less_mult_imp_div_less)
  then have "read_hex02 (show_hex02 b) = of_nat (16 * (unat b div 16) + unat b mod 16)"
    by (simp only: show_hex02_def read_hex02.simps hex_value_digit)
  also have "16 * (unat b div 16) + unat b mod 16 = unat b" by simp
  finally show ?thesis by simp
qed

lemma show_hex02_chars: "c \<in> set (show_hex02 b) \<Longrightarrow> (48 \<le> (of_char c :: nat) \<and> (of_char c :: nat) \<le> 57) \<or> (65 \<le> (of_char c :: nat) \<and> (of_char c :: nat) \<le> 70)"
proof -
  have "unat b < 256" using unsigned_less [of b] by simp
  then have "unat b div 16 < 16" "unat b mod 16 < 16" by (simp_all add: less_mult_imp_div_less)
  then show "c \<in> set (show_hex02 b) \<Longrightarrow> ?thesis" by (auto simp: show_hex02_def of_char_upper_hex split: if_splits)
qed

lemma hex_no_colon: "CHR '':'' \<notin> set (show_hex02 b)" "LF \<notin> set (show_hex02 b)"
  using show_hex02_chars [of _ b] by force+

lemma fingerprint_no_LF: "LF \<notin> set (write_fingerprint d 0 (length d) [])"
  using set_join [of "'':''" "map show_hex02 d"] hex_no_colon(2) by (auto simp: write_fingerprint_join)

lemma fingerprint_decodes:
  "d \<noteq> [] \<Longrightarrow> map read_hex02 (split_on (CHR '':'') (write_fingerprint d 0 (length d) [])) = d"
proof -
  assume "d \<noteq> []"
  then have "split_on (CHR '':'') (join '':'' (map show_hex02 d)) = map show_hex02 d"
    using hex_no_colon(1) by (intro split_on_join) auto
  then show ?thesis by (simp add: write_fingerprint_join comp_def)
qed

end
