(* ===== verification/Nal.thy ===== *)
theory Nal
  imports Rust_Io
begin

text \<open>
  The packet formats of the thumbnail crate: RTP packets (\<open>thumbnail_image_extractor/src/rtp.rs\<close>)
  and H.264 payloads (\<open>nal.rs\<close>), single NAL units and FU-A fragments.
\<close>

section \<open>RTP packets\<close>

record rtp_packet =
  pkt_marker :: bool
  pkt_version :: u8
  pkt_padding :: bool
  pkt_extension :: bool
  pkt_csrc_count :: u8
  pkt_payload_type :: u8
  pkt_sequence_number :: u16
  pkt_timestamp :: u32
  pkt_ssrc :: u32
  pkt_csrc :: "u32 list"
  pkt_payload :: bytes

datatype rtp_parse_error = PacketShort | RtpMalformedPacket

text \<open>\<open>csrc_count\<close> reads of a \<open>u32\<close>; the first short read ends the parse.\<close>

fun read_csrcs :: "nat \<Rightarrow> bytes \<Rightarrow> rtp_parse_error + (u32 list \<times> bytes)" where
  "read_csrcs 0 bs = Inr ([], bs)"
| "read_csrcs (Suc n) bs =
     bind_res (ok_or PacketShort (read_u32 bs)) (\<lambda>(c, bs1).
     bind_res (read_csrcs n bs1) (\<lambda>(cs, bs2). Inr (c # cs, bs2)))"

text \<open>The payload buffer holds 3000 bytes; what is beyond it is not read.\<close>

definition rtp_packet_try_from :: "bytes \<Rightarrow> rtp_parse_error + rtp_packet" where
  "rtp_packet_try_from value =
     bind_res (ok_or PacketShort (read_u8 value)) (\<lambda>(first_octet, r1).
     bind_res (ok_or PacketShort (read_u8 r1)) (\<lambda>(second_octet, r2).
     bind_res (ok_or PacketShort (read_u16 r2)) (\<lambda>(sequence_number, r3).
     bind_res (ok_or PacketShort (read_u32 r3)) (\<lambda>(timestamp, r4).
     bind_res (ok_or PacketShort (read_u32 r4)) (\<lambda>(ssrc, r5).
     let csrc_count = first_octet AND 0b00001111 in
     bind_res (read_csrcs (unat csrc_count) r5) (\<lambda>(csrc, r6).
     Inr \<lparr>pkt_marker = (second_octet AND 0b10000000 = 0b10000000),
          pkt_version = drop_bit 6 (first_octet AND 0b11000000),
          pkt_padding = (first_octet AND 0b00100000 = 0b00100000),
          pkt_extension = (first_octet AND 0b00010000 = 0b00010000),
          pkt_csrc_count = csrc_count, pkt_payload_type = second_octet AND 0b01111111,
          pkt_sequence_number = sequence_number, pkt_timestamp = timestamp, pkt_ssrc = ssrc,
          pkt_csrc = csrc, pkt_payload = take 3000 r6\<rparr>))))))"

section \<open>NAL headers\<close>

datatype nal_payload_type =
    NALUnitPT | FU_A | FU_B | STAP_A | STAP_B | MTAP16 | MTAP24 | Reserved

datatype nal_parse_error = MalformedPacket

record nal_unit_header =
  nri :: u8
  hdr_inner :: u8
  hdr_payload_type :: nal_payload_type

definition payload_type_try_from :: "u8 \<Rightarrow> nal_parse_error + nal_payload_type" where
  "payload_type_try_from v =
     (if v = 0 then Inr Reserved
      else if 1 \<le> v \<and> v \<le> 23 then Inr NALUnitPT
      else if v = 24 then Inr STAP_A
      else if v = 25 then Inr STAP_B
      else if v = 26 then Inr MTAP16
      else if v = 27 then Inr MTAP24
      else if v = 28 then Inr FU_A
      else if v = 29 then Inr FU_B
      else if 30 \<le> v \<and> v \<le> 31 then Inr Reserved
      else Inl MalformedPacket)"

definition nal_unit_header_try_from :: "u8 \<Rightarrow> nal_parse_error + nal_unit_header" where
  "nal_unit_header_try_from v =
     (if drop_bit 7 (v AND 0b10000000) = 1 then Inl MalformedPacket else
      bind_res (payload_type_try_from (v AND 0b00011111)) (\<lambda>pt.
        Inr \<lparr>nri = drop_bit 5 (v AND 0b01100000), hdr_inner = v, hdr_payload_type = pt\<rparr>))"

definition u8_from_nal_unit_header :: "nal_unit_header \<Rightarrow> u8" where
  "u8_from_nal_unit_header h = hdr_inner h"

datatype fragmentation_role = Start | Continue | End

record nal_fragmentation_header =
  frag_role :: fragmentation_role
  frag_payload_type :: u8

definition nal_fragmentation_header_try_from :: "u8 \<Rightarrow> nal_parse_error + nal_fragmentation_header" where
  "nal_fragmentation_header_try_from v =
     (let start_bit = drop_bit 7 (v AND 0b10000000); end_bit = drop_bit 6 (v AND 0b01000000) in
      if start_bit = end_bit \<and> start_bit = 1 then Inl MalformedPacket else
      Inr \<lparr>frag_role = (if start_bit = end_bit then Continue else if start_bit = 1 then Start else End),
           frag_payload_type = v AND 0b00011111\<rparr>)"

section \<open>NAL packets\<close>

record fragmentation_unit =
  unit_header :: nal_unit_header
  fragmentation_header :: nal_fragmentation_header
  frag_unit :: bytes

datatype nal_packet = NALUnit bytes | FragmentationUnit fragmentation_unit

definition get_nal_packet :: "bytes \<Rightarrow> panic + nal_packet option" where
  "get_nal_packet input =
     bind_res (index_at input 0) (\<lambda>b0.
     case nal_unit_header_try_from b0 of
       Inl _ \<Rightarrow> Inr None
     | Inr h \<Rightarrow>
       (case hdr_payload_type h of
          NALUnitPT \<Rightarrow> Inr (Some (NALUnit input))
        | FU_A \<Rightarrow>
            bind_res (index_at input 1) (\<lambda>b1.
            case nal_fragmentation_header_try_from b1 of
              Inl _ \<Rightarrow> Inr None
            | Inr fh \<Rightarrow>
                bind_res (slice_from 2 input) (\<lambda>u.
                Inr (Some (FragmentationUnit \<lparr>unit_header = h, fragmentation_header = fh, frag_unit = u\<rparr>))))
        | _ \<Rightarrow> Inr None))"

text \<open>The texts of the \<open>Display\<close> implementations.\<close>

fun string_from_fragmentation_role :: "fragmentation_role \<Rightarrow> string" where
  "string_from_fragmentation_role Start = ''Start''"
| "string_from_fragmentation_role Continue = ''Continue''"
| "string_from_fragmentation_role End = ''End''"

fun string_from_nal_packet :: "nal_packet \<Rightarrow> string" where
  "string_from_nal_packet (NALUnit u) = ''Single NAL Unit of '' @ show_nat (length u) @ '' length''"
| "string_from_nal_packet (FragmentationUnit f) =
     ''Fragmentation Unit of length='' @ show_nat (length (frag_unit f))
       @ '', PT='' @ show_nat (unat (frag_payload_type (fragmentation_header f)))
       @ '', role='' @ string_from_fragmentation_role (frag_role (fragmentation_header f))"

section \<open>Bytes bit by bit\<close>

lemma u8_eqI: "(\<forall>n \<in> {0, 1, 2, 3, 4, 5, 6, 7}. bit x n = bit y n) \<Longrightarrow> x = (y :: u8)"
proof (rule bit_word_eqI)
  fix n assume *: "\<forall>n \<in> {0, 1, 2, 3, 4, 5, 6, 7}. bit x n = bit y n" "n < LENGTH(8)"
  from *(2) have "n < Suc (Suc (Suc (Suc (Suc (Suc (Suc (Suc 0)))))))" by simp
  then have "n = 0 \<or> n = 1 \<or> n = 2 \<or> n = 3 \<or> n = 4 \<or> n = 5 \<or> n = 6 \<or> n = 7"
    unfolding less_Suc_eq by (auto simp: numeral_eq_Suc)
  with *(1) show "bit x n = bit y n" by blast
qed

lemma u8_header_split: "(x AND 0b11100000) XOR (x AND 0b00011111) = (x :: u8)"
  by (rule u8_eqI) (simp add: bit_simps)

lemma u8_top_bits:
  "drop_bit 7 (x :: u8) AND 1 = of_bool (bit x 7)"
  "drop_bit 6 (x :: u8) AND 1 = of_bool (bit x 6)"
  by (rule u8_eqI, simp add: bit_simps)+

lemma u8_flag:
  "(x AND 0x80 = 0x80) = bit (x :: u8) 7" "(x AND 0x20 = 0x20) = bit x 5" "(x AND 0x10 = 0x10) = bit x 4"
proof -
  have e: "x AND 2 ^ k = (if bit x k then 2 ^ k else 0)" for k
    by (rule bit_word_eqI) (auto simp: bit_simps)
  show "(x AND 0x80 = 0x80) = bit x 7" "(x AND 0x20 = 0x20) = bit x 5" "(x AND 0x10 = 0x10) = bit x 4"
    using e [of 7] e [of 5] e [of 4] by (auto split: if_splits)
qed

section \<open>FU-A fragments\<close>

text \<open>The indicator and the header byte RFC 6184 gives the fragments of a NAL unit with header \<open>h\<close>.\<close>

definition fu_indicator :: "u8 \<Rightarrow> u8" where
  "fu_indicator h = (h AND 0b11100000) OR 28"

definition fu_header :: "bool \<Rightarrow> bool \<Rightarrow> u8 \<Rightarrow> u8" where
  "fu_header s e h = (if s then 0x80 else 0) OR (if e then 0x40 else 0) OR (h AND 0b00011111)"

lemma fu_indicator_bits:
  "bit (fu_indicator h) 7 = bit h 7" "fu_indicator h AND 0b00011111 = 28"
  "fu_indicator h AND 0b11100000 = h AND 0b11100000"
  by (simp add: fu_indicator_def bit_simps, (rule u8_eqI, simp add: fu_indicator_def bit_simps)+)

lemma fu_header_bits:
  "bit (fu_header s e h) 7 = s" "bit (fu_header s e h) 6 = e"
  "fu_header s e h AND 0b00011111 = h AND 0b00011111"
  by (simp add: fu_header_def bit_simps, simp add: fu_header_def bit_simps,
    rule u8_eqI, simp add: fu_header_def bit_simps)

lemma get_fragment:
  assumes "\<not> bit h 7" "\<not> (s \<and> e)"
  shows "\<exists>uh. get_nal_packet (fu_indicator h # fu_header s e h # u) = Inr (Some (FragmentationUnit
     \<lparr>unit_header = uh, fragmentation_header = \<lparr>frag_role = (if s then Start else if e then End else Continue),
        frag_payload_type = h AND 0b00011111\<rparr>, frag_unit = u\<rparr>)) \<and> hdr_inner uh = fu_indicator h"
  using assms
  by (auto simp: get_nal_packet_def index_at_def slice_from_def nal_unit_header_try_from_def
      payload_type_try_from_def nal_fragmentation_header_try_from_def Let_def u8_top_bits fu_indicator_bits fu_header_bits)

lemma get_single:
  assumes "\<not> bit h 7" "h AND 0b00011111 \<in> {1..23}"
  shows "get_nal_packet (h # u) = Inr (Some (NALUnit (h # u)))"
  using assms by (auto simp: get_nal_packet_def index_at_def nal_unit_header_try_from_def
      payload_type_try_from_def u8_top_bits)

end
