(* ===== verification/Access_Unit.thy ===== *)
theory Access_Unit
  imports Nal
begin

text \<open>
  The access-unit decoder of the thumbnail crate (\<open>access_unit_decoder.rs\<close>): RTP packets in,
  complete access units in Annex B form out. The two decoders are records; each method returns its
  result and the updated decoder, or the panic it ends in.
\<close>

section \<open>The NAL decoder\<close>

record nal_decoder =
  fragmentation_buffer :: bytes

definition nal_decoder_new :: nal_decoder where
  "nal_decoder_new = \<lparr>fragmentation_buffer = []\<rparr>"

definition decode_nal_unit :: "rtp_packet \<Rightarrow> nal_decoder \<Rightarrow> panic + (bytes option \<times> nal_decoder)" where
  "decode_nal_unit p d =
     bind_res (get_nal_packet (pkt_payload p)) (\<lambda>np.
     case np of
       None \<Rightarrow> Inr (None, d)
     | Some (NALUnit u) \<Rightarrow> Inr (Some u, d)
     | Some (FragmentationUnit frag) \<Rightarrow>
         (case frag_role (fragmentation_header frag) of
            Start \<Rightarrow>
              let prefix = u8_from_nal_unit_header (unit_header frag) AND 0b11100000;
                  header = prefix XOR frag_payload_type (fragmentation_header frag)
              in Inr (None, d\<lparr>fragmentation_buffer := header # frag_unit frag\<rparr>)
          | Continue \<Rightarrow> Inr (None, d\<lparr>fragmentation_buffer := fragmentation_buffer d @ frag_unit frag\<rparr>)
          | End \<Rightarrow> Inr (Some (fragmentation_buffer d @ frag_unit frag), d\<lparr>fragmentation_buffer := []\<rparr>)))"

section \<open>The access-unit decoder\<close>

record access_unit_decoder =
  last_seq :: "u16 option"
  au_timestamp :: "u32 option"
  au_nal_decoder :: nal_decoder
  internal_buffer :: bytes
  is_loopback :: bool

datatype decode_error = SequenceMismatch | TimestampMismatch | InvalidLastPacket

definition access_unit_decoder_new :: access_unit_decoder where
  "access_unit_decoder_new = \<lparr>last_seq = None, au_timestamp = None, au_nal_decoder = nal_decoder_new,
     internal_buffer = [], is_loopback = False\<rparr>"

text \<open>The successor the sequence check expects: the code tests for \<open>u16::MAX\<close> and otherwise adds
  one.\<close>

definition next_in_seq :: "u16 option \<Rightarrow> u16 \<Rightarrow> bool" where
  "next_in_seq prev n = (case prev of None \<Rightarrow> False
     | Some seq \<Rightarrow> if seq = 0xFFFF then n = 0 else n = seq + 1)"

definition get_nal ::
    "rtp_packet \<Rightarrow> access_unit_decoder \<Rightarrow> panic + ((decode_error + bytes option) \<times> access_unit_decoder)" where
  "get_nal p d =
     (if \<not> next_in_seq (last_seq d) (pkt_sequence_number p) then Inr (Inl SequenceMismatch, d)
      else if au_timestamp d \<noteq> Some (pkt_timestamp p) then Inr (Inl TimestampMismatch, d)
      else
        bind_res (decode_nal_unit p (au_nal_decoder d)) (\<lambda>(nal_unit, nd).
        let d' = d\<lparr>au_nal_decoder := nd\<rparr> in
        if pkt_marker p \<and> nal_unit = None then Inr (Inl InvalidLastPacket, d')
        else Inr (Inr nal_unit, d')))"

text \<open>Appending one NAL unit in Annex B form: parameter sets get the long start code.\<close>

definition append_nal :: "bytes \<Rightarrow> bytes \<Rightarrow> panic + bytes" where
  "append_nal buf nal =
     bind_res (index_at nal 0) (\<lambda>nal_header.
     let nal_unit_type = nal_header AND 0b00011111;
         buf1 = (if nal_unit_type = 7 \<or> nal_unit_type = 8 then buf @ [0] else buf)
     in Inr (buf1 @ [0, 0, 1] @ nal))"

definition au_process_packet ::
    "rtp_packet \<Rightarrow> access_unit_decoder \<Rightarrow> panic + (bytes option \<times> access_unit_decoder)" where
  "au_process_packet p d =
     (if pkt_marker p \<and> au_timestamp d = None then
        Inr (None, d\<lparr>last_seq := Some (pkt_sequence_number p), is_loopback := True,
                     internal_buffer := internal_buffer d @ [0]\<rparr>)
      else
        let d1 = (if is_loopback d then d\<lparr>au_timestamp := Some (pkt_timestamp p), is_loopback := False\<rparr> else d) in
        bind_res (get_nal p d1) (\<lambda>(r, d2).
        case r of
          Inl _ \<Rightarrow> Inr (None, d2\<lparr>internal_buffer := [], au_nal_decoder := nal_decoder_new,
                                 last_seq := None, au_timestamp := None\<rparr>)
        | Inr buff \<Rightarrow>
            let d3 = d2\<lparr>last_seq := Some (pkt_sequence_number p)\<rparr> in
            bind_res (case buff of None \<Rightarrow> Inr (internal_buffer d3)
                                 | Some nal \<Rightarrow> append_nal (internal_buffer d3) nal) (\<lambda>buf.
            if pkt_marker p then Inr (Some buf, d3\<lparr>internal_buffer := []\<rparr>)
            else Inr (None, d3\<lparr>internal_buffer := buf\<rparr>))))"

text \<open>A sequence of packets, with the outputs in order.\<close>

fun feed :: "rtp_packet list \<Rightarrow> access_unit_decoder \<Rightarrow> panic + (bytes option list \<times> access_unit_decoder)" where
  "feed [] d = Inr ([], d)"
| "feed (p # ps) d =
     bind_res (au_process_packet p d) (\<lambda>(o1, d1).
     bind_res (feed ps d1) (\<lambda>(os, d2). Inr (o1 # os, d2)))"

end
