(* ===== verification/Access_Unit_Props.thy ===== *)
theory Access_Unit_Props
  imports Access_Unit
begin

text \<open>
  What the access-unit decoder guarantees: it reassembles an access unit whose marker before it found it
  without one in progress, whole NAL units and FU-A fragments alike, across the wrap-around of the sequence
  number; what it does between access units; and exactly which packets make it panic.
\<close>

section \<open>How a sender packetises an access unit\<close>

text \<open>A NAL unit goes out whole, or as a first, some middle and a last fragment.\<close>

datatype packetised =
    Whole bytes
  | Fragments u8 bytes "bytes list" bytes

fun nal_of :: "packetised \<Rightarrow> bytes" where
  "nal_of (Whole n) = n"
| "nal_of (Fragments h a ms z) = h # a @ concat ms @ z"

definition fragment :: "bool \<Rightarrow> bool \<Rightarrow> u8 \<Rightarrow> bytes \<Rightarrow> bytes" where
  "fragment s e h u = fu_indicator h # fu_header s e h # u"

fun payloads_of :: "packetised \<Rightarrow> bytes list" where
  "payloads_of (Whole n) = [n]"
| "payloads_of (Fragments h a ms z) =
     fragment True False h a # map (fragment False False h) ms @ [fragment False True h z]"

fun packetised_ok :: "packetised \<Rightarrow> bool" where
  "packetised_ok (Whole n) \<longleftrightarrow> n \<noteq> [] \<and> \<not> bit (hd n) 7 \<and> hd n AND 0b00011111 \<in> {1..23}"
| "packetised_ok (Fragments h a ms z) \<longleftrightarrow> \<not> bit h 7"

text \<open>Annex B form: parameter sets have the four-byte start code.\<close>

definition annexb :: "bytes \<Rightarrow> bytes" where
  "annexb nal = (if hd nal AND 0b00011111 \<in> {7, 8} then [0] else []) @ [0, 0, 1] @ nal"

text \<open>Packets with consecutive sequence numbers after \<open>s\<close> and one timestamp.\<close>

fun numbered :: "u16 \<Rightarrow> u32 \<Rightarrow> rtp_packet list \<Rightarrow> bool" where
  "numbered s ts [] \<longleftrightarrow> True"
| "numbered s ts (p # ps) \<longleftrightarrow> pkt_sequence_number p = s + 1 \<and> pkt_timestamp p = ts \<and> numbered (s + 1) ts ps"

definition unmarked :: "rtp_packet list \<Rightarrow> bool" where
  "unmarked ps \<longleftrightarrow> list_all (\<lambda>p. \<not> pkt_marker p) ps"

definition last_marked :: "bool \<Rightarrow> rtp_packet list \<Rightarrow> bool" where
  "last_marked b ps \<longleftrightarrow> ps \<noteq> [] \<and> unmarked (butlast ps) \<and> pkt_marker (last ps) = b"

definition carries :: "packetised list \<Rightarrow> rtp_packet list \<Rightarrow> bool" where
  "carries us ps \<longleftrightarrow> list_all packetised_ok us \<and> map pkt_payload ps = concat (map payloads_of us)"

section \<open>Steps in synchronised states\<close>

text \<open>The state in the middle of an access unit.\<close>

definition synced :: "u16 \<Rightarrow> u32 \<Rightarrow> bytes \<Rightarrow> bytes \<Rightarrow> access_unit_decoder" where
  "synced s ts fb buf = \<lparr>last_seq = Some s, au_timestamp = Some ts,
     au_nal_decoder = \<lparr>fragmentation_buffer = fb\<rparr>, internal_buffer = buf, is_loopback = False\<rparr>"

text \<open>The state after a marker, before the first packet of the next access unit.\<close>

definition armed :: "u16 \<Rightarrow> nal_decoder \<Rightarrow> bytes \<Rightarrow> access_unit_decoder" where
  "armed s nd buf = \<lparr>last_seq = Some s, au_timestamp = None, au_nal_decoder = nd,
     internal_buffer = buf, is_loopback = True\<rparr>"

lemma next_in_seq_succ [simp]: "next_in_seq (Some s) (s + 1)"
  by (simp add: next_in_seq_def)

text \<open>What a packet that completes a NAL unit yields.\<close>

definition completed :: "bool \<Rightarrow> u16 \<Rightarrow> u32 \<Rightarrow> bytes \<Rightarrow> bytes \<Rightarrow> panic + (bytes option \<times> access_unit_decoder)" where
  "completed m s ts fb buf = Inr (if m then (Some buf, synced s ts fb []) else (None, synced s ts fb buf))"

lemma step_decoded:
  assumes "pkt_sequence_number p = s + 1" "pkt_timestamp p = ts"
    and "decode_nal_unit p \<lparr>fragmentation_buffer = fb\<rparr> = Inr (Some n, \<lparr>fragmentation_buffer = fb'\<rparr>)" "n \<noteq> []"
  shows "au_process_packet p (synced s ts fb buf) = completed (pkt_marker p) (s + 1) ts fb' (buf @ annexb n)"
  using assms
  by (auto simp: au_process_packet_def synced_def get_nal_def Let_def append_nal_def index_at_def completed_def
      annexb_def hd_conv_nth)

lemma step_pending:
  assumes "pkt_sequence_number p = s + 1" "pkt_timestamp p = ts" "\<not> pkt_marker p"
    and "decode_nal_unit p \<lparr>fragmentation_buffer = fb\<rparr> = Inr (None, \<lparr>fragmentation_buffer = fb'\<rparr>)"
  shows "au_process_packet p (synced s ts fb buf) = Inr (None, synced (s + 1) ts fb' buf)"
  using assms by (auto simp: au_process_packet_def synced_def get_nal_def Let_def)

lemma decode_whole:
  "pkt_payload p = n \<Longrightarrow> packetised_ok (Whole n) \<Longrightarrow> decode_nal_unit p d = Inr (Some n, d)"
  using get_single [of "hd n" "tl n"] by (simp add: decode_nal_unit_def)

lemma decode_fragment:
  assumes "pkt_payload p = fragment s e h u" "\<not> bit h 7" "\<not> (s \<and> e)"
  shows "decode_nal_unit p \<lparr>fragmentation_buffer = fb\<rparr> =
     Inr (if s then (None, \<lparr>fragmentation_buffer = h # u\<rparr>)
          else if e then (Some (fb @ u), \<lparr>fragmentation_buffer = []\<rparr>)
          else (None, \<lparr>fragmentation_buffer = fb @ u\<rparr>))"
  using get_fragment [OF assms(2,3), of u] assms(1)
  by (auto simp: decode_nal_unit_def fragment_def u8_from_nal_unit_header_def fu_indicator_bits u8_header_split)

lemma feed_append:
  "feed (ps @ qs) d = bind_res (feed ps d) (\<lambda>(os, d1). bind_res (feed qs d1) (\<lambda>(os', d2). Inr (os @ os', d2)))"
proof (induction ps arbitrary: d)
  case Nil
  then show ?case by (cases "feed qs d") auto
next
  case (Cons p ps)
  then show ?case
    by (cases "au_process_packet p d") (auto simp: bind_res_def split: sum.splits prod.splits)
qed

lemma numbered_append:
  "numbered s ts (ps @ qs) \<longleftrightarrow> numbered s ts ps \<and> numbered (s + of_nat (length ps)) ts qs"
  by (induction ps arbitrary: s) (auto simp: algebra_simps)

lemma feed_middle:
  assumes "numbered s ts ps" "unmarked ps" "\<not> bit h 7" "map pkt_payload ps = map (fragment False False h) ms"
  shows "feed ps (synced s ts fb buf) =
     Inr (replicate (length ps) None, synced (s + of_nat (length ps)) ts (fb @ concat ms) buf)"
  using assms
proof (induction ps arbitrary: s ms fb)
  case (Cons p ps)
  then obtain m ms' where m: "ms = m # ms'" "pkt_payload p = fragment False False h m"
      "map pkt_payload ps = map (fragment False False h) ms'" by auto
  have "au_process_packet p (synced s ts fb buf) = Inr (None, synced (s + 1) ts (fb @ m) buf)"
    using Cons.prems decode_fragment [OF m(2) Cons.prems(3), of fb] by (intro step_pending) (auto simp: unmarked_def)
  with Cons.IH [of "s + 1" ms' "fb @ m"] Cons.prems m(1,3) show ?case
    by (simp add: unmarked_def algebra_simps)
qed simp

section \<open>Reassembly\<close>

lemma last_marked_single: "last_marked b [p] \<longleftrightarrow> pkt_marker p = b"
  by (simp add: last_marked_def unmarked_def)

lemma feed_unit:
  assumes "numbered s ts ps" "last_marked b ps" "packetised_ok u" "map pkt_payload ps = payloads_of u"
  shows "\<exists>fb'. feed ps (synced s ts fb buf) =
     Inr (replicate (length ps - 1) None @ [if b then Some (buf @ annexb (nal_of u)) else None],
          synced (s + of_nat (length ps)) ts fb' (if b then [] else buf @ annexb (nal_of u)))"
proof (cases u)
  case (Whole n)
  with assms(4) obtain p where p: "ps = [p]" "pkt_payload p = n" by auto
  with assms Whole have "au_process_packet p (synced s ts fb buf) = completed (pkt_marker p) (s + 1) ts fb (buf @ annexb n)"
    by (intro step_decoded decode_whole) auto
  with p assms(2) Whole show ?thesis
    by (intro exI [of _ fb]) (auto simp: completed_def last_marked_single)
next
  case (Fragments h a ms z)
  with assms(4) obtain p ps1 q where p: "ps = p # ps1 @ [q]" "pkt_payload p = fragment True False h a"
      "map pkt_payload ps1 = map (fragment False False h) ms" "pkt_payload q = fragment False True h z"
    by (auto simp: map_eq_Cons_conv map_eq_append_conv)
  have um: "\<not> pkt_marker p" "unmarked ps1" "pkt_marker q = b"
    using assms(2) by (auto simp: p last_marked_def unmarked_def butlast_append)
  have nb: "pkt_sequence_number p = s + 1" "pkt_timestamp p = ts" "numbered (s + 1) ts ps1"
      "numbered (s + 1 + of_nat (length ps1)) ts [q]"
    using assms(1) by (auto simp: p numbered_append)
  have h: "\<not> bit h 7" using assms(3) Fragments by simp
  have 1: "au_process_packet p (synced s ts fb buf) = Inr (None, synced (s + 1) ts (h # a) buf)"
    using nb um decode_fragment [OF p(2) h, of fb] by (intro step_pending) auto
  have 2: "feed ps1 (synced (s + 1) ts (h # a) buf) =
      Inr (replicate (length ps1) None, synced (s + 1 + of_nat (length ps1)) ts (h # a @ concat ms) buf)"
    using feed_middle [OF nb(3) um(2) h p(3)] by simp
  have 3: "au_process_packet q (synced (s + 1 + of_nat (length ps1)) ts (h # a @ concat ms) buf) =
      completed b (s + 1 + of_nat (length ps1) + 1) ts [] (buf @ annexb (nal_of u))"
    using nb(4) um(3) decode_fragment [OF p(4) h, of "h # a @ concat ms"] Fragments
    by (subst step_decoded [where n = "h # a @ concat ms @ z"]) auto
  from 1 2 3 show ?thesis
    by (intro exI [of _ "[]"]) (simp add: p feed_append completed_def replicate_append_same algebra_simps)
qed

lemma payloads_of_ne: "payloads_of u \<noteq> []"
  by (cases u) auto

lemma feed_units:
  assumes "us \<noteq> []" "numbered s ts ps" "last_marked True ps" "carries us ps"
  shows "\<exists>fb'. feed ps (synced s ts fb buf) =
     Inr (replicate (length ps - 1) None @ [Some (buf @ concat (map (\<lambda>u. annexb (nal_of u)) us))],
          synced (s + of_nat (length ps)) ts fb' [])"
  using assms
proof (induction us arbitrary: s ps fb buf)
  case (Cons u us)
  show ?case
  proof (cases "us = []")
    case True
    with Cons.prems show ?thesis
      using feed_unit [of s ts ps True u fb buf] by (auto simp: carries_def)
  next
    case False
    from Cons.prems(4) obtain qs rs where qr: "ps = qs @ rs" "map pkt_payload qs = payloads_of u"
        "map pkt_payload rs = concat (map payloads_of us)"
      by (auto simp: carries_def map_eq_append_conv)
    have ne: "qs \<noteq> []" "rs \<noteq> []"
    proof -
      have "concat (map payloads_of us) \<noteq> []" using False payloads_of_ne by (cases us) auto
      then show "qs \<noteq> []" "rs \<noteq> []" using qr(2,3) payloads_of_ne [of u] by (metis list.map_disc_iff)+
    qed
    have m: "last_marked False qs" "last_marked True rs"
    proof -
      have "unmarked qs" using Cons.prems(3) ne by (auto simp: last_marked_def qr butlast_append unmarked_def)
      then show "last_marked False qs"
        using ne(1) by (auto simp: last_marked_def unmarked_def list_all_iff in_set_butlastD)
      show "last_marked True rs" using Cons.prems(3) ne by (auto simp: last_marked_def qr butlast_append unmarked_def)
    qed
    obtain fb1 where 1: "feed qs (synced s ts fb buf) = Inr (replicate (length qs - 1) None @ [None],
        synced (s + of_nat (length qs)) ts fb1 (buf @ annexb (nal_of u)))"
      using feed_unit [of s ts qs False u fb buf] Cons.prems m qr by (auto simp: numbered_append carries_def)
    obtain fb2 where 2: "feed rs (synced (s + of_nat (length qs)) ts fb1 (buf @ annexb (nal_of u))) =
        Inr (replicate (length rs - 1) None @ [Some ((buf @ annexb (nal_of u)) @ concat (map (\<lambda>u. annexb (nal_of u)) us))],
          synced (s + of_nat (length qs) + of_nat (length rs)) ts fb2 [])"
      using Cons.IH [OF False, of "s + of_nat (length qs)" rs fb1 "buf @ annexb (nal_of u)"] Cons.prems m qr
      by (auto simp: numbered_append carries_def)
    have len: "replicate (length qs - 1) None @ None # replicate (length rs - 1) None = replicate (length ps - 1) (None :: bytes option)"
    proof -
      obtain k l where "length qs = Suc k" "length rs = Suc l" using ne by (metis length_0_conv not0_implies_Suc)
      then show ?thesis by (simp add: qr replicate_add replicate_app_Cons_same)
    qed
    from 1 2 len show ?thesis
      by (intro exI [of _ fb2]) (simp add: qr(1) feed_append add.assoc [symmetric])
  qed
qed simp

text \<open>The first packet after a marker fixes the timestamp of the access unit.\<close>

lemma armed_step:
  "\<not> pkt_marker p \<Longrightarrow> au_process_packet p (armed s nd buf)
     = au_process_packet p (synced s (pkt_timestamp p) (fragmentation_buffer nd) buf)"
  by (cases nd) (simp add: au_process_packet_def armed_def synced_def)

lemma armed_feed:
  assumes "numbered s ts ps" "last_marked True ps" "2 \<le> length ps"
  shows "feed ps (armed s nd buf) = feed ps (synced s ts (fragmentation_buffer nd) buf)"
proof -
  from assms(3) obtain p q ps' where ps: "ps = p # q # ps'"
    by (cases ps; cases "tl ps") auto
  with assms show ?thesis by (simp add: armed_step last_marked_def unmarked_def)
qed

text \<open>A decoder that is between access units: new, or after it lost its place.\<close>

lemma marker_arms:
  "pkt_marker m \<Longrightarrow> au_timestamp d = None \<Longrightarrow>
     au_process_packet m d = Inr (None, armed (pkt_sequence_number m) (au_nal_decoder d) (internal_buffer d @ [0]))"
  by (cases d) (simp add: au_process_packet_def armed_def)

lemma marked_feed:
  assumes "pkt_marker m" "au_timestamp d = None" "numbered (pkt_sequence_number m) ts ps" "last_marked True ps" "2 \<le> length ps"
    and "us \<noteq> []" "carries us ps"
  shows "\<exists>fb. feed (m # ps) d = Inr (None # replicate (length ps - 1) None
       @ [Some (internal_buffer d @ 0 # concat (map (\<lambda>u. annexb (nal_of u)) us))],
     synced (pkt_sequence_number m + of_nat (length ps)) ts fb [])"
  using feed_units [OF assms(6,3,4,7), of "fragmentation_buffer (au_nal_decoder d)" "internal_buffer d @ [0]"]
    marker_arms [OF assms(1,2)] armed_feed [OF assms(3-5), of "au_nal_decoder d" "internal_buffer d @ [0]"]
  by auto

text \<open>C23. An access unit of at least two packets is reassembled when the marker before it met a decoder that
  had no access unit in progress, a new one or one that lost its place (for the unit that follows a decoded
  one see \<open>next_access_unit_skipped\<close>): fed that marker packet with sequence number \<open>s\<close> and then the packets of the access unit,
  consecutive after \<open>s\<close> modulo \<open>2^16\<close>, with one timestamp and the marker on the last, the decoder returns
  nothing until the last packet and then what its buffer held, a zero byte and the NAL units in order in
  Annex B form, whole and fragmented ones alike; the buffer is then empty.\<close>

theorem access_unit_reassembled:
  assumes "pkt_marker m" "au_timestamp d = None" "numbered (pkt_sequence_number m) ts ps" "last_marked True ps" "2 \<le> length ps"
    and "us \<noteq> []" "carries us ps"
  shows "\<exists>d'. feed (m # ps) d = Inr (None # replicate (length ps - 1) None
       @ [Some (internal_buffer d @ 0 # concat (map (\<lambda>u. annexb (nal_of u)) us))], d') \<and> internal_buffer d' = []"
  using marked_feed [OF assms] by (auto simp: synced_def)

text \<open>Sample packets: a sequence parameter set and a slice in two fragments, across the wrap-around.\<close>

definition sample_packet :: "bool \<Rightarrow> u16 \<Rightarrow> u32 \<Rightarrow> bytes \<Rightarrow> rtp_packet" where
  "sample_packet m n ts pl = \<lparr>pkt_marker = m, pkt_version = 2, pkt_padding = False, pkt_extension = False,
     pkt_csrc_count = 0, pkt_payload_type = 96, pkt_sequence_number = n, pkt_timestamp = ts, pkt_ssrc = 1,
     pkt_csrc = [], pkt_payload = pl\<rparr>"

definition sample_unit :: "rtp_packet list" where
  "sample_unit = [sample_packet False 0 90 [0x67, 0x42], sample_packet False 1 90 (fragment True False 0x65 [1, 2]),
     sample_packet True 2 90 (fragment False True 0x65 [3])]"

lemma sample_unit_props:
  "numbered 0xFFFF 90 sample_unit" "last_marked True sample_unit"
  "carries [Whole [0x67, 0x42], Fragments 0x65 [1, 2] [] [3]] sample_unit"
  by (simp_all add: sample_unit_def sample_packet_def last_marked_def unmarked_def carries_def)

theorem access_unit_reassembled_witness:
  "\<exists>d. feed (sample_packet True 0xFFFF 80 [0x41] # sample_unit) access_unit_decoder_new =
     Inr ([None, None, None, Some [0, 0, 0, 0, 1, 0x67, 0x42, 0, 0, 1, 0x65, 1, 2, 3]], d)"
  using access_unit_reassembled [of "sample_packet True 0xFFFF 80 [0x41]" access_unit_decoder_new 90 sample_unit
      "[Whole [0x67, 0x42], Fragments 0x65 [1, 2] [] [3]]"] sample_unit_props
  by (auto simp: sample_packet_def sample_unit_def annexb_def access_unit_decoder_new_def)

section \<open>Between access units\<close>

definition decoder_reset :: access_unit_decoder where
  "decoder_reset = \<lparr>last_seq = None, au_timestamp = None, au_nal_decoder = nal_decoder_new,
     internal_buffer = [], is_loopback = False\<rparr>"

lemma step_out_of_sync:
  "\<not> pkt_marker p \<Longrightarrow> au_process_packet p decoder_reset = Inr (None, decoder_reset)"
  by (simp add: au_process_packet_def decoder_reset_def get_nal_def next_in_seq_def Let_def)

lemma step_resync:
  "pkt_marker p \<Longrightarrow> au_process_packet p decoder_reset = Inr (None, armed (pkt_sequence_number p) nal_decoder_new [0])"
  by (simp add: au_process_packet_def decoder_reset_def armed_def)

lemma step_other_timestamp:
  "pkt_timestamp p \<noteq> ts \<Longrightarrow> au_process_packet p (synced s ts fb buf) = Inr (None, decoder_reset)"
  by (simp add: au_process_packet_def synced_def decoder_reset_def get_nal_def Let_def)

lemma feed_out_of_sync:
  "last_marked True ps \<Longrightarrow> feed ps decoder_reset =
     Inr (replicate (length ps) None, armed (pkt_sequence_number (last ps)) nal_decoder_new [0])"
proof (induction ps)
  case (Cons p ps)
  then show ?case
    by (cases "ps = []") (auto simp: last_marked_def unmarked_def step_resync step_out_of_sync)
qed (simp add: last_marked_def)

lemma numbered_last: "numbered s ts ps \<Longrightarrow> ps \<noteq> [] \<Longrightarrow> pkt_sequence_number (last ps) = s + of_nat (length ps)"
  by (induction ps arbitrary: s) (auto simp: algebra_simps)

lemma feed_skipped:
  assumes "numbered s ts' ps" "last_marked True ps" "2 \<le> length ps" "ts' \<noteq> ts"
  shows "feed ps (synced s ts fb []) = Inr (replicate (length ps) None, armed (s + of_nat (length ps)) nal_decoder_new [0])"
proof -
  from assms(3) obtain p qs where ps: "ps = p # qs" "qs \<noteq> []" by (cases ps; cases "tl ps") auto
  moreover have "last_marked True qs" using assms(2) ps by (auto simp: last_marked_def unmarked_def)
  ultimately show ?thesis
    using assms(1,4) step_other_timestamp [of p ts s fb "[]"] feed_out_of_sync [of qs] numbered_last [OF assms(1)] by simp
qed

text \<open>C38. The access unit right after a decoded one is lost. Of three access units that follow each other,
  each of at least two packets, the second with another timestamp than the first, the decoder returns the
  first and the third, and nothing for the second, whatever it carries: the timestamp of the first is kept
  when the first is returned, so the first packet of the second is a mismatch, which resets the decoder, and
  its marker only arms the decoder for the third.\<close>

theorem next_access_unit_skipped:
  assumes "pkt_marker m" "au_timestamp d = None"
    and "numbered (pkt_sequence_number m) ts ps" "last_marked True ps" "2 \<le> length ps" "us \<noteq> []" "carries us ps"
    and "numbered (pkt_sequence_number m + of_nat (length ps)) ts' ps'" "last_marked True ps'" "2 \<le> length ps'" "ts' \<noteq> ts"
    and "numbered (pkt_sequence_number m + of_nat (length ps) + of_nat (length ps')) ts'' ps''" "last_marked True ps''"
      "2 \<le> length ps''" "us'' \<noteq> []" "carries us'' ps''"
  shows "\<exists>d'. feed (m # ps @ ps' @ ps'') d = Inr (
     (None # replicate (length ps - 1) None @ [Some (internal_buffer d @ 0 # concat (map (\<lambda>u. annexb (nal_of u)) us))])
       @ replicate (length ps') None
       @ replicate (length ps'' - 1) None @ [Some (0 # concat (map (\<lambda>u. annexb (nal_of u)) us''))], d')"
proof -
  let ?s = "pkt_sequence_number m + of_nat (length ps)"
  obtain fb where 1: "feed (m # ps) d = Inr (None # replicate (length ps - 1) None
       @ [Some (internal_buffer d @ 0 # concat (map (\<lambda>u. annexb (nal_of u)) us))], synced ?s ts fb [])"
    using marked_feed [OF assms(1-7)] by blast
  note 2 = feed_skipped [OF assms(8-11), of fb]
  obtain d' where 3: "feed ps'' (armed (?s + of_nat (length ps')) nal_decoder_new [0])
      = Inr (replicate (length ps'' - 1) None @ [Some (0 # concat (map (\<lambda>u. annexb (nal_of u)) us''))], d')"
    using feed_units [OF assms(15,12,13,16), of "fragmentation_buffer nal_decoder_new" "[0]"]
      armed_feed [OF assms(12-14), of nal_decoder_new "[0]"] by auto
  have "feed (m # ps @ ps' @ ps'') d = feed ((m # ps) @ ps' @ ps'') d" by simp
  then show ?thesis unfolding feed_append 1 by (simp add: 2 3)
qed

text \<open>Two more access units, of two packets each.\<close>

definition sample_next :: "u16 \<Rightarrow> u32 \<Rightarrow> rtp_packet list" where
  "sample_next n ts = [sample_packet False n ts [0x68, 7], sample_packet True (n + 1) ts [0x65, 9]]"

lemma sample_next_props:
  "numbered n ts (sample_next (n + 1) ts)" "last_marked True (sample_next n ts)"
  "carries [Whole [0x68, 7], Whole [0x65, 9]] (sample_next n ts)"
  by (simp_all add: sample_next_def sample_packet_def last_marked_def unmarked_def carries_def)

theorem next_access_unit_skipped_witness:
  "\<exists>d. feed (sample_packet True 0xFFFF 80 [0x41] # sample_unit @ sample_next 3 91 @ sample_next 5 92) access_unit_decoder_new =
     Inr ([None, None, None, Some [0, 0, 0, 0, 1, 0x67, 0x42, 0, 0, 1, 0x65, 1, 2, 3], None, None,
           None, Some [0, 0, 0, 0, 1, 0x68, 7, 0, 0, 1, 0x65, 9]], d)"
  using next_access_unit_skipped [of "sample_packet True 0xFFFF 80 [0x41]" access_unit_decoder_new 90 sample_unit
      "[Whole [0x67, 0x42], Fragments 0x65 [1, 2] [] [3]]" 91 "sample_next 3 91" 92 "sample_next 5 92" "[Whole [0x68, 7], Whole [0x65, 9]]"]
    sample_unit_props sample_next_props [of 2 91] sample_next_props [of 4 92]
  by (auto simp: sample_packet_def sample_unit_def sample_next_def last_marked_def unmarked_def carries_def annexb_def
      access_unit_decoder_new_def)

text \<open>C39. A stream whose access units are single packets, each with the marker, never yields an access
  unit: every packet is taken for the end of an access unit that was joined half way, and the internal
  buffer grows by one byte per packet without bound.\<close>

theorem single_packet_units_never_decoded:
  assumes "list_all pkt_marker ps"
  shows "\<exists>d. feed ps access_unit_decoder_new = Inr (replicate (length ps) None, d)
     \<and> internal_buffer d = replicate (length ps) 0"
proof -
  have "\<exists>d'. feed ps d = Inr (replicate (length ps) None, d') \<and> internal_buffer d' = internal_buffer d @ replicate (length ps) 0"
    if "au_timestamp d = None" for d
    using assms that
  proof (induction ps arbitrary: d)
    case (Cons p ps)
    let ?d = "d\<lparr>last_seq := Some (pkt_sequence_number p), is_loopback := True, internal_buffer := internal_buffer d @ [0]\<rparr>"
    have "au_process_packet p d = Inr (None, ?d)" using Cons.prems by (simp add: au_process_packet_def)
    with Cons.IH [of ?d] Cons.prems show ?case by auto
  qed simp
  from this [of access_unit_decoder_new] show ?thesis by (simp add: access_unit_decoder_new_def)
qed

theorem single_packet_units_never_decoded_witness:
  "\<exists>d. feed [sample_packet True 1 80 [0x65, 1], sample_packet True 2 90 [0x65, 2]] access_unit_decoder_new
     = Inr ([None, None], d) \<and> internal_buffer d = [0, 0]"
  using single_packet_units_never_decoded [of "[sample_packet True 1 80 [0x65, 1], sample_packet True 2 90 [0x65, 2]]"]
  by (simp add: sample_packet_def numeral_2_eq_2)

section \<open>Panics\<close>

text \<open>A payload the decoder accepts in every state: not empty, and at least one byte of data behind
  the two header bytes of a fragment.\<close>

definition payload_safe :: "bytes \<Rightarrow> bool" where
  "payload_safe pl \<longleftrightarrow> pl \<noteq> [] \<and> (hd pl AND 0b00011111 = 28 \<longrightarrow> 3 \<le> length pl)"

text \<open>Exactly when the decoder panics: the packet is the next of the access unit in progress, or the first of one, and
  its payload is empty, is the lone first byte of a fragment, or is an empty last fragment with nothing
  before it.\<close>

definition payload_chokes :: "bytes \<Rightarrow> bytes \<Rightarrow> bool" where
  "payload_chokes pl fb \<longleftrightarrow> pl = [] \<or>
     (\<not> bit (hd pl) 7 \<and> hd pl AND 0b00011111 = 28
      \<and> (length pl = 1 \<or> length pl = 2 \<and> fb = [] \<and> \<not> bit (pl ! 1) 7 \<and> bit (pl ! 1) 6))"

definition au_chokes :: "rtp_packet \<Rightarrow> access_unit_decoder \<Rightarrow> bool" where
  "au_chokes p d \<longleftrightarrow> \<not> (pkt_marker p \<and> au_timestamp d = None) \<and> next_in_seq (last_seq d) (pkt_sequence_number p)
     \<and> (is_loopback d \<or> au_timestamp d = Some (pkt_timestamp p))
     \<and> payload_chokes (pkt_payload p) (fragmentation_buffer (au_nal_decoder d))"

text \<open>Decoding such a payload panics, or yields an empty NAL unit, which cannot be appended.\<close>

lemma decode_chokes:
  "payload_chokes (pkt_payload p) (fragmentation_buffer nd) \<longleftrightarrow>
     (\<forall>n nd'. decode_nal_unit p nd = Inr (n, nd') \<longrightarrow> n = Some [])"
proof (cases "pkt_payload p")
  case (Cons h u)
  have fu: "payload_type_try_from (h AND 0b00011111) = Inr FU_A \<longleftrightarrow> h AND 0b00011111 = 28"
    and nu: "payload_type_try_from (h AND 0b00011111) = Inr NALUnitPT \<longleftrightarrow> 1 \<le> h AND 0b00011111 \<and> h AND 0b00011111 \<le> 23"
    by (auto simp: payload_type_try_from_def)
  show ?thesis
    using Cons fu nu
    by (cases u)
      (auto simp: payload_chokes_def decode_nal_unit_def get_nal_packet_def index_at_def slice_from_def
        nal_unit_header_try_from_def nal_fragmentation_header_try_from_def Let_def u8_top_bits bind_res_def
        split: sum.splits nal_payload_type.splits if_splits)
qed (simp add: payload_chokes_def decode_nal_unit_def get_nal_packet_def index_at_def)

lemma au_process_packet_ok_iff: "is_ok (au_process_packet p d) \<longleftrightarrow> \<not> au_chokes p d"
proof -
  define d1 where "d1 = (if is_loopback d then d\<lparr>au_timestamp := Some (pkt_timestamp p), is_loopback := False\<rparr> else d)"
  have d1: "last_seq d1 = last_seq d" "au_nal_decoder d1 = au_nal_decoder d"
      "au_timestamp d1 = Some (pkt_timestamp p) \<longleftrightarrow> is_loopback d \<or> au_timestamp d = Some (pkt_timestamp p)"
    by (simp_all add: d1_def)
  show ?thesis
  proof (cases "\<not> (pkt_marker p \<and> au_timestamp d = None) \<and> next_in_seq (last_seq d) (pkt_sequence_number p)
      \<and> au_timestamp d1 = Some (pkt_timestamp p)")
    case False
    then show ?thesis
      using d1 by (auto simp: au_chokes_def au_process_packet_def get_nal_def Let_def simp flip: d1_def)
  next
    case True
    then have c: "au_chokes p d \<longleftrightarrow> (\<forall>n nd'. decode_nal_unit p (au_nal_decoder d) = Inr (n, nd') \<longrightarrow> n = Some [])"
      using d1 decode_chokes [of p "au_nal_decoder d"] by (simp add: au_chokes_def)
    show ?thesis
    proof (cases "decode_nal_unit p (au_nal_decoder d)")
      case (Inl e)
      with True d1 c show ?thesis by (auto simp: au_process_packet_def get_nal_def Let_def simp flip: d1_def)
    next
      case (Inr r)
      then obtain n nd' where r: "decode_nal_unit p (au_nal_decoder d) = Inr (n, nd')" by (cases r) auto
      then have "au_chokes p d \<longleftrightarrow> n = Some []" using c by simp
      moreover have "is_ok (au_process_packet p d) \<longleftrightarrow> n \<noteq> Some []"
        using True d1(1,2) r
        by (cases n; cases "the n") (auto simp: au_process_packet_def get_nal_def Let_def append_nal_def index_at_def simp flip: d1_def)
      ultimately show ?thesis by blast
    qed
  qed
qed

lemma au_process_packet_safe:
  "payload_safe (pkt_payload p) \<Longrightarrow> is_ok (au_process_packet p d)"
  by (auto simp: au_process_packet_ok_iff au_chokes_def payload_chokes_def payload_safe_def)

text \<open>C32. A packet whose payload is not empty, and which holds at least one byte of data if it is a
  fragment, never makes the decoder panic, whatever state it is in.\<close>

theorem au_process_packet_total:
  assumes "payload_safe (pkt_payload p)"
  shows "is_ok (au_process_packet p d)"
  by (rule au_process_packet_safe [OF assms])

theorem au_process_packet_total_witness:
  "is_ok (au_process_packet (sample_packet False 1 80 [28, 0x80, 1]) (synced 0 80 [] []))"
  using au_process_packet_total [of "sample_packet False 1 80 [28, 0x80, 1]" "synced 0 80 [] []"]
  by (simp add: payload_safe_def sample_packet_def)

end
