(* ===== verification/Extractor.thy ===== *)
theory Extractor
  imports Access_Unit_Props
begin

text \<open>
  The thumbnail extractor (\<open>extractor.rs\<close>) and the RTP dump reader of the crate's tests
  (\<open>rtp_dump.rs\<close>). The H.264 decoder and the NAL splitter belong to the \<open>openh264\<close> crate: the
  decoder's state is a type parameter, decoding one NAL unit and splitting a stream are arguments.
\<close>

record image_data =
  data_buffer :: bytes
  img_width :: u16
  img_height :: u16

text \<open>A decoded picture, as \<open>dimensions()\<close> and \<open>write_rgb8\<close> give it.\<close>

record yuv_picture =
  yuv_width :: nat
  yuv_height :: nat
  yuv_rgb8 :: bytes

text \<open>One call of the decoder: an error, or a picture or none, and the decoder after it.\<close>

type_synonym 'dec h264 = "bytes \<Rightarrow> 'dec \<Rightarrow> (unit + yuv_picture option) \<times> 'dec"

record 'dec thumbnail_extractor =
  last_picture :: "image_data option"
  au_decoder :: access_unit_decoder
  h264_decoder :: 'dec

text \<open>An extractor around a decoder that did initialise; \<open>new\<close> panics (\<open>expect\<close>) when it did not.\<close>

definition extractor_with :: "image_data option \<Rightarrow> 'dec \<Rightarrow> 'dec thumbnail_extractor" where
  "extractor_with pic dec = \<lparr>last_picture = pic, au_decoder = access_unit_decoder_new, h264_decoder = dec\<rparr>"

definition extractor_new :: "'dec option \<Rightarrow> panic + 'dec thumbnail_extractor" where
  "extractor_new dec = map_res (extractor_with None) (ok_or UnwrapFailed dec)"

text \<open>\<open>Clone\<close> keeps the picture and starts new decoders, with the same panic.\<close>

definition extractor_clone :: "'dec option \<Rightarrow> 'dec thumbnail_extractor \<Rightarrow> panic + 'dec thumbnail_extractor" where
  "extractor_clone dec e = map_res (extractor_with (last_picture e)) (ok_or UnwrapFailed dec)"

text \<open>The loop over the NAL units of an access unit: it ends at the first picture.\<close>

fun decode_nals :: "'dec h264 \<Rightarrow> bytes list \<Rightarrow> 'dec thumbnail_extractor \<Rightarrow> unit option \<times> 'dec thumbnail_extractor" where
  "decode_nals decode [] e = (None, e)"
| "decode_nals decode (nal # nals) e =
     (case decode nal (h264_decoder e) of
        (Inr (Some y), dec) \<Rightarrow>
          (Some (), e\<lparr>h264_decoder := dec,
             last_picture := Some \<lparr>data_buffer = yuv_rgb8 y, img_width = of_nat (yuv_width y),
                                   img_height = of_nat (yuv_height y)\<rparr>\<rparr>)
      | (_, dec) \<Rightarrow> decode_nals decode nals (e\<lparr>h264_decoder := dec\<rparr>))"

definition try_extract_thumbnail ::
    "'dec h264 \<Rightarrow> (bytes \<Rightarrow> bytes list) \<Rightarrow> bytes \<Rightarrow> 'dec thumbnail_extractor
       \<Rightarrow> panic + (unit option \<times> 'dec thumbnail_extractor)" where
  "try_extract_thumbnail decode nal_units buffer e =
     (case rtp_packet_try_from buffer of
        Inl _ \<Rightarrow> Inr (None, e)
      | Inr p \<Rightarrow>
          bind_res (au_process_packet p (au_decoder e)) (\<lambda>(au, d).
          let e1 = e\<lparr>au_decoder := d\<rparr> in
          case au of None \<Rightarrow> Inr (None, e1) | Some access_unit \<Rightarrow> Inr (decode_nals decode (nal_units access_unit) e1)))"

section \<open>The RTP dump reader\<close>

definition RTP_DUMP_HEADER_LEN :: nat where "RTP_DUMP_HEADER_LEN = 28"
definition RD_HEADER_LEN :: nat where "RD_HEADER_LEN = 16"

record rt_header =
  rtp_length :: u16

definition get_rt_header :: "bytes \<Rightarrow> panic + rt_header" where
  "get_rt_header buffer =
     (if length buffer < 4 then Inl OutOfBounds else Inr \<lparr>rtp_length = rd16 (buffer ! 2) (buffer ! 3)\<rparr>)"

text \<open>The record loop with what is done to each record; a header that cannot be read in full ends it.\<close>

function dump_records :: "(bytes \<Rightarrow> panic + 'r) \<Rightarrow> bytes \<Rightarrow> panic + 'r list" where
  "dump_records f bs = (case read_exact 8 bs of
       None \<Rightarrow> Inr []
     | Some (hdr, bs1) \<Rightarrow>
         bind_res (get_rt_header hdr) (\<lambda>h.
         bind_res (ok_or UnwrapFailed (read_exact (unat (rtp_length h)) bs1)) (\<lambda>val_bs.
         bind_res (f (fst val_bs)) (\<lambda>r.
         bind_res (dump_records f (snd val_bs)) (\<lambda>rest. Inr (r # rest))))))"
  by pat_completeness auto
termination
  by (relation "measure (\<lambda>(_, bs). length bs)") (auto simp: ok_or_eq_Inr dest!: read_exact_length)

declare dump_records.simps [simp del]

definition read_dump :: "(bytes \<Rightarrow> panic + 'r) \<Rightarrow> bytes \<Rightarrow> panic + 'r list" where
  "read_dump f file =
     bind_res (ok_or UnwrapFailed (read_exact (RTP_DUMP_HEADER_LEN + RD_HEADER_LEN) file)) (\<lambda>hdr_bs.
       dump_records f (snd hdr_bs))"

definition get_rtp_packets_raw :: "bytes \<Rightarrow> panic + bytes list" where
  "get_rtp_packets_raw file = read_dump Inr file"

definition get_rtp_packets :: "bytes \<Rightarrow> panic + rtp_packet list" where
  "get_rtp_packets file = read_dump (\<lambda>b. case rtp_packet_try_from b of Inl _ \<Rightarrow> Inl UnwrapFailed | Inr p \<Rightarrow> Inr p) file"

section \<open>RTP packets on the wire\<close>

text \<open>The bytes of a packet, and the packets they can carry.\<close>

definition rtp_bytes :: "rtp_packet \<Rightarrow> bytes" where
  "rtp_bytes p =
     [push_bit 6 (pkt_version p) OR (if pkt_padding p then 0x20 else 0) OR (if pkt_extension p then 0x10 else 0)
        OR pkt_csrc_count p,
      (if pkt_marker p then 0x80 else 0) OR pkt_payload_type p]
     @ be16 (pkt_sequence_number p) @ be32 (pkt_timestamp p) @ be32 (pkt_ssrc p)
     @ concat (map be32 (pkt_csrc p)) @ pkt_payload p"

definition valid_rtp :: "rtp_packet \<Rightarrow> bool" where
  "valid_rtp p \<longleftrightarrow> pkt_version p < 4 \<and> pkt_payload_type p < 128 \<and> pkt_csrc_count p < 16
     \<and> length (pkt_csrc p) = unat (pkt_csrc_count p) \<and> length (pkt_payload p) \<le> 3000"

lemma bit_below: "(w :: u8) < 2 ^ k \<Longrightarrow> k < 8 \<Longrightarrow> bit w n \<Longrightarrow> n < k"
proof -
  assume "w < 2 ^ k" "k < 8" "bit w n"
  have "(2 :: nat) ^ k < 2 ^ 8" using \<open>k < 8\<close> by (intro power_strict_increasing) auto
  then have "unat ((2 :: u8) ^ k) = 2 ^ k" using unat_of_nat [of "2 ^ k", where 'a = 8] by simp
  then have "unat w < 2 ^ k" using \<open>w < 2 ^ k\<close> by (simp add: word_less_nat_alt)
  moreover have "bit (unat w) n" using \<open>bit w n\<close> by (simp add: bit_unsigned_iff)
  then have "2 ^ n \<le> unat w" by (metis bit_iff_odd div_less even_zero not_le)
  ultimately show "n < k" by (meson le_less_trans one_less_numeral_iff power_less_imp_less_exp semiring_norm(76))
qed

lemma read_csrcs_bytes: "read_csrcs (length cs) (concat (map be32 cs) @ bs) = Inr (cs, bs)"
  by (induction cs) simp_all

lemma second_octet:
  assumes "pt < (128 :: u8)"
  shows "bit ((if m then 0x80 else 0) OR pt) 7 = m" "((if m then 0x80 else 0) OR pt) AND 0b01111111 = pt"
proof -
  have b: "\<not> bit pt 7" using bit_below [of pt 7 7] assms by auto
  then show "bit ((if m then 0x80 else 0) OR pt) 7 = m" by (simp add: bit_simps)
  show "((if m then 0x80 else 0) OR pt) AND 0b01111111 = pt"
    by (rule u8_eqI) (simp add: bit_simps b)
qed

lemma first_octet:
  fixes v cc :: u8 and p e :: bool
  assumes "v < 4" "cc < 16"
  defines "x \<equiv> push_bit 6 v OR (if p then 0x20 else 0) OR (if e then 0x10 else 0) OR cc"
  shows "x AND 0b00001111 = cc" "drop_bit 6 (x AND 0b11000000) = v" "bit x 5 = p" "bit x 4 = e"
proof -
  have v: "\<not> bit v 2" "\<not> bit v 3" "\<not> bit v 4" "\<not> bit v 5" "\<not> bit v 6" "\<not> bit v 7"
    using bit_below [of v 2] assms(1) by fastforce+
  have c: "\<not> bit cc 4" "\<not> bit cc 5" "\<not> bit cc 6" "\<not> bit cc 7"
    using bit_below [of cc 4] assms(2) by fastforce+
  show "x AND 0b00001111 = cc" unfolding x_def by (rule u8_eqI) (simp add: bit_simps v c)
  show "drop_bit 6 (x AND 0b11000000) = v" unfolding x_def by (rule u8_eqI) (simp add: bit_simps v c)
  show "bit x 5 = p" "bit x 4 = e" unfolding x_def by (simp_all add: bit_simps v c)
qed

lemma rtp_roundtrip:
  assumes "valid_rtp p"
  shows "rtp_packet_try_from (rtp_bytes p) = Inr p"
proof -
  note v = assms [unfolded valid_rtp_def]
  note o1 = first_octet [of "pkt_version p" "pkt_csrc_count p" "pkt_padding p" "pkt_extension p"]
  note o2 = second_octet [of "pkt_payload_type p" "pkt_marker p"]
  have cs: "read_csrcs (unat (pkt_csrc_count p)) (concat (map be32 (pkt_csrc p)) @ pkt_payload p) = Inr (pkt_csrc p, pkt_payload p)"
    using read_csrcs_bytes [of "pkt_csrc p" "pkt_payload p"] v by simp
  show ?thesis
    using v o1 o2 cs
    by (simp add: rtp_packet_try_from_def rtp_bytes_def Let_def u8_flag del: word_bw_lcs drop_bit_and)
qed

interpretation rtp_wire: codec "\<lambda>p. Inr (rtp_bytes p)" rtp_packet_try_from valid_rtp
  by unfold_locales (auto simp: rtp_roundtrip)

text \<open>C29. Every RTP packet with at most fifteen contributing sources and at most 3000 bytes of payload is
  read back from its wire form field by field: version, flags, marker, payload type, sequence number,
  timestamp, sources and payload.\<close>

theorem rtp_packet_roundtrip:
  assumes "valid_rtp p"
  shows "rtp_packet_try_from (rtp_bytes p) = Inr p"
  using rtp_wire.parse_print [OF assms] by simp

theorem rtp_packet_roundtrip_witness:
  "rtp_packet_try_from (rtp_bytes (sample_packet True 7 90 [0x65, 1])) = Inr (sample_packet True 7 90 [0x65, 1])"
  using rtp_packet_roundtrip [of "sample_packet True 7 90 [0x65, 1]"]
  by (simp add: valid_rtp_def sample_packet_def)

section \<open>What the extractor guarantees\<close>

text \<open>Packets the extractor can be given safely.\<close>

definition rtp_safe :: "bytes \<Rightarrow> bool" where
  "rtp_safe b \<longleftrightarrow> (case rtp_packet_try_from b of Inl _ \<Rightarrow> True | Inr p \<Rightarrow> payload_safe (pkt_payload p))"

definition picture_of :: "yuv_picture \<Rightarrow> image_data" where
  "picture_of y = \<lparr>data_buffer = yuv_rgb8 y, img_width = of_nat (yuv_width y), img_height = of_nat (yuv_height y)\<rparr>"

lemma decode_nals_picture:
  "decode_nals decode nals e = (r, e') \<Longrightarrow>
     (r = None \<longrightarrow> last_picture e' = last_picture e) \<and>
     (r \<noteq> None \<longrightarrow> (\<exists>nal \<in> set nals. \<exists>dec y. fst (decode nal dec) = Inr (Some y) \<and> last_picture e' = Some (picture_of y)))"
proof (induction nals arbitrary: e)
  case (Cons nal nals)
  obtain o1 dec where d: "decode nal (h264_decoder e) = (o1, dec)" by fastforce
  note ih = Cons.IH [of "e\<lparr>h264_decoder := dec\<rparr>"]
  show ?case
  proof (cases "\<exists>y. o1 = Inr (Some y)")
    case True
    with Cons.prems d show ?thesis by (auto simp: picture_of_def intro!: exI [of _ "h264_decoder e"])
  next
    case False
    with Cons.prems d have "decode_nals decode nals (e\<lparr>h264_decoder := dec\<rparr>) = (r, e')"
      by (auto split: sum.splits option.splits)
    from ih [OF this] show ?thesis by auto
  qed
qed simp

text \<open>The picture kept for the thumbnail changes only to a picture the H.264 decoder produced from a
  NAL unit of an access unit this packet completed; whenever the call does not report a new picture the
  old one is kept.\<close>

theorem try_extract_thumbnail_picture:
  assumes "try_extract_thumbnail decode nal_units buffer e = Inr (r, e')"
  shows "case r of
     None \<Rightarrow> last_picture e' = last_picture e
   | Some _ \<Rightarrow> \<exists>p au d nal dec y. rtp_packet_try_from buffer = Inr p \<and>
        au_process_packet p (au_decoder e) = Inr (Some au, d) \<and> nal \<in> set (nal_units au) \<and>
        fst (decode nal dec) = Inr (Some y) \<and> last_picture e' = Some (picture_of y)"
proof (cases "rtp_packet_try_from buffer")
  case (Inl a)
  with assms show ?thesis by (auto simp: try_extract_thumbnail_def)
next
  case (Inr p)
  with assms obtain au d where a: "au_process_packet p (au_decoder e) = Inr (au, d)"
    by (auto simp: try_extract_thumbnail_def bind_res_eq_Inr)
  show ?thesis
  proof (cases au)
    case None
    with a Inr assms show ?thesis by (auto simp: try_extract_thumbnail_def)
  next
    case (Some x)
    with a Inr assms have "decode_nals decode (nal_units x) (e\<lparr>au_decoder := d\<rparr>) = (r, e')"
      by (simp add: try_extract_thumbnail_def)
    from decode_nals_picture [OF this] a Inr Some show ?thesis
      by (auto split: option.splits)
  qed
qed

theorem try_extract_thumbnail_picture_witness:
  "\<exists>e'. try_extract_thumbnail (\<lambda>nal dec. (Inr None, dec)) (\<lambda>au. [au]) (rtp_bytes (sample_packet True 7 90 [0x65]))
      (extractor_with None ()) = Inr (None, e') \<and> last_picture e' = None"
proof -
  let ?p = "sample_packet True 7 90 [0x65]" and ?e = "extractor_with None ()"
  have r: "rtp_packet_try_from (rtp_bytes ?p) = Inr ?p"
    by (rule rtp_roundtrip) (simp add: valid_rtp_def sample_packet_def)
  then obtain e' where *: "try_extract_thumbnail (\<lambda>nal dec. (Inr None, dec)) (\<lambda>au. [au]) (rtp_bytes ?p) ?e = Inr (None, e')"
    by (simp add: try_extract_thumbnail_def au_process_packet_def sample_packet_def extractor_with_def
        access_unit_decoder_new_def)
  from try_extract_thumbnail_picture [OF this] have "last_picture e' = None"
    by (simp add: extractor_with_def)
  with * show ?thesis by blast
qed

text \<open>Exactly when the extractor panics: the packet can be read and makes the decoder panic.\<close>

definition extraction_chokes :: "bytes \<Rightarrow> 'dec thumbnail_extractor \<Rightarrow> bool" where
  "extraction_chokes buffer e \<longleftrightarrow> (case rtp_packet_try_from buffer of Inl _ \<Rightarrow> False | Inr p \<Rightarrow> au_chokes p (au_decoder e))"

lemma try_extract_thumbnail_ok_iff:
  "is_ok (try_extract_thumbnail decode nal_units buffer e) \<longleftrightarrow> \<not> extraction_chokes buffer e"
proof (cases "rtp_packet_try_from buffer")
  case (Inr p)
  show ?thesis
    using au_process_packet_ok_iff [of p "au_decoder e"] Inr
    by (cases "au_process_packet p (au_decoder e)")
      (auto simp: try_extract_thumbnail_def extraction_chokes_def Let_def split: option.split)
qed (simp add: try_extract_thumbnail_def extraction_chokes_def)

lemma rtp_safe_extracts: "rtp_safe buffer \<Longrightarrow> \<not> extraction_chokes buffer e"
  using au_process_packet_safe au_process_packet_ok_iff by (fastforce simp: rtp_safe_def extraction_chokes_def split: sum.splits)

section \<open>The dump format\<close>

definition dump_record :: "bytes \<Rightarrow> bytes" where
  "dump_record r = be16 (of_nat (length r + 8)) @ be16 (of_nat (length r)) @ be32 0 @ r"

lemma dump_records_roundtrip:
  assumes "list_all (\<lambda>r. length r < 65536) rs"
  shows "dump_records Inr (concat (map dump_record rs)) = Inr rs"
  using assms
proof (induction rs)
  case Nil
  then show ?case by (simp add: dump_records.simps read_exact_def)
next
  case (Cons r rs)
  let ?h = "be16 (of_nat (length r + 8)) @ be16 (of_nat (length r)) @ be32 0"
  have hdr: "read_exact 8 (?h @ r @ concat (map dump_record rs)) = Some (?h, r @ concat (map dump_record rs))"
    using read_exact_append [of ?h 8 "r @ concat (map dump_record rs)"] by simp
  have len: "get_rt_header ?h = Inr \<lparr>rtp_length = of_nat (length r)\<rparr>"
    by (simp add: get_rt_header_def be16_def del: of_nat_add)
  have "unat (of_nat (length r) :: u16) = length r" using Cons.prems by (simp add: unat_of_nat)
  then have "read_exact (unat (of_nat (length r) :: u16)) (r @ concat (map dump_record rs)) = Some (r, concat (map dump_record rs))"
    by simp
  with hdr len Cons show ?case
    by (subst dump_records.simps) (simp add: dump_record_def [of r])
qed

text \<open>The dump reader returns exactly the packets of a well-formed dump: 44 bytes of file header, then
  the records, each behind its eight-byte header.\<close>

lemma get_rtp_packets_raw_roundtrip:
  assumes "length hdr = 44" "list_all (\<lambda>r. length r < 65536) rs"
  shows "get_rtp_packets_raw (hdr @ concat (map dump_record rs)) = Inr rs"
  using dump_records_roundtrip [OF assms(2)] assms(1)
  by (simp add: get_rtp_packets_raw_def read_dump_def RTP_DUMP_HEADER_LEN_def RD_HEADER_LEN_def)

lemma get_rtp_packets_raw_roundtrip_witness:
  "get_rtp_packets_raw (replicate 44 0 @ concat (map dump_record [[1, 2, 3], []])) = Inr [[1, 2, 3], []]"
  using get_rtp_packets_raw_roundtrip [of "replicate 44 0" "[[1, 2, 3], []]"] by simp

end
