(* ===== verification/Sdp_Lines.thy ===== *)
theory Sdp_Lines
  imports Net_Addr
begin

text \<open>
  The SDP line grammar of \<open>crates/sdp/src/line_parsers.rs\<close>: the types of the lines, the printers
  (\<open>From<T> for String\<close>, which panic on the placeholder variants) and the parsers
  (\<open>TryFrom<&str>\<close>, which return an \<open>SDPParseError\<close>). The lemmas show that every printer is
  total on the values the server puts into answers and that the parsers give those values back.
\<close>

section \<open>Types\<close>

datatype sdp_parse_error =
    SequenceError | InvalidDTLSRole | MissingICECredentials | MissingStreamSSRC
  | UnsupportedMediaCodecs | InvalidStreamDirection | InvalidMediaID | BundleRequired
  | MissingVideoCapabilities | DemuxRequired | UnsupportedMediaCount | UnsupportedMediaType
  | UnsupportedMediaProtocol | MalformedAttribute | MalformedMediaDescriptor | MalformedSDPLine

type_synonym 'a sdp_result = "sdp_parse_error + 'a"

record connection_data =
  cd_ip :: ip_addr

datatype media_type = Video | Audio

datatype media_transport_protocol = DtlsSrtp

record media_description =
  md_media_type :: media_type
  md_transport_port :: usize
  md_transport_protocol :: media_transport_protocol
  md_media_format_description :: "usize list"

datatype ice_option = ICE2 | Trickle | UnsupportedICEOption

record originator =
  o_username :: string
  o_session_id :: string
  o_session_version :: string
  o_ip_addr :: ip_addr

record session_time =
  start_time :: usize
  end_time :: usize

record ice_options =
  options :: "ice_option list"

record media_id =
  mid_id :: string

datatype hash_function = SHA256 | UnsupportedHash

record fingerprint =
  hash_function :: hash_function
  hash :: string

datatype video_codec = H264

datatype audio_codec = Opus

datatype media_codec = AudioCodec audio_codec | VideoCodec video_codec | UnsupportedCodec

datatype source_attribute = CNAME string | UnsupportedSource

record media_ssrc =
  ssrc :: u32
  source_attribute :: source_attribute

datatype dtls_setup = ActivePassive | Active | Passive

datatype media_group = Bundle "string list" | LipSync "string list"

record rtp_map =
  rtpmap_codec :: media_codec
  rtpmap_payload_number :: usize

text \<open>\<open>format_capability\<close> is a \<open>HashSet<String>\<close>: a set, without an order of its own.\<close>

record fmtp =
  fmtp_payload_number :: usize
  format_capability :: "string set"

record candidate =
  foundation :: string
  component_id :: usize
  priority :: usize
  connection_address :: ip_addr
  port :: u16

record ice_username =
  username :: string

record ice_password =
  password :: string

datatype attribute =
    UnrecognizedAttr
  | EndOfCandidates
  | ICELite
  | ICEOptionsAttr ice_options
  | SendOnly
  | ReceiveOnly
  | MediaIDAttr media_id
  | ICEUsernameAttr ice_username
  | ICEPasswordAttr ice_password
  | FingerprintAttr fingerprint
  | MediaGroupAttr media_group
  | MediaSSRCAttr media_ssrc
  | RTCPMux
  | RTPMapAttr rtp_map
  | FMTPAttr fmtp
  | SetupAttr dtls_setup
  | CandidateAttr candidate

datatype sdp_line =
    ProtocolVersion string
  | OriginatorLine originator
  | SessionName string
  | SessionTimeLine session_time
  | ConnectionDataLine connection_data
  | AttributeLine attribute
  | MediaDescriptionLine media_description
  | UnrecognizedLine

section \<open>Printers\<close>

fun ip_family :: "ip_addr \<Rightarrow> string" where
  "ip_family (V4 _) = ''IP4''"
| "ip_family (V6 _) = ''IP6''"

definition string_from_connection_data :: "connection_data \<Rightarrow> string" where
  "string_from_connection_data v = ''c=IN '' @ ip_family (cd_ip v) @ '' '' @ show_ip (cd_ip v)"

definition string_from_session_time :: "session_time \<Rightarrow> string" where
  "string_from_session_time v = ''t='' @ show_nat (start_time v) @ '' '' @ show_nat (end_time v)"

definition string_from_ice_username :: "ice_username \<Rightarrow> string" where
  "string_from_ice_username v = ''ice-ufrag:'' @ username v"

definition string_from_ice_password :: "ice_password \<Rightarrow> string" where
  "string_from_ice_password v = ''ice-pwd:'' @ password v"

definition string_from_originator :: "originator \<Rightarrow> string" where
  "string_from_originator v =
     ''o='' @ o_username v @ '' '' @ o_session_id v @ '' '' @ o_session_version v @ '' IN ''
       @ ip_family (o_ip_addr v) @ '' '' @ show_ip (o_ip_addr v)"

fun string_from_ice_option :: "ice_option \<Rightarrow> panic + string" where
  "string_from_ice_option ICE2 = Inr ''ice2''"
| "string_from_ice_option Trickle = Inr ''trickle''"
| "string_from_ice_option UnsupportedICEOption = Inl ExplicitPanic"

definition string_from_ice_options :: "ice_options \<Rightarrow> panic + string" where
  "string_from_ice_options v =
     map_res (\<lambda>opts. ''ice-options:'' @ join '' '' opts) (collect_res string_from_ice_option (options v))"

fun string_from_setup :: "dtls_setup \<Rightarrow> string" where
  "string_from_setup ActivePassive = ''setup:actpass''"
| "string_from_setup Active = ''setup:active''"
| "string_from_setup Passive = ''setup:passive''"

fun string_from_media_type :: "media_type \<Rightarrow> string" where
  "string_from_media_type Video = ''video''"
| "string_from_media_type Audio = ''audio''"

fun string_from_media_transport_protocol :: "media_transport_protocol \<Rightarrow> string" where
  "string_from_media_transport_protocol DtlsSrtp = ''UDP/TLS/RTP/SAVPF''"

definition string_from_media_description :: "media_description \<Rightarrow> string" where
  "string_from_media_description v =
     ''m='' @ string_from_media_type (md_media_type v) @ '' '' @ show_nat (md_transport_port v) @ '' ''
       @ string_from_media_transport_protocol (md_transport_protocol v) @ '' ''
       @ join '' '' (map show_nat (md_media_format_description v))"

definition string_from_media_id :: "media_id \<Rightarrow> string" where
  "string_from_media_id v = ''mid:'' @ mid_id v"

fun string_from_media_group :: "media_group \<Rightarrow> string" where
  "string_from_media_group (Bundle groups) = ''group:BUNDLE '' @ join '' '' groups"
| "string_from_media_group (LipSync groups) = ''group:LS '' @ join '' '' groups"

fun string_from_hash_function :: "hash_function \<Rightarrow> panic + string" where
  "string_from_hash_function SHA256 = Inr ''sha-256''"
| "string_from_hash_function UnsupportedHash = Inl ExplicitPanic"

definition string_from_fingerprint :: "fingerprint \<Rightarrow> panic + string" where
  "string_from_fingerprint v =
     map_res (\<lambda>hf. ''fingerprint:'' @ hf @ '' '' @ hash v) (string_from_hash_function (hash_function v))"

fun string_from_video_codec :: "video_codec \<Rightarrow> string" where
  "string_from_video_codec H264 = ''h264/90000''"

fun string_from_audio_codec :: "audio_codec \<Rightarrow> string" where
  "string_from_audio_codec Opus = ''opus/48000/2''"

fun string_from_media_codec :: "media_codec \<Rightarrow> panic + string" where
  "string_from_media_codec (AudioCodec c) = Inr (string_from_audio_codec c)"
| "string_from_media_codec (VideoCodec c) = Inr (string_from_video_codec c)"
| "string_from_media_codec UnsupportedCodec = Inl ExplicitPanic"

definition string_from_rtp_map :: "rtp_map \<Rightarrow> panic + string" where
  "string_from_rtp_map v =
     map_res (\<lambda>c. ''rtpmap:'' @ show_nat (rtpmap_payload_number v) @ '' '' @ c)
       (string_from_media_codec (rtpmap_codec v))"

fun string_from_source_attribute :: "source_attribute \<Rightarrow> panic + string" where
  "string_from_source_attribute (CNAME cname) = Inr (''cname:'' @ cname)"
| "string_from_source_attribute UnsupportedSource = Inl ExplicitPanic"

definition string_from_media_ssrc :: "media_ssrc \<Rightarrow> panic + string" where
  "string_from_media_ssrc v =
     map_res (\<lambda>a. ''ssrc:'' @ show_nat (unat (ssrc v)) @ '' '' @ a)
       (string_from_source_attribute (source_attribute v))"

text \<open>Printing a \<open>HashSet\<close> walks it in an order the standard library leaves open: the order is
  an argument of the printers.\<close>

type_synonym set_order = "string set \<Rightarrow> string list"

definition string_from_fmtp :: "set_order \<Rightarrow> fmtp \<Rightarrow> string" where
  "string_from_fmtp iter v =
     ''fmtp:'' @ show_nat (fmtp_payload_number v) @ '' '' @ join '';'' (iter (format_capability v))"

definition string_from_candidate :: "candidate \<Rightarrow> string" where
  "string_from_candidate v =
     ''candidate:'' @ foundation v @ '' '' @ show_nat (component_id v) @ '' UDP ''
       @ show_nat (priority v) @ '' '' @ show_ip (connection_address v) @ '' ''
       @ show_nat (unat (port v)) @ '' typ host''"

fun attribute_name :: "set_order \<Rightarrow> attribute \<Rightarrow> panic + string" where
  "attribute_name iter UnrecognizedAttr = Inl ExplicitPanic"
| "attribute_name iter SendOnly = Inr ''sendonly''"
| "attribute_name iter ReceiveOnly = Inr ''recvonly''"
| "attribute_name iter RTCPMux = Inr ''rtcp-mux''"
| "attribute_name iter (MediaIDAttr a) = Inr (string_from_media_id a)"
| "attribute_name iter (ICEUsernameAttr a) = Inr (string_from_ice_username a)"
| "attribute_name iter (ICEPasswordAttr a) = Inr (string_from_ice_password a)"
| "attribute_name iter (FingerprintAttr a) = string_from_fingerprint a"
| "attribute_name iter (MediaGroupAttr a) = Inr (string_from_media_group a)"
| "attribute_name iter (MediaSSRCAttr a) = string_from_media_ssrc a"
| "attribute_name iter (RTPMapAttr a) = string_from_rtp_map a"
| "attribute_name iter (FMTPAttr a) = Inr (string_from_fmtp iter a)"
| "attribute_name iter (CandidateAttr a) = Inr (string_from_candidate a)"
| "attribute_name iter (SetupAttr a) = Inr (string_from_setup a)"
| "attribute_name iter ICELite = Inr ''ice-lite''"
| "attribute_name iter EndOfCandidates = Inr ''end-of-candidates''"
| "attribute_name iter (ICEOptionsAttr a) = string_from_ice_options a"

definition string_from_attribute :: "set_order \<Rightarrow> attribute \<Rightarrow> panic + string" where
  "string_from_attribute iter v = map_res (\<lambda>n. ''a='' @ n) (attribute_name iter v)"

fun string_from_sdp_line :: "set_order \<Rightarrow> sdp_line \<Rightarrow> panic + string" where
  "string_from_sdp_line iter (ProtocolVersion proto) = Inr (''v='' @ proto)"
| "string_from_sdp_line iter (OriginatorLine v) = Inr (string_from_originator v)"
| "string_from_sdp_line iter (SessionName n) = Inr (''s='' @ n)"
| "string_from_sdp_line iter (SessionTimeLine v) = Inr (string_from_session_time v)"
| "string_from_sdp_line iter (ConnectionDataLine v) = Inr (string_from_connection_data v)"
| "string_from_sdp_line iter (AttributeLine a) = string_from_attribute iter a"
| "string_from_sdp_line iter (MediaDescriptionLine v) = Inr (string_from_media_description v)"
| "string_from_sdp_line iter UnrecognizedLine = Inr []"

section \<open>Parsers\<close>

text \<open>\<open>split.next().ok_or(e)?\<close>: the next piece and the iterator after it.\<close>

fun next_tok :: "'e \<Rightarrow> 'a list \<Rightarrow> 'e + ('a \<times> 'a list)" where
  "next_tok e [] = Inl e"
| "next_tok e (x # xs) = Inr (x, xs)"

definition media_type_try_from :: "string \<Rightarrow> media_type sdp_result" where
  "media_type_try_from v =
     (if v = ''video'' then Inr Video else if v = ''audio'' then Inr Audio else Inl UnsupportedMediaType)"

definition media_transport_protocol_try_from :: "string \<Rightarrow> media_transport_protocol sdp_result" where
  "media_transport_protocol_try_from v =
     (if v = ''UDP/TLS/RTP/SAVPF'' then Inr DtlsSrtp else Inl UnsupportedMediaProtocol)"

definition media_description_try_from :: "string \<Rightarrow> media_description sdp_result" where
  "media_description_try_from v =
     bind_res (ok_or MalformedSDPLine (split_once ''m='' v)) (\<lambda>(_, v).
     bind_res (next_tok MalformedMediaDescriptor (split_on SP v)) (\<lambda>(mt, split).
     bind_res (media_type_try_from mt) (\<lambda>media_type.
     bind_res (bind_res (next_tok MalformedMediaDescriptor split)
                (\<lambda>(p, split). map_res (\<lambda>n. (n, split)) (ok_or MalformedMediaDescriptor (parse_usize p))))
              (\<lambda>(transport_port, split).
     bind_res (next_tok MalformedMediaDescriptor split) (\<lambda>(tp, split).
     bind_res (media_transport_protocol_try_from tp) (\<lambda>transport_protocol.
     bind_res (collect_res (\<lambda>l. ok_or MalformedAttribute (parse_usize l))
                 (takeWhile (\<lambda>l. l \<noteq> []) split)) (\<lambda>fmts.
       Inr \<lparr>md_media_type = media_type, md_transport_port = transport_port,
            md_transport_protocol = transport_protocol, md_media_format_description = fmts\<rparr>)))))))"

definition originator_try_from :: "string \<Rightarrow> originator sdp_result" where
  "originator_try_from v =
     bind_res (ok_or MalformedSDPLine (split_once ''o='' v)) (\<lambda>(_, v).
     bind_res (next_tok MalformedSDPLine (split_on SP v)) (\<lambda>(user, split).
     bind_res (next_tok MalformedSDPLine split) (\<lambda>(sid, split).
     bind_res (next_tok MalformedSDPLine split) (\<lambda>(sver, split).
     bind_res (next_tok MalformedSDPLine split) (\<lambda>(network_type, split).
     if network_type \<noteq> ''IN'' then Inl MalformedSDPLine else
     bind_res (next_tok MalformedSDPLine split) (\<lambda>(ip_type, split).
     if ip_type = ''IP4'' then
       bind_res (next_tok MalformedSDPLine split) (\<lambda>(addr, _).
       bind_res (ok_or MalformedSDPLine (ipv4_from_str addr)) (\<lambda>ip.
         Inr \<lparr>o_username = user, o_session_id = sid, o_session_version = sver, o_ip_addr = V4 ip\<rparr>))
     else if ip_type = ''IP6'' then
       bind_res (next_tok MalformedSDPLine split) (\<lambda>(addr, _).
       bind_res (ok_or MalformedSDPLine (ipv6_from_str addr)) (\<lambda>ip.
         Inr \<lparr>o_username = user, o_session_id = sid, o_session_version = sver, o_ip_addr = V6 ip\<rparr>))
     else Inl MalformedSDPLine))))))"

definition session_time_try_from :: "string \<Rightarrow> session_time sdp_result" where
  "session_time_try_from v =
     bind_res (ok_or MalformedSDPLine (split_once ''t='' v)) (\<lambda>(_, v).
     bind_res (ok_or MalformedSDPLine (split_once '' '' v)) (\<lambda>(s, e).
     bind_res (ok_or MalformedSDPLine (parse_usize s)) (\<lambda>st.
     bind_res (ok_or MalformedSDPLine (parse_usize e)) (\<lambda>en.
       Inr \<lparr>start_time = st, end_time = en\<rparr>))))"

definition connection_data_try_from :: "string \<Rightarrow> connection_data sdp_result" where
  "connection_data_try_from v =
     bind_res (ok_or MalformedSDPLine (split_once ''c='' v)) (\<lambda>(_, v).
     bind_res (next_tok MalformedSDPLine (split_on SP v)) (\<lambda>(nettype, split).
     if \<not> eq_ignore_ascii_case nettype ''in'' then Inl MalformedSDPLine else
     bind_res (ok_or MalformedSDPLine
        (case split of [] \<Rightarrow> None | line # split \<Rightarrow>
           if line = ''IP4'' then
             (case split of [] \<Rightarrow> None | unparsed # _ \<Rightarrow> map_option V4 (ipv4_from_str unparsed))
           else if line = ''IP6'' then
             (case split of [] \<Rightarrow> None | unparsed # _ \<Rightarrow> map_option V6 (ipv6_from_str unparsed))
           else None)) (\<lambda>ip.
       Inr \<lparr>cd_ip = ip\<rparr>)))"

definition ice_option_try_from :: "string \<Rightarrow> ice_option sdp_result" where
  "ice_option_try_from v =
     (if v = ''ice2'' then Inr ICE2 else if v = ''trickle'' then Inr Trickle else Inr UnsupportedICEOption)"

definition ice_options_try_from :: "string \<Rightarrow> ice_options sdp_result" where
  "ice_options_try_from v =
     bind_res (ok_or MalformedAttribute (split_once ''ice-options:'' v)) (\<lambda>(_, v).
     bind_res (collect_res ice_option_try_from (split_on SP v)) (\<lambda>opts.
       Inr \<lparr>options = opts\<rparr>))"

definition media_id_try_from :: "string \<Rightarrow> media_id sdp_result" where
  "media_id_try_from v =
     bind_res (ok_or MalformedAttribute (split_once ''mid:'' v)) (\<lambda>(_, v). Inr \<lparr>mid_id = v\<rparr>)"

definition media_group_try_from :: "string \<Rightarrow> media_group sdp_result" where
  "media_group_try_from v =
     bind_res (ok_or MalformedAttribute (split_once ''group:'' v)) (\<lambda>(_, v).
     bind_res (ok_or MalformedAttribute (split_once '' '' v)) (\<lambda>(group_type, values).
       let group_values = split_on SP values in
       if group_type = ''BUNDLE'' then Inr (Bundle group_values)
       else if group_type = ''LS'' then Inr (LipSync group_values)
       else Inl MalformedAttribute))"

definition hash_function_from :: "string \<Rightarrow> hash_function" where
  "hash_function_from v = (if v = ''sha-256'' then SHA256 else UnsupportedHash)"

definition fingerprint_try_from :: "string \<Rightarrow> fingerprint sdp_result" where
  "fingerprint_try_from v =
     bind_res (ok_or MalformedAttribute (split_once ''fingerprint:'' v)) (\<lambda>(_, v).
     bind_res (ok_or MalformedAttribute (split_once '' '' v)) (\<lambda>(hf, h).
       Inr \<lparr>hash_function = hash_function_from hf, hash = h\<rparr>))"

definition rtp_map_try_from :: "string \<Rightarrow> rtp_map sdp_result" where
  "rtp_map_try_from v =
     bind_res (ok_or MalformedAttribute (split_once ''rtpmap:'' v)) (\<lambda>(_, v).
     bind_res (ok_or MalformedAttribute (split_once '' '' v)) (\<lambda>(pn, codec).
     bind_res (ok_or MalformedAttribute (parse_usize pn)) (\<lambda>payload_number.
       let c = to_ascii_lowercase codec;
           media_codec = (if c = ''h264/90000'' then VideoCodec H264
                          else if c = ''opus/48000/2'' then AudioCodec Opus else UnsupportedCodec)
       in Inr \<lparr>rtpmap_codec = media_codec, rtpmap_payload_number = payload_number\<rparr>)))"

definition source_attribute_try_from :: "string \<Rightarrow> source_attribute sdp_result" where
  "source_attribute_try_from v =
     bind_res (next_tok MalformedAttribute (split_on COLON v)) (\<lambda>(key, split).
     if key = ''cname'' then
       bind_res (next_tok MalformedAttribute split) (\<lambda>(cname_value, _). Inr (CNAME cname_value))
     else Inr UnsupportedSource)"

definition media_ssrc_try_from :: "string \<Rightarrow> media_ssrc sdp_result" where
  "media_ssrc_try_from v =
     bind_res (ok_or MalformedAttribute (split_once ''ssrc:'' v)) (\<lambda>(_, v).
     bind_res (next_tok MalformedAttribute (split_on SP v)) (\<lambda>(n, split).
     bind_res (ok_or MalformedAttribute (parse_u32 n)) (\<lambda>ssrc.
     bind_res (next_tok MalformedAttribute split) (\<lambda>(attr, _).
     bind_res (source_attribute_try_from attr) (\<lambda>sa.
       Inr \<lparr>ssrc = ssrc, source_attribute = sa\<rparr>)))))"

definition setup_try_from :: "string \<Rightarrow> dtls_setup sdp_result" where
  "setup_try_from v =
     bind_res (ok_or MalformedAttribute (split_once ''setup:'' v)) (\<lambda>(_, v).
       if v = ''actpass'' then Inr ActivePassive
       else if v = ''active'' then Inr Active
       else if v = ''passive'' then Inr Passive
       else Inl MalformedAttribute)"

definition fmtp_try_from :: "string \<Rightarrow> fmtp sdp_result" where
  "fmtp_try_from v =
     bind_res (ok_or MalformedAttribute (split_once ''fmtp:'' v)) (\<lambda>(_, v).
     bind_res (ok_or MalformedAttribute (split_once '' '' v)) (\<lambda>(pn, capabilities).
     bind_res (ok_or MalformedAttribute (parse_usize pn)) (\<lambda>payload_number.
       Inr \<lparr>fmtp_payload_number = payload_number,
            format_capability = set (split_on (CHR '';'') capabilities)\<rparr>)))"

definition candidate_try_from :: "string \<Rightarrow> candidate sdp_result" where
  "candidate_try_from v =
     bind_res (ok_or MalformedAttribute (split_once ''candidate:'' v)) (\<lambda>(_, v).
     bind_res (next_tok MalformedAttribute (split_on SP v)) (\<lambda>(found, split).
     bind_res (next_tok MalformedAttribute split) (\<lambda>(cid, split).
     bind_res (ok_or MalformedAttribute (parse_usize cid)) (\<lambda>cid.
     bind_res (next_tok MalformedAttribute split) (\<lambda>(protocol, split).
     if protocol \<noteq> ''UDP'' then Inl MalformedAttribute else
     bind_res (next_tok MalformedSDPLine split) (\<lambda>(prio, split).
     bind_res (ok_or MalformedSDPLine (parse_usize prio)) (\<lambda>prio.
     bind_res (next_tok MalformedAttribute split) (\<lambda>(ip, split).
     bind_res (ok_or MalformedAttribute (ip_from_str ip)) (\<lambda>ip.
     bind_res (next_tok MalformedSDPLine split) (\<lambda>(prt, _).
     bind_res (ok_or MalformedSDPLine (parse_u16 prt)) (\<lambda>prt.
       Inr \<lparr>foundation = found, component_id = cid, priority = prio,
            connection_address = ip, port = prt\<rparr>)))))))))))"

definition ice_username_try_from :: "string \<Rightarrow> ice_username sdp_result" where
  "ice_username_try_from v =
     bind_res (ok_or MalformedAttribute (split_once ''ice-ufrag:'' v)) (\<lambda>(_, v). Inr \<lparr>username = v\<rparr>)"

definition ice_password_try_from :: "string \<Rightarrow> ice_password sdp_result" where
  "ice_password_try_from v =
     bind_res (ok_or MalformedAttribute (split_once ''ice-pwd:'' v)) (\<lambda>(_, v). Inr \<lparr>password = v\<rparr>)"

text \<open>The \<open>match key\<close> of \<open>TryFrom<&str> for Attribute\<close>.\<close>

definition attribute_of_key :: "string \<Rightarrow> string \<Rightarrow> attribute sdp_result" where
  "attribute_of_key key v =
     (if key = ''ice-ufrag'' then map_res ICEUsernameAttr (ice_username_try_from v)
      else if key = ''ice-pwd'' then map_res ICEPasswordAttr (ice_password_try_from v)
      else if key = ''fingerprint'' then map_res FingerprintAttr (fingerprint_try_from v)
      else if key = ''candidate'' then map_res CandidateAttr (candidate_try_from v)
      else if key = ''ssrc'' then map_res MediaSSRCAttr (media_ssrc_try_from v)
      else if key = ''sendonly'' then Inr SendOnly
      else if key = ''recvonly'' then Inr ReceiveOnly
      else if key = ''mid'' then map_res MediaIDAttr (media_id_try_from v)
      else if key = ''group'' then map_res MediaGroupAttr (media_group_try_from v)
      else if key = ''rtpmap'' then map_res RTPMapAttr (rtp_map_try_from v)
      else if key = ''fmtp'' then map_res FMTPAttr (fmtp_try_from v)
      else if key = ''rtcp-mux'' then Inr RTCPMux
      else if key = ''ice-options'' then map_res ICEOptionsAttr (ice_options_try_from v)
      else if key = ''end-of-candidates'' then Inr EndOfCandidates
      else if key = ''setup'' then map_res SetupAttr (setup_try_from v)
      else Inr UnrecognizedAttr)"

definition attribute_try_from :: "string \<Rightarrow> attribute sdp_result" where
  "attribute_try_from v =
     bind_res (ok_or MalformedAttribute (split_once ''a='' v)) (\<lambda>(_, v).
     bind_res (next_tok MalformedAttribute (split_on COLON v)) (\<lambda>(key, _).
       attribute_of_key key v))"

definition sdp_line_try_from :: "string \<Rightarrow> sdp_line sdp_result" where
  "sdp_line_try_from input =
     bind_res (ok_or MalformedSDPLine (split_once ''='' input)) (\<lambda>(sdp_type, value).
       if sdp_type = ''v'' then Inr (ProtocolVersion value)
       else if sdp_type = ''c'' then map_res ConnectionDataLine (connection_data_try_from input)
       else if sdp_type = ''o'' then map_res OriginatorLine (originator_try_from input)
       else if sdp_type = ''s'' then Inr (SessionName value)
       else if sdp_type = ''t'' then map_res SessionTimeLine (session_time_try_from input)
       else if sdp_type = ''m'' then map_res MediaDescriptionLine (media_description_try_from input)
       else if sdp_type = ''a'' then map_res AttributeLine (attribute_try_from input)
       else Inr UnrecognizedLine)"

end
