(* ===== verification/Ipv6_Text.thy ===== *)
theory Ipv6_Text
  imports Net_Addr
begin

text \<open>
  Written IPv6 addresses are read back by the standard library's reader, in all three forms: with an
  embedded IPv4 address, with a run of zero segments left out, and in full. So every address an SDP line
  carries survives printing and parsing.
\<close>

section \<open>One group\<close>

text \<open>What may follow a group.\<close>

definition group_end :: "string \<Rightarrow> bool" where
  "group_end rest \<longleftrightarrow> rest = [] \<or> hd rest = COLON"

lemma of_char_hex_digit: "d < 16 \<Longrightarrow> of_char (hex_digit d) = (if d < 10 then 48 + d else 87 + d)"
proof (cases "d < 10")
  case False
  assume "d < 16"
  then have "(87 + d) mod 256 = 87 + d" by (intro mod_less) linarith
  with False show ?thesis by (simp only: hex_digit_def of_char_of if_False)
qed (simp add: hex_digit_def)

lemma to_digit_hex [simp]: "d < 16 \<Longrightarrow> to_digit 16 (hex_digit d) = Some d"
  by (simp add: to_digit_def of_char_hex_digit Let_def)

lemma to_digit_colon [simp]: "to_digit radix COLON = None"
  by (simp add: to_digit_def)

lemma number_loop_end: "group_end rest \<Longrightarrow> number_loop radix maxd acc n rest = Some (acc, n, rest)"
  by (cases rest) (auto simp: group_end_def)

lemma show_hex_length: "n < 16 ^ Suc k \<Longrightarrow> length (show_hex n) \<le> Suc k"
proof (induction k arbitrary: n)
  case (Suc k)
  then have "n div 16 < 16 ^ Suc k" by (simp add: less_mult_imp_div_less mult.commute)
  with Suc.IH [of "n div 16"] show ?case by (subst show_hex.simps) simp
qed (simp add: show_hex.simps)

lemma number_loop_hex:
  assumes "n + length (show_hex v) \<le> maxd"
  shows "number_loop 16 maxd acc n (show_hex v @ rest)
     = number_loop 16 maxd (acc * 16 ^ length (show_hex v) + v) (n + length (show_hex v)) rest"
  using assms
proof (induction v arbitrary: acc n rest rule: show_hex.induct)
  case (1 v)
  show ?case
  proof (cases "v < 16")
    case True
    with "1.prems" show ?thesis by (simp add: show_hex.simps [of v])
  next
    case False
    then have e: "show_hex v = show_hex (v div 16) @ [hex_digit (v mod 16)]" by (subst show_hex.simps) simp
    with "1.prems" have "n + length (show_hex (v div 16)) \<le> maxd" by simp
    from "1.IH" [OF False this, of acc "hex_digit (v mod 16) # rest"] "1.prems" e
    show ?thesis by (simp add: algebra_simps)
  qed
qed

lemma show_hex_ne: "show_hex v \<noteq> []"
  by (subst show_hex.simps) simp

lemma read_group:
  assumes "group_end rest"
  shows "read_number 16 4 65535 True (show_hex (unat (g :: u16)) @ rest) = Some (unat g, rest)"
proof -
  have g: "unat g < 65536" using unsigned_less [of g] by simp
  then have "length (show_hex (unat g)) \<le> 4" using show_hex_length [of "unat g" 3] by simp
  from number_loop_hex [of 0 "unat g" 4 0 rest] this g show_hex_ne [of "unat g"] number_loop_end [OF assms]
  show ?thesis by (simp add: read_number_def)
qed

text \<open>A group is no IPv4 address: after its decimal digits comes no dot.\<close>

lemma number_loop_no_dot:
  "CHR ''.'' \<notin> set s \<Longrightarrow> group_end rest \<Longrightarrow> number_loop radix maxd acc n (s @ rest) = Some (v, m, r) \<Longrightarrow> r = [] \<or> hd r \<noteq> CHR ''.''"
  by (induction s arbitrary: acc n) (auto simp: number_loop_end group_end_def split: option.splits if_splits)

lemma read_ipv4_no_dot:
  assumes "CHR ''.'' \<notin> set s" "group_end rest"
  shows "read_ipv4_addr (s @ rest) = None"
proof (cases "octet_reader 0 (s @ rest)")
  case (Some p)
  obtain a r where p: "p = (a, r)" by force
  with Some have "r = [] \<or> hd r \<noteq> CHR ''.''"
    using number_loop_no_dot [OF assms]
    by (fastforce simp: octet_reader_def read_separator_def read_number_def split: option.splits if_splits)
  then have "octet_reader 1 r = None"
    by (cases r) (auto simp: octet_reader_def read_separator_def read_given_char_def)
  with Some p show ?thesis by (simp add: read_ipv4_addr_def)
qed (simp add: read_ipv4_addr_def)

lemma hex_no_dot: "CHR ''.'' \<notin> set (show_hex v)"
  using show_hex_chars [of "CHR ''.''" v] by auto

section \<open>Runs of groups\<close>

text \<open>The reader stops at the end of the text and before a pair of colons.\<close>

definition groups_end :: "string \<Rightarrow> bool" where
  "groups_end rest \<longleftrightarrow> rest = [] \<or> take 2 rest = ''::''"

lemma groups_end_group: "groups_end rest \<Longrightarrow> group_end rest"
  by (cases rest) (auto simp: groups_end_def group_end_def)

lemma read_nothing: "read_number radix maxd mx z [] = None" "read_number radix maxd mx z (COLON # s) = None"
  by (simp_all add: read_number_def)

lemma read_groups_stop: "groups_end rest \<Longrightarrow> read_groups lim i rest = ([], False, rest)"
proof -
  assume e: "groups_end rest"
  have "read_separator COLON i (read_number 16 4 65535 True) rest = None" "read_separator COLON i read_ipv4_addr rest = None"
    using e read_ipv4_no_dot [of "[]"]
    by (cases rest; cases "tl rest"; auto simp: read_separator_def read_given_char_def read_nothing groups_end_def group_end_def)+
  then show ?thesis by (subst read_groups.simps) simp
qed

lemma read_separator_text:
  "read_separator COLON i inner ((if i = 0 then [] else [COLON]) @ s) = inner s"
  by (simp add: read_separator_def read_given_char_def)

lemma read_groups_show:
  assumes "i + length gs \<le> lim" "groups_end rest"
  shows "read_groups lim i ((if i = 0 \<or> gs = [] then [] else [COLON]) @ show_groups gs @ rest) = (gs, False, rest)"
  using assms(1)
proof (induction gs arbitrary: i)
  case Nil
  then show ?case by (simp add: read_groups_stop [OF assms(2)] show_groups_def)
next
  case (Cons g gs)
  let ?rest = "(if gs = [] then [] else [COLON]) @ show_groups gs @ rest"
  let ?s = "(if i = 0 then [] else [COLON]) @ show_hex (unat g) @ ?rest"
  have e: "group_end ?rest" using groups_end_group [OF assms(2)] by (auto simp: group_end_def show_groups_def)
  have t: "(if i = 0 \<or> g # gs = [] then [] else [COLON]) @ show_groups (g # gs) @ rest = ?s"
    by (cases gs) (simp_all add: show_groups_def join_Cons)
  have "read_separator COLON i read_ipv4_addr ?s = None" "read_separator COLON i (read_number 16 4 65535 True) ?s = Some (unat g, ?rest)"
    unfolding read_separator_text using read_ipv4_no_dot [OF hex_no_dot e] read_group [OF e] by simp_all
  moreover have "read_groups lim (Suc i) ?rest = (gs, False, rest)" using Cons.IH [of "Suc i"] Cons.prems by simp
  ultimately show ?case
    unfolding t using Cons.prems by (subst read_groups.simps) simp
qed

section \<open>The whole address\<close>

lemma push_segment:
  "push_bit 16 (drop_bit (k + 16) w) OR ucast (ucast (drop_bit k w) :: u16) = drop_bit k (w :: 128 word)"
  by (rule bit_word_eqI) (auto simp: bit_simps not_le not_less)

lemma segments_word: "of_segments6 (segments6 w) = w"
proof -
  have "drop_bit 128 w = 0" by (rule bit_word_eqI) (auto simp: bit_simps dest: bit_imp_le_length)
  with push_segment [of 112 w] have top: "ucast (ucast (drop_bit 112 w) :: u16) = drop_bit 112 w" by simp
  have "[0..<8] = [0, 1, 2, 3, 4, 5, 6, 7 :: nat]" by (simp add: upt_rec)
  then show ?thesis
    using push_segment [of 96 w] push_segment [of 80 w] push_segment [of 64 w] push_segment [of 48 w] push_segment [of 32 w]
      push_segment [of 16 w] push_segment [of 0 w]
    by (simp add: of_segments6_def segments6_def top)
qed

text \<open>The span that is left out is a run of zeros.\<close>

definition zero_run :: "u16 list \<Rightarrow> nat \<times> nat \<Rightarrow> bool" where
  "zero_run gs p \<longleftrightarrow> fst p + snd p \<le> length gs \<and> (\<forall>k. fst p \<le> k \<and> k < fst p + snd p \<longrightarrow> gs ! k = 0)"

lemma zero_run_append: "zero_run gs p \<Longrightarrow> zero_run (gs @ hs) p"
  by (auto simp: zero_run_def nth_append)

lemma zero_span_run:
  "zero_run pre cur \<Longrightarrow> zero_run pre longest \<Longrightarrow> snd cur = 0 \<or> fst cur + snd cur = length pre \<Longrightarrow>
     zero_run (pre @ gs) (zero_span (length pre) cur longest gs)"
proof (induction gs arbitrary: pre cur longest)
  case (Cons g gs)
  show ?case
  proof (cases "g = 0")
    case False
    with Cons.IH [of "pre @ [g]" "(0, 0)" longest] Cons.prems show ?thesis by (simp add: zero_run_append) (simp add: zero_run_def)
  next
    case True
    let ?cur = "if snd cur = 0 then (length pre, 1) else (fst cur, snd cur + 1)"
    have "zero_run (pre @ [g]) ?cur" "snd ?cur = 0 \<or> fst ?cur + snd ?cur = length (pre @ [g])"
      using True Cons.prems by (auto simp: zero_run_def nth_append less_Suc_eq)
    then have "zero_run ((pre @ [g]) @ gs) (zero_span (length (pre @ [g])) ?cur (if snd longest < snd ?cur then ?cur else longest) gs)"
      by (intro Cons.IH) (simp_all add: zero_run_append Cons.prems(2) split: if_split)
    with True show ?thesis unfolding zero_span.simps Let_def by (simp only: simp_thms if_True append.assoc append_Cons append_Nil length_append_singleton)
  qed
qed simp

lemma zero_run_split:
  assumes "zero_run gs (start, len)"
  shows "gs = take start gs @ replicate len 0 @ drop (start + len) gs"
proof -
  have "take len (drop start gs) = replicate len 0"
    using assms by (intro nth_equalityI) (auto simp: zero_run_def)
  then show ?thesis by (metis append_take_drop_id drop_drop add.commute)
qed

lemma length_segments [simp]: "length (segments6 w) = 8"
  by (simp add: segments6_def)

lemma show_groups_no_dot: "CHR ''.'' \<notin> set (show_groups gs)"
  using show_groups_chars [of "CHR ''.''" gs] by auto

text \<open>Both forms without an embedded IPv4 address.\<close>

lemma read_full:
  "length gs = 8 \<Longrightarrow> read_ipv6_addr (show_groups gs) = Some (of_segments6 gs, [])"
  using read_groups_show [of 0 gs 8 "[]"] by (simp add: read_ipv6_addr_def groups_end_def)

lemma read_short:
  assumes "length hs + length ts < 8"
  shows "read_ipv6_addr (show_groups hs @ ''::'' @ show_groups ts)
     = Some (of_segments6 (hs @ replicate (8 - length hs - length ts) 0 @ ts), [])"
proof -
  have h: "read_groups 8 0 (show_groups hs @ ''::'' @ show_groups ts) = (hs, False, ''::'' @ show_groups ts)"
    using read_groups_show [of 0 hs 8 "''::'' @ show_groups ts"] assms by (simp add: groups_end_def)
  have t: "read_groups (8 - (length hs + 1)) 0 (show_groups ts) = (ts, False, [])"
    using read_groups_show [of 0 ts "8 - (length hs + 1)" "[]"] assms by (simp add: groups_end_def)
  show ?thesis unfolding read_ipv6_addr_def h using assms t by (simp add: read_given_char_def)
qed

text \<open>The form with an embedded IPv4 address.\<close>

lemma read_embedded:
  "read_groups 7 0 (''ffff:'' @ show_ipv4 v) = ([0xffff, ucast (drop_bit 16 v), ucast v], True, [])"
proof -
  have h: "show_hex 0xffff = ''ffff''" by (simp add: show_hex.simps hex_digit_def char_of_eq_iff)
  have u: "unat (0xffff :: u16) = 0xffff" by simp
  have e: "group_end (COLON # show_ipv4 v)" by (simp add: group_end_def)
  have n: "read_separator COLON 0 read_ipv4_addr (''ffff:'' @ show_ipv4 v) = None"
    "read_separator COLON 0 (read_number 16 4 65535 True) (''ffff:'' @ show_ipv4 v) = Some (0xffff, COLON # show_ipv4 v)"
    using read_ipv4_no_dot [of "''ffff''", OF _ e] read_group [OF e, of "0xffff"] h u by (simp_all add: read_separator_def)
  have "read_groups 7 1 (COLON # show_ipv4 v) = ([ucast (drop_bit 16 v), ucast v], True, [])"
    by (subst read_groups.simps) (simp add: read_separator_def read_given_char_def read_ipv4_show)
  with n show ?thesis by (subst read_groups.simps) simp
qed

lemma embedded_word:
  assumes "take 6 (segments6 w) = [0, 0, 0, 0, 0, 0xffff]"
  shows "[0, 0, 0, 0, 0, 0xffff, ucast (drop_bit 16 (ucast w :: 32 word)), ucast (ucast w :: 32 word)] = segments6 w"
proof -
  have "drop 6 (segments6 w) = [ucast (drop_bit 16 w), ucast w]" by (simp add: segments6_def upt_rec)
  moreover have "ucast (drop_bit 16 (ucast w :: 32 word)) = (ucast (drop_bit 16 w) :: u16)"
    "ucast (ucast w :: 32 word) = (ucast w :: u16)"
    by (rule bit_word_eqI; auto simp: bit_simps)+
  ultimately show ?thesis
    using append_take_drop_id [of 6 "segments6 w"] assms by simp
qed

lemma read_ipv6_show: "read_ipv6_addr (show_ipv6 w) = Some (w, [])"
proof (cases "take 6 (segments6 w) = [0, 0, 0, 0, 0, 0xffff]")
  case True
  have "read_groups 8 0 (''::ffff:'' @ show_ipv4 (ucast w)) = ([], False, ''::ffff:'' @ show_ipv4 (ucast w))"
    by (rule read_groups_stop) (simp add: groups_end_def)
  with True read_embedded [of "ucast w"] embedded_word [OF True] show ?thesis
    by (simp add: show_ipv6_def read_ipv6_addr_def read_given_char_def segments_word numeral_eq_Suc)
next
  case False
  obtain start len where sp: "zero_span 0 (0, 0) (0, 0) (segments6 w) = (start, len)" by force
  have run: "zero_run (segments6 w) (start, len)"
    using zero_span_run [of "[]" "(0, 0)" "(0, 0)" "segments6 w"] sp by (simp add: zero_run_def)
  show ?thesis
  proof (cases "1 < len")
    case True
    let ?h = "take start (segments6 w)" and ?t = "drop (start + len) (segments6 w)"
    from run have l: "start + len \<le> 8" by (simp add: zero_run_def)
    with True have "length ?h + length ?t < 8" "8 - length ?h - length ?t = len" by simp_all
    with read_short [of ?h ?t] zero_run_split [OF run] segments_word [of w] False True sp
    show ?thesis by (simp add: show_ipv6_def Let_def)
  qed (use False sp read_full [of "segments6 w"] in \<open>simp add: show_ipv6_def segments_word\<close>)
qed

lemma show_ipv6_not_v4: "read_ipv4_addr (show_ipv6 w) = None"
proof -
  obtain start len where sp: "zero_span 0 (0, 0) (0, 0) (segments6 w) = (start, len)" by force
  have "read_ipv4_addr (show_groups gs @ rest) = None" if "group_end rest" for gs rest
    using that show_groups_no_dot by (rule read_ipv4_no_dot [rotated])
  moreover from this [of "''::ffff:'' @ show_ipv4 (ucast w)" "[]"]
  have "read_ipv4_addr (''::ffff:'' @ show_ipv4 (ucast w)) = None" by (simp add: group_end_def show_groups_def)
  moreover from calculation(1) [of "[]"] have "read_ipv4_addr (show_groups gs) = None" for gs by (simp add: group_end_def)
  ultimately show ?thesis by (simp add: show_ipv6_def sp group_end_def Let_def)
qed

lemma ipv6_from_str_show [simp]: "ipv6_from_str (show_ipv6 w) = Some w"
  by (simp add: ipv6_from_str_def parse_all_def read_ipv6_show)

lemma ip_from_str_show [simp]: "ip_from_str (show_ip ip) = Some ip"
  by (cases ip) (simp_all add: ip_from_str_def parse_all_def read_ipv4_show read_ipv6_show show_ipv6_not_v4)

end
