(* ===== verification/Sdp_Codec.thy ===== *)
theory Sdp_Codec
  imports Sdp_Lines Ipv6_Text
begin

text \<open>
  The printers and parsers of \<open>line_parsers.rs\<close> as codecs. For each kind of line the predicate
  names the values that print to unambiguous text (no separator inside a field, numbers within
  \<open>usize\<close>, no placeholder variant); the interpretations of \<open>codec\<close> discharge the round trip for
  the model's own definitions, up to \<open>line\<close> for whole SDP lines.
\<close>

section \<open>Values that print unambiguously\<close>

definition no_sp :: "string \<Rightarrow> bool" where
  "no_sp s \<longleftrightarrow> SP \<notin> set s"

text \<open>What the standard library promises of a \<open>HashSet\<close> iterator: every element once.\<close>

definition iterates :: "set_order \<Rightarrow> bool" where
  "iterates iter \<longleftrightarrow> (\<forall>S. finite S \<longrightarrow> set (iter S) = S \<and> distinct (iter S))"

definition valid_originator :: "originator \<Rightarrow> bool" where
  "valid_originator v \<longleftrightarrow> no_sp (o_username v) \<and> no_sp (o_session_id v) \<and> no_sp (o_session_version v)"

definition valid_session_time :: "session_time \<Rightarrow> bool" where
  "valid_session_time v \<longleftrightarrow> start_time v \<le> usize_max \<and> end_time v \<le> usize_max"

definition valid_media_description :: "media_description \<Rightarrow> bool" where
  "valid_media_description v \<longleftrightarrow> md_transport_port v \<le> usize_max
     \<and> list_all (\<lambda>n. n \<le> usize_max) (md_media_format_description v)"

definition valid_ice_options :: "ice_options \<Rightarrow> bool" where
  "valid_ice_options v \<longleftrightarrow> options v \<noteq> [] \<and> UnsupportedICEOption \<notin> set (options v)"

fun valid_media_group :: "media_group \<Rightarrow> bool" where
  "valid_media_group (Bundle gs) = (gs \<noteq> [] \<and> list_all no_sp gs)"
| "valid_media_group (LipSync gs) = (gs \<noteq> [] \<and> list_all no_sp gs)"

definition valid_fingerprint :: "fingerprint \<Rightarrow> bool" where
  "valid_fingerprint v \<longleftrightarrow> hash_function v = SHA256"

definition valid_rtp_map :: "rtp_map \<Rightarrow> bool" where
  "valid_rtp_map v \<longleftrightarrow> rtpmap_codec v \<noteq> UnsupportedCodec \<and> rtpmap_payload_number v \<le> usize_max"

definition valid_media_ssrc :: "media_ssrc \<Rightarrow> bool" where
  "valid_media_ssrc v \<longleftrightarrow> (case source_attribute v of CNAME c \<Rightarrow> no_sp c \<and> COLON \<notin> set c
     | UnsupportedSource \<Rightarrow> False)"

definition valid_fmtp :: "fmtp \<Rightarrow> bool" where
  "valid_fmtp v \<longleftrightarrow> fmtp_payload_number v \<le> usize_max \<and> finite (format_capability v)
     \<and> format_capability v \<noteq> {} \<and> (\<forall>s \<in> format_capability v. CHR '';'' \<notin> set s)"

definition valid_candidate :: "candidate \<Rightarrow> bool" where
  "valid_candidate v \<longleftrightarrow> no_sp (foundation v) \<and> component_id v \<le> usize_max \<and> priority v \<le> usize_max"

text \<open>\<open>a=ice-lite\<close> is printed but the parser has no case for it.\<close>

fun valid_attribute :: "attribute \<Rightarrow> bool" where
  "valid_attribute UnrecognizedAttr = False"
| "valid_attribute ICELite = False"
| "valid_attribute (ICEOptionsAttr v) = valid_ice_options v"
| "valid_attribute (FingerprintAttr v) = valid_fingerprint v"
| "valid_attribute (MediaGroupAttr v) = valid_media_group v"
| "valid_attribute (MediaSSRCAttr v) = valid_media_ssrc v"
| "valid_attribute (RTPMapAttr v) = valid_rtp_map v"
| "valid_attribute (FMTPAttr v) = valid_fmtp v"
| "valid_attribute (CandidateAttr v) = valid_candidate v"
| "valid_attribute _ = True"

fun valid_line :: "sdp_line \<Rightarrow> bool" where
  "valid_line (OriginatorLine v) = valid_originator v"
| "valid_line (SessionTimeLine v) = valid_session_time v"
| "valid_line (ConnectionDataLine v) = True"
| "valid_line (AttributeLine v) = valid_attribute v"
| "valid_line (MediaDescriptionLine v) = valid_media_description v"
| "valid_line UnrecognizedLine = False"
| "valid_line _ = True"

section \<open>Round trips of the single kinds\<close>

lemma split_on_sp [simp]: "no_sp a \<Longrightarrow> split_on SP (a @ SP # b) = a # split_on SP b"
  by (simp add: no_sp_def)

lemma split_on_sp_last [simp]: "no_sp a \<Longrightarrow> split_on SP a = [a]"
  by (simp add: no_sp_def)

lemma no_sp_show [simp]: "no_sp (show_nat n)" "no_sp (show_ip ip)"
  by (simp_all add: no_sp_def)

lemma no_sp_show_v46 [simp]: "no_sp (show_ipv4 w4)" "no_sp (show_ipv6 w6)"
  using no_sp_show(2) [of "V4 w4"] no_sp_show(2) [of "V6 w6"] by simp_all

lemma originator_roundtrip:
  "valid_originator v \<Longrightarrow> originator_try_from (string_from_originator v) = Inr v"
  by (cases "o_ip_addr v")
     (auto simp: valid_originator_def string_from_originator_def originator_try_from_def)

lemma session_time_roundtrip:
  "valid_session_time v \<Longrightarrow> session_time_try_from (string_from_session_time v) = Inr v"
  by (simp add: valid_session_time_def string_from_session_time_def session_time_try_from_def)

lemma connection_data_roundtrip:
  "connection_data_try_from (string_from_connection_data v) = Inr v"
  by (cases "cd_ip v")
     (auto simp: string_from_connection_data_def connection_data_try_from_def
       eq_ignore_ascii_case_def to_ascii_lowercase_def ascii_lower_def char_of_eq_iff)

lemma media_type_roundtrip: "media_type_try_from (string_from_media_type t) = Inr t"
  by (cases t) (simp_all add: media_type_try_from_def)

lemma media_transport_protocol_roundtrip:
  "media_transport_protocol_try_from (string_from_media_transport_protocol p) = Inr p"
  by (cases p) (simp add: media_transport_protocol_try_from_def)

lemma collect_show_usize:
  "list_all (\<lambda>n. n \<le> usize_max) ns \<Longrightarrow>
     collect_res (\<lambda>l. ok_or e (parse_usize l)) (map show_nat ns) = Inr ns"
  by (induction ns) auto

lemma takeWhile_show_nats: "takeWhile (\<lambda>l. l \<noteq> []) (map show_nat ns) = map show_nat ns"
  by (induction ns) auto

lemma split_on_show_nats: "ns \<noteq> [] \<Longrightarrow> split_on SP (join '' '' (map show_nat ns)) = map show_nat ns"
  by (rule split_on_join) auto

lemma media_description_roundtrip:
  assumes "valid_media_description v"
  shows "media_description_try_from (string_from_media_description v) = Inr v"
proof -
  let ?fs = "md_media_format_description v"
  have fmts: "takeWhile (\<lambda>l. l \<noteq> []) (split_on SP (join '' '' (map show_nat ?fs))) = map show_nat ?fs"
    by (cases "?fs = []") (simp_all add: split_on_show_nats takeWhile_show_nats)
  have "no_sp (string_from_media_type (md_media_type v))"
    by (cases "md_media_type v") (simp_all add: no_sp_def)
  moreover have "no_sp (string_from_media_transport_protocol (md_transport_protocol v))"
    by (cases "md_transport_protocol v") (simp add: no_sp_def)
  ultimately show ?thesis using assms
    by (simp add: media_description_try_from_def string_from_media_description_def
        valid_media_description_def media_type_roundtrip media_transport_protocol_roundtrip
        fmts collect_show_usize)
qed

lemma ice_option_roundtrip:
  "x \<noteq> UnsupportedICEOption \<Longrightarrow> \<exists>s. string_from_ice_option x = Inr s \<and> ice_option_try_from s = Inr x \<and> no_sp s"
  by (cases x) (simp_all add: ice_option_try_from_def no_sp_def)

interpretation ice_opt: codec string_from_ice_option ice_option_try_from "\<lambda>x. x \<noteq> UnsupportedICEOption"
  by unfold_locales (use ice_option_roundtrip in \<open>fastforce simp: is_ok_ex\<close>)+

lemma ice_option_no_sp: "collect_res string_from_ice_option xs = Inr ss \<Longrightarrow> s \<in> set ss \<Longrightarrow> no_sp s"
  by (induction xs arbitrary: ss)
     (auto simp: bind_res_eq_Inr no_sp_def elim!: string_from_ice_option.elims)

lemma ice_options_roundtrip:
  assumes "valid_ice_options v"
  shows "\<exists>s. string_from_ice_options v = Inr s \<and> ice_options_try_from s = Inr v"
proof -
  have "list_all (\<lambda>x. x \<noteq> UnsupportedICEOption) (options v)"
    using assms by (auto simp: valid_ice_options_def list_all_iff)
  then obtain ss where ss: "collect_res string_from_ice_option (options v) = Inr ss"
      "collect_res ice_option_try_from ss = Inr (options v)"
    using ice_opt.collect_roundtrip by blast
  have "ss \<noteq> []" using assms ss(2) by (auto simp: valid_ice_options_def)
  then have "split_on SP (join '' '' ss) = ss"
    using ice_option_no_sp [OF ss(1)] by (intro split_on_join) (auto simp: no_sp_def)
  with ss show ?thesis
    by (simp add: string_from_ice_options_def ice_options_try_from_def)
qed

lemma media_group_roundtrip:
  "valid_media_group v \<Longrightarrow> media_group_try_from (string_from_media_group v) = Inr v"
proof -
  assume v: "valid_media_group v"
  have g: "gs \<noteq> [] \<Longrightarrow> list_all no_sp gs \<Longrightarrow> split_on SP (join '' '' gs) = gs" for gs
    by (rule split_on_join) (auto simp: no_sp_def list_all_iff)
  from v show ?thesis
    using split_once_char [of SP "''BUNDLE''"] split_once_char [of SP "''LS''"]
    by (cases v) (simp_all add: media_group_try_from_def g)
qed

lemma fingerprint_roundtrip:
  "valid_fingerprint v \<Longrightarrow> \<exists>s. string_from_fingerprint v = Inr s \<and> fingerprint_try_from s = Inr v"
  using split_once_char [of SP "''sha-256''"]
  by (simp add: valid_fingerprint_def string_from_fingerprint_def fingerprint_try_from_def
      hash_function_from_def)

lemma rtp_map_roundtrip:
  assumes "valid_rtp_map v"
  shows "\<exists>s. string_from_rtp_map v = Inr s \<and> rtp_map_try_from s = Inr v"
proof (cases "rtpmap_codec v")
  case (AudioCodec c)
  with assms show ?thesis
    by (cases c) (auto simp: valid_rtp_map_def string_from_rtp_map_def rtp_map_try_from_def
        to_ascii_lowercase_def ascii_lower_def)
next
  case (VideoCodec c)
  with assms show ?thesis
    by (cases c) (auto simp: valid_rtp_map_def string_from_rtp_map_def rtp_map_try_from_def
        to_ascii_lowercase_def ascii_lower_def)
next
  case UnsupportedCodec
  with assms show ?thesis by (simp add: valid_rtp_map_def)
qed

lemma media_ssrc_roundtrip:
  assumes "valid_media_ssrc v"
  shows "\<exists>s. string_from_media_ssrc v = Inr s \<and> media_ssrc_try_from s = Inr v"
proof -
  from assms obtain c where c: "source_attribute v = CNAME c" "no_sp c" "COLON \<notin> set c"
    by (cases "source_attribute v") (auto simp: valid_media_ssrc_def)
  then have "no_sp (''cname:'' @ c)" by (simp add: no_sp_def)
  moreover have "split_on COLON (''cname'' @ COLON # c) = [''cname'', c]"
    by (subst split_on_append) (use c in simp_all)
  ultimately show ?thesis using c
    by (auto simp: string_from_media_ssrc_def media_ssrc_try_from_def source_attribute_try_from_def)
qed

lemma setup_roundtrip: "setup_try_from (string_from_setup v) = Inr v"
  by (cases v) (simp_all add: setup_try_from_def)

lemma fmtp_roundtrip:
  assumes "valid_fmtp v" "iterates iter"
  shows "fmtp_try_from (string_from_fmtp iter v) = Inr v"
proof -
  let ?cs = "iter (format_capability v)"
  have cs: "set ?cs = format_capability v" using assms by (simp add: iterates_def valid_fmtp_def)
  then have "split_on (CHR '';'') (join '';'' ?cs) = ?cs"
    using assms(1) by (intro split_on_join) (auto simp: valid_fmtp_def)
  with cs assms(1) show ?thesis
    by (simp add: fmtp_try_from_def string_from_fmtp_def valid_fmtp_def)
qed

lemma candidate_roundtrip:
  "valid_candidate v \<Longrightarrow> candidate_try_from (string_from_candidate v) = Inr v"
proof -
  assume v: "valid_candidate v"
  have "split_on SP (''UDP'' @ SP # b) = ''UDP'' # split_on SP b" for b
    by (rule split_on_append) simp
  with v show ?thesis
    by (simp add: candidate_try_from_def string_from_candidate_def valid_candidate_def)
qed

section \<open>Attributes and lines\<close>

text \<open>The key of an attribute is the text before its first colon.\<close>

lemma attribute_keyed:
  "COLON \<notin> set k \<Longrightarrow> s = k @ COLON # r \<Longrightarrow> attribute_try_from (''a='' @ s) = attribute_of_key k s"
  using split_once_prefix [of "''a=''" s]
  by (simp add: attribute_try_from_def del: split_once_prefix)

lemma attribute_bare:
  "COLON \<notin> set k \<Longrightarrow> attribute_try_from (''a='' @ k) = attribute_of_key k k"
  using split_once_prefix [of "''a=''" k]
  by (simp add: attribute_try_from_def del: split_once_prefix)

text \<open>What every printed attribute starts with.\<close>

lemmas printed_defs =
  string_from_media_id_def string_from_ice_username_def string_from_ice_password_def
  string_from_fingerprint_def string_from_media_ssrc_def string_from_rtp_map_def
  string_from_fmtp_def string_from_candidate_def string_from_ice_options_def

lemma printed_key:
  "\<exists>r. string_from_media_id a1 = ''mid'' @ COLON # r"
  "\<exists>r. string_from_ice_username a2 = ''ice-ufrag'' @ COLON # r"
  "\<exists>r. string_from_ice_password a3 = ''ice-pwd'' @ COLON # r"
  "\<exists>r. string_from_fmtp iter a5 = ''fmtp'' @ COLON # r"
  "\<exists>r. string_from_candidate a6 = ''candidate'' @ COLON # r"
  by (simp_all add: printed_defs)

lemma printed_key_cases:
  "\<exists>r. string_from_media_group a4 = ''group'' @ COLON # r"
  "\<exists>r. string_from_setup a7 = ''setup'' @ COLON # r"
  by (cases a4, simp_all, cases a7, simp_all)

lemma printed_key_res:
  "string_from_fingerprint a1 = Inr s \<Longrightarrow> \<exists>r. s = ''fingerprint'' @ COLON # r"
  "string_from_media_ssrc a2 = Inr s \<Longrightarrow> \<exists>r. s = ''ssrc'' @ COLON # r"
  "string_from_rtp_map a3 = Inr s \<Longrightarrow> \<exists>r. s = ''rtpmap'' @ COLON # r"
  "string_from_ice_options a4 = Inr s \<Longrightarrow> \<exists>r. s = ''ice-options'' @ COLON # r"
  by (auto simp: printed_defs map_res_eq_Inr)

text \<open>The dispatch on a key whose parser gives the value back.\<close>

lemma attribute_of_key_simps [simp]:
  "attribute_of_key ''ice-ufrag'' v = map_res ICEUsernameAttr (ice_username_try_from v)"
  "attribute_of_key ''ice-pwd'' v = map_res ICEPasswordAttr (ice_password_try_from v)"
  "attribute_of_key ''fingerprint'' v = map_res FingerprintAttr (fingerprint_try_from v)"
  "attribute_of_key ''candidate'' v = map_res CandidateAttr (candidate_try_from v)"
  "attribute_of_key ''ssrc'' v = map_res MediaSSRCAttr (media_ssrc_try_from v)"
  "attribute_of_key ''sendonly'' v = Inr SendOnly"
  "attribute_of_key ''recvonly'' v = Inr ReceiveOnly"
  "attribute_of_key ''mid'' v = map_res MediaIDAttr (media_id_try_from v)"
  "attribute_of_key ''group'' v = map_res MediaGroupAttr (media_group_try_from v)"
  "attribute_of_key ''rtpmap'' v = map_res RTPMapAttr (rtp_map_try_from v)"
  "attribute_of_key ''fmtp'' v = map_res FMTPAttr (fmtp_try_from v)"
  "attribute_of_key ''rtcp-mux'' v = Inr RTCPMux"
  "attribute_of_key ''ice-options'' v = map_res ICEOptionsAttr (ice_options_try_from v)"
  "attribute_of_key ''end-of-candidates'' v = Inr EndOfCandidates"
  "attribute_of_key ''setup'' v = map_res SetupAttr (setup_try_from v)"
  by (simp_all add: attribute_of_key_def)

lemma simple_roundtrips:
  "media_id_try_from (string_from_media_id a1) = Inr a1"
  "ice_username_try_from (string_from_ice_username a2) = Inr a2"
  "ice_password_try_from (string_from_ice_password a3) = Inr a3"
  using split_once_prefix [of "''mid:''" "mid_id a1"] split_once_prefix [of "''ice-ufrag:''" "username a2"]
    split_once_prefix [of "''ice-pwd:''" "password a3"]
  by (simp_all add: media_id_try_from_def ice_username_try_from_def ice_password_try_from_def
      printed_defs del: split_once_prefix)

lemma attribute_keyed_roundtrip:
  assumes "attribute_name iter a = Inr s" "\<exists>r. s = k @ COLON # r" "COLON \<notin> set k"
    and "attribute_of_key k s = Inr a"
  shows "\<exists>s. string_from_attribute iter a = Inr s \<and> attribute_try_from s = Inr a"
  using assms attribute_keyed [of k s] by (auto simp: string_from_attribute_def)

lemma attribute_bare_roundtrip:
  assumes "attribute_name iter a = Inr k" "COLON \<notin> set k" "attribute_of_key k k = Inr a"
  shows "\<exists>s. string_from_attribute iter a = Inr s \<and> attribute_try_from s = Inr a"
  using assms attribute_bare [of k] by (auto simp: string_from_attribute_def)

text \<open>The attributes whose printer may panic.\<close>

lemma ice_options_attribute_roundtrip:
  assumes "valid_attribute (ICEOptionsAttr v)" "iterates iter"
  shows "\<exists>s. string_from_attribute iter (ICEOptionsAttr v) = Inr s \<and> attribute_try_from s = Inr (ICEOptionsAttr v)"
proof -
  obtain s where s: "string_from_ice_options v = Inr s" "ice_options_try_from s = Inr v"
    using assms ice_options_roundtrip by auto
  show ?thesis
    by (rule attribute_keyed_roundtrip [where k = "''ice-options''" and s = s]) (use s printed_key_res(4) in simp_all)
qed

lemma fingerprint_attribute_roundtrip:
  assumes "valid_attribute (FingerprintAttr v)" "iterates iter"
  shows "\<exists>s. string_from_attribute iter (FingerprintAttr v) = Inr s \<and> attribute_try_from s = Inr (FingerprintAttr v)"
proof -
  obtain s where s: "string_from_fingerprint v = Inr s" "fingerprint_try_from s = Inr v"
    using assms fingerprint_roundtrip by auto
  show ?thesis
    by (rule attribute_keyed_roundtrip [where k = "''fingerprint''" and s = s]) (use s printed_key_res(1) in simp_all)
qed

lemma media_ssrc_attribute_roundtrip:
  assumes "valid_attribute (MediaSSRCAttr v)" "iterates iter"
  shows "\<exists>s. string_from_attribute iter (MediaSSRCAttr v) = Inr s \<and> attribute_try_from s = Inr (MediaSSRCAttr v)"
proof -
  obtain s where s: "string_from_media_ssrc v = Inr s" "media_ssrc_try_from s = Inr v"
    using assms media_ssrc_roundtrip by auto
  show ?thesis
    by (rule attribute_keyed_roundtrip [where k = "''ssrc''" and s = s]) (use s printed_key_res(2) in simp_all)
qed

lemma rtp_map_attribute_roundtrip:
  assumes "valid_attribute (RTPMapAttr v)" "iterates iter"
  shows "\<exists>s. string_from_attribute iter (RTPMapAttr v) = Inr s \<and> attribute_try_from s = Inr (RTPMapAttr v)"
proof -
  obtain s where s: "string_from_rtp_map v = Inr s" "rtp_map_try_from s = Inr v"
    using assms rtp_map_roundtrip by auto
  show ?thesis
    by (rule attribute_keyed_roundtrip [where k = "''rtpmap''" and s = s]) (use s printed_key_res(3) in simp_all)
qed

lemma attribute_roundtrip:
  assumes "valid_attribute a" "iterates iter"
  shows "\<exists>s. string_from_attribute iter a = Inr s \<and> attribute_try_from s = Inr a"
proof (cases a)
  case (MediaGroupAttr v)
  show ?thesis
    by (rule attribute_keyed_roundtrip [where k = "''group''" and s = "string_from_media_group v"])
       (use assms MediaGroupAttr printed_key_cases(1) media_group_roundtrip in simp_all)
next
  case (FMTPAttr v)
  show ?thesis
    by (rule attribute_keyed_roundtrip [where k = "''fmtp''" and s = "string_from_fmtp iter v"])
       (use assms FMTPAttr printed_key(4) fmtp_roundtrip in simp_all)
next
  case (CandidateAttr v)
  show ?thesis
    by (rule attribute_keyed_roundtrip [where k = "''candidate''" and s = "string_from_candidate v"])
       (use assms CandidateAttr printed_key(5) candidate_roundtrip in simp_all)
next
  case (SetupAttr v)
  show ?thesis
    by (rule attribute_keyed_roundtrip [where k = "''setup''" and s = "string_from_setup v"])
       (use assms SetupAttr printed_key_cases(2) setup_roundtrip in simp_all)
next
  case (MediaIDAttr v)
  show ?thesis
    by (rule attribute_keyed_roundtrip [where k = "''mid''" and s = "string_from_media_id v"])
       (use assms MediaIDAttr printed_key(1) simple_roundtrips(1) in simp_all)
next
  case (ICEUsernameAttr v)
  show ?thesis
    by (rule attribute_keyed_roundtrip [where k = "''ice-ufrag''" and s = "string_from_ice_username v"])
       (use assms ICEUsernameAttr printed_key(2) simple_roundtrips(2) in simp_all)
next
  case (ICEPasswordAttr v)
  show ?thesis
    by (rule attribute_keyed_roundtrip [where k = "''ice-pwd''" and s = "string_from_ice_password v"])
       (use assms ICEPasswordAttr printed_key(3) simple_roundtrips(3) in simp_all)
qed (use assms in \<open>auto intro!: attribute_bare_roundtrip ice_options_attribute_roundtrip fingerprint_attribute_roundtrip
       media_ssrc_attribute_roundtrip rtp_map_attribute_roundtrip\<close>)

lemma line_typed:
  "CHR ''='' \<notin> set t \<Longrightarrow> split_once ''='' (t @ CHR ''='' # v) = Some (t, v)"
  by simp

lemma line_roundtrip:
  assumes "valid_line l" "iterates iter"
  shows "\<exists>s. string_from_sdp_line iter l = Inr s \<and> sdp_line_try_from s = Inr l"
proof (cases l)
  case (AttributeLine a)
  then obtain s where s: "string_from_attribute iter a = Inr s" "attribute_try_from s = Inr a"
    using assms attribute_roundtrip by auto
  then obtain n where "s = ''a='' @ n" by (auto simp: string_from_attribute_def map_res_eq_Inr)
  with s AttributeLine show ?thesis
    using line_typed [of "''a''" n] by (simp add: sdp_line_try_from_def)
next
  case (OriginatorLine v)
  obtain r where r: "string_from_originator v = ''o'' @ CHR ''='' # r"
    by (simp add: string_from_originator_def)
  have "sdp_line_try_from (string_from_originator v) = map_res OriginatorLine (originator_try_from (string_from_originator v))"
    using line_typed [of "''o''" r] by (simp add: sdp_line_try_from_def r)
  with assms OriginatorLine show ?thesis by (simp add: originator_roundtrip)
next
  case (SessionTimeLine v)
  obtain r where r: "string_from_session_time v = ''t'' @ CHR ''='' # r"
    by (simp add: string_from_session_time_def)
  have "sdp_line_try_from (string_from_session_time v) = map_res SessionTimeLine (session_time_try_from (string_from_session_time v))"
    using line_typed [of "''t''" r] by (simp add: sdp_line_try_from_def r)
  with assms SessionTimeLine show ?thesis by (simp add: session_time_roundtrip)
next
  case (ConnectionDataLine v)
  obtain r where r: "string_from_connection_data v = ''c'' @ CHR ''='' # r"
    by (simp add: string_from_connection_data_def)
  have "sdp_line_try_from (string_from_connection_data v) = map_res ConnectionDataLine (connection_data_try_from (string_from_connection_data v))"
    using line_typed [of "''c''" r] by (simp add: sdp_line_try_from_def r)
  with assms ConnectionDataLine show ?thesis by (simp add: connection_data_roundtrip)
next
  case (MediaDescriptionLine v)
  obtain r where r: "string_from_media_description v = ''m'' @ CHR ''='' # r"
    by (simp add: string_from_media_description_def)
  have "sdp_line_try_from (string_from_media_description v) = map_res MediaDescriptionLine (media_description_try_from (string_from_media_description v))"
    using line_typed [of "''m''" r] by (simp add: sdp_line_try_from_def r)
  with assms MediaDescriptionLine show ?thesis by (simp add: media_description_roundtrip)
qed (use assms in \<open>auto simp: sdp_line_try_from_def\<close>)

interpretation attr: codec "string_from_attribute iter" attribute_try_from
    "\<lambda>a. iterates iter \<and> valid_attribute a" for iter
  by unfold_locales (use attribute_roundtrip in \<open>fastforce simp: is_ok_ex\<close>)+

interpretation line: codec "string_from_sdp_line iter" sdp_line_try_from
    "\<lambda>l. iterates iter \<and> valid_line l" for iter
  by unfold_locales (use line_roundtrip in \<open>fastforce simp: is_ok_ex\<close>)+

end
