(* ===== verification/Sdp_Resolver.thy ===== *)
theory Sdp_Resolver
  imports Sdp_Codec
begin

text \<open>
  Offer/answer negotiation of \<open>crates/sdp/src/resolvers.rs\<close>: \<open>SDPResolver\<close> parses an offer into
  its three sections, checks it, negotiates codecs and builds the answer. The random values the
  code draws (\<open>get_random_string\<close>, \<open>get_random_ssrc\<close>, from the \<open>rand\<close> crate) are arguments.
\<close>

section \<open>Types\<close>

record sdp =
  session_section :: "sdp_line list"
  video_section :: "sdp_line list"
  audio_section :: "sdp_line list"

record ice_credentials =
  host_username :: string
  host_password :: string
  remote_username :: string
  remote_password :: string

record video_session =
  vs_codec :: video_codec
  vs_payload_number :: usize
  vs_host_ssrc :: u32
  vs_remote_ssrc :: "u32 option"
  vs_capabilities :: "string set"

record audio_session =
  as_codec :: audio_codec
  as_payload_number :: usize
  as_host_ssrc :: u32
  as_remote_ssrc :: "u32 option"

record negotiated_session =
  sdp_answer :: sdp
  ice_credentials :: ice_credentials
  video_session :: video_session
  audio_session :: audio_session

record sdp_resolver =
  res_fingerprint :: fingerprint
  res_candidate :: candidate

text \<open>What one negotiation draws from the \<open>rand\<close> crate: for each random string the samples of the
  \<open>Alphanumeric\<close> distribution, and two numbers.\<close>

type_synonym samples = "nat \<Rightarrow> u8"

record host_random =
  rnd_username :: samples     \<comment> \<open>for \<open>get_random_string(4)\<close>\<close>
  rnd_password :: samples     \<comment> \<open>for \<open>get_random_string(22)\<close>\<close>
  rnd_audio_ssrc :: u32       \<comment> \<open>\<open>get_random_ssrc()\<close> for the audio session\<close>
  rnd_video_ssrc :: u32       \<comment> \<open>\<open>get_random_ssrc()\<close> for the video session\<close>

definition get_random_string :: "nat \<Rightarrow> samples \<Rightarrow> string" where
  "get_random_string n sample_iter = map (\<lambda>k. char_of (unat (sample_iter k))) [0..<n]"

definition HOST_CNAME :: string where "HOST_CNAME = ''SMID''"

definition ACCEPTED_VIDEO_CODEC :: video_codec where "ACCEPTED_VIDEO_CODEC = H264"
definition ACCEPTED_AUDIO_CODEC :: audio_codec where "ACCEPTED_AUDIO_CODEC = Opus"

section \<open>Printing an SDP\<close>

definition string_from_section :: "set_order \<Rightarrow> sdp_line list \<Rightarrow> panic + string" where
  "string_from_section iter ls = map_res (join CRLF) (collect_res (string_from_sdp_line iter) ls)"

definition string_from_sdp :: "set_order \<Rightarrow> sdp \<Rightarrow> panic + string" where
  "string_from_sdp iter v =
     bind_res (string_from_section iter (video_section v)) (\<lambda>video.
     bind_res (string_from_section iter (audio_section v)) (\<lambda>audio.
     bind_res (string_from_section iter (session_section v)) (\<lambda>session.
       Inr (session @ CRLF @ audio @ CRLF @ video @ CRLF))))"

section \<open>What the searches look for in a line\<close>

fun attr_ice_username :: "sdp_line \<Rightarrow> ice_username option" where
  "attr_ice_username (AttributeLine (ICEUsernameAttr u)) = Some u"
| "attr_ice_username _ = None"

fun attr_ice_password :: "sdp_line \<Rightarrow> ice_password option" where
  "attr_ice_password (AttributeLine (ICEPasswordAttr p)) = Some p"
| "attr_ice_password _ = None"

fun attr_rtcp_mux :: "sdp_line \<Rightarrow> unit option" where
  "attr_rtcp_mux (AttributeLine RTCPMux) = Some ()"
| "attr_rtcp_mux _ = None"

fun attr_send_only :: "sdp_line \<Rightarrow> unit option" where
  "attr_send_only (AttributeLine SendOnly) = Some ()"
| "attr_send_only _ = None"

fun attr_receive_only :: "sdp_line \<Rightarrow> unit option" where
  "attr_receive_only (AttributeLine ReceiveOnly) = Some ()"
| "attr_receive_only _ = None"

fun attr_media_ssrc :: "sdp_line \<Rightarrow> u32 option" where
  "attr_media_ssrc (AttributeLine (MediaSSRCAttr m)) = Some (ssrc m)"
| "attr_media_ssrc _ = None"

fun attr_codec_payload :: "media_codec \<Rightarrow> sdp_line \<Rightarrow> usize option" where
  "attr_codec_payload c (AttributeLine (RTPMapAttr m)) =
     (if rtpmap_codec m = c then Some (rtpmap_payload_number m) else None)"
| "attr_codec_payload c _ = None"

fun attr_fmtp :: "(usize \<Rightarrow> bool) \<Rightarrow> sdp_line \<Rightarrow> fmtp option" where
  "attr_fmtp p (AttributeLine (FMTPAttr f)) = (if p (fmtp_payload_number f) then Some f else None)"
| "attr_fmtp p _ = None"

fun attr_bundle :: "sdp_line \<Rightarrow> string list option" where
  "attr_bundle (AttributeLine (MediaGroupAttr (Bundle g))) = Some g"
| "attr_bundle _ = None"

fun attr_media_id :: "sdp_line \<Rightarrow> media_id option" where
  "attr_media_id (AttributeLine (MediaIDAttr m)) = Some m"
| "attr_media_id _ = None"

fun attr_is_passive :: "sdp_line \<Rightarrow> bool option" where
  "attr_is_passive (AttributeLine (SetupAttr r)) = Some (r = Passive)"
| "attr_is_passive _ = None"

fun line_media :: "sdp_line \<Rightarrow> media_description option" where
  "line_media (MediaDescriptionLine m) = Some m"
| "line_media _ = None"

section \<open>The resolver\<close>

definition resolver_new :: "string \<Rightarrow> socket_addr \<Rightarrow> panic + sdp_resolver" where
  "resolver_new fingerprint_hash udp_socket =
     (case fingerprint_try_from (''fingerprint:'' @ fingerprint_hash) of
        Inl _ \<Rightarrow> Inl UnwrapFailed
      | Inr fp \<Rightarrow> Inr \<lparr>res_fingerprint = fp,
          res_candidate = \<lparr>foundation = ''1'', component_id = 1, priority = 2015363327,
            connection_address = sock_ip udp_socket, port = sock_port udp_socket\<rparr>\<rparr>)"

definition get_ice_credentials :: "host_random \<Rightarrow> sdp \<Rightarrow> ice_credentials option" where
  "get_ice_credentials rnd s =
     (let default_username = find_map attr_ice_username (session_section s);
          default_password = find_map attr_ice_password (session_section s);
          audio_media_username = find_map attr_ice_username (audio_section s);
          audio_media_password = find_map attr_ice_password (audio_section s);
          video_media_username = find_map attr_ice_username (video_section s);
          video_media_password = find_map attr_ice_password (video_section s) in
      if audio_media_username \<noteq> None \<or> video_media_username \<noteq> None then
        Option.bind audio_media_username (\<lambda>au.
        Option.bind audio_media_password (\<lambda>ap.
        Option.bind video_media_username (\<lambda>vu.
        Option.bind video_media_password (\<lambda>vp.
          if au \<noteq> vu \<or> ap \<noteq> vp then None
          else Some \<lparr>host_username = get_random_string 4 (rnd_username rnd),
                     host_password = get_random_string 22 (rnd_password rnd),
                     remote_username = username au, remote_password = password ap\<rparr>))))
      else
        Option.bind default_username (\<lambda>u.
        Option.bind default_password (\<lambda>p.
          Some \<lparr>host_username = get_random_string 4 (rnd_username rnd),
                     host_password = get_random_string 22 (rnd_password rnd),
                remote_username = username u, remote_password = password p\<rparr>)))"

definition get_streamer_audio_session :: "u32 \<Rightarrow> sdp_line list \<Rightarrow> audio_session sdp_result" where
  "get_streamer_audio_session rnd_ssrc media =
     (if find_map attr_rtcp_mux media = None then Inl DemuxRequired
      else if find_map attr_send_only media = None then Inl InvalidStreamDirection
      else
        bind_res (ok_or UnsupportedMediaCodecs
            (find_map (attr_codec_payload (AudioCodec ACCEPTED_AUDIO_CODEC)) media)) (\<lambda>pn.
          Inr \<lparr>as_codec = ACCEPTED_AUDIO_CODEC, as_payload_number = pn, as_host_ssrc = rnd_ssrc,
               as_remote_ssrc = find_map attr_media_ssrc media\<rparr>))"

definition get_streamer_video_session :: "u32 \<Rightarrow> sdp_line list \<Rightarrow> video_session sdp_result" where
  "get_streamer_video_session rnd_ssrc media =
     (if find_map attr_rtcp_mux media = None then Inl DemuxRequired
      else if find_map attr_send_only media = None then Inl InvalidStreamDirection
      else
        bind_res (ok_or UnsupportedMediaCodecs
            (find_map (attr_codec_payload (VideoCodec ACCEPTED_VIDEO_CODEC)) media)) (\<lambda>pn.
        bind_res (ok_or MissingVideoCapabilities
            (map_option format_capability (find_map (attr_fmtp (\<lambda>n. n = pn)) media))) (\<lambda>caps.
          Inr \<lparr>vs_codec = ACCEPTED_VIDEO_CODEC, vs_payload_number = pn, vs_host_ssrc = rnd_ssrc,
               vs_remote_ssrc = find_map attr_media_ssrc media, vs_capabilities = caps\<rparr>)))"

definition nth_or :: "'e \<Rightarrow> nat \<Rightarrow> 'a list \<Rightarrow> 'e + 'a" where
  "nth_or e n xs = (if n < length xs then Inr (xs ! n) else Inl e)"

definition get_media_ids :: "sdp \<Rightarrow> (media_id \<times> media_id) sdp_result" where
  "get_media_ids s =
     bind_res (ok_or BundleRequired (find_map attr_bundle (session_section s))) (\<lambda>bundle_group.
     bind_res (nth_or MalformedSDPLine 0 bundle_group) (\<lambda>a_id.
     bind_res (nth_or MalformedSDPLine 1 bundle_group) (\<lambda>v_id.
     bind_res (ok_or InvalidMediaID (find_map attr_media_id (audio_section s))) (\<lambda>actual_audio_id.
     if \<lparr>mid_id = a_id\<rparr> \<noteq> actual_audio_id then Inl InvalidMediaID else
     bind_res (ok_or InvalidMediaID (find_map attr_media_id (video_section s))) (\<lambda>actual_video_id.
     if \<lparr>mid_id = v_id\<rparr> \<noteq> actual_video_id then Inl InvalidMediaID
     else Inr (\<lparr>mid_id = a_id\<rparr>, \<lparr>mid_id = v_id\<rparr>))))))"

text \<open>The answer to a streamer (\<open>recvonly\<close>).\<close>

definition parse_stream_offer ::
    "sdp_resolver \<Rightarrow> host_random \<Rightarrow> sdp \<Rightarrow> negotiated_session sdp_result" where
  "parse_stream_offer self rnd sdp_offer =
     bind_res (get_media_ids sdp_offer) (\<lambda>(audio_mid, video_mid).
     bind_res (ok_or MissingICECredentials (get_ice_credentials rnd sdp_offer)) (\<lambda>creds.
     bind_res (get_streamer_audio_session (rnd_audio_ssrc rnd) (audio_section sdp_offer)) (\<lambda>audio.
     bind_res (get_streamer_video_session (rnd_video_ssrc rnd) (video_section sdp_offer)) (\<lambda>video.
     bind_res (ok_or MalformedSDPLine (find_map attr_is_passive (session_section sdp_offer))) (\<lambda>is_passive.
     if is_passive then Inl InvalidDTLSRole else
     let c = res_candidate self;
         session = [
           ProtocolVersion ''0'',
           OriginatorLine \<lparr>o_username = HOST_CNAME, o_session_id = ''3767197920'',
             o_session_version = ''0'', o_ip_addr = connection_address c\<rparr>,
           SessionName HOST_CNAME,
           SessionTimeLine \<lparr>start_time = 0, end_time = 0\<rparr>,
           AttributeLine (MediaGroupAttr (Bundle [mid_id audio_mid, mid_id video_mid])),
           AttributeLine (ICEUsernameAttr \<lparr>username = host_username creds\<rparr>),
           AttributeLine (ICEPasswordAttr \<lparr>password = host_password creds\<rparr>),
           AttributeLine (ICEOptionsAttr \<lparr>options = [ICE2]\<rparr>),
           AttributeLine ICELite,
           AttributeLine (FingerprintAttr (res_fingerprint self)),
           AttributeLine (SetupAttr Passive)];
         audio_lines = [
           MediaDescriptionLine \<lparr>md_media_type = Audio, md_transport_port = unat (port c),
             md_transport_protocol = DtlsSrtp, md_media_format_description = [as_payload_number audio]\<rparr>,
           ConnectionDataLine \<lparr>cd_ip = connection_address c\<rparr>,
           AttributeLine ReceiveOnly,
           AttributeLine RTCPMux,
           AttributeLine (MediaIDAttr audio_mid),
           AttributeLine (CandidateAttr c),
           AttributeLine EndOfCandidates,
           AttributeLine (RTPMapAttr \<lparr>rtpmap_codec = AudioCodec (as_codec audio),
             rtpmap_payload_number = as_payload_number audio\<rparr>),
           AttributeLine (MediaSSRCAttr \<lparr>ssrc = as_host_ssrc audio, source_attribute = CNAME HOST_CNAME\<rparr>)];
         video_lines = [
           MediaDescriptionLine \<lparr>md_media_type = Video, md_transport_port = unat (port c),
             md_transport_protocol = DtlsSrtp, md_media_format_description = [vs_payload_number video]\<rparr>,
           ConnectionDataLine \<lparr>cd_ip = connection_address c\<rparr>,
           AttributeLine ReceiveOnly,
           AttributeLine RTCPMux,
           AttributeLine (MediaIDAttr video_mid),
           AttributeLine (RTPMapAttr \<lparr>rtpmap_codec = VideoCodec (vs_codec video),
             rtpmap_payload_number = vs_payload_number video\<rparr>),
           AttributeLine (MediaSSRCAttr \<lparr>ssrc = vs_host_ssrc video, source_attribute = CNAME HOST_CNAME\<rparr>),
           AttributeLine (FMTPAttr \<lparr>fmtp_payload_number = vs_payload_number video,
             format_capability = vs_capabilities video\<rparr>)]
     in Inr \<lparr>sdp_answer = \<lparr>session_section = session, video_section = video_lines, audio_section = audio_lines\<rparr>,
             ice_credentials = creds, video_session = video, audio_session = audio\<rparr>)))))"

definition get_viewer_audio_session :: "u32 \<Rightarrow> sdp_line list \<Rightarrow> audio_session \<Rightarrow> audio_session sdp_result" where
  "get_viewer_audio_session rnd_ssrc media streamer =
     (if find_map attr_rtcp_mux media = None then Inl DemuxRequired
      else
        bind_res (ok_or MalformedSDPLine (find_map attr_is_passive media)) (\<lambda>is_passive.
        if is_passive then Inl InvalidDTLSRole
        else if find_map attr_receive_only media = None then Inl InvalidStreamDirection
        else
        bind_res (ok_or UnsupportedMediaCodecs
            (find_map (attr_codec_payload (AudioCodec (as_codec streamer))) media)) (\<lambda>pn.
          Inr \<lparr>as_codec = as_codec streamer, as_payload_number = pn, as_host_ssrc = rnd_ssrc,
               as_remote_ssrc = find_map attr_media_ssrc media\<rparr>)))"

definition get_viewer_video_session :: "u32 \<Rightarrow> sdp_line list \<Rightarrow> video_session \<Rightarrow> video_session sdp_result" where
  "get_viewer_video_session rnd_ssrc media streamer =
     (if find_map attr_rtcp_mux media = None then Inl DemuxRequired
      else
        bind_res (ok_or MalformedSDPLine (find_map attr_is_passive media)) (\<lambda>is_passive.
        if is_passive then Inl InvalidDTLSRole
        else if find_map attr_receive_only media = None then Inl InvalidStreamDirection
        else
        let available_payload_numbers =
              filter_map (attr_codec_payload (VideoCodec (vs_codec streamer))) media in
        bind_res (ok_or UnsupportedMediaCodecs
            (find_map (\<lambda>f. if format_capability f = vs_capabilities streamer
                           then Some (fmtp_payload_number f) else None)
              (filter_map (attr_fmtp (\<lambda>n. n \<in> set available_payload_numbers)) media))) (\<lambda>pn.
          Inr \<lparr>vs_codec = vs_codec streamer, vs_payload_number = pn, vs_host_ssrc = rnd_ssrc,
               vs_remote_ssrc = find_map attr_media_ssrc media, vs_capabilities = vs_capabilities streamer\<rparr>)))"

text \<open>The answer to a viewer (\<open>sendonly\<close>).\<close>

definition parse_viewer_offer ::
    "sdp_resolver \<Rightarrow> host_random \<Rightarrow> sdp \<Rightarrow> negotiated_session \<Rightarrow> negotiated_session sdp_result" where
  "parse_viewer_offer self rnd viewer_sdp streamer_session =
     bind_res (ok_or MissingICECredentials (get_ice_credentials rnd viewer_sdp)) (\<lambda>creds.
     bind_res (get_media_ids viewer_sdp) (\<lambda>(audio_mid, video_mid).
     bind_res (get_viewer_audio_session (rnd_audio_ssrc rnd) (audio_section viewer_sdp)
                 (audio_session streamer_session)) (\<lambda>audio.
     bind_res (get_viewer_video_session (rnd_video_ssrc rnd) (video_section viewer_sdp)
                 (video_session streamer_session)) (\<lambda>video.
     let c = res_candidate self;
         session = [
           ProtocolVersion ''0'',
           OriginatorLine \<lparr>o_username = HOST_CNAME, o_session_id = ''3767197920'',
             o_session_version = ''0'', o_ip_addr = connection_address c\<rparr>,
           SessionName HOST_CNAME,
           SessionTimeLine \<lparr>start_time = 0, end_time = 0\<rparr>,
           AttributeLine (MediaGroupAttr (Bundle [mid_id audio_mid, mid_id video_mid])),
           AttributeLine (ICEUsernameAttr \<lparr>username = host_username creds\<rparr>),
           AttributeLine (ICEPasswordAttr \<lparr>password = host_password creds\<rparr>),
           AttributeLine (ICEOptionsAttr \<lparr>options = [ICE2]\<rparr>),
           AttributeLine ICELite,
           AttributeLine (FingerprintAttr (res_fingerprint self)),
           AttributeLine (SetupAttr Passive)];
         audio_lines = [
           MediaDescriptionLine \<lparr>md_media_type = Audio, md_transport_port = unat (port c),
             md_transport_protocol = DtlsSrtp, md_media_format_description = [as_payload_number audio]\<rparr>,
           ConnectionDataLine \<lparr>cd_ip = connection_address c\<rparr>,
           AttributeLine SendOnly,
           AttributeLine RTCPMux,
           AttributeLine (MediaIDAttr audio_mid),
           AttributeLine (CandidateAttr c),
           AttributeLine EndOfCandidates,
           AttributeLine (RTPMapAttr \<lparr>rtpmap_codec = AudioCodec (as_codec audio),
             rtpmap_payload_number = as_payload_number audio\<rparr>),
           AttributeLine (MediaSSRCAttr \<lparr>ssrc = as_host_ssrc audio, source_attribute = CNAME HOST_CNAME\<rparr>)];
         video_lines = [
           MediaDescriptionLine \<lparr>md_media_type = Video, md_transport_port = unat (port c),
             md_transport_protocol = DtlsSrtp, md_media_format_description = [vs_payload_number video]\<rparr>,
           ConnectionDataLine \<lparr>cd_ip = connection_address c\<rparr>,
           AttributeLine SendOnly,
           AttributeLine RTCPMux,
           AttributeLine (MediaIDAttr video_mid),
           AttributeLine (RTPMapAttr \<lparr>rtpmap_codec = VideoCodec (vs_codec video),
             rtpmap_payload_number = vs_payload_number video\<rparr>),
           AttributeLine (MediaSSRCAttr \<lparr>ssrc = vs_host_ssrc video, source_attribute = CNAME HOST_CNAME\<rparr>),
           AttributeLine (FMTPAttr \<lparr>fmtp_payload_number = vs_payload_number video,
             format_capability = vs_capabilities video\<rparr>)]
     in Inr \<lparr>sdp_answer = \<lparr>session_section = session, video_section = video_lines, audio_section = audio_lines\<rparr>,
             ice_credentials = creds, video_session = video, audio_session = audio\<rparr>))))"

section \<open>Sections of an offer\<close>

fun is_originator :: "sdp_line \<Rightarrow> bool" where
  "is_originator (OriginatorLine _) = True" | "is_originator _ = False"

fun is_session_name :: "sdp_line \<Rightarrow> bool" where
  "is_session_name (SessionName _) = True" | "is_session_name _ = False"

fun is_session_time :: "sdp_line \<Rightarrow> bool" where
  "is_session_time (SessionTimeLine _) = True" | "is_session_time _ = False"

text \<open>The line is not the given media description: the condition of \<open>take_while\<close> and
  \<open>skip_while\<close>.\<close>

definition not_media :: "media_description \<Rightarrow> sdp_line \<Rightarrow> bool" where
  "not_media m l = (case line_media l of Some media \<Rightarrow> media \<noteq> m | None \<Rightarrow> True)"

definition sections_of :: "sdp_line list \<Rightarrow> sdp sdp_result" where
  "sections_of sdp_lines =
     bind_res (nth_or SequenceError 0 sdp_lines) (\<lambda>l0.
     if l0 \<noteq> ProtocolVersion ''0'' then Inl SequenceError else
     bind_res (nth_or SequenceError 1 sdp_lines) (\<lambda>l1.
     if \<not> is_originator l1 then Inl SequenceError else
     bind_res (nth_or SequenceError 2 sdp_lines) (\<lambda>l2.
     if \<not> is_session_name l2 then Inl SequenceError else
     bind_res (nth_or SequenceError 3 sdp_lines) (\<lambda>l3.
     if \<not> is_session_time l3 then Inl SequenceError else
     (case filter_map line_media sdp_lines of
        [first_media, second_media] \<Rightarrow>
          if md_media_type first_media \<noteq> Audio then Inl SequenceError
          else if md_media_type second_media \<noteq> Video then Inl SequenceError
          else Inr \<lparr>session_section = takeWhile (not_media first_media) sdp_lines,
                    video_section = dropWhile (not_media second_media) sdp_lines,
                    audio_section = takeWhile (not_media second_media)
                                      (dropWhile (not_media first_media) sdp_lines)\<rparr>
      | _ \<Rightarrow> Inl UnsupportedMediaCount)))))"

definition get_sdp :: "string \<Rightarrow> sdp sdp_result" where
  "get_sdp raw_data =
     bind_res (collect_res sdp_line_try_from (filter (\<lambda>l. l \<noteq> []) (str_lines raw_data))) sections_of"

definition accept_stream_offer ::
    "sdp_resolver \<Rightarrow> host_random \<Rightarrow> string \<Rightarrow> negotiated_session sdp_result" where
  "accept_stream_offer self rnd raw_data = bind_res (get_sdp raw_data) (parse_stream_offer self rnd)"

definition accept_viewer_offer ::
    "sdp_resolver \<Rightarrow> host_random \<Rightarrow> string \<Rightarrow> negotiated_session \<Rightarrow> negotiated_session sdp_result" where
  "accept_viewer_offer self rnd raw_data streamer_session =
     bind_res (get_sdp raw_data) (\<lambda>s. parse_viewer_offer self rnd s streamer_session)"

end
