(* ===== verification/Stun.thy ===== *)
theory Stun
  imports Rust_Io Net_Addr Sdp_Resolver
begin

text \<open>
  The STUN codec of \<open>src/stun.rs\<close>: parsing a binding request, classifying it as a live check or a
  nomination, and building the success response with its attributes. HMAC-SHA1 (the \<open>openssl\<close>
  crate) and CRC-32 (\<open>crc32fast\<close>) are arguments. \<open>chk\<close> says whether the build checks integer
  overflow (debug) or wraps (release). Fixed-size arrays are lists; their lengths are proved where
  a value is made.
\<close>

section \<open>Types\<close>

record session_username =
  host :: string
  remote :: string

datatype stun_attribute_type =
    MappedAddressT | UsernameT | MessageIntegrityT | IceControllingT | UseCandidateT
  | XORMappedAddressT | FingerprintT | UnknownT

fun stun_attribute_type_code :: "stun_attribute_type \<Rightarrow> u16" where
  "stun_attribute_type_code MappedAddressT = 0x1"
| "stun_attribute_type_code UsernameT = 0x6"
| "stun_attribute_type_code MessageIntegrityT = 0x8"
| "stun_attribute_type_code IceControllingT = 0x802a"
| "stun_attribute_type_code UseCandidateT = 0x25"
| "stun_attribute_type_code XORMappedAddressT = 0x20"
| "stun_attribute_type_code FingerprintT = 0x8028"
| "stun_attribute_type_code UnknownT = 0x8029"

datatype stun_type = BindingRequest | SuccessResponse

fun stun_type_code :: "stun_type \<Rightarrow> u16" where
  "stun_type_code BindingRequest = 0x0001"
| "stun_type_code SuccessResponse = 0x0101"

datatype stun_attribute =
    UnknownAttribute
  | MessageIntegrity bytes
  | Username session_username
  | IceControlling
  | UseCandidate

record stun_binding_request =
  req_attributes :: "stun_attribute list"
  req_transaction_id :: bytes

record ice_stun_packet =
  username_attribute :: session_username
  message_integrity :: bytes
  transaction_id :: bytes

datatype ice_stun_message_type =
    LiveCheck ice_stun_packet
  | Nomination ice_stun_packet

definition STUN_MESSAGE_INTEGRITY_LEN :: nat where "STUN_MESSAGE_INTEGRITY_LEN = 20"
definition STUN_MESSAGE_INTEGRITY_ATTRIBUTE_LEN :: nat where "STUN_MESSAGE_INTEGRITY_ATTRIBUTE_LEN = 24"
definition STUN_TRANSACTION_ID_LEN :: nat where "STUN_TRANSACTION_ID_LEN = 12"
definition STUN_HEADER_LEN :: nat where "STUN_HEADER_LEN = 20"
definition STUN_COOKIE :: u32 where "STUN_COOKIE = 0x2112a442"

lemmas stun_consts = STUN_MESSAGE_INTEGRITY_LEN_def STUN_MESSAGE_INTEGRITY_ATTRIBUTE_LEN_def
  STUN_TRANSACTION_ID_LEN_def STUN_HEADER_LEN_def

section \<open>Padding\<close>

text \<open>\<open>value + 4 - modulo\<close> is computed in \<open>u16\<close>, left to right.\<close>

definition pad_to_4bytes :: "bool \<Rightarrow> u16 \<Rightarrow> panic + u16" where
  "pad_to_4bytes chk v = (let m = v mod 4 in
     if m = 0 then Inr v
     else if chk \<and> 2 ^ 16 \<le> unat v + 4 then Inl ArithOverflow
     else Inr (v + 4 - m))"

section \<open>Parsing a binding request\<close>

definition attribute_type_of_key :: "u16 \<Rightarrow> stun_attribute_type" where
  "attribute_type_of_key k =
     (if k = 0x6 then UsernameT else if k = 0x8 then MessageIntegrityT
      else if k = 0x802a then IceControllingT else if k = 0x25 then UseCandidateT else UnknownT)"

definition NUL :: char where "NUL = CHR 0x00"

definition stun_attribute_of :: "stun_attribute_type \<Rightarrow> bytes \<Rightarrow> panic + stun_attribute" where
  "stun_attribute_of t v = (case t of
       UsernameT \<Rightarrow>
         bind_res (ok_or UnwrapFailed (string_from_utf8 v)) (\<lambda>username_string.
         bind_res (ok_or UnwrapFailed (split_once '':'' username_string)) (\<lambda>(h, r).
           Inr (Username \<lparr>host = trim_end_char NUL h, remote = trim_end_char NUL r\<rparr>)))
     | MessageIntegrityT \<Rightarrow>
         bind_res (slice_to STUN_MESSAGE_INTEGRITY_LEN v) (\<lambda>b. Inr (MessageIntegrity b))
     | IceControllingT \<Rightarrow> Inr IceControlling
     | UseCandidateT \<Rightarrow> Inr UseCandidate
     | _ \<Rightarrow> Inr UnknownAttribute)"

text \<open>The attribute loop: it runs to the end of the packet, whatever the header's length says, and
  stops when fewer than two bytes are left.\<close>

function parse_stun_attributes :: "bool \<Rightarrow> bytes \<Rightarrow> panic + stun_attribute list" where
  "parse_stun_attributes chk bs = (case read_u16 bs of
       None \<Rightarrow> Inr []
     | Some (key, bs1) \<Rightarrow>
         bind_res (ok_or UnwrapFailed (read_u16 bs1)) (\<lambda>len_bs.
         bind_res (pad_to_4bytes chk (fst len_bs)) (\<lambda>padded.
         bind_res (ok_or UnwrapFailed (read_exact (unat padded) (snd len_bs))) (\<lambda>val_bs.
         bind_res (stun_attribute_of (attribute_type_of_key key) (fst val_bs)) (\<lambda>attr.
         bind_res (parse_stun_attributes chk (snd val_bs)) (\<lambda>rest. Inr (attr # rest)))))))"
  by pat_completeness auto
termination
  by (relation "measure (\<lambda>(_, bs). length bs)")
    (auto simp: ok_or_eq_Inr dest!: read_u16_length read_exact_length)

declare parse_stun_attributes.simps [simp del]

definition parse_stun_packet :: "bool \<Rightarrow> bytes \<Rightarrow> panic + stun_binding_request option" where
  "parse_stun_packet chk packet =
     (if length packet < STUN_HEADER_LEN then Inr None else
      (case read_u16 packet of None \<Rightarrow> Inr None | Some (message_type, r1) \<Rightarrow>
       if message_type \<noteq> stun_type_code BindingRequest then Inr None else
      (case read_u16 r1 of None \<Rightarrow> Inr None | Some (len, r2) \<Rightarrow>
       if len mod 4 \<noteq> 0 \<or> length packet < STUN_HEADER_LEN + unat len then Inr None else
      (case read_u32 r2 of None \<Rightarrow> Inr None | Some (magic_cookie, r3) \<Rightarrow>
       if magic_cookie \<noteq> STUN_COOKIE then Inr None else
       bind_res (parse_stun_attributes chk (drop STUN_TRANSACTION_ID_LEN r3)) (\<lambda>attrs.
         Inr (Some \<lparr>req_attributes = attrs, req_transaction_id = take STUN_TRANSACTION_ID_LEN r3\<rparr>))))))"

fun attr_integrity :: "stun_attribute \<Rightarrow> bytes option" where
  "attr_integrity (MessageIntegrity i) = Some i" | "attr_integrity _ = None"

fun attr_use_candidate :: "stun_attribute \<Rightarrow> unit option" where
  "attr_use_candidate UseCandidate = Some ()" | "attr_use_candidate _ = None"

fun attr_username :: "stun_attribute \<Rightarrow> session_username option" where
  "attr_username (Username u) = Some u" | "attr_username _ = None"

definition parse_binding_request :: "stun_binding_request \<Rightarrow> ice_stun_message_type option" where
  "parse_binding_request m =
     Option.bind (find_map attr_integrity (req_attributes m)) (\<lambda>integrity.
     let nominate_flag = find_map attr_use_candidate (req_attributes m) in
     Option.bind (find_map attr_username (req_attributes m)) (\<lambda>session_username.
     let p = \<lparr>username_attribute = session_username, message_integrity = integrity,
              transaction_id = req_transaction_id m\<rparr> in
     case nominate_flag of None \<Rightarrow> Some (LiveCheck p) | Some _ \<Rightarrow> Some (Nomination p)))"

definition get_stun_packet :: "bool \<Rightarrow> bytes \<Rightarrow> panic + ice_stun_message_type option" where
  "get_stun_packet chk data =
     map_res (\<lambda>r. Option.bind r parse_binding_request) (parse_stun_packet chk data)"

section \<open>The success response\<close>

definition xor_range :: "bytes \<Rightarrow> bytes \<Rightarrow> panic + bytes" where
  "xor_range target xs = (if length xs < length target then Inl OutOfBounds
     else Inr (map2 (XOR) target xs))"

text \<open>The attribute writers return the buffer they were given, overwritten, and the length the
  internal buffer of their \<open>BufWriter\<close> had before the flush.\<close>

definition finish_attribute :: "bytes list \<Rightarrow> bytes \<Rightarrow> panic + (bytes \<times> nat)" where
  "finish_attribute chunks buffer =
     bind_res (unwrap_io (bw_writes chunks (bw_new (length buffer)))) (\<lambda>w.
     bind_res (unwrap_io (bw_flush w)) (\<lambda>w'.
       Inr (write_at 0 (bw_out w') buffer, length (bw_buf w))))"

definition write_username_attribute :: "bool \<Rightarrow> bytes \<Rightarrow> ice_credentials \<Rightarrow> panic + (bytes \<times> nat)" where
  "write_username_attribute chk buffer creds =
     (let username = host_username creds @ '':'' @ remote_username creds;
          len16 = of_nat (length username) :: u16 in
      bind_res (pad_to_4bytes chk len16) (\<lambda>padded.
        let padded_length = unat padded in
        finish_attribute
          ([be16 (stun_attribute_type_code UsernameT), be16 len16] @
           (if length username < padded_length
            then [as_bytes (username @ replicate (padded_length - length username) NUL)] else []))
          buffer))"

fun mapped_address_chunks :: "socket_addr \<Rightarrow> bytes list" where
  "mapped_address_chunks (SockV4 ip p) = [be16 0x8, [0x0], [0x01], be16 p, octets4 ip]"
| "mapped_address_chunks (SockV6 ip p _ _) = [be16 0x14, [0x0], [0x2], be16 p, octets6 ip]"

definition write_mapped_address_attribute :: "bytes \<Rightarrow> socket_addr \<Rightarrow> panic + (bytes \<times> nat)" where
  "write_mapped_address_attribute buffer rem =
     finish_attribute (be16 (stun_attribute_type_code MappedAddressT) # mapped_address_chunks rem) buffer"

fun compute_xor_mapped_address :: "socket_addr \<Rightarrow> bytes \<Rightarrow> panic + bytes" where
  "compute_xor_mapped_address (SockV4 ip p) tid =
     (let masked_port = p XOR ucast (drop_bit 16 STUN_COOKIE) in
      bind_res (xor_range (octets4 ip) (be32 STUN_COOKIE)) (\<lambda>masked_address.
        Inr (be16 (stun_attribute_type_code XORMappedAddressT) @ be16 8 @ [0] @ [0x01]
             @ be16 masked_port @ masked_address)))"
| "compute_xor_mapped_address (SockV6 ip p _ _) tid =
     (let masked_port = p XOR ucast (drop_bit 16 STUN_COOKIE) in
      bind_res (xor_range (octets6 ip) (be32 STUN_COOKIE @ tid)) (\<lambda>masked_address.
        Inr (be16 (stun_attribute_type_code XORMappedAddressT) @ be16 20 @ [0] @ [0x02]
             @ be16 masked_port @ masked_address)))"

text \<open>\<open>hmac_sha1\<close> is the keyed digest of the \<open>openssl\<close> crate; \<open>None\<close> is an error of the library,
  which the code unwraps, as it does a digest longer than the 20 bytes left of the buffer.\<close>

type_synonym hmac = "bytes \<Rightarrow> bytes \<Rightarrow> bytes option"

definition write_message_integrity_attribute ::
    "hmac \<Rightarrow> bytes \<Rightarrow> bytes \<Rightarrow> bytes \<Rightarrow> string \<Rightarrow> panic + (bytes \<times> nat)" where
  "write_message_integrity_attribute hmac_sha1 buffer header attributes key =
     bind_res (unwrap_io (if length buffer < 4 then Inl WriteZero else Inr ())) (\<lambda>_.
     case hmac_sha1 (as_bytes key) (header @ attributes) of
       None \<Rightarrow> Inl UnwrapFailed
     | Some d \<Rightarrow> if length buffer - 4 < length d then Inl UnwrapFailed
         else Inr (write_at 0 (be16 (stun_attribute_type_code MessageIntegrityT) @ be16 20 @ d) buffer, length d))"

text \<open>The result is the \<open>Result<usize, Error>\<close> of the code with the buffer as it is left.
  \<open>seal_response\<close> is the part of \<open>create_stun_success\<close> after the three address and name attributes:
  header, integrity over what the writer has buffered, flush, corrected length, fingerprint.\<close>

definition seal_response ::
    "bool \<Rightarrow> hmac \<Rightarrow> (bytes \<Rightarrow> u32) \<Rightarrow> string \<Rightarrow> bytes \<Rightarrow> bytes \<Rightarrow> bytes \<Rightarrow> bytes \<Rightarrow> bytes
       \<Rightarrow> panic + (io_error + nat \<times> bytes)" where
  "seal_response chk hmac_sha1 crc32 key tid username_attr xor_attr mapped_attr buffer =
     (let message_length = length xor_attr + STUN_MESSAGE_INTEGRITY_ATTRIBUTE_LEN
            + length username_attr + length mapped_attr;
          len16 = of_nat message_length :: u16;
          header = be16 (stun_type_code SuccessResponse) @ be16 len16 @ be32 STUN_COOKIE @ tid;
          attributes = drop 20 buffer in
      (case bw_writes [username_attr, xor_attr, mapped_attr] (bw_new (length attributes)) of
         Inl e \<Rightarrow> Inr (Inl e)
       | Inr w \<Rightarrow>
      bind_res (write_message_integrity_attribute hmac_sha1 (replicate 24 0) header (bw_buf w) key) (\<lambda>ia.
      (case bind_res (bw_write (fst ia) w) bw_flush of
         Inl e \<Rightarrow> Inr (Inl e)
       | Inr w' \<Rightarrow>
      if chk \<and> 2 ^ 16 \<le> unat len16 + 8 then Inl ArithOverflow else
      let header' = be16 (stun_type_code SuccessResponse) @ be16 (len16 + 8) @ be32 STUN_COOKIE @ tid;
          buffer' = header' @ write_at 0 (bw_out w') attributes in
      bind_res (slice_to (20 + message_length) buffer') (\<lambda>signed.
      let fp = crc32 signed XOR 0x5354554e;
          fp_attr = be16 (stun_attribute_type_code FingerprintT) @ be16 0x4 @ be32 fp in
      if length buffer' < STUN_HEADER_LEN + message_length + length fp_attr then Inl OutOfBounds else
      Inr (Inr (STUN_HEADER_LEN + message_length + 8,
                write_at (STUN_HEADER_LEN + message_length) fp_attr buffer')))))))"

definition create_stun_success ::
    "bool \<Rightarrow> hmac \<Rightarrow> (bytes \<Rightarrow> u32) \<Rightarrow> ice_credentials \<Rightarrow> bytes \<Rightarrow> socket_addr \<Rightarrow> bytes
       \<Rightarrow> panic + (io_error + nat \<times> bytes)" where
  "create_stun_success chk hmac_sha1 crc32 creds tid rem buffer =
     (if length buffer < 20 then Inl OutOfBounds else
      bind_res (write_username_attribute chk (replicate 120 0) creds) (\<lambda>(ubuf, ulen).
      bind_res (slice_to ulen ubuf) (\<lambda>username_attr.
      bind_res (compute_xor_mapped_address rem tid) (\<lambda>xor_attr.
      bind_res (write_mapped_address_attribute (replicate 24 0) rem) (\<lambda>(mbuf, mlen).
      bind_res (slice_to mlen mbuf) (\<lambda>mapped_attr.
        seal_response chk hmac_sha1 crc32 (host_password creds) tid username_attr xor_attr mapped_attr buffer))))))"

end
