(* ===== verification/Client.thy ===== *)
theory Client
  imports Rust_Io Net_Addr Extractor Stun
begin

text \<open>
  The DTLS client of \<open>src/client.rs\<close>: a datagram stream with its queue of incoming packets, and the
  state machine handshake, established, shutdown. The objects of the \<open>openssl\<close>, \<open>srtp\<close> and
  \<open>openh264\<close> crates are values of one type parameter, and what the crates do with them is a record of
  functions, which every operation that needs one takes as an argument. An operation returns the
  datagrams it hands to the socket beside its result.
\<close>

section \<open>The peer stream\<close>

record udp_peer_stream =
  ps_remote :: socket_addr
  incoming_packets :: "bytes list"

text \<open>The contents of an \<open>ErrorStack\<close> of the \<open>openssl\<close> crate are only logged.\<close>

datatype error_stack = ErrorStack

datatype client_error = IncompletePacketRead | OpenSslError error_stack

text \<open>The text of an error, given that of the library's stack of errors.\<close>

fun string_from_client_error :: "(error_stack \<Rightarrow> string) \<Rightarrow> client_error \<Rightarrow> string" where
  "string_from_client_error show_stack IncompletePacketRead = ''WebRTC connection packet not completely read''"
| "string_from_client_error show_stack (OpenSslError stack) = ''OpenSSL error '' @ show_stack stack"

datatype io_error = OtherError client_error | WouldBlockError

definition udp_peer_stream_new :: "socket_addr \<Rightarrow> udp_peer_stream" where
  "udp_peer_stream_new rem = \<lparr>ps_remote = rem, incoming_packets = []\<rparr>"

definition push_back :: "bytes \<Rightarrow> udp_peer_stream \<Rightarrow> udp_peer_stream" where
  "push_back p s = s\<lparr>incoming_packets := incoming_packets s @ [p]\<rparr>"

text \<open>\<open>Read\<close>: one whole packet per call; a packet longer than the buffer is lost.\<close>

definition udp_peer_stream_read :: "nat \<Rightarrow> udp_peer_stream \<Rightarrow> (io_error + bytes) \<times> udp_peer_stream" where
  "udp_peer_stream_read buf_len s = (case incoming_packets s of
       [] \<Rightarrow> (Inl WouldBlockError, s)
     | packet # rest \<Rightarrow>
         let s' = s\<lparr>incoming_packets := rest\<rparr> in
         if buf_len < length packet then (Inl (OtherError IncompletePacketRead), s') else (Inr packet, s'))"

text \<open>\<open>Write\<close>: one datagram to the remote, reported as written in full.\<close>

definition udp_peer_stream_write :: "bytes \<Rightarrow> udp_peer_stream \<Rightarrow> nat \<times> (socket_addr \<times> bytes)" where
  "udp_peer_stream_write buf s = (length buf, (ps_remote s, buf))"

section \<open>The crates\<close>

text \<open>What the code calls and cannot be read here.
  How a handshake call ends: finished, failed to set up, failed, or waiting for more packets.\<close>

datatype 'x handshake_outcome =
    HandshakeOk 'x
  | SetupFailure
  | HandshakeFailure 'x
  | WouldBlock 'x

record 'x third_party =
  tp_accept :: "udp_peer_stream \<Rightarrow> 'x handshake_outcome \<times> udp_peer_stream \<times> bytes list"
  tp_handshake :: "'x \<Rightarrow> udp_peer_stream \<Rightarrow> 'x handshake_outcome \<times> udp_peer_stream \<times> bytes list"
  tp_session_pair :: "'x \<Rightarrow> ('x \<times> 'x) option"
  tp_unprotect :: "bytes \<Rightarrow> 'x \<Rightarrow> bytes option \<times> 'x"
  tp_protect :: "bytes \<Rightarrow> 'x \<Rightarrow> bytes option \<times> 'x"
  tp_decoder_new :: "'x option"    \<comment> \<open>whether an H.264 decoder can be initialised, and its state then\<close>
  tp_h264_decode :: "'x h264"
  tp_nal_units :: "bytes \<Rightarrow> bytes list"
  tp_hmac_sha1 :: hmac
  tp_crc32 :: "bytes \<Rightarrow> u32"
  tp_try_clone :: bool    \<comment> \<open>whether the operating system duplicates the socket\<close>

section \<open>The client\<close>

record 'x established_stream =
  ssl_stream :: "'x \<times> udp_peer_stream"
  srtp_inbound :: 'x
  srtp_outbound :: 'x

datatype 'x client_ssl_state =
    Handshake 'x udp_peer_stream
  | Established "'x established_stream"
  | Shutdown

record 'x client =
  ssl_state :: "'x client_ssl_state"
  remote_address :: socket_addr

type_synonym outputs = "(socket_addr \<times> bytes) list"

definition to_remote :: "socket_addr \<Rightarrow> bytes list \<Rightarrow> outputs" where
  "to_remote rem ds = map (\<lambda>d. (rem, d)) ds"

definition client_new :: "'x third_party \<Rightarrow> socket_addr \<Rightarrow> panic + ((error_stack + 'x client) \<times> outputs)" where
  "client_new tp rem =
     (case tp_accept tp (udp_peer_stream_new rem) of
        (HandshakeOk _, _, _) \<Rightarrow> Inl ExplicitPanic
      | (SetupFailure, _, ds) \<Rightarrow> Inr (Inl ErrorStack, to_remote rem ds)
      | (HandshakeFailure _, _, _) \<Rightarrow> Inl ExplicitPanic
      | (WouldBlock x, st, ds) \<Rightarrow>
          Inr (Inr \<lparr>ssl_state = Handshake x st, remote_address = rem\<rparr>, to_remote rem ds))"

text \<open>\<open>read_packet\<close> takes the state out, leaving \<open>Shutdown\<close>, and puts the new one back, except when
  it returns early on a set-up failure.\<close>

definition read_packet ::
    "'x third_party \<Rightarrow> bytes \<Rightarrow> 'x client \<Rightarrow> panic + ((client_error + unit) \<times> 'x client \<times> outputs)" where
  "read_packet tp packet c =
     (case ssl_state c of
        Handshake x st \<Rightarrow>
          (case tp_handshake tp x (push_back packet st) of
             (HandshakeOk y, st', ds) \<Rightarrow>
               (case tp_session_pair tp y of
                  None \<Rightarrow> Inl UnwrapFailed
                | Some (inb, outb) \<Rightarrow>
                    Inr (Inr (), c\<lparr>ssl_state := Established \<lparr>ssl_stream = (y, st'), srtp_inbound = inb,
                                                           srtp_outbound = outb\<rparr>\<rparr>, to_remote (ps_remote st) ds))
           | (SetupFailure, st', ds) \<Rightarrow>
               Inr (Inl (OpenSslError ErrorStack), c\<lparr>ssl_state := Shutdown\<rparr>, to_remote (ps_remote st) ds)
           | (HandshakeFailure y, st', ds) \<Rightarrow>
               Inr (Inr (), c\<lparr>ssl_state := Handshake y st'\<rparr>, to_remote (ps_remote st) ds)
           | (WouldBlock y, st', ds) \<Rightarrow>
               Inr (Inr (), c\<lparr>ssl_state := Handshake y st'\<rparr>, to_remote (ps_remote st) ds))
      | Established e \<Rightarrow>
          Inr (Inr (), c\<lparr>ssl_state := Established (e\<lparr>ssl_stream :=
                 (fst (ssl_stream e), push_back packet (snd (ssl_stream e)))\<rparr>)\<rparr>, [])
      | Shutdown \<Rightarrow> Inr (Inr (), c\<lparr>ssl_state := Shutdown\<rparr>, []))"

text \<open>The one panic of \<open>read_packet\<close>: the packet finishes the handshake and no SRTP keys can be had from it,
  as when the peer negotiated no SRTP profile.\<close>

definition keyless :: "'x third_party \<Rightarrow> bytes \<Rightarrow> 'x client \<Rightarrow> bool" where
  "keyless tp packet c \<longleftrightarrow> (case ssl_state c of
       Handshake x st \<Rightarrow>
         (case fst (tp_handshake tp x (push_back packet st)) of
            HandshakeOk y \<Rightarrow> tp_session_pair tp y = None
          | _ \<Rightarrow> False)
     | _ \<Rightarrow> False)"

lemma read_packet_ok_iff: "is_ok (read_packet tp packet c) \<longleftrightarrow> \<not> keyless tp packet c"
  by (auto simp: read_packet_def keyless_def split: client_ssl_state.splits handshake_outcome.splits option.splits prod.splits)

section \<open>The peer stream is a queue\<close>

text \<open>What the TLS library relies on: packets come out once, whole and in order, and an empty stream
  says so without changing.\<close>

locale datagram_queue =
  fixes enq :: "'p \<Rightarrow> 'q \<Rightarrow> 'q"
    and deq :: "'q \<Rightarrow> ('e + 'p) \<times> 'q"
    and waiting :: "'q \<Rightarrow> 'p list"
    and fits :: "'p \<Rightarrow> bool"
  assumes waiting_enq: "waiting (enq p q) = waiting q @ [p]"
    and deq_some: "waiting q = p # ps \<Longrightarrow> fits p \<Longrightarrow> fst (deq q) = Inr p \<and> waiting (snd (deq q)) = ps"
    and deq_none: "waiting q = [] \<Longrightarrow> (\<exists>e. fst (deq q) = Inl e) \<and> snd (deq q) = q"

text \<open>Queueing a list of packets, and reading a number of times.\<close>

fun enqs :: "('p \<Rightarrow> 'q \<Rightarrow> 'q) \<Rightarrow> 'p list \<Rightarrow> 'q \<Rightarrow> 'q" where
  "enqs enq [] q = q"
| "enqs enq (p # ps) q = enqs enq ps (enq p q)"

fun deqs :: "('q \<Rightarrow> ('e + 'p) \<times> 'q) \<Rightarrow> nat \<Rightarrow> 'q \<Rightarrow> ('e + 'p) list \<times> 'q" where
  "deqs deq 0 q = ([], q)"
| "deqs deq (Suc n) q = (let (r, q1) = deq q; (rs, q2) = deqs deq n q1 in (r # rs, q2))"

context datagram_queue
begin

lemma waiting_enqs: "waiting (enqs enq ps q) = waiting q @ ps"
  by (induction ps arbitrary: q) (simp_all add: waiting_enq)

lemma deqs_in_order:
  "waiting q = ps @ rest \<Longrightarrow> list_all fits ps \<Longrightarrow>
     fst (deqs deq (length ps) q) = map Inr ps \<and> waiting (snd (deqs deq (length ps) q)) = rest"
proof (induction ps arbitrary: q)
  case (Cons p ps)
  then have "fst (deq q) = Inr p" "waiting (snd (deq q)) = ps @ rest"
    using deq_some [of q p "ps @ rest"] by simp_all
  with Cons.IH [of "snd (deq q)"] Cons.prems(2) show ?case
    by (simp add: Let_def case_prod_beta)
qed simp

lemma enqs_deqs:
  "waiting q = [] \<Longrightarrow> list_all fits ps \<Longrightarrow>
     fst (deqs deq (length ps) (enqs enq ps q)) = map Inr ps \<and>
     (\<exists>e. fst (deq (snd (deqs deq (length ps) (enqs enq ps q)))) = Inl e)"
  using deqs_in_order [of "enqs enq ps q" ps "[]"] deq_none by (simp add: waiting_enqs)

end

interpretation peer: datagram_queue push_back "udp_peer_stream_read n" incoming_packets "\<lambda>p. length p \<le> n" for n
  by unfold_locales (auto simp: push_back_def udp_peer_stream_read_def Let_def)

text \<open>The peer stream hands the TLS library every datagram once, whole and in the order of arrival,
  one per read, as long as it fits the read buffer; once all are read the stream would block.\<close>

theorem peer_stream_fifo:
  assumes "list_all (\<lambda>p. length p \<le> n) ps"
  shows "fst (deqs (udp_peer_stream_read n) (length ps) (enqs push_back ps (udp_peer_stream_new rem))) = map Inr ps
     \<and> (\<exists>e. fst (udp_peer_stream_read n (snd (deqs (udp_peer_stream_read n) (length ps)
             (enqs push_back ps (udp_peer_stream_new rem))))) = Inl e)"
  by (rule peer.enqs_deqs) (use assms in \<open>simp_all add: udp_peer_stream_new_def\<close>)

theorem peer_stream_fifo_witness:
  "fst (deqs (udp_peer_stream_read 3) 2 (enqs push_back [[1, 2], [3]] (udp_peer_stream_new (SockV4 1 2)))) = [Inr [1, 2], Inr [3]]"
  using peer_stream_fifo [of 3 "[[1, 2], [3]]" "SockV4 1 2"] by (simp add: numeral_2_eq_2)

section \<open>The state machine\<close>

datatype ssl_phase = InHandshake | IsEstablished | IsShutdown

fun phase :: "'x client_ssl_state \<Rightarrow> ssl_phase" where
  "phase (Handshake _ _) = InHandshake"
| "phase (Established _) = IsEstablished"
| "phase Shutdown = IsShutdown"

text \<open>The transitions a received packet can cause; \<open>strict\<close> rules out the set-up failures of the
  library.\<close>

inductive phase_step :: "bool \<Rightarrow> ssl_phase \<Rightarrow> ssl_phase \<Rightarrow> bool" for strict where
  hs_waits: "phase_step strict InHandshake InHandshake"
| hs_done: "phase_step strict InHandshake IsEstablished"
| hs_setup: "\<not> strict \<Longrightarrow> phase_step strict InHandshake IsShutdown"
| est_stays: "phase_step strict IsEstablished IsEstablished"
| down_stays: "phase_step strict IsShutdown IsShutdown"

inductive_cases phase_stepE [elim]: "phase_step strict a b"
inductive_simps phase_step_simps:
  "phase_step strict InHandshake b" "phase_step strict IsEstablished b" "phase_step strict IsShutdown b"

text \<open>The library's documented behaviour: resuming a handshake does not report a set-up failure.\<close>

definition handshake_sets_up :: "'x third_party \<Rightarrow> bool" where
  "handshake_sets_up tp \<longleftrightarrow> (\<forall>x st. fst (tp_handshake tp x st) \<noteq> SetupFailure)"

lemma read_packet_phase:
  assumes "read_packet tp packet c = Inr (r, c', outs)"
  shows "phase_step (handshake_sets_up tp) (phase (ssl_state c)) (phase (ssl_state c'))"
    and "remote_address c' = remote_address c"
proof -
  have "phase_step (handshake_sets_up tp) (phase (ssl_state c)) (phase (ssl_state c')) \<and> remote_address c' = remote_address c"
  proof (cases "ssl_state c")
    case (Handshake x st)
    obtain ou st' ds where h: "tp_handshake tp x (push_back packet st) = (ou, st', ds)" using prod_cases3 by blast
    then have "handshake_sets_up tp \<Longrightarrow> ou \<noteq> SetupFailure"
      unfolding handshake_sets_up_def by (metis fst_conv)
    with assms Handshake h show ?thesis
      by (cases ou) (auto simp: read_packet_def phase_step_simps split: option.splits)
  qed (use assms in \<open>auto simp: read_packet_def phase_step_simps\<close>)
  then show "phase_step (handshake_sets_up tp) (phase (ssl_state c)) (phase (ssl_state c'))"
    "remote_address c' = remote_address c" by blast+
qed

text \<open>A sequence of packets given to one client.\<close>

fun read_packets :: "'x third_party \<Rightarrow> bytes list \<Rightarrow> 'x client \<Rightarrow> panic + 'x client" where
  "read_packets tp [] c = Inr c"
| "read_packets tp (p # ps) c = bind_res (read_packet tp p c) (\<lambda>(_, c', _). read_packets tp ps c')"

lemma read_packets_phase:
  "read_packets tp ps c = Inr c' \<Longrightarrow>
     (phase_step (handshake_sets_up tp))\<^sup>*\<^sup>* (phase (ssl_state c)) (phase (ssl_state c')) \<and> remote_address c' = remote_address c"
proof (induction ps arbitrary: c)
  case (Cons p ps)
  then obtain r c1 outs where c1: "read_packet tp p c = Inr (r, c1, outs)" "read_packets tp ps c1 = Inr c'"
    by (auto simp: bind_res_eq_Inr)
  with read_packet_phase [OF c1(1)] Cons.IH [OF c1(2)] show ?case
    by (auto intro: converse_rtranclp_into_rtranclp)
qed simp

lemma phase_run_established: "(phase_step strict)\<^sup>*\<^sup>* IsEstablished b \<Longrightarrow> b = IsEstablished"
  by (induction rule: rtranclp_induct) auto

lemma phase_run_strict: "(phase_step True)\<^sup>*\<^sup>* a b \<Longrightarrow> a \<noteq> IsShutdown \<Longrightarrow> b \<noteq> IsShutdown"
  by (induction rule: rtranclp_induct) auto

text \<open>C31. However many packets a client is given, an established client stays established and keeps its
  remote address, and, as long as the library reports no set-up failure in a resumed handshake, a client
  that is not shut down never becomes so.\<close>

theorem read_packets_never_regress:
  assumes "read_packets tp ps c = Inr c'"
  shows "remote_address c' = remote_address c
     \<and> (phase (ssl_state c) = IsEstablished \<longrightarrow> phase (ssl_state c') = IsEstablished)
     \<and> (handshake_sets_up tp \<and> phase (ssl_state c) \<noteq> IsShutdown \<longrightarrow> phase (ssl_state c') \<noteq> IsShutdown)"
  using read_packets_phase [OF assms] phase_run_established phase_run_strict
  by (metis (full_types))

text \<open>Crates that behave as documented, with a handshake of two packets and no encryption, and a client
  of them.\<close>

definition demo_tp :: "nat third_party" where
  "demo_tp = \<lparr>tp_accept = \<lambda>st. (WouldBlock 0, st, []),
     tp_handshake = \<lambda>x st. (if x = 0 then (WouldBlock 1, st\<lparr>incoming_packets := []\<rparr>, [[22]])
                            else (HandshakeOk 2, st\<lparr>incoming_packets := []\<rparr>, [[23]])),
     tp_session_pair = \<lambda>x. Some (3, 4), tp_unprotect = \<lambda>b x. (if length b < 12 then None else Some b, x), tp_protect = \<lambda>b x. (Some b, x),
     tp_decoder_new = Some 0, tp_h264_decode = \<lambda>nal x. (Inr None, x), tp_nal_units = \<lambda>au. [au],
     tp_hmac_sha1 = \<lambda>k m. Some (replicate 20 0), tp_crc32 = \<lambda>m. 0, tp_try_clone = True\<rparr>"

definition demo_client :: "nat client" where
  "demo_client = \<lparr>ssl_state = Handshake 0 (udp_peer_stream_new (SockV4 1 2)), remote_address = SockV4 1 2\<rparr>"

lemma demo_handshake: "handshake_sets_up demo_tp"
  by (simp add: handshake_sets_up_def demo_tp_def)

theorem read_packets_never_regress_witness:
  "\<exists>c'. read_packets demo_tp [[1], [2], [3]] demo_client = Inr c' \<and> phase (ssl_state c') \<noteq> IsShutdown"
proof -
  obtain c' where c': "read_packets demo_tp [[1], [2], [3]] demo_client = Inr c'"
    by (simp add: demo_tp_def demo_client_def read_packet_def)
  have "phase (ssl_state demo_client) \<noteq> IsShutdown" by (simp add: demo_client_def)
  with read_packets_never_regress [OF c'] demo_handshake c' show ?thesis by blast
qed

text \<open>A failure to set up in the middle of a handshake leaves the client shut down for good: the state
  was taken out before the early return and is not put back.\<close>

theorem setup_failure_shuts_down:
  assumes "ssl_state c = Handshake x st" "fst (tp_handshake tp x (push_back packet st)) = SetupFailure"
  shows "\<exists>c' outs. read_packet tp packet c = Inr (Inl (OpenSslError ErrorStack), c', outs) \<and> ssl_state c' = Shutdown
     \<and> (\<forall>ps c''. read_packets tp ps c' = Inr c'' \<longrightarrow> ssl_state c'' = Shutdown)"
proof -
  obtain st' ds where h: "tp_handshake tp x (push_back packet st) = (SetupFailure, st', ds)"
    using assms(2) by (metis prod.collapse)
  let ?c = "c\<lparr>ssl_state := Shutdown\<rparr>"
  have "ssl_state c'' = Shutdown" if "read_packets tp ps c1 = Inr c''" "ssl_state c1 = Shutdown" for ps c1 c''
    using that by (induction ps arbitrary: c1) (auto simp: read_packet_def bind_res_eq_Inr)
  with assms(1) h show ?thesis by (auto simp: read_packet_def)
qed

theorem setup_failure_shuts_down_witness:
  "\<exists>c' outs. read_packet (demo_tp\<lparr>tp_handshake := \<lambda>x st. (SetupFailure, st, [])\<rparr>) [1] demo_client
     = Inr (Inl (OpenSslError ErrorStack), c', outs) \<and> ssl_state c' = Shutdown"
  using setup_failure_shuts_down [of demo_client 0 "udp_peer_stream_new (SockV4 1 2)"
      "demo_tp\<lparr>tp_handshake := \<lambda>x st. (SetupFailure, st, [])\<rparr>" "[1]"]
  by (auto simp: demo_client_def)

end
