(* ===== verification/Registry.thy ===== *)
theory Registry
  imports Client
begin

text \<open>
  The session registry of \<open>src/ice_registry.rs\<close>: sessions by id, indexes by ICE username and by
  remote address, and rooms. The random ids (\<open>get_random_id\<close>) and the clock (\<open>Instant::now\<close>, in
  nanoseconds) are arguments. A \<open>HashMap\<close> is a partial map; where the code walks one, the order is an
  argument.
\<close>

section \<open>Types\<close>

type_synonym room_id = u32
type_synonym resource_id = u32
type_synonym instant = nat

record 'x streamer =
  owned_room_id :: room_id
  thumbnail_extractor :: "'x thumbnail_extractor"
  image_timestamp :: "instant option"

datatype 'x connection_type = Viewer room_id | Streamer "'x streamer"

record 'x session =
  sess_id :: resource_id
  ttl :: instant
  sess_client :: "'x client option"
  media_session :: negotiated_session
  connection_type :: "'x connection_type"

record room =
  rid :: room_id
  owner_id :: resource_id
  viewer_ids :: "resource_id set"

record 'x session_registry =
  sessions :: "resource_id \<rightharpoonup> 'x session"
  username_map :: "session_username \<rightharpoonup> resource_id"
  address_map :: "socket_addr \<rightharpoonup> resource_id"
  rooms :: "room_id \<rightharpoonup> room"

text \<open>The order in which a set of ids is walked.\<close>

type_synonym id_order = "u32 set \<Rightarrow> u32 list"

definition enumerates :: "id_order \<Rightarrow> bool" where
  "enumerates ord \<longleftrightarrow> (\<forall>S. finite S \<longrightarrow> set (ord S) = S \<and> distinct (ord S))"

section \<open>Operations\<close>

definition room_new :: "room_id \<Rightarrow> resource_id \<Rightarrow> room" where
  "room_new i owner = \<lparr>rid = i, owner_id = owner, viewer_ids = {}\<rparr>"

definition session_new_streamer ::
    "'x option \<Rightarrow> resource_id \<Rightarrow> instant \<Rightarrow> negotiated_session \<Rightarrow> room_id \<Rightarrow> panic + 'x session" where
  "session_new_streamer dec i now media r =
     bind_res (extractor_new dec) (\<lambda>extractor.
     Inr \<lparr>sess_id = i, ttl = now, sess_client = None, media_session = media,
          connection_type = Streamer \<lparr>owned_room_id = r, thumbnail_extractor = extractor, image_timestamp = None\<rparr>\<rparr>)"

definition session_new_viewer :: "resource_id \<Rightarrow> instant \<Rightarrow> room_id \<Rightarrow> negotiated_session \<Rightarrow> 'x session" where
  "session_new_viewer i now target media =
     \<lparr>sess_id = i, ttl = now, sess_client = None, media_session = media, connection_type = Viewer target\<rparr>"

definition session_username_of :: "'x session \<Rightarrow> session_username" where
  "session_username_of s = \<lparr>host = host_username (ice_credentials (media_session s)),
     remote = remote_username (ice_credentials (media_session s))\<rparr>"

definition registry_new :: "'x session_registry" where
  "registry_new = \<lparr>sessions = Map.empty, username_map = Map.empty, address_map = Map.empty, rooms = Map.empty\<rparr>"

definition get_room_ids :: "id_order \<Rightarrow> 'x session_registry \<Rightarrow> room_id list" where
  "get_room_ids ord g = ord (dom (rooms g))"

definition get_rooms :: "id_order \<Rightarrow> 'x session_registry \<Rightarrow> room list" where
  "get_rooms ord g = filter_map (rooms g) (ord (dom (rooms g)))"

definition get_room :: "room_id \<Rightarrow> 'x session_registry \<Rightarrow> room option" where
  "get_room r g = rooms g r"

definition get_all_sessions :: "id_order \<Rightarrow> 'x session_registry \<Rightarrow> 'x session list" where
  "get_all_sessions ord g = filter_map (sessions g) (ord (dom (sessions g)))"

definition get_session :: "resource_id \<Rightarrow> 'x session_registry \<Rightarrow> 'x session option" where
  "get_session i g = sessions g i"

definition get_session_by_username :: "session_username \<Rightarrow> 'x session_registry \<Rightarrow> 'x session option" where
  "get_session_by_username u g = Option.bind (username_map g u) (sessions g)"

definition get_session_by_address :: "socket_addr \<Rightarrow> 'x session_registry \<Rightarrow> 'x session option" where
  "get_session_by_address a g = Option.bind (address_map g a) (sessions g)"

text \<open>The \<open>_mut\<close> accessors return a reference: the key under which the session is stored, and the
  session.\<close>

definition get_session_by_username_mut :: "session_username \<Rightarrow> 'x session_registry \<Rightarrow> (resource_id \<times> 'x session) option" where
  "get_session_by_username_mut u g = Option.bind (username_map g u) (\<lambda>i. map_option (Pair i) (sessions g i))"

definition get_session_by_address_mut :: "socket_addr \<Rightarrow> 'x session_registry \<Rightarrow> (resource_id \<times> 'x session) option" where
  "get_session_by_address_mut a g = Option.bind (address_map g a) (\<lambda>i. map_option (Pair i) (sessions g i))"

text \<open>Writing through the reference a \<open>_mut\<close> accessor returned: the session under its key in the
  map is replaced.\<close>

definition put_session :: "resource_id \<Rightarrow> 'x session \<Rightarrow> 'x session_registry \<Rightarrow> 'x session_registry" where
  "put_session i s g = g\<lparr>sessions := (sessions g)(i \<mapsto> s)\<rparr>"

definition nominate_client ::
    "'x client \<Rightarrow> resource_id \<Rightarrow> 'x session_registry \<Rightarrow> resource_id option \<times> 'x session_registry" where
  "nominate_client c i g = (case sessions g i of
       None \<Rightarrow> (None, g)
     | Some s \<Rightarrow>
         let g1 = put_session i (s\<lparr>sess_client := Some c\<rparr>) g
         in (Some i, g1\<lparr>address_map := (address_map g1)(remote_address c \<mapsto> i)\<rparr>))"

definition remove_session :: "resource_id \<Rightarrow> 'x session_registry \<Rightarrow> panic + 'x session_registry" where
  "remove_session i g = (case sessions g i of
       None \<Rightarrow> Inl UnwrapFailed
     | Some s \<Rightarrow>
         let g1 = g\<lparr>username_map := (username_map g)(session_username_of s := None)\<rparr>;
             g2 = (case sess_client s of
                     None \<Rightarrow> g1
                   | Some c \<Rightarrow> g1\<lparr>address_map := (address_map g1)(remote_address c := None)\<rparr>);
             g3 = (case connection_type s of
                     Viewer r \<Rightarrow>
                       (case rooms g2 r of
                          None \<Rightarrow> g2
                        | Some rm \<Rightarrow> g2\<lparr>rooms := (rooms g2)(r \<mapsto> rm\<lparr>viewer_ids := viewer_ids rm - {i}\<rparr>)\<rparr>)
                   | Streamer st \<Rightarrow> g2\<lparr>rooms := (rooms g2)(owned_room_id st := None)\<rparr>)
         in Inr (g3\<lparr>sessions := (sessions g3)(i := None)\<rparr>))"

definition register_streamer :: "'x session \<Rightarrow> room_id \<Rightarrow> 'x session_registry \<Rightarrow> 'x session_registry" where
  "register_streamer s r g =
     g\<lparr>username_map := (username_map g)(session_username_of s \<mapsto> sess_id s),
       rooms := (rooms g)(r \<mapsto> room_new r (sess_id s)),
       sessions := (sessions g)(sess_id s \<mapsto> s)\<rparr>"

definition add_streamer ::
    "'x option \<Rightarrow> room_id \<Rightarrow> resource_id \<Rightarrow> instant \<Rightarrow> negotiated_session \<Rightarrow> 'x session_registry
       \<Rightarrow> panic + (resource_id \<times> 'x session_registry)" where
  "add_streamer dec r i now media g =
     bind_res (session_new_streamer dec i now media r) (\<lambda>s. Inr (sess_id s, register_streamer s r g))"

text \<open>What adding a streamer comes to when the decoder initialises, and when it does not.\<close>

definition streamer_session :: "'x \<Rightarrow> resource_id \<Rightarrow> instant \<Rightarrow> negotiated_session \<Rightarrow> room_id \<Rightarrow> 'x session" where
  "streamer_session dec i now media r =
     \<lparr>sess_id = i, ttl = now, sess_client = None, media_session = media,
      connection_type = Streamer \<lparr>owned_room_id = r, thumbnail_extractor = extractor_with None dec, image_timestamp = None\<rparr>\<rparr>"

lemma add_streamer_simps [simp]:
  "add_streamer (Some dec) r i now media g = Inr (i, register_streamer (streamer_session dec i now media r) r g)"
  "add_streamer None r i now media g = Inl UnwrapFailed"
  by (simp_all add: add_streamer_def session_new_streamer_def extractor_new_def streamer_session_def)

definition add_viewer ::
    "resource_id \<Rightarrow> instant \<Rightarrow> negotiated_session \<Rightarrow> room_id \<Rightarrow> 'x session_registry
       \<Rightarrow> panic + (resource_id \<times> 'x session_registry)" where
  "add_viewer i now media target g =
     (let s = session_new_viewer i now target media;
          g1 = g\<lparr>username_map := (username_map g)(session_username_of s \<mapsto> i),
                 sessions := (sessions g)(i \<mapsto> s)\<rparr>
      in case rooms g1 target of
           None \<Rightarrow> Inl UnwrapFailed
         | Some rm \<Rightarrow> Inr (i, g1\<lparr>rooms := (rooms g1)(target \<mapsto> rm\<lparr>viewer_ids := insert i (viewer_ids rm)\<rparr>)\<rparr>))"

section \<open>The invariant\<close>

text \<open>What identifies a session to the rest of the registry: its name, its address once nominated, and
  the room it streams into (\<open>True\<close>) or watches (\<open>False\<close>).\<close>

definition role :: "'x session \<Rightarrow> bool \<times> room_id" where
  "role s = (case connection_type s of Viewer r \<Rightarrow> (False, r) | Streamer st \<Rightarrow> (True, owned_room_id st))"

definition address_of :: "'x session \<Rightarrow> socket_addr option" where
  "address_of s = map_option remote_address (sess_client s)"

definition same_identity :: "'x session \<Rightarrow> 'x session \<Rightarrow> bool" where
  "same_identity s s' \<longleftrightarrow> sess_id s' = sess_id s \<and> media_session s' = media_session s
     \<and> address_of s' = address_of s \<and> role s' = role s"

definition owns :: "'x session_registry \<Rightarrow> resource_id \<Rightarrow> room_id \<Rightarrow> bool" where
  "owns g i r \<longleftrightarrow> map_option role (sessions g i) = Some (True, r)"

definition views :: "'x session_registry \<Rightarrow> resource_id \<Rightarrow> room_id \<Rightarrow> bool" where
  "views g i r \<longleftrightarrow> map_option role (sessions g i) = Some (False, r)"

definition names_ok :: "'x session_registry \<Rightarrow> bool" where
  "names_ok g \<longleftrightarrow> (\<forall>u i. username_map g u = Some i \<longrightarrow> map_option session_username_of (sessions g i) = Some u)"

definition addresses_ok :: "'x session_registry \<Rightarrow> bool" where
  "addresses_ok g \<longleftrightarrow> (\<forall>a i. address_map g a = Some i \<longrightarrow> map_option address_of (sessions g i) = Some (Some a))"

definition rooms_ok :: "'x session_registry \<Rightarrow> bool" where
  "rooms_ok g \<longleftrightarrow>
     (\<forall>r rm. rooms g r = Some rm \<longrightarrow> rid rm = r \<and> owns g (owner_id rm) r \<and> viewer_ids rm = {v. views g v r}) \<and>
     (\<forall>i r. owns g i r \<longrightarrow> map_option owner_id (rooms g r) = Some i)"

definition sessions_ok :: "'x session_registry \<Rightarrow> bool" where
  "sessions_ok g \<longleftrightarrow> finite (dom (sessions g)) \<and> (\<forall>i s. sessions g i = Some s \<longrightarrow> sess_id s = i)"

definition reg_inv :: "'x session_registry \<Rightarrow> bool" where
  "reg_inv g \<longleftrightarrow> sessions_ok g \<and> names_ok g \<and> addresses_ok g \<and> rooms_ok g"

lemmas reg_inv_defs = reg_inv_def sessions_ok_def names_ok_def addresses_ok_def rooms_ok_def

lemma registry_new_inv: "reg_inv registry_new"
  by (simp add: reg_inv_defs registry_new_def owns_def views_def)

text \<open>The random ids of a new session are not in use.\<close>

definition fresh_ids :: "room_id \<Rightarrow> resource_id \<Rightarrow> 'x session_registry \<Rightarrow> bool" where
  "fresh_ids r i g \<longleftrightarrow> sessions g i = None \<and> rooms g r = None \<and> (\<forall>v. \<not> views g v r)"

lemma session_username_of_cong: "media_session s' = media_session s \<Longrightarrow> session_username_of s' = session_username_of s"
  by (simp add: session_username_of_def)

lemma reg_invD:
  assumes "reg_inv g"
  shows "\<And>i s. sessions g i = Some s \<Longrightarrow> sess_id s = i"
    and "\<And>u i. username_map g u = Some i \<Longrightarrow> \<exists>s. sessions g i = Some s \<and> session_username_of s = u"
    and "\<And>a i. address_map g a = Some i \<Longrightarrow> \<exists>s c. sessions g i = Some s \<and> sess_client s = Some c \<and> remote_address c = a"
    and "\<And>r rm. rooms g r = Some rm \<Longrightarrow> rid rm = r \<and> owns g (owner_id rm) r \<and> viewer_ids rm = {v. views g v r}"
    and "\<And>i r. owns g i r \<Longrightarrow> \<exists>rm. rooms g r = Some rm \<and> owner_id rm = i"
proof -
  show "\<And>i s. sessions g i = Some s \<Longrightarrow> sess_id s = i" using assms by (simp add: reg_inv_def sessions_ok_def)
  show "\<And>u i. username_map g u = Some i \<Longrightarrow> \<exists>s. sessions g i = Some s \<and> session_username_of s = u"
    using assms by (fastforce simp: reg_inv_def names_ok_def)
  show "\<And>a i. address_map g a = Some i \<Longrightarrow> \<exists>s c. sessions g i = Some s \<and> sess_client s = Some c \<and> remote_address c = a"
    using assms by (fastforce simp: reg_inv_def addresses_ok_def address_of_def)
  show "\<And>r rm. rooms g r = Some rm \<Longrightarrow> rid rm = r \<and> owns g (owner_id rm) r \<and> viewer_ids rm = {v. views g v r}"
    using assms by (simp add: reg_inv_def rooms_ok_def)
  show "\<And>i r. owns g i r \<Longrightarrow> \<exists>rm. rooms g r = Some rm \<and> owner_id rm = i"
    using assms by (fastforce simp: reg_inv_def rooms_ok_def)
qed

section \<open>The operations keep it\<close>

lemma put_session_inv:
  assumes "reg_inv g" "sessions g i = Some s" "same_identity s s'"
  shows "reg_inv (put_session i s' g)"
proof -
  have r: "map_option role (sessions (put_session i s' g) j) = map_option role (sessions g j)"
    and u: "map_option session_username_of (sessions (put_session i s' g) j) = map_option session_username_of (sessions g j)"
    and a: "map_option address_of (sessions (put_session i s' g) j) = map_option address_of (sessions g j)" for j
    using assms(2,3) session_username_of_cong [of s' s] by (auto simp: put_session_def same_identity_def)
  have "sessions_ok (put_session i s' g)"
    using assms by (auto simp: reg_inv_def sessions_ok_def put_session_def same_identity_def)
  moreover have "names_ok (put_session i s' g)" "addresses_ok (put_session i s' g)"
    using assms(1) unfolding reg_inv_def names_ok_def addresses_ok_def u a by (simp_all add: put_session_def)
  moreover have "rooms_ok (put_session i s' g)"
    using assms(1) unfolding reg_inv_def rooms_ok_def owns_def views_def r by (simp add: put_session_def)
  ultimately show ?thesis by (simp add: reg_inv_def)
qed

lemma register_streamer_inv:
  assumes "reg_inv g" "fresh_ids r i g" "g' = register_streamer (streamer_session dec i now media r) r g"
  shows "reg_inv g'"
proof -
  let ?s = "streamer_session dec i now media r"
  have g': "sessions g' = (sessions g)(i \<mapsto> ?s)" "rooms g' = (rooms g)(r \<mapsto> room_new r i)"
      "username_map g' = (username_map g)(session_username_of ?s \<mapsto> i)" "address_map g' = address_map g"
    using assms(3) by (auto simp: register_streamer_def streamer_session_def)
  have role: "role ?s = (True, r)" "sess_id ?s = i" by (simp_all add: streamer_session_def role_def)
  have fr: "sessions g i = None" "rooms g r = None" "\<And>v. \<not> views g v r" using assms(2) by (auto simp: fresh_ids_def)
  have nown: "\<not> owns g j r" for j using reg_invD(5) [OF assms(1), of j r] fr(2) by auto
  have o: "owns g' j q \<longleftrightarrow> (if j = i then q = r else owns g j q)" for j q
    by (auto simp: owns_def g' role)
  have v: "views g' j q \<longleftrightarrow> j \<noteq> i \<and> views g j q" for j q by (simp add: views_def g' role)
  have nv: "\<not> views g i q" for q by (simp add: views_def fr)
  have no: "\<not> owns g i q" for q by (simp add: owns_def fr)
  have "sessions_ok g'" using assms(1) role by (auto simp: reg_inv_def sessions_ok_def g')
  moreover have "names_ok g'"
    using assms(1) fr(1) by (fastforce simp: reg_inv_def names_ok_def g')
  moreover have "addresses_ok g'"
    using assms(1) fr(1) by (fastforce simp: reg_inv_def addresses_ok_def g')
  moreover have "rooms_ok g'"
    using assms(1) nown nv no fr(3) unfolding reg_inv_def rooms_ok_def
    by (auto simp: o v g' room_new_def) metis
  ultimately show ?thesis by (simp add: reg_inv_def)
qed

lemma add_viewer_inv:
  fixes g :: "'x session_registry"
  assumes "reg_inv g" "sessions g i = None" "rooms g target = Some rm"
  shows "\<exists>g'. add_viewer i now media target g = Inr (i, g') \<and> reg_inv g'"
proof -
  let ?s = "session_new_viewer i now target media :: 'x session"
  obtain g' where a: "add_viewer i now media target g = Inr (i, g')"
    using assms(3) by (simp add: add_viewer_def Let_def)
  have g': "sessions g' = (sessions g)(i \<mapsto> ?s)" "rooms g' = (rooms g)(target \<mapsto> rm\<lparr>viewer_ids := insert i (viewer_ids rm)\<rparr>)"
      "username_map g' = (username_map g)(session_username_of ?s \<mapsto> i)" "address_map g' = address_map g"
    using a assms(3) by (auto simp: add_viewer_def Let_def)
  have role: "role ?s = (False, target)" "sess_id ?s = i" by (simp_all add: session_new_viewer_def role_def)
  have o: "owns g' j q \<longleftrightarrow> j \<noteq> i \<and> owns g j q" for j q by (simp add: owns_def g' role)
  have v: "views g' j q \<longleftrightarrow> (if j = i then q = target else views g j q)" for j q
    by (auto simp: views_def g' role)
  have no: "\<not> owns g i q" "\<not> views g i q" for q by (simp_all add: owns_def views_def assms(2))
  have "sessions_ok g'" using assms(1) role by (auto simp: reg_inv_def sessions_ok_def g')
  moreover have "names_ok g'"
    using assms(1,2) by (fastforce simp: reg_inv_def names_ok_def g')
  moreover have "addresses_ok g'"
    using assms(1,2) by (fastforce simp: reg_inv_def addresses_ok_def g')
  moreover have "rooms_ok g'"
    using assms(1,3) no unfolding reg_inv_def rooms_ok_def
    by (auto simp: o v g') (metis option.inject)
  ultimately show ?thesis using a by (simp add: reg_inv_def)
qed

lemma nominate_client_inv:
  assumes "reg_inv g" "sessions g i = Some s" "sess_client s = None"
  shows "reg_inv (snd (nominate_client c i g))"
proof -
  let ?s = "s\<lparr>sess_client := Some c\<rparr>" and ?g = "snd (nominate_client c i g)"
  have g': "sessions ?g = (sessions g)(i \<mapsto> ?s)" "address_map ?g = (address_map g)(remote_address c \<mapsto> i)"
      "rooms ?g = rooms g" "username_map ?g = username_map g"
    using assms(2) by (simp_all add: nominate_client_def put_session_def Let_def)
  have r: "map_option role (sessions ?g j) = map_option role (sessions g j)"
    and u: "map_option session_username_of (sessions ?g j) = map_option session_username_of (sessions g j)" for j
    using assms(2) by (auto simp: g' role_def session_username_of_def)
  have noa: "address_map g a \<noteq> Some i" for a
    using reg_invD(3) [OF assms(1), of a i] assms(2,3) by auto
  have "sessions_ok ?g" using assms by (auto simp: reg_inv_def sessions_ok_def g')
  moreover have "names_ok ?g" using assms(1) unfolding reg_inv_def names_ok_def u by (simp add: g')
  moreover have "addresses_ok ?g"
    using assms(1) noa by (auto simp: reg_inv_def addresses_ok_def g' address_of_def)
  moreover have "rooms_ok ?g" using assms(1) unfolding reg_inv_def rooms_ok_def owns_def views_def r by (simp add: g')
  ultimately show ?thesis by (simp add: reg_inv_def)
qed

lemma remove_session_effect:
  assumes "sessions g i = Some s" "remove_session i g = Inr g'"
  shows "sessions g' = (sessions g)(i := None)"
    and "username_map g' = (username_map g)(session_username_of s := None)"
    and "address_map g' = (case address_of s of None \<Rightarrow> address_map g | Some a \<Rightarrow> (address_map g)(a := None))"
    and "rooms g' r = (if role s = (True, r) then None
       else if role s = (False, r) then map_option (\<lambda>rm. rm\<lparr>viewer_ids := viewer_ids rm - {i}\<rparr>) (rooms g r)
       else rooms g r)"
  using assms
  by (auto simp: remove_session_def Let_def role_def address_of_def
      split: option.splits connection_type.splits)

lemma remove_session_rooms:
  assumes "reg_inv g" "sessions g i = Some s" "remove_session i g = Inr g'"
  shows "rooms_ok g'"
proof -
  note e = remove_session_effect [OF assms(2,3)]
  have o: "owns g' j q \<longleftrightarrow> j \<noteq> i \<and> owns g j q" and v: "views g' j q \<longleftrightarrow> j \<noteq> i \<and> views g j q" for j q
    by (auto simp: owns_def views_def e)
  show ?thesis
    unfolding rooms_ok_def
  proof (intro conjI allI impI)
    fix q rm assume rm: "rooms g' q = Some rm"
    then obtain rm0 where rm0: "rooms g q = Some rm0" "role s \<noteq> (True, q)" "rid rm = rid rm0" "owner_id rm = owner_id rm0"
        "viewer_ids rm = viewer_ids rm0 - (if role s = (False, q) then {i} else {})"
      by (auto simp: e split: if_splits)
    note inv = reg_invD(4) [OF assms(1) rm0(1)]
    show "rid rm = q" using inv rm0 by simp
    have "owner_id rm0 \<noteq> i" using inv rm0(2) assms(2) by (auto simp: owns_def)
    with inv rm0 show "owns g' (owner_id rm) q" by (simp add: o)
    have "i \<in> viewer_ids rm0 \<longleftrightarrow> role s = (False, q)" using inv assms(2) by (auto simp: views_def)
    with inv rm0(5) show "viewer_ids rm = {w. views g' w q}" by (auto simp: v)
  next
    fix j q assume "owns g' j q"
    then have j: "j \<noteq> i" "owns g j q" by (auto simp: o)
    then obtain rm where rm: "rooms g q = Some rm" "owner_id rm = j" using reg_invD(5) [OF assms(1)] by blast
    have "role s \<noteq> (True, q)"
    proof
      assume "role s = (True, q)"
      then have "owns g i q" using assms(2) by (simp add: owns_def)
      with reg_invD(5) [OF assms(1) this] rm j show False by auto
    qed
    with rm show "map_option owner_id (rooms g' q) = Some j" by (simp add: e)
  qed
qed

lemma remove_session_inv:
  assumes "reg_inv g" "sessions g i = Some s"
  shows "\<exists>g'. remove_session i g = Inr g' \<and> reg_inv g'"
proof -
  obtain g' where r: "remove_session i g = Inr g'" using assms(2) by (simp add: remove_session_def Let_def)
  note e = remove_session_effect [OF assms(2) r]
  have si: "sess_id s = i" by (rule reg_invD(1) [OF assms])
  have "sessions_ok g'"
    using assms(1) by (auto simp: reg_inv_def sessions_ok_def e)
  moreover have "names_ok g'"
    unfolding names_ok_def
  proof (intro allI impI)
    fix u j assume "username_map g' u = Some j"
    then have "username_map g u = Some j" "u \<noteq> session_username_of s" by (auto simp: e split: if_splits)
    with reg_invD(2) [OF assms(1)] assms(2) show "map_option session_username_of (sessions g' j) = Some u"
      by (fastforce simp: e)
  qed
  moreover have "addresses_ok g'"
    unfolding addresses_ok_def
  proof (intro allI impI)
    fix a j assume a: "address_map g' a = Some j"
    then have "address_map g a = Some j" "address_of s \<noteq> Some a" by (auto simp: e split: option.splits if_splits)
    with reg_invD(3) [OF assms(1)] assms(2) show "map_option address_of (sessions g' j) = Some (Some a)"
      by (fastforce simp: e address_of_def)
  qed
  moreover have "rooms_ok g'" by (rule remove_session_rooms [OF assms r])
  ultimately show ?thesis using r by (simp add: reg_inv_def)
qed

section \<open>The store as the server sees it\<close>

text \<open>What the packet handlers rely on: a session found by name or address is the stored one, and
  writing back a session of the same identity keeps the store consistent.\<close>

locale session_store =
  fixes inv :: "'g \<Rightarrow> bool"
    and stored :: "'g \<Rightarrow> 'i \<Rightarrow> 's option"
    and by_name :: "'n \<Rightarrow> 'g \<Rightarrow> 's option"
    and by_address :: "'a \<Rightarrow> 'g \<Rightarrow> 's option"
    and put :: "'i \<Rightarrow> 's \<Rightarrow> 'g \<Rightarrow> 'g"
    and id_of :: "'s \<Rightarrow> 'i"
    and addr_of :: "'s \<Rightarrow> 'a option"
    and same :: "'s \<Rightarrow> 's \<Rightarrow> bool"
  assumes name_stored: "inv g \<Longrightarrow> by_name n g = Some s \<Longrightarrow> stored g (id_of s) = Some s"
    and address_stored: "inv g \<Longrightarrow> by_address a g = Some s \<Longrightarrow> stored g (id_of s) = Some s \<and> addr_of s = Some a"
    and put_inv: "inv g \<Longrightarrow> stored g i = Some s \<Longrightarrow> same s s' \<Longrightarrow> inv (put i s' g)"
    and put_stored: "stored (put i s' g) j = (if j = i then Some s' else stored g j)"
    and put_address: "inv g \<Longrightarrow> stored g i = Some s \<Longrightarrow> same s s' \<Longrightarrow>
          by_address a (put i s' g) = map_option (\<lambda>t. if id_of t = i then s' else t) (by_address a g)"
    and put_name: "inv g \<Longrightarrow> stored g i = Some s \<Longrightarrow> same s s' \<Longrightarrow>
          by_name n (put i s' g) = map_option (\<lambda>t. if id_of t = i then s' else t) (by_name n g)"
    and same_id: "same s s' \<Longrightarrow> id_of s' = id_of s \<and> addr_of s' = addr_of s"
begin

text \<open>Updating the session a packet belongs to.\<close>

lemma touch_by_address:
  assumes "inv g" "by_address a g = Some s" "same s s'"
  shows "inv (put (id_of s) s' g)" "by_address a (put (id_of s) s' g) = Some s'"
    "stored (put (id_of s) s' g) (id_of s) = Some s'"
  using assms address_stored [OF assms(1,2)] by (auto simp: put_stored put_inv put_address)

lemma touch_by_name:
  assumes "inv g" "by_name n g = Some s" "same s s'"
  shows "inv (put (id_of s) s' g)" "by_name n (put (id_of s) s' g) = Some s'"
    "stored (put (id_of s) s' g) (id_of s) = Some s'"
  using assms name_stored [OF assms(1,2)] by (auto simp: put_stored put_inv put_name)

end

lemma by_index_put:
  assumes "\<And>k j. ix k = Some j \<Longrightarrow> \<exists>t. ss j = Some t \<and> sess_id t = j"
  shows "Option.bind (ix k) (ss(i \<mapsto> s')) = map_option (\<lambda>t. if sess_id t = i then s' else t) (Option.bind (ix k) ss)"
  using assms [of k] by (cases "ix k") auto

interpretation store: session_store reg_inv sessions get_session_by_username get_session_by_address
    put_session sess_id address_of same_identity
proof unfold_locales
  fix g :: "'a session_registry" and n s
  assume *: "reg_inv g" "get_session_by_username n g = Some s"
  then show "sessions g (sess_id s) = Some s"
    using reg_invD(1,2) [OF *(1)] by (auto simp: get_session_by_username_def bind_eq_Some_conv)
next
  fix g :: "'a session_registry" and a s
  assume *: "reg_inv g" "get_session_by_address a g = Some s"
  then obtain i where i: "address_map g a = Some i" "sessions g i = Some s"
    by (auto simp: get_session_by_address_def bind_eq_Some_conv)
  with reg_invD(1) [OF *(1) i(2)] reg_invD(3) [OF *(1) i(1)]
  show "sessions g (sess_id s) = Some s \<and> address_of s = Some a" by (auto simp: address_of_def)
next
  fix g :: "'a session_registry" and i s s' a
  assume *: "reg_inv g" "sessions g i = Some s" "same_identity s s'"
  show "get_session_by_address a (put_session i s' g)
      = map_option (\<lambda>t. if sess_id t = i then s' else t) (get_session_by_address a g)"
    unfolding get_session_by_address_def put_session_def
    using by_index_put [of "address_map g" "sessions g"] reg_invD(1,3) [OF *(1)] by fastforce
next
  fix g :: "'a session_registry" and i s s' n
  assume *: "reg_inv g" "sessions g i = Some s" "same_identity s s'"
  show "get_session_by_username n (put_session i s' g)
      = map_option (\<lambda>t. if sess_id t = i then s' else t) (get_session_by_username n g)"
    unfolding get_session_by_username_def put_session_def
    using by_index_put [of "username_map g" "sessions g"] reg_invD(1,2) [OF *(1)] by fastforce
qed (erule (2) put_session_inv, simp add: put_session_def, simp add: same_identity_def)

lemma by_username_mut:
  "reg_inv g \<Longrightarrow> get_session_by_username_mut u g = map_option (\<lambda>s. (sess_id s, s)) (get_session_by_username u g)"
  using reg_invD(1) [of g] by (auto simp: get_session_by_username_mut_def get_session_by_username_def split: bind_splits intro!: option.map_cong)

lemma by_address_mut:
  "reg_inv g \<Longrightarrow> get_session_by_address_mut a g = map_option (\<lambda>s. (sess_id s, s)) (get_session_by_address a g)"
  using reg_invD(1) [of g] by (auto simp: get_session_by_address_mut_def get_session_by_address_def split: bind_splits intro!: option.map_cong)

section \<open>What the registry guarantees\<close>

text \<open>A new streamer is found under its ICE username and owns its room, which has no viewers yet;
  every other session, room and lookup stays as it was, and the registry stays consistent.\<close>

lemma add_streamer_lookup:
  assumes "reg_inv g" "fresh_ids r i g"
  shows "\<exists>g'. add_streamer (Some dec) r i now media g = Inr (i, g') \<and> reg_inv g'
     \<and> get_session_by_username (session_username_of (streamer_session dec i now media r)) g'
         = Some (streamer_session dec i now media r)
     \<and> get_room r g' = Some \<lparr>rid = r, owner_id = i, viewer_ids = {}\<rparr>
     \<and> (\<forall>k. k \<noteq> i \<longrightarrow> get_session k g' = get_session k g)
     \<and> (\<forall>q. q \<noteq> r \<longrightarrow> get_room q g' = get_room q g)
     \<and> (\<forall>a. get_session_by_address a g' = get_session_by_address a g)"
proof -
  let ?s = "streamer_session dec i now media r"
  let ?g = "register_streamer ?s r g"
  have s: "sess_id ?s = i" by (simp add: streamer_session_def)
  have "get_session_by_address a ?g = get_session_by_address a g" for a
  proof (cases "address_map g a")
    case (Some k)
    with reg_invD(3) [OF assms(1) Some] assms(2) have "k \<noteq> i" by (auto simp: fresh_ids_def)
    with Some s show ?thesis by (auto simp: get_session_by_address_def register_streamer_def)
  qed (auto simp: get_session_by_address_def register_streamer_def)
  with register_streamer_inv [OF assms refl, of dec now media] s show ?thesis
    by (auto simp: register_streamer_def get_session_by_username_def get_room_def get_session_def room_new_def)
qed

text \<open>Adding a viewer never fails for a room that exists, puts the viewer into exactly that room and
  makes it known under its ICE username.\<close>

lemma add_viewer_lookup:
  assumes "reg_inv g" "get_session i g = None" "get_room target g = Some rm"
  shows "\<exists>g'. add_viewer i now media target g = Inr (i, g') \<and> reg_inv g'
     \<and> get_session_by_username (session_username_of (session_new_viewer i now target media)) g'
         = Some (session_new_viewer i now target media)
     \<and> get_room target g' = Some (rm\<lparr>viewer_ids := insert i (viewer_ids rm)\<rparr>)
     \<and> (\<forall>q. q \<noteq> target \<longrightarrow> get_room q g' = get_room q g)"
proof -
  obtain g' where g': "add_viewer i now media target g = Inr (i, g')" "reg_inv g'"
    using add_viewer_inv [OF assms(1), of i target rm now media] assms(2,3) by (auto simp: get_session_def get_room_def)
  with assms(3) show ?thesis
    by (auto simp: add_viewer_def Let_def get_session_by_username_def get_room_def session_username_of_def session_new_viewer_def)
qed

text \<open>C24. Removing a session that exists never panics, keeps the registry consistent and leaves no trace of
  it: no id, no name, no address and no room of a streamer, and no room that still lists it as a viewer;
  all other sessions are kept.\<close>

theorem remove_session_clears:
  assumes "reg_inv g" "get_session i g = Some s"
  shows "\<exists>g'. remove_session i g = Inr g' \<and> reg_inv g' \<and> get_session i g' = None
     \<and> (\<forall>k. k \<noteq> i \<longrightarrow> get_session k g' = get_session k g)
     \<and> i \<notin> ran (username_map g') \<and> i \<notin> ran (address_map g')
     \<and> (\<forall>r rm. get_room r g' = Some rm \<longrightarrow> owner_id rm \<noteq> i \<and> i \<notin> viewer_ids rm)"
proof -
  have s: "sessions g i = Some s" using assms(2) by (simp add: get_session_def)
  then obtain g' where g': "remove_session i g = Inr g'" "reg_inv g'"
    using remove_session_inv [OF assms(1)] by blast
  note e = remove_session_effect [OF s g'(1)]
  have gone: "sessions g' i = None" by (simp add: e)
  have "username_map g' u \<noteq> Some i" for u
    using reg_invD(2) [OF g'(2), of u i] gone by (metis option.distinct(1))
  moreover have "address_map g' a \<noteq> Some i" for a
    using reg_invD(3) [OF g'(2), of a i] gone by (metis option.distinct(1))
  ultimately have "i \<notin> ran (username_map g')" "i \<notin> ran (address_map g')" by (auto simp: ran_def)
  moreover have "owner_id rm \<noteq> i \<and> i \<notin> viewer_ids rm" if "rooms g' r = Some rm" for r rm
    using reg_invD(4) [OF g'(2) that] gone by (auto simp: owns_def views_def)
  ultimately show ?thesis using g' by (simp add: get_session_def get_room_def e(1))
qed

text \<open>C40. Two sessions nominated from one remote address share a single address entry: removing the first
  erases the entry of the second, which is then unreachable by address although it still holds a client
  with that address.\<close>

theorem shared_address_lost:
  assumes "reg_inv g" "get_session i g = Some s" "get_session j g = Some t" "i \<noteq> j"
    and "address_of s = Some a" "sess_client t = None" "remote_address c = a"
  shows "\<exists>g'. remove_session i (snd (nominate_client c j g)) = Inr g' \<and>
     get_session_by_address a g' = None \<and> map_option address_of (get_session j g') = Some (Some a)"
proof -
  let ?g = "snd (nominate_client c j g)"
  have g: "sessions ?g i = Some s" "sessions ?g j = Some (t\<lparr>sess_client := Some c\<rparr>)" "address_map ?g a = Some j"
    using assms by (simp_all add: nominate_client_def get_session_def put_session_def Let_def)
  obtain g' where g': "remove_session i ?g = Inr g'" using g(1) by (simp add: remove_session_def Let_def)
  note e = remove_session_effect [OF g(1) g']
  show ?thesis using g' e(1,3) g(2) assms(4,5,7)
    by (auto simp: get_session_by_address_def get_session_def address_of_def)
qed

text \<open>A registry with one streamer, at which the theorems apply.\<close>

definition demo_media :: "string \<Rightarrow> negotiated_session" where
  "demo_media r = \<lparr>sdp_answer = \<lparr>session_section = [], video_section = [], audio_section = []\<rparr>,
     ice_credentials = \<lparr>host_username = ''hU5r'', host_password = ''s3cr3tPasswordOfHost22'', remote_username = r, remote_password = ''rp''\<rparr>,
     video_session = \<lparr>vs_codec = H264, vs_payload_number = 96, vs_host_ssrc = 22, vs_remote_ssrc = None, vs_capabilities = {}\<rparr>,
     audio_session = \<lparr>as_codec = Opus, as_payload_number = 111, as_host_ssrc = 11, as_remote_ssrc = None\<rparr>\<rparr>"

definition demo_registry :: "nat session_registry" where
  "demo_registry = register_streamer (streamer_session 0 1 0 (demo_media ''E2Fr'') 7) 7 registry_new"

lemma fresh_in_empty: "fresh_ids r i registry_new"
  by (simp add: fresh_ids_def registry_new_def views_def)

lemma demo_registry_inv: "reg_inv demo_registry"
  unfolding demo_registry_def
  by (rule register_streamer_inv [OF registry_new_inv fresh_in_empty refl])

lemma demo_registry_parts:
  "sessions demo_registry = [1 \<mapsto> streamer_session 0 1 0 (demo_media ''E2Fr'') 7]"
  "rooms demo_registry = [7 \<mapsto> room_new 7 1]"
  by (simp_all add: demo_registry_def register_streamer_def streamer_session_def registry_new_def)

lemma add_viewer_lookup_witness:
  "\<exists>g'. add_viewer 2 5 (demo_media ''vW8x'') 7 demo_registry = Inr (2, g') \<and> reg_inv g'
     \<and> get_room 7 g' = Some \<lparr>rid = 7, owner_id = 1, viewer_ids = {2}\<rparr>"
  using add_viewer_lookup [OF demo_registry_inv, of 2 7 "room_new 7 1" 5 "demo_media ''vW8x''"]
  by (auto simp: get_session_def get_room_def demo_registry_parts room_new_def)

theorem remove_session_clears_witness:
  "\<exists>g'. remove_session 1 demo_registry = Inr g' \<and> reg_inv g' \<and> get_session 1 g' = None"
  using remove_session_clears [OF demo_registry_inv, of 1 "streamer_session 0 1 0 (demo_media ''E2Fr'') 7"]
  by (auto simp: get_session_def demo_registry_parts)

definition demo_two :: "nat session_registry" where
  "demo_two = snd (nominate_client demo_client 1 (register_streamer (streamer_session 0 2 0 (demo_media ''vW8x'') 8) 8 demo_registry))"

lemma demo_two_inv: "reg_inv demo_two"
proof -
  let ?g = "register_streamer (streamer_session 0 2 0 (demo_media ''vW8x'') 8) 8 demo_registry"
  have "fresh_ids 8 2 demo_registry"
    by (auto simp: fresh_ids_def views_def demo_registry_parts role_def streamer_session_def)
  then have g: "reg_inv ?g" by (rule register_streamer_inv [OF demo_registry_inv _ refl])
  show ?thesis unfolding demo_two_def
    by (rule nominate_client_inv [OF g, of 1 "streamer_session 0 1 0 (demo_media ''E2Fr'') 7"]) (simp_all add: register_streamer_def Let_def demo_registry_parts streamer_session_def)
qed

theorem shared_address_lost_witness:
  "\<exists>g'. remove_session 1 (snd (nominate_client demo_client 2 demo_two)) = Inr g' \<and>
     get_session_by_address (SockV4 1 2) g' = None \<and> map_option address_of (get_session 2 g') = Some (Some (SockV4 1 2))"
  by (rule shared_address_lost [OF demo_two_inv, of 1 "(streamer_session 0 1 0 (demo_media ''E2Fr'') 7)\<lparr>sess_client := Some demo_client\<rparr>"
        2 "streamer_session 0 2 0 (demo_media ''vW8x'') 8"])
    (simp_all add: demo_two_def nominate_client_def register_streamer_def Let_def put_session_def get_session_def
      demo_registry_parts address_of_def demo_client_def streamer_session_def)

end
