(* ===== verification/Stun_Props.thy ===== *)
theory Stun_Props
  imports Stun
begin

text \<open>
  What the STUN codec guarantees: padding, parsing of every well-formed binding request, the
  classification into live checks and nominations, the exact bytes of the success response, and
  where the code panics on malformed packets or writes a malformed attribute.
\<close>

section \<open>Padding\<close>

definition pad4 :: "nat \<Rightarrow> nat" where
  "pad4 n = 4 * ((n + 3) div 4)"

lemma pad4_mult: "n mod 4 = 0 \<Longrightarrow> pad4 n = n"
  unfolding pad4_def by presburger

lemma pad4_cases:
  "pad4 (4 * q) = 4 * q" "pad4 (4 * q + 1) = 4 * q + 4" "pad4 (4 * q + 2) = 4 * q + 4" "pad4 (4 * q + 3) = 4 * q + 4"
  unfolding pad4_def by simp_all

lemma mod4_cases:
  obtains q :: nat where "n = 4 * q" | q where "n = 4 * q + 1" | q where "n = 4 * q + 2" | q where "n = 4 * q + 3"
proof -
  have "n = 4 * (n div 4) + n mod 4" "n mod 4 < 4" by simp_all
  then show thesis using that by (metis One_nat_def Suc_1 add.right_neutral less_Suc_eq less_zeroE numeral_3_eq_3 numeral_eq_Suc pred_numeral_simps(2) semiring_norm(26,27) less_nat_zero_code)
qed

lemma pad4_props: "n \<le> pad4 n" "pad4 n < n + 4" "pad4 n mod 4 = 0" "pad4 n = n + (4 - n mod 4) mod 4"
  "n mod 4 \<noteq> 0 \<Longrightarrow> pad4 n = n + 4 - n mod 4"
  by (cases n rule: mod4_cases; simp only: pad4_cases mod_mult_self4; simp)+

lemma pad_to_4bytes_small:
  assumes "unat v \<le> 65532"
  shows "pad_to_4bytes chk v = Inr (of_nat (pad4 (unat v)))"
proof -
  have m: "unat (v mod 4) = unat v mod 4" by (simp add: unat_mod)
  then have m0: "v mod 4 = 0 \<longleftrightarrow> unat v mod 4 = 0" by (metis unat_0 unat_eq_zero)
  have "unat (v mod 4) \<le> unat v + 4" by (simp add: m)
  then have sum: "v + 4 - v mod 4 = of_nat (unat v + 4 - unat (v mod 4))"
    by (simp only: of_nat_diff) simp
  have "unat v mod 4 \<noteq> 0 \<Longrightarrow> unat v + 4 < 65536" using assms by presburger
  with m0 show ?thesis by (auto simp: pad_to_4bytes_def sum m pad4_props(5) pad4_mult)
qed

lemma unat_eq_iff_of_nat: "unat (w :: u16) = n \<longleftrightarrow> w = of_nat n \<and> n < 65536"
  using unsigned_less [of w] by (auto simp: unat_of_nat)

lemma pad_to_4bytes_over:
  assumes "\<not> unat v \<le> 65532"
  shows "pad_to_4bytes chk v = (if chk then Inl ArithOverflow else Inr 0)"
proof -
  have "v \<in> {0xFFFD, 0xFFFE, 0xFFFF}"
  proof -
    have "unat v < 65536" using unsigned_less [of v] by simp
    with assms have "unat v = 65533 \<or> unat v = 65534 \<or> unat v = 65535" by linarith
    then show ?thesis by (auto simp: unat_eq_iff_of_nat)
  qed
  then show ?thesis by (auto simp: pad_to_4bytes_def)
qed

text \<open>\<open>pad_to_4bytes\<close> rounds up to the next multiple of four; the three lengths above 65532
  overflow \<open>u16\<close>: a debug build panics, a release build wraps to zero.\<close>

lemma pad_to_4bytes_spec:
  "pad_to_4bytes chk v = (if unat v \<le> 65532 then Inr (of_nat (pad4 (unat v)))
     else if chk then Inl ArithOverflow else Inr 0)"
  by (simp add: pad_to_4bytes_small pad_to_4bytes_over)

section \<open>Well-formed messages\<close>

text \<open>An attribute and a message as RFC 8489 lays them out: type, length, value, zero padding; type,
  length of the body, magic cookie, transaction id, body.\<close>

definition tlv :: "u16 \<Rightarrow> bytes \<Rightarrow> bytes" where
  "tlv t v = be16 t @ be16 (of_nat (length v)) @ v @ replicate (pad4 (length v) - length v) 0"

definition stun_header :: "u16 \<Rightarrow> nat \<Rightarrow> bytes \<Rightarrow> bytes" where
  "stun_header t len tid = be16 t @ be16 (of_nat len) @ be32 STUN_COOKIE @ tid"

definition stun_message :: "u16 \<Rightarrow> bytes \<Rightarrow> bytes \<Rightarrow> bytes" where
  "stun_message t tid body = stun_header t (length body) tid @ body"

lemma length_tlv [simp]: "length (tlv t v) = 4 + pad4 (length v)"
  using pad4_props(1) [of "length v"] by (simp add: tlv_def)

lemma length_stun_message [simp]: "length tid = 12 \<Longrightarrow> length (stun_message t tid body) = 20 + length body"
  by (simp add: stun_message_def stun_header_def)

text \<open>The attributes an ICE agent puts into a binding request.\<close>

datatype wire_attr =
    WUsername string string
  | WIntegrity bytes
  | WControlling bytes
  | WUseCandidate
  | WOther u16 bytes

fun wire :: "wire_attr \<Rightarrow> bytes" where
  "wire (WUsername h r) = tlv 0x6 (as_bytes (h @ '':'' @ r))"
| "wire (WIntegrity d) = tlv 0x8 d"
| "wire (WControlling v) = tlv 0x802a v"
| "wire WUseCandidate = tlv 0x25 []"
| "wire (WOther t v) = tlv t v"

definition plain_name :: "string \<Rightarrow> bool" where
  "plain_name s \<longleftrightarrow> is_ascii s \<and> NUL \<notin> set s \<and> COLON \<notin> set s"

fun wire_ok :: "wire_attr \<Rightarrow> bool" where
  "wire_ok (WUsername h r) \<longleftrightarrow> plain_name h \<and> plain_name r \<and> length h + length r < 65532"
| "wire_ok (WIntegrity d) \<longleftrightarrow> length d = 20"
| "wire_ok (WControlling v) \<longleftrightarrow> length v \<le> 65532"
| "wire_ok WUseCandidate \<longleftrightarrow> True"
| "wire_ok (WOther t v) \<longleftrightarrow> t \<notin> {0x6, 0x8, 0x802a, 0x25} \<and> length v \<le> 65532"

fun wire_meaning :: "wire_attr \<Rightarrow> stun_attribute" where
  "wire_meaning (WUsername h r) = Username \<lparr>host = h, remote = r\<rparr>"
| "wire_meaning (WIntegrity d) = MessageIntegrity d"
| "wire_meaning (WControlling v) = IceControlling"
| "wire_meaning WUseCandidate = UseCandidate"
| "wire_meaning (WOther t v) = UnknownAttribute"

text \<open>The loop consumes one well-formed attribute.\<close>

lemma parse_tlv:
  assumes "length v \<le> 65532"
  shows "parse_stun_attributes chk (tlv t v @ bs) =
     bind_res (stun_attribute_of (attribute_type_of_key t) (v @ replicate (pad4 (length v) - length v) 0)) (\<lambda>a.
     bind_res (parse_stun_attributes chk bs) (\<lambda>as. Inr (a # as)))"
proof -
  let ?p = "v @ replicate (pad4 (length v) - length v) 0"
  have len: "unat (of_nat (length v) :: u16) = length v"
    using assms by (simp add: unat_of_nat)
  have "pad4 (length v) \<le> 65532"
    using assms pad4_props(2,3) [of "length v"] by presburger
  then have padded: "pad_to_4bytes chk (of_nat (length v)) = Inr (of_nat (pad4 (length v)))"
      "unat (of_nat (pad4 (length v)) :: u16) = pad4 (length v)"
    using pad_to_4bytes_small [of "of_nat (length v)"] assms by (simp_all add: len unat_of_nat)
  have "length ?p = pad4 (length v)" using pad4_props(1) [of "length v"] by simp
  then have "read_exact (pad4 (length v)) (?p @ bs) = Some (?p, bs)" by (rule read_exact_append)
  then show ?thesis
    by (subst parse_stun_attributes.simps) (simp add: tlv_def padded)
qed

lemma stun_username:
  assumes "plain_name h" "plain_name r"
  shows "stun_attribute_of UsernameT (as_bytes (h @ '':'' @ r) @ replicate n 0) = Inr (Username \<lparr>host = h, remote = r\<rparr>)"
proof -
  let ?s = "h @ '':'' @ r @ replicate n NUL"
  have b: "as_bytes (h @ '':'' @ r) @ replicate n 0 = as_bytes ?s"
    by (simp add: NUL_def)
  have "is_ascii ?s" using assms by (simp add: plain_name_def NUL_def)
  then have s: "string_from_utf8 (as_bytes (h @ '':'' @ r) @ replicate n 0) = Some ?s"
    unfolding b by (simp add: string_from_utf8_def ascii_utf8 del: as_bytes_simps)
  have sp: "split_once '':'' ?s = Some (h, r @ replicate n NUL)"
    using assms split_once_char [of COLON h "r @ replicate n NUL"] by (simp add: plain_name_def)
  have "trim_end_char NUL h = h" "trim_end_char NUL (r @ replicate n NUL) = r"
    using trim_end_replicate [of NUL h 0] trim_end_replicate [of NUL r n] assms by (simp_all add: plain_name_def)
  then show ?thesis unfolding stun_attribute_of_def s using sp by simp
qed

lemma parse_wire:
  assumes "wire_ok w"
  shows "parse_stun_attributes chk (wire w @ bs) =
     bind_res (parse_stun_attributes chk bs) (\<lambda>as. Inr (wire_meaning w # as))"
  using assms
  by (cases w) (simp_all add: parse_tlv attribute_type_of_key_def stun_username [simplified],
    simp_all add: stun_attribute_of_def slice_to_def stun_consts)

lemma parse_wires:
  "list_all wire_ok ws \<Longrightarrow> parse_stun_attributes chk (concat (map wire ws)) = Inr (map wire_meaning ws)"
  by (induction ws) (simp add: parse_stun_attributes.simps, simp add: parse_wire)

lemma wire_length: "length (wire w) mod 4 = 0"
proof -
  have "(4 + pad4 n) mod 4 = 0" for n using pad4_props(3) [of n] by presburger
  then show ?thesis by (cases w) (simp_all del: add_2_eq_Suc add_2_eq_Suc')
qed

lemma wires_length: "length (concat (map wire ws)) mod 4 = 0"
proof (induction ws)
  case (Cons w ws)
  then show ?case using wire_length [of w] by (simp add: mod_add_eq [symmetric] flip: length_concat)
qed simp

text \<open>A well-formed header brings the parser to the attribute loop.\<close>

lemma parse_stun_header:
  assumes "length tid = 12" "length body mod 4 = 0" "length body < 65536"
  shows "parse_stun_packet chk (stun_message 0x1 tid body @ extra) =
     bind_res (parse_stun_attributes chk (body @ extra)) (\<lambda>as.
       Inr (Some \<lparr>req_attributes = as, req_transaction_id = tid\<rparr>))"
proof -
  have len: "unat (of_nat (length body) :: u16) = length body"
    using assms(3) by (simp add: unat_of_nat)
  have "unat ((of_nat (length body) :: u16) mod 4) = 0"
    using assms(2) len by (simp add: unat_mod)
  then have "(of_nat (length body) :: u16) mod 4 = 0" by (simp add: unat_eq_zero)
  with len assms(1) show ?thesis
    by (simp add: parse_stun_packet_def stun_message_def stun_header_def stun_consts)
qed

text \<open>Every well-formed binding request is parsed without panicking, into exactly its attributes,
  unknown ones included, in order, and its transaction id, in debug and release builds.\<close>

lemma parse_stun_packet_wires:
  assumes "length tid = 12" "list_all wire_ok ws" "length (concat (map wire ws)) < 65536"
  shows "parse_stun_packet chk (stun_message (stun_type_code BindingRequest) tid (concat (map wire ws)))
     = Inr (Some \<lparr>req_attributes = map wire_meaning ws, req_transaction_id = tid\<rparr>)"
  using parse_stun_header [OF assms(1) wires_length assms(3), of chk "[]"] parse_wires [OF assms(2)]
  by simp

fun wire_username :: "wire_attr \<Rightarrow> session_username option" where
  "wire_username (WUsername h r) = Some \<lparr>host = h, remote = r\<rparr>" | "wire_username _ = None"

fun wire_integrity :: "wire_attr \<Rightarrow> bytes option" where
  "wire_integrity (WIntegrity d) = Some d" | "wire_integrity _ = None"

lemma find_wires:
  "find_map attr_username (map wire_meaning ws) = find_map wire_username ws"
  "find_map attr_integrity (map wire_meaning ws) = find_map wire_integrity ws"
  "find_map attr_use_candidate (map wire_meaning ws) = (if WUseCandidate \<in> set ws then Some () else None)"
proof -
  have "attr_username (wire_meaning w) = wire_username w" "attr_integrity (wire_meaning w) = wire_integrity w"
    "attr_use_candidate (wire_meaning w) = (if w = WUseCandidate then Some () else None)" for w
    by (cases w; simp)+
  then show "find_map attr_username (map wire_meaning ws) = find_map wire_username ws"
    "find_map attr_integrity (map wire_meaning ws) = find_map wire_integrity ws"
    "find_map attr_use_candidate (map wire_meaning ws) = (if WUseCandidate \<in> set ws then Some () else None)"
    by (induction ws) (simp_all del: find_map_None split: option.split)
qed

lemma stun_packet_of_wires:
  assumes "length tid = 12" "list_all wire_ok ws" "length (concat (map wire ws)) < 65536"
  shows "get_stun_packet chk (stun_message (stun_type_code BindingRequest) tid (concat (map wire ws))) = Inr (
     case (find_map wire_username ws, find_map wire_integrity ws) of
       (Some u, Some d) \<Rightarrow> Some ((if WUseCandidate \<in> set ws then Nomination else LiveCheck)
          \<lparr>username_attribute = u, message_integrity = d, transaction_id = tid\<rparr>)
     | _ \<Rightarrow> None)"
  using parse_stun_header [OF assms(1) wires_length assms(3), of chk "[]"] parse_wires [OF assms(2)]
  by (auto simp: get_stun_packet_def parse_binding_request_def find_wires Let_def
      simp del: find_map_None split: option.splits)

text \<open>C21. A well-formed binding request with a username and a message integrity is a nomination iff it
  carries \<open>USE-CANDIDATE\<close>, and a live check otherwise, with the first username and the first integrity
  of the packet; without one of the two it is not an ICE packet.\<close>

theorem get_stun_packet_wires:
  assumes "length tid = 12" "list_all wire_ok ws" "length (concat (map wire ws)) < 65536"
  shows "get_stun_packet chk (stun_message (stun_type_code BindingRequest) tid (concat (map wire ws))) = Inr (
     case (find_map wire_username ws, find_map wire_integrity ws) of
       (Some u, Some d) \<Rightarrow> Some ((if WUseCandidate \<in> set ws then Nomination else LiveCheck)
          \<lparr>username_attribute = u, message_integrity = d, transaction_id = tid\<rparr>)
     | _ \<Rightarrow> None)"
  by (rule stun_packet_of_wires [OF assms])

theorem get_stun_packet_wires_witness:
  "get_stun_packet True (stun_message (stun_type_code BindingRequest) (replicate 12 7)
       (concat (map wire [WUsername ''hU5r'' ''E2Fr'', WUseCandidate, WIntegrity (replicate 20 9)])))
     = Inr (Some (Nomination \<lparr>username_attribute = \<lparr>host = ''hU5r'', remote = ''E2Fr''\<rparr>,
          message_integrity = replicate 20 9, transaction_id = replicate 12 7\<rparr>))"
  using get_stun_packet_wires [of "replicate 12 7"
      "[WUsername ''hU5r'' ''E2Fr'', WUseCandidate, WIntegrity (replicate 20 9)]" True]
  by (simp add: plain_name_def NUL_def pad4_def)

section \<open>Malformed requests\<close>

lemma username_without_colon: "stun_attribute_of UsernameT [0x61, 0x62, 0x63, 0x64] = Inl UnwrapFailed"
  by (simp add: stun_attribute_of_def string_from_utf8_def str_of_bytes_def char_of_eq_iff)

text \<open>C35. Three kinds of malformed datagrams that any peer can send make the parser panic instead of
  rejecting them: a header followed by a lone attribute type, an attribute whose value is cut off, and
  a username without a colon.\<close>

theorem get_stun_packet_panics:
  assumes "length tid = 12"
  shows "get_stun_packet chk (stun_message 0x1 tid [] @ be16 t) = Inl UnwrapFailed \<and>
     get_stun_packet chk (stun_message 0x1 tid [] @ be16 t @ be16 4) = Inl UnwrapFailed \<and>
     get_stun_packet chk (stun_message 0x1 tid (tlv 0x6 [0x61, 0x62, 0x63, 0x64])) = Inl UnwrapFailed"
proof -
  note hdr = parse_stun_header [OF assms, of "[]", simplified]
  have p4: "pad_to_4bytes chk 4 = Inr 4" by (simp add: pad_to_4bytes_def)
  have 1: "get_stun_packet chk (stun_message 0x1 tid [] @ be16 t) = Inl UnwrapFailed"
    by (simp add: get_stun_packet_def hdr) (simp add: parse_stun_attributes.simps be16_def)
  have 2: "get_stun_packet chk (stun_message 0x1 tid [] @ be16 t @ be16 4) = Inl UnwrapFailed"
    unfolding get_stun_packet_def hdr
    by (subst parse_stun_attributes.simps) (simp add: be16_def p4 [simplified] read_exact_def rd16_def p4)
  have 3: "get_stun_packet chk (stun_message 0x1 tid (tlv 0x6 [0x61, 0x62, 0x63, 0x64])) = Inl UnwrapFailed"
    using parse_stun_header [OF assms, of "tlv 0x6 [0x61, 0x62, 0x63, 0x64]" chk "[]"]
      parse_tlv [of "[0x61, 0x62, 0x63, 0x64]" chk "0x6" "[]"] username_without_colon
    by (simp add: get_stun_packet_def attribute_type_of_key_def pad4_def)
  from 1 2 3 show ?thesis by blast
qed

lemma cookie_bytes: "be32 STUN_COOKIE = [0x21, 0x12, 0xa4, 0x42]"
  by code_simp

theorem get_stun_packet_panics_witness:
  "get_stun_packet False ([0, 1, 0, 0, 0x21, 0x12, 0xa4, 0x42] @ replicate 12 0 @ [0, 6]) = Inl UnwrapFailed"
  using get_stun_packet_panics [of "replicate 12 0" False 6]
  by (simp add: stun_message_def stun_header_def be16_def cookie_bytes)

section \<open>The success response\<close>

text \<open>The attribute values of the response, as the standard defines them.\<close>

fun mapped_address_value :: "socket_addr \<Rightarrow> bytes" where
  "mapped_address_value (SockV4 ip p) = [0, 1] @ be16 p @ octets4 ip"
| "mapped_address_value (SockV6 ip p _ _) = [0, 2] @ be16 p @ octets6 ip"

fun xor_mapped_address_value :: "bytes \<Rightarrow> socket_addr \<Rightarrow> bytes" where
  "xor_mapped_address_value tid (SockV4 ip p) = [0, 1] @ be16 (p XOR 0x2112) @ map2 (XOR) (octets4 ip) (be32 STUN_COOKIE)"
| "xor_mapped_address_value tid (SockV6 ip p _ _) =
     [0, 2] @ be16 (p XOR 0x2112) @ map2 (XOR) (octets6 ip) (be32 STUN_COOKIE @ tid)"

definition address_value_len :: "socket_addr \<Rightarrow> nat" where
  "address_value_len r = (case r of SockV4 _ _ \<Rightarrow> 8 | SockV6 _ _ _ _ \<Rightarrow> 20)"

lemma length_address_values [simp]:
  "length (mapped_address_value r) = address_value_len r"
  "length tid = 12 \<Longrightarrow> length (xor_mapped_address_value tid r) = address_value_len r"
  by (cases r; simp add: address_value_len_def)+

lemma pad4_address [simp]: "pad4 (address_value_len r) = address_value_len r"
  by (cases r; simp add: address_value_len_def pad4_def)

lemma compute_xor_mapped:
  "length tid = 12 \<Longrightarrow> compute_xor_mapped_address r tid = Inr (tlv 0x20 (xor_mapped_address_value tid r))"
proof -
  have "(ucast (drop_bit 16 STUN_COOKIE) :: u16) = 0x2112" by code_simp
  moreover assume "length tid = 12"
  ultimately show ?thesis
    by (cases r) (simp_all add: xor_range_def tlv_def pad4_def)
qed

lemma finish_attribute_fits:
  assumes "concat chunks = d" "length d \<le> n" "n < BUF_CAPACITY"
  shows "finish_attribute chunks (replicate n 0) = Inr (d @ replicate (n - length d) 0, length d)"
  using assms by (simp add: finish_attribute_def bw_writes_small bw_new_def bw_flush_def write_at_def)

lemma write_mapped_address:
  "write_mapped_address_attribute (replicate 24 0) r =
     Inr (tlv 0x1 (mapped_address_value r) @ replicate (20 - address_value_len r) 0, 4 + address_value_len r)"
proof -
  have c: "concat (be16 (stun_attribute_type_code MappedAddressT) # mapped_address_chunks r) = tlv 0x1 (mapped_address_value r)"
    by (cases r) (simp_all add: tlv_def pad4_def)
  have "address_value_len r \<le> 20" by (cases r; simp add: address_value_len_def)
  then show ?thesis
    using finish_attribute_fits [OF c, of 24] by (simp add: write_mapped_address_attribute_def BUF_CAPACITY_def)
qed

text \<open>The username attribute as the code writes it: when the length is a multiple of four the value
  is never written.\<close>

definition username_of :: "ice_credentials \<Rightarrow> string" where
  "username_of creds = host_username creds @ '':'' @ remote_username creds"

definition written_username :: "ice_credentials \<Rightarrow> bytes" where
  "written_username creds = (if length (username_of creds) mod 4 = 0
     then be16 0x6 @ be16 (of_nat (length (username_of creds)))
     else tlv 0x6 (as_bytes (username_of creds)))"

lemma write_username:
  assumes "length (username_of creds) \<le> 116"
  shows "\<exists>rest. write_username_attribute chk (replicate 120 0) creds
     = Inr (written_username creds @ rest, length (written_username creds))"
proof -
  let ?u = "username_of creds" and ?n = "length (username_of creds)"
  have n: "unat (of_nat ?n :: u16) = ?n" using assms by (simp add: unat_of_nat)
  then have pad: "pad_to_4bytes chk (of_nat ?n) = Inr (of_nat (pad4 ?n))"
    using pad_to_4bytes_small [of "of_nat ?n" chk] assms by simp
  have b: "pad4 ?n \<le> 116" using assms unfolding pad4_def by presburger
  then have p: "unat (of_nat (pad4 ?n) :: u16) = pad4 ?n" by (simp add: unat_of_nat)
  let ?chunks = "[be16 0x6, be16 (of_nat ?n)] @
      (if ?n < pad4 ?n then [as_bytes (?u @ replicate (pad4 ?n - ?n) NUL)] else [])"
  have lt: "?n < pad4 ?n \<longleftrightarrow> ?n mod 4 \<noteq> 0"
    using pad4_props(1,4) [of ?n] by (metis mod_0_imp_dvd dvd_imp_mod_0 less_add_same_cancel1 pad4_mult less_irrefl pad4_props(3) le_neq_implies_less)
  have c: "concat ?chunks = written_username creds"
    using lt by (simp add: written_username_def tlv_def NUL_def)
  have "length (written_username creds) \<le> 120"
    using b by (simp add: written_username_def)
  then have "finish_attribute ?chunks (replicate 120 0)
      = Inr (written_username creds @ replicate (120 - length (written_username creds)) 0, length (written_username creds))"
    using finish_attribute_fits [OF c, of 120] by (simp add: BUF_CAPACITY_def)
  moreover have "host_username creds @ '':'' @ remote_username creds = ?u"
    by (simp add: username_of_def)
  ultimately show ?thesis
    by (simp only: write_username_attribute_def Let_def pad p bind_res_simps stun_attribute_type_code.simps) blast
qed

lemma write_message_integrity:
  assumes "hmac_sha1 (as_bytes key) (header @ attrs) = Some d" "length d = 20"
  shows "write_message_integrity_attribute hmac_sha1 (replicate 24 0) header attrs key = Inr (tlv 0x8 d, 20)"
  using assms by (simp add: write_message_integrity_attribute_def write_at_def tlv_def pad4_def)

lemma seal_response_shape:
  fixes tid ua xa ma
  defines "attrs \<equiv> ua @ xa @ ma"
  assumes tid: "length tid = 12"
    and mac: "hmac_sha1 (as_bytes key) (stun_header 0x101 (length attrs + 24) tid @ attrs) = Some d"
    and d: "length d = 20" and ab: "length attrs \<le> 168" and room: "52 + length attrs \<le> length buffer"
  shows "\<exists>rest. seal_response chk hmac_sha1 crc32 key tid ua xa ma buffer = Inr (Inr (52 + length attrs,
     stun_message 0x101 tid (attrs @ tlv 0x8 d @
       tlv 0x8028 (be32 (crc32 (stun_header 0x101 (length attrs + 32) tid @ attrs @ tlv 0x8 d) XOR 0x5354554e))) @ rest))"
proof -
  define L where "L = length attrs + 24"
  have ml: "length xa + STUN_MESSAGE_INTEGRITY_ATTRIBUTE_LEN + length ua + length ma = L"
    by (simp add: attrs_def stun_consts L_def)
  have w: "bw_writes [ua, xa, ma] (bw_new (length (drop 20 buffer)))
      = Inr \<lparr>bw_buf = attrs, bw_out = [], bw_room = length buffer - 20\<rparr>"
    using ab by (subst bw_writes_small) (simp_all add: bw_new_def BUF_CAPACITY_def attrs_def)
  have i: "write_message_integrity_attribute hmac_sha1 (replicate 24 0)
      (be16 0x101 @ be16 (of_nat L) @ be32 STUN_COOKIE @ tid) attrs key = Inr (tlv 0x8 d, 20)"
    by (rule write_message_integrity) (use mac d in \<open>simp_all add: stun_header_def L_def\<close>)
  have f: "bind_res (bw_write (tlv 0x8 d) \<lparr>bw_buf = attrs, bw_out = [], bw_room = length buffer - 20\<rparr>) bw_flush
      = Inr \<lparr>bw_buf = [], bw_out = attrs @ tlv 0x8 d, bw_room = length buffer - 44 - length attrs\<rparr>"
    using ab room d by (auto simp: bw_write_def bw_flush_def BUF_CAPACITY_def Let_def pad4_def)
  have n: "unat (of_nat L :: u16) = L" using ab by (simp add: unat_of_nat L_def del: of_nat_add)
  have n8: "(of_nat L :: u16) + 8 = of_nat (L + 8)" "L + 8 = length attrs + 32" by (simp_all add: L_def)
  define P where "P = stun_header 0x101 (length attrs + 32) tid @ attrs @ tlv 0x8 d"
  have pl: "length P = 20 + L" using tid d by (simp add: P_def stun_header_def L_def pad4_def)
  have b: "be16 0x101 @ be16 (of_nat (L + 8)) @ be32 STUN_COOKIE @ tid @ write_at 0 (attrs @ tlv 0x8 d) (drop 20 buffer)
      = P @ drop (20 + L) buffer"
    using tid d by (simp add: write_at_def stun_header_def n8 pad4_def L_def P_def add.commute del: of_nat_add)
  have sm: "stun_message 0x101 tid (attrs @ tlv 0x8 d @ tlv 0x8028 (be32 x)) = P @ be16 0x8028 @ be16 4 @ be32 x" for x
    using d by (simp add: stun_message_def P_def tlv_def stun_header_def pad4_def)
  have rl: "52 + length attrs = 20 + L + 8" "L < 1000" using ab by (simp_all add: L_def)
  have "seal_response chk hmac_sha1 crc32 key tid ua xa ma buffer = Inr (Inr (20 + L + 8,
      write_at (20 + L) (be16 0x8028 @ be16 4 @ be32 (crc32 P XOR 0x5354554e)) (P @ drop (20 + L) buffer)))"
    unfolding seal_response_def Let_def ml w sum.case stun_type_code.simps
    using room pl rl by (simp add: i f n n8(1) b slice_to_def stun_consts del: of_nat_add of_nat_Suc)
  then show ?thesis
    using pl rl(1) by (simp add: sm write_at_def flip: P_def)
qed

text \<open>The attributes before the integrity, and the whole response with the digest in it.\<close>

definition response_attrs :: "bytes \<Rightarrow> bytes \<Rightarrow> socket_addr \<Rightarrow> bytes" where
  "response_attrs username_attr tid r =
     username_attr @ tlv 0x20 (xor_mapped_address_value tid r) @ tlv 0x1 (mapped_address_value r)"

definition sealed :: "(bytes \<Rightarrow> u32) \<Rightarrow> bytes \<Rightarrow> bytes \<Rightarrow> bytes \<Rightarrow> bytes" where
  "sealed crc32 tid attrs d = stun_message (stun_type_code SuccessResponse) tid (attrs @ tlv 0x8 d @
     tlv 0x8028 (be32 (crc32 (stun_header (stun_type_code SuccessResponse) (length attrs + 32) tid @ attrs @ tlv 0x8 d)
       XOR 0x5354554e)))"

text \<open>The documented behaviour of the keyed digest: it yields 20 bytes.\<close>

definition hmac_sha1_ok :: "hmac \<Rightarrow> bool" where
  "hmac_sha1_ok h \<longleftrightarrow> (\<forall>k m. \<exists>d. h k m = Some d \<and> length d = 20)"

lemma create_stun_success_shape:
  fixes creds r tid
  defines "attrs \<equiv> response_attrs (written_username creds) tid r"
  assumes tid: "length tid = 12" and user: "length (username_of creds) \<le> 116"
    and mac: "hmac_sha1_ok hmac_sha1" and room: "52 + length attrs \<le> length buffer"
  shows "\<exists>d rest. hmac_sha1 (as_bytes (host_password creds))
         (stun_header (stun_type_code SuccessResponse) (length attrs + 24) tid @ attrs) = Some d \<and>
     create_stun_success chk hmac_sha1 crc32 creds tid r buffer =
       Inr (Inr (52 + length attrs, sealed crc32 tid attrs d @ rest))"
proof -
  obtain d where d: "hmac_sha1 (as_bytes (host_password creds)) (stun_header 0x101 (length attrs + 24) tid @ attrs) = Some d"
      "length d = 20"
    using mac by (auto simp: hmac_sha1_ok_def)
  let ?u = "written_username creds"
  obtain urest where u: "write_username_attribute chk (replicate 120 0) creds = Inr (?u @ urest, length ?u)"
    using write_username [OF user] by blast
  have ub: "pad4 (length (username_of creds)) \<le> 116" using user unfolding pad4_def by presburger
  have ab: "length attrs \<le> 168"
    using ub tid by (cases r) (simp_all add: attrs_def response_attrs_def written_username_def address_value_len_def pad4_def)
  note attrs = attrs_def response_attrs_def
  have "\<exists>rest. seal_response chk hmac_sha1 crc32 (host_password creds) tid ?u (tlv 0x20 (xor_mapped_address_value tid r))
      (tlv 0x1 (mapped_address_value r)) buffer = Inr (Inr (52 + length attrs, sealed crc32 tid attrs d @ rest))"
    using seal_response_shape [of tid hmac_sha1 "host_password creds" ?u "tlv 0x20 (xor_mapped_address_value tid r)"
        "tlv 0x1 (mapped_address_value r)" d buffer chk crc32] tid d ab room
    by (simp add: attrs sealed_def)
  then show ?thesis
    using d(1) u tid room
    by (simp add: create_stun_success_def slice_to_def compute_xor_mapped write_mapped_address)
qed

text \<open>C22. Unless the length of the username \<open>host:remote\<close> is a multiple of four, the success response
  is a well-formed STUN message: the header counts exactly the attributes, which are the username, the
  XOR-mapped and the mapped address of the peer, the integrity computed with the host's password over the
  header (its length up to and including the integrity) and the attributes before it, and the
  fingerprint over everything before it. The returned length is that of the message.\<close>

theorem create_stun_success_wellformed:
  assumes "length tid = 12" "hmac_sha1_ok hmac_sha1"
    and "length (username_of creds) \<le> 116" "length (username_of creds) mod 4 \<noteq> 0"
    and "length (response_attrs (tlv 0x6 (as_bytes (username_of creds))) tid r) + 52 \<le> length buffer"
  shows "\<exists>attrs d rest. attrs = response_attrs (tlv 0x6 (as_bytes (username_of creds))) tid r \<and>
     hmac_sha1 (as_bytes (host_password creds))
       (stun_header (stun_type_code SuccessResponse) (length attrs + 24) tid @ attrs) = Some d \<and>
     create_stun_success chk hmac_sha1 crc32 creds tid r buffer =
       Inr (Inr (length (sealed crc32 tid attrs d), sealed crc32 tid attrs d @ rest))"
proof -
  have u: "written_username creds = tlv 0x6 (as_bytes (username_of creds))"
    using assms(4) by (simp add: written_username_def)
  obtain d rest where
    d: "hmac_sha1 (as_bytes (host_password creds)) (stun_header (stun_type_code SuccessResponse)
          (length (response_attrs (written_username creds) tid r) + 24) tid @ response_attrs (written_username creds) tid r) = Some d"
    and c: "create_stun_success chk hmac_sha1 crc32 creds tid r buffer =
       Inr (Inr (52 + length (response_attrs (written_username creds) tid r),
         sealed crc32 tid (response_attrs (written_username creds) tid r) d @ rest))"
    using create_stun_success_shape [OF assms(1,3,2), of r buffer chk crc32] assms(5) by (auto simp: u)
  have "length d = 20" using assms(2) d by (auto simp: hmac_sha1_ok_def) (metis option.inject)
  then have "length (sealed crc32 tid a d) = 52 + length a" for a
    using assms(1) by (simp add: sealed_def pad4_def)
  with d c show ?thesis unfolding u by auto
qed

definition demo_hmac :: hmac where
  "demo_hmac k m = Some (replicate 20 0)"

definition demo_creds :: "string \<Rightarrow> ice_credentials" where
  "demo_creds r = \<lparr>host_username = ''hU5r'', host_password = ''pw'', remote_username = r, remote_password = ''rp''\<rparr>"

definition demo_peer :: socket_addr where
  "demo_peer = SockV4 0x7F000001 52000"

lemma demo_hmac_ok: "hmac_sha1_ok demo_hmac"
  by (simp add: hmac_sha1_ok_def demo_hmac_def)

theorem create_stun_success_wellformed_witness:
  "\<exists>rest. create_stun_success True demo_hmac (\<lambda>_. 0) (demo_creds ''E2Fr'') (replicate 12 1) demo_peer (replicate 200 0)
     = Inr (Inr (92, sealed (\<lambda>_. 0) (replicate 12 1)
         (response_attrs (tlv 0x6 (as_bytes ''hU5r:E2Fr'')) (replicate 12 1) demo_peer) (replicate 20 0) @ rest))"
proof -
  have u: "username_of (demo_creds ''E2Fr'') = ''hU5r:E2Fr''" by (simp add: username_of_def demo_creds_def)
  have "length (sealed (\<lambda>_. 0) (replicate 12 1)
      (response_attrs (tlv 0x6 (as_bytes ''hU5r:E2Fr'')) (replicate 12 1) demo_peer) (replicate 20 0)) = 92"
    by (simp add: sealed_def response_attrs_def demo_peer_def address_value_len_def pad4_def)
  then show ?thesis
    using create_stun_success_wellformed [of "replicate 12 1" demo_hmac "demo_creds ''E2Fr''" demo_peer "replicate 200 0" True "\<lambda>_. 0",
        unfolded u] demo_hmac_ok
    by (auto simp: response_attrs_def demo_peer_def address_value_len_def pad4_def demo_hmac_def)
qed

text \<open>C36. When the length of the username is a multiple of four, its value is never written: the
  username attribute announces the length and is followed at once by the next attribute, so the
  response, which the code still reports as a success, is malformed.\<close>

theorem create_stun_success_drops_username:
  assumes "length tid = 12" "hmac_sha1_ok hmac_sha1"
    and "length (username_of creds) \<le> 116" "length (username_of creds) mod 4 = 0"
    and "length (response_attrs (be16 0x6 @ be16 (of_nat (length (username_of creds)))) tid r) + 52 \<le> length buffer"
  shows "\<exists>d rest. create_stun_success chk hmac_sha1 crc32 creds tid r buffer =
     Inr (Inr (52 + length (response_attrs (be16 0x6 @ be16 (of_nat (length (username_of creds)))) tid r),
       sealed crc32 tid (response_attrs (be16 0x6 @ be16 (of_nat (length (username_of creds)))) tid r) d @ rest))"
proof -
  have u: "written_username creds = be16 0x6 @ be16 (of_nat (length (username_of creds)))"
    using assms(4) by (simp add: written_username_def)
  show ?thesis
    using create_stun_success_shape [OF assms(1,3,2), of r buffer chk crc32] assms(5)
    unfolding u by (metis add.commute)
qed

theorem create_stun_success_drops_username_witness:
  "\<exists>d rest. create_stun_success False demo_hmac (\<lambda>_. 0) (demo_creds ''abc'') (replicate 12 1) demo_peer (replicate 200 0)
     = Inr (Inr (80, sealed (\<lambda>_. 0) (replicate 12 1)
         (response_attrs (be16 0x6 @ be16 8) (replicate 12 1) demo_peer) d @ rest))"
proof -
  have u: "length (username_of (demo_creds ''abc'')) = 8" by (simp add: username_of_def demo_creds_def)
  have l: "length (response_attrs (be16 0x6 @ be16 8) (replicate 12 1) demo_peer) = 28"
    by (simp add: response_attrs_def demo_peer_def address_value_len_def pad4_def)
  show ?thesis
    using create_stun_success_drops_username [of "replicate 12 1" demo_hmac "demo_creds ''abc''" demo_peer "replicate 200 0" False "\<lambda>_. 0",
        unfolded u of_nat_numeral l] demo_hmac_ok
    by simp
qed

section \<open>The reflected address\<close>

text \<open>How a peer decodes the value of \<open>XOR-MAPPED-ADDRESS\<close>.\<close>

definition of_octets6 :: "bytes \<Rightarrow> 128 word" where
  "of_octets6 bs = foldl (\<lambda>acc b. push_bit 8 acc OR ucast b) 0 bs"

fun xor_mapped_decode :: "bytes \<Rightarrow> bytes \<Rightarrow> (ip_addr \<times> u16) option" where
  "xor_mapped_decode tid (z # fam # p1 # p2 # addr) =
     (if fam = 1 \<and> length addr = 4
      then Some (V4 (rd32 (addr ! 0) (addr ! 1) (addr ! 2) (addr ! 3) XOR STUN_COOKIE), rd16 p1 p2 XOR 0x2112)
      else if fam = 2 \<and> length addr = 16
      then Some (V6 (of_octets6 (map2 (XOR) addr (be32 STUN_COOKIE @ tid))), rd16 p1 p2 XOR 0x2112)
      else None)"
| "xor_mapped_decode tid _ = None"

lemma bit_of_octets:
  "n < 128 \<Longrightarrow> bit (foldl (\<lambda>acc b. push_bit 8 acc OR ucast b) (0 :: 128 word) bs) n \<longleftrightarrow>
     n < 8 * length bs \<and> bit (bs ! (length bs - 1 - n div 8)) (n mod 8)" for bs :: bytes
proof (induction bs arbitrary: n rule: rev_induct)
  case (snoc b bs)
  show ?case
  proof (cases "n < 8")
    case True
    then show ?thesis by (simp add: bit_simps)
  next
    case False
    then have n: "n div 8 = Suc ((n - 8) div 8)" "(n - 8) mod 8 = n mod 8" "n - 8 < 128"
      using snoc.prems by (auto simp: le_div_geq le_mod_geq)
    have "\<not> bit b n" using False bit_imp_le_length [of b n] by auto
    moreover have "n - 8 < 8 * length bs \<longleftrightarrow> n < 8 + 8 * length bs" using False by linarith
    ultimately show ?thesis
      using False n snoc.prems by (auto simp: bit_simps snoc.IH nth_append)
  qed
qed simp

lemma of_octets6_octets6: "of_octets6 (octets6 w) = w"
proof (rule bit_word_eqI)
  fix n assume "n < LENGTH(128)"
  then have n: "n < 128" "n div 8 < 16" by auto
  have e: "8 * (15 - (15 - n div 8)) + n mod 8 = n" using n(2) by simp
  have u: "[0..<16] ! (15 - n div 8) = 15 - n div 8" by (subst nth_upt) simp_all
  have "octets6 w ! (15 - n div 8) = ucast (drop_bit (8 * (15 - (15 - n div 8))) w)"
    unfolding octets6_def by (subst nth_map, simp del: upt_Suc) (simp only: u)
  then show "bit (of_octets6 (octets6 w)) n = bit w n"
    using bit_of_octets [OF n(1), of "octets6 w"] n e
    by (simp add: of_octets6_def bit_simps)
qed

lemma xor_twice: "length ys = length xs \<Longrightarrow> map2 (XOR) (map2 (XOR) xs ys) ys = (xs :: bytes)"
  by (induction xs ys rule: list_induct2') (auto simp: xor.assoc)

lemma rd32_xor: "rd32 (a XOR a') (b XOR b') (c XOR c') (d XOR d') = rd32 a b c d XOR rd32 a' b' c' d'"
proof (rule bit_word_eqI)
  fix n :: nat
  assume "n < LENGTH(32)"
  then consider "n < 8" | "8 \<le> n" "n < 16" | "16 \<le> n" "n < 24" | "24 \<le> n" "n < 32"
    by (simp; linarith)
  then show "bit (rd32 (a XOR a') (b XOR b') (c XOR c') (d XOR d')) n = bit (rd32 a b c d XOR rd32 a' b' c' d') n"
    by cases (simp_all add: rd32_def bit_simps, (auto dest: bit_imp_le_length)?)
qed

lemma xor_mapped_decode_split:
  "xor_mapped_decode tid ([z, fam] @ be16 w @ addr) =
     (if fam = 1 \<and> length addr = 4
      then Some (V4 (rd32 (addr ! 0) (addr ! 1) (addr ! 2) (addr ! 3) XOR STUN_COOKIE), w XOR 0x2112)
      else if fam = 2 \<and> length addr = 16
      then Some (V6 (of_octets6 (map2 (XOR) addr (be32 STUN_COOKIE @ tid))), w XOR 0x2112)
      else None)"
  by (simp add: be16_def)

lemma xor_mapped_decodes:
  assumes "length tid = 12"
  shows "xor_mapped_decode tid (xor_mapped_address_value tid r) = Some (sock_ip r, sock_port r)"
proof (cases r)
  case (SockV4 ip p)
  have c: "rd32 0x21 0x12 0xa4 0x42 = STUN_COOKIE" by code_simp
  obtain a b c' d where o: "octets4 ip = [a, b, c', d]" "rd32 a b c' d = ip"
    by (simp add: octets4_def be32_def)
  show ?thesis
    unfolding SockV4 xor_mapped_address_value.simps xor_mapped_decode_split
    by (simp add: o cookie_bytes rd32_xor c xor.assoc)
next
  case (SockV6 ip p f sc)
  show ?thesis
    unfolding SockV6 xor_mapped_address_value.simps xor_mapped_decode_split
    using assms by (simp add: xor_twice xor.assoc of_octets6_octets6)
qed

text \<open>C28. The address the server reflects is the peer's: decoding the \<open>XOR-MAPPED-ADDRESS\<close> it writes,
  with the request's transaction id, gives back exactly the peer's IP address and port, IPv4 or IPv6.\<close>

theorem compute_xor_mapped_address_decodes:
  assumes "length tid = 12"
  shows "\<exists>v. compute_xor_mapped_address r tid = Inr (tlv (stun_attribute_type_code XORMappedAddressT) v)
     \<and> xor_mapped_decode tid v = Some (sock_ip r, sock_port r)"
  using compute_xor_mapped [OF assms, of r] xor_mapped_decodes [OF assms, of r] by auto

theorem compute_xor_mapped_address_decodes_witness:
  "\<exists>v. compute_xor_mapped_address demo_peer (replicate 12 5) = Inr (tlv 0x20 v)
     \<and> xor_mapped_decode (replicate 12 5) v = Some (V4 0x7F000001, 52000)"
  using compute_xor_mapped_address_decodes [of "replicate 12 5" demo_peer] by (simp add: demo_peer_def)

end
