(* ===== verification/Rtp_Remap.thy ===== *)
theory Rtp_Remap
  imports Rust_Io Sdp_Resolver
begin

text \<open>
  The RTP header rewriting of \<open>src/rtp.rs\<close>: a packet of the streamer is copied to each viewer with
  the payload type and SSRC that were negotiated with that viewer. A \<open>usize\<close> payload number is cut to
  \<open>u8\<close> where the code casts it.
\<close>

record rtp_header =
  marker_set :: bool
  payload_type :: u8
  hdr_ssrc :: u32

definition get_rtp_header_data :: "bytes \<Rightarrow> panic + rtp_header" where
  "get_rtp_header_data buffer =
     bind_res (index_at buffer 1) (\<lambda>first_byte.
     if length buffer < 12 then Inl OutOfBounds else
     Inr \<lparr>marker_set = (first_byte AND 0b10000000 = 0b10000000), payload_type = first_byte AND 0b01111111,
          hdr_ssrc = rd32 (buffer ! 8) (buffer ! 9) (buffer ! 10) (buffer ! 11)\<rparr>)"

definition get_mapped_header :: "rtp_header \<Rightarrow> negotiated_session \<Rightarrow> negotiated_session \<Rightarrow> rtp_header" where
  "get_mapped_header original streamer viewer =
     (if as_payload_number (audio_session streamer) = unat (payload_type original)
      then \<lparr>marker_set = marker_set original,
            payload_type = of_nat (as_payload_number (audio_session viewer)),
            hdr_ssrc = as_host_ssrc (audio_session viewer)\<rparr>
      else \<lparr>marker_set = marker_set original,
            payload_type = of_nat (vs_payload_number (video_session viewer)),
            hdr_ssrc = vs_host_ssrc (video_session viewer)\<rparr>)"

definition remap_rtp_header :: "bytes \<Rightarrow> negotiated_session \<Rightarrow> negotiated_session \<Rightarrow> panic + bytes" where
  "remap_rtp_header buffer streamer viewer =
     bind_res (get_rtp_header_data buffer) (\<lambda>h.
     let mapped = get_mapped_header h streamer viewer;
         marker_bit = (if marker_set mapped then 0b10000000 else 0);
         second_byte = marker_bit XOR payload_type mapped in
     if length buffer < 12 then Inl OutOfBounds
     else Inr (write_at 8 (be32 (hdr_ssrc mapped)) (buffer[1 := second_byte])))"

section \<open>What the rewriting guarantees\<close>

text \<open>The session the packet belongs to, and the numbers the viewer expects for it.\<close>

definition is_audio :: "negotiated_session \<Rightarrow> rtp_header \<Rightarrow> bool" where
  "is_audio streamer h \<longleftrightarrow> as_payload_number (audio_session streamer) = unat (payload_type h)"

definition viewer_payload :: "bool \<Rightarrow> negotiated_session \<Rightarrow> nat" where
  "viewer_payload audio v = (if audio then as_payload_number (audio_session v) else vs_payload_number (video_session v))"

definition viewer_ssrc :: "bool \<Rightarrow> negotiated_session \<Rightarrow> u32" where
  "viewer_ssrc audio v = (if audio then as_host_ssrc (audio_session v) else vs_host_ssrc (video_session v))"

lemma and_exp_bit: "(x :: 'a :: len word) AND 2 ^ k = (if bit x k then 2 ^ k else 0)"
  by (rule bit_word_eqI) (auto simp: bit_simps)

lemma header_data_iff: "get_rtp_header_data b = Inr h \<longleftrightarrow> 12 \<le> length b \<and>
   h = \<lparr>marker_set = bit (b ! 1) 7, payload_type = b ! 1 AND 0x7F, hdr_ssrc = rd32 (b ! 8) (b ! 9) (b ! 10) (b ! 11)\<rparr>"
proof -
  have "(x AND 0x80 = 0x80) = bit x 7" for x :: u8
    using and_exp_bit [of x 7] by (auto split: if_splits)
  then show ?thesis by (auto simp: get_rtp_header_data_def index_at_def)
qed

lemma header_data_panics: "length b < 12 \<Longrightarrow> get_rtp_header_data b = Inl OutOfBounds"
  by (simp add: get_rtp_header_data_def index_at_def)

text \<open>The second byte of the rewritten packet.\<close>

definition remapped_second :: "bool \<Rightarrow> nat \<Rightarrow> u8" where
  "remapped_second m pn = (if m then 0x80 else 0) XOR of_nat pn"

lemma remap_alt:
  assumes "get_rtp_header_data b = Inr h"
  shows "remap_rtp_header b s v = Inr (write_at 8 (be32 (viewer_ssrc (is_audio s h) v))
     (b[1 := remapped_second (marker_set h) (viewer_payload (is_audio s h) v)]))"
proof -
  have "12 \<le> length b" using assms by (simp add: header_data_iff)
  then show ?thesis
    by (simp add: remap_rtp_header_def assms get_mapped_header_def viewer_ssrc_def viewer_payload_def
      is_audio_def remapped_second_def Let_def)
qed

lemma remapped_bytes:
  assumes "12 \<le> length b" "i < length b"
  shows "write_at 8 (be32 w) (b[1 := x]) ! i = (if i = 1 then x else if 8 \<le> i \<and> i < 12 then be32 w ! (i - 8) else b ! i)"
  using assms by (auto simp: write_at_def nth_append nth_list_update not_less)

definition marker_bit :: u8 where "marker_bit = 0x80"

lemma bit_marker: "bit marker_bit n \<longleftrightarrow> n = 7"
proof -
  have "bit ((2 :: u8) ^ k) n \<longleftrightarrow> n = k \<and> n < 8" for k by (auto simp: bit_simps)
  from this [of 7] show ?thesis by (auto simp: marker_bit_def)
qed

lemma second_byte_small:
  assumes "pn < 128"
  shows "bit (remapped_second m pn) 7 = m" "remapped_second m pn AND 0x7F = of_nat pn"
proof -
  have lt: "bit (of_nat pn :: u8) n \<Longrightarrow> n < 7" for n
  proof -
    assume "bit (of_nat pn :: u8) n"
    then have "bit pn n" by (simp add: bit_simps)
    then have "2 ^ n \<le> pn" by (metis bit_imp_possible_bit bit_iff_odd div_less even_zero not_le)
    with assms have "(2 :: nat) ^ n < 2 ^ 7" by simp
    then show "n < 7" by (simp only: power_strict_increasing_iff)
  qed
  have e: "(0x7F :: u8) = Bit_Operations.mask 7" by (simp add: mask_eq_exp_minus_1)
  show "bit (remapped_second m pn) 7 = m"
    unfolding remapped_second_def marker_bit_def [symmetric] using lt [of 7] by (auto simp: bit_simps bit_marker)
  show "remapped_second m pn AND 0x7F = of_nat pn"
    unfolding remapped_second_def marker_bit_def [symmetric] e
    by (rule bit_word_eqI) (use lt in \<open>auto simp: bit_simps bit_marker\<close>)
qed

lemma second_byte_large:
  assumes "128 \<le> pn" "pn < 256"
  shows "bit (remapped_second m pn) 7 = (\<not> m)"
proof -
  have "pn div 128 = 1" using assms by (intro div_nat_eqI) auto
  then have "bit pn 7" by (simp add: bit_iff_odd)
  then have "bit (of_nat pn :: u8) 7" by (simp add: bit_simps)
  then show ?thesis unfolding remapped_second_def marker_bit_def [symmetric] by (auto simp: bit_simps bit_marker)
qed

text \<open>Forwarding a packet of at least twelve bytes changes only the second byte and the SSRC field:
  the SSRC is the one the viewer was told for that media, the payload type is the viewer's payload number
  and the marker bit is the streamer's, provided the payload number fits seven bits; length, sequence
  number, timestamp, CSRCs, extensions and payload stay as they were.\<close>

lemma remap_rtp_header_correct:
  assumes "get_rtp_header_data b = Inr h" "viewer_payload (is_audio s h) v < 128"
  shows "\<exists>b'. remap_rtp_header b s v = Inr b' \<and> length b' = length b
     \<and> (\<forall>i < length b. i \<noteq> 1 \<and> \<not> (8 \<le> i \<and> i < 12) \<longrightarrow> b' ! i = b ! i)
     \<and> get_rtp_header_data b' = Inr \<lparr>marker_set = marker_set h,
          payload_type = of_nat (viewer_payload (is_audio s h) v), hdr_ssrc = viewer_ssrc (is_audio s h) v\<rparr>"
proof -
  let ?x = "remapped_second (marker_set h) (viewer_payload (is_audio s h) v)" and ?w = "viewer_ssrc (is_audio s h) v"
  let ?b = "write_at 8 (be32 ?w) (b[1 := ?x])"
  have len: "12 \<le> length b" using assms(1) by (simp add: header_data_iff)
  then have l: "length ?b = length b" by (simp add: write_at_def)
  note nth = remapped_bytes [OF len, of _ ?w ?x]
  have "get_rtp_header_data ?b = Inr \<lparr>marker_set = bit (?b ! 1) 7, payload_type = ?b ! 1 AND 0x7F,
      hdr_ssrc = rd32 (?b ! 8) (?b ! 9) (?b ! 10) (?b ! 11)\<rparr>"
    using len l by (simp add: header_data_iff)
  also have "?b ! 1 = ?x" using nth [of 1] len by simp
  also have "rd32 (?b ! 8) (?b ! 9) (?b ! 10) (?b ! 11) = ?w"
    using nth [of 8] nth [of 9] nth [of 10] nth [of 11] len by (simp add: be32_def)
  finally have "get_rtp_header_data ?b = Inr \<lparr>marker_set = marker_set h,
      payload_type = of_nat (viewer_payload (is_audio s h) v), hdr_ssrc = ?w\<rparr>"
    using second_byte_small [OF assms(2)] by simp
  moreover have "\<forall>i < length b. i \<noteq> 1 \<and> \<not> (8 \<le> i \<and> i < 12) \<longrightarrow> ?b ! i = b ! i"
    using nth by auto
  ultimately show ?thesis using remap_alt [OF assms(1), of s v] l by blast
qed

text \<open>A session with given payload numbers and SSRCs, and a packet of the streamer's video.\<close>

definition numbered_session :: "nat \<Rightarrow> nat \<Rightarrow> u32 \<Rightarrow> u32 \<Rightarrow> negotiated_session" where
  "numbered_session apn vpn assrc vssrc =
     \<lparr>sdp_answer = \<lparr>session_section = [], video_section = [], audio_section = []\<rparr>,
      ice_credentials = \<lparr>host_username = ''h'', host_password = ''p'', remote_username = ''r'', remote_password = ''q''\<rparr>,
      video_session = \<lparr>vs_codec = H264, vs_payload_number = vpn, vs_host_ssrc = vssrc, vs_remote_ssrc = None, vs_capabilities = {}\<rparr>,
      audio_session = \<lparr>as_codec = Opus, as_payload_number = apn, as_host_ssrc = assrc, as_remote_ssrc = None\<rparr>\<rparr>"

definition demo_packet :: bytes where
  "demo_packet = [0x80, 0xE0, 0, 7, 0, 0, 0, 9, 1, 2, 3, 4, 0x65, 0xAA]"

definition demo_header :: rtp_header where
  "demo_header = \<lparr>marker_set = True, payload_type = 0x60, hdr_ssrc = 0x01020304\<rparr>"

lemma demo_packet_header: "get_rtp_header_data demo_packet = Inr demo_header"
  by code_simp

text \<open>C37. Nothing bounds the payload number of an offer by 127: with a number between 128 and 255 the
  forwarded packet carries the inverted marker bit.\<close>

theorem remap_rtp_header_flips_marker:
  assumes "get_rtp_header_data b = Inr h" "viewer_payload (is_audio s h) v \<in> {128..<256}"
  shows "\<exists>b' h'. remap_rtp_header b s v = Inr b' \<and> get_rtp_header_data b' = Inr h' \<and> marker_set h' = (\<not> marker_set h)"
proof -
  have len: "12 \<le> length b" using assms(1) by (simp add: header_data_iff)
  from remap_alt [OF assms(1), of s v] len remapped_bytes [OF len, of 1]
    second_byte_large [of "viewer_payload (is_audio s h) v" "marker_set h"] assms(2)
  show ?thesis by (simp add: header_data_iff write_at_def)
qed

theorem remap_rtp_header_flips_marker_witness:
  "\<exists>b' h'. remap_rtp_header demo_packet (numbered_session 111 96 1 2) (numbered_session 109 200 3 4) = Inr b'
     \<and> get_rtp_header_data b' = Inr h' \<and> \<not> marker_set h'"
proof -
  have "\<not> is_audio (numbered_session 111 96 1 2) demo_header"
    by (simp add: is_audio_def numbered_session_def demo_header_def)
  then show ?thesis
    using remap_rtp_header_flips_marker [OF demo_packet_header, of "numbered_session 111 96 1 2" "numbered_session 109 200 3 4"]
    by (auto simp: viewer_payload_def numbered_session_def demo_header_def)
qed

end
