(* ===== verification/Udp_Server.thy ===== *)
theory Udp_Server
  imports Registry Stun_Props Rtp_Remap
begin

text \<open>
  The packet handlers of \<open>src/server.rs\<close>: a datagram is a STUN request, which refreshes or nominates
  a session and is answered, or belongs to the session of its sender: handshake traffic, or media of a
  streamer, which is decrypted, offered to the thumbnail extractor and forwarded to the viewers of the
  streamer's room. The handlers return the server and the datagrams they hand to the socket; a failing
  \<open>send_to\<close> is only logged by the code.
\<close>

record 'x udp_server =
  session_registry :: "'x session_registry"
  sdp_resolver :: sdp_resolver
  inbound_buffer :: bytes
  outbound_buffer :: bytes

definition udp_server_new :: "string \<Rightarrow> socket_addr \<Rightarrow> panic + 'x udp_server" where
  "udp_server_new fingerprint address =
     bind_res (resolver_new (''sha-256 '' @ fingerprint) address) (\<lambda>res.
       Inr \<lparr>session_registry = registry_new, sdp_resolver = res, inbound_buffer = [], outbound_buffer = []\<rparr>)"

abbreviation set_registry :: "'x session_registry \<Rightarrow> 'x udp_server \<Rightarrow> 'x udp_server" where
  "set_registry g srv \<equiv> srv\<lparr>session_registry := g\<rparr>"

section \<open>STUN requests\<close>

definition stun_reply :: "bool \<Rightarrow> 'x third_party \<Rightarrow> ice_credentials \<Rightarrow> bytes \<Rightarrow> socket_addr \<Rightarrow> panic + outputs" where
  "stun_reply chk tp creds tid rem =
     bind_res (create_stun_success chk (tp_hmac_sha1 tp) (tp_crc32 tp) creds tid rem (replicate 200 0)) (\<lambda>r.
     case r of
       Inl _ \<Rightarrow> Inl UnwrapFailed
     | Inr (bytes_written, buffer) \<Rightarrow> bind_res (slice_to bytes_written buffer) (\<lambda>out. Inr [(rem, out)]))"

definition handle_stun_packet ::
    "bool \<Rightarrow> 'x third_party \<Rightarrow> instant \<Rightarrow> socket_addr \<Rightarrow> ice_stun_message_type \<Rightarrow> 'x udp_server
       \<Rightarrow> panic + ('x udp_server \<times> outputs)" where
  "handle_stun_packet chk tp now rem stun_packet srv =
     (let g = session_registry srv in
      case stun_packet of
        LiveCheck msg \<Rightarrow>
          (case get_session_by_username_mut (username_attribute msg) g of
             None \<Rightarrow> Inr (srv, [])
           | Some (i, s) \<Rightarrow>
               bind_res (stun_reply chk tp (ice_credentials (media_session s)) (transaction_id msg) rem) (\<lambda>outs.
                 Inr (set_registry (put_session i (s\<lparr>ttl := now\<rparr>) g) srv, outs)))
      | Nomination msg \<Rightarrow>
          (case get_session_by_username_mut (username_attribute msg) g of
             None \<Rightarrow> Inr (srv, [])
           | Some (i, s) \<Rightarrow>
               let g1 = put_session i (s\<lparr>ttl := now\<rparr>) g; resource_id = sess_id s in
               bind_res (ok_or UnwrapFailed (get_session resource_id g1)) (\<lambda>s1.
               bind_res
                 (if sess_client s1 = None then
                    if \<not> tp_try_clone tp then Inl UnwrapFailed else
                    bind_res (client_new tp rem) (\<lambda>(r, outs).
                    case r of
                      Inl _ \<Rightarrow> Inl UnwrapFailed
                    | Inr client \<Rightarrow> Inr (snd (nominate_client client resource_id g1), outs))
                  else Inr (g1, [])) (\<lambda>(g2, outs1).
               bind_res (ok_or UnwrapFailed (get_session resource_id g2)) (\<lambda>s2.
               bind_res (stun_reply chk tp (ice_credentials (media_session s2)) (transaction_id msg) rem) (\<lambda>outs2.
                 Inr (set_registry g2 srv, outs1 @ outs2)))))))"

section \<open>Other packets\<close>

text \<open>One turn of the loop over the viewers.\<close>

definition forward_to_viewer ::
    "'x third_party \<Rightarrow> socket_addr \<Rightarrow> resource_id \<Rightarrow> 'x udp_server \<Rightarrow> panic + ('x udp_server \<times> outputs)" where
  "forward_to_viewer tp rem v srv =
     (let g = session_registry srv in
      bind_res (ok_or UnwrapFailed (get_session_by_address_mut rem g)) (\<lambda>(_, streamer_session).
      bind_res (ok_or UnwrapFailed (get_session v g)) (\<lambda>viewer_session.
      case sess_client viewer_session of
        None \<Rightarrow> Inr (srv, [])
      | Some viewer_client \<Rightarrow>
          (case ssl_state viewer_client of
             Established e \<Rightarrow>
               bind_res (remap_rtp_header (inbound_buffer srv) (media_session streamer_session)
                           (media_session viewer_session)) (\<lambda>out.
               case tp_protect tp out (srtp_outbound e) of
                 (r, ob) \<Rightarrow>
                   let c' = viewer_client\<lparr>ssl_state := Established (e\<lparr>srtp_outbound := ob\<rparr>)\<rparr>;
                       g' = put_session v (viewer_session\<lparr>sess_client := Some c'\<rparr>) g in
                   (case r of
                      None \<Rightarrow> Inr (srv\<lparr>session_registry := g', outbound_buffer := out\<rparr>, [])
                    | Some enc \<Rightarrow> Inr (srv\<lparr>session_registry := g', outbound_buffer := enc\<rparr>,
                                      [(remote_address viewer_client, enc)])))
           | _ \<Rightarrow> Inr (srv, [])))))"

fun forward_to_viewers ::
    "'x third_party \<Rightarrow> socket_addr \<Rightarrow> resource_id list \<Rightarrow> 'x udp_server \<Rightarrow> panic + ('x udp_server \<times> outputs)" where
  "forward_to_viewers tp rem [] srv = Inr (srv, [])"
| "forward_to_viewers tp rem (v # vs) srv =
     bind_res (forward_to_viewer tp rem v srv) (\<lambda>(srv1, outs1).
     bind_res (forward_to_viewers tp rem vs srv1) (\<lambda>(srv2, outs2). Inr (srv2, outs1 @ outs2)))"

text \<open>A packet during the handshake goes to the client.\<close>

definition handshake_packet ::
    "'x third_party \<Rightarrow> resource_id \<Rightarrow> 'x session \<Rightarrow> 'x client \<Rightarrow> 'x udp_server \<Rightarrow> panic + ('x udp_server \<times> outputs)" where
  "handshake_packet tp i s c srv =
     bind_res (read_packet tp (inbound_buffer srv) c) (\<lambda>(_, c', outs).
       Inr (set_registry (put_session i (s\<lparr>sess_client := Some c'\<rparr>) (session_registry srv)) srv, outs))"

text \<open>A media packet of an established streamer.\<close>

definition media_packet ::
    "'x third_party \<Rightarrow> id_order \<Rightarrow> socket_addr \<Rightarrow> resource_id \<Rightarrow> 'x session \<Rightarrow> 'x client \<Rightarrow> 'x streamer
       \<Rightarrow> 'x established_stream \<Rightarrow> 'x udp_server \<Rightarrow> panic + ('x udp_server \<times> outputs)" where
  "media_packet tp ord rem i s c st e srv =
     (case tp_unprotect tp (inbound_buffer srv) (srtp_inbound e) of
        (r, ib) \<Rightarrow>
          let s1 = s\<lparr>sess_client := Some (c\<lparr>ssl_state := Established (e\<lparr>srtp_inbound := ib\<rparr>)\<rparr>)\<rparr> in
          (case r of
             None \<Rightarrow> Inr (set_registry (put_session i s1 (session_registry srv)) srv, [])
           | Some plain \<Rightarrow>
               bind_res (get_rtp_header_data plain) (\<lambda>h.
               bind_res
                 (if payload_type h = of_nat (vs_payload_number (video_session (media_session s)))
                  then map_res (\<lambda>(_, te). st\<lparr>thumbnail_extractor := te\<rparr>)
                         (try_extract_thumbnail (tp_h264_decode tp) (tp_nal_units tp) plain (thumbnail_extractor st))
                  else Inr st) (\<lambda>st1.
               let g1 = put_session i (s1\<lparr>connection_type := Streamer st1\<rparr>) (session_registry srv) in
               bind_res (ok_or UnwrapFailed (get_room (owned_room_id st) g1)) (\<lambda>rm.
                 forward_to_viewers tp rem (ord (viewer_ids rm))
                   (srv\<lparr>session_registry := g1, inbound_buffer := plain\<rparr>))))))"

definition handle_other_packets ::
    "'x third_party \<Rightarrow> id_order \<Rightarrow> instant \<Rightarrow> socket_addr \<Rightarrow> 'x udp_server \<Rightarrow> panic + ('x udp_server \<times> outputs)" where
  "handle_other_packets tp ord now rem srv =
     (let g = session_registry srv in
      case get_session_by_address_mut rem g of
        None \<Rightarrow> Inr (srv, [])
      | Some (i, s0) \<Rightarrow>
          (case sess_client s0 of
             None \<Rightarrow> Inr (srv, [])
           | Some c \<Rightarrow>
               let s = s0\<lparr>ttl := now\<rparr> in
               (case connection_type s of
                  Viewer _ \<Rightarrow>
                    (case ssl_state c of
                       Handshake _ _ \<Rightarrow> handshake_packet tp i s c srv
                     | _ \<Rightarrow> Inr (set_registry (put_session i s g) srv, []))
                | Streamer st \<Rightarrow>
                    (case ssl_state c of
                       Handshake _ _ \<Rightarrow> handshake_packet tp i s c srv
                     | Established e \<Rightarrow> media_packet tp ord rem i s c st e srv
                     | Shutdown \<Rightarrow> Inl ExplicitPanic))))"

definition process_packet ::
    "bool \<Rightarrow> 'x third_party \<Rightarrow> id_order \<Rightarrow> instant \<Rightarrow> bytes \<Rightarrow> socket_addr \<Rightarrow> 'x udp_server
       \<Rightarrow> panic + ('x udp_server \<times> outputs)" where
  "process_packet chk tp ord now data rem srv =
     (let srv1 = srv\<lparr>inbound_buffer := data\<rparr> in
      bind_res (get_stun_packet chk data) (\<lambda>r.
      case r of
        Some stun_packet \<Rightarrow> handle_stun_packet chk tp now rem stun_packet srv1
      | None \<Rightarrow> handle_other_packets tp ord now rem srv1))"

end
