(* ===== verification/Udp_Server_Props.thy ===== *)
theory Udp_Server_Props
  imports Udp_Server
begin

text \<open>
  What the packet handlers guarantee: no admitted datagram makes them panic or breaks the registry;
  media of a streamer reaches exactly the established viewers of its room, re-addressed and encrypted
  for each; strangers have no effect; what a STUN request changes.
\<close>

section \<open>The invariant of the server\<close>

definition alive :: "'x session_registry \<Rightarrow> bool" where
  "alive g \<longleftrightarrow> (\<forall>i s c. sessions g i = Some s \<longrightarrow> sess_client s = Some c \<longrightarrow> ssl_state c \<noteq> Shutdown)"

text \<open>The names fit the response: with 96 characters an IPv6 response fills the 200-byte buffer.\<close>

definition short_names :: "'x session_registry \<Rightarrow> bool" where
  "short_names g \<longleftrightarrow> (\<forall>i s. sessions g i = Some s \<longrightarrow> length (username_of (ice_credentials (media_session s))) \<le> 96)"

definition server_ok :: "'x session_registry \<Rightarrow> bool" where
  "server_ok g \<longleftrightarrow> reg_inv g \<and> alive g \<and> short_names g"

text \<open>The documented behaviour of the crates that the code relies on: the digest has 20 bytes; accepting
  on a stream without packets waits; a resumed handshake does not fail to set up; a decrypted RTP packet
  has its header. Nothing is assumed of what may fail at any time: SRTP keys, a second handle of the socket
  and a decoder may all be refused, and what the server does then is in \<open>datagram_panics\<close> and
  \<open>command_panics\<close>.\<close>

definition tp_ok :: "'x third_party \<Rightarrow> bool" where
  "tp_ok tp \<longleftrightarrow> hmac_sha1_ok (tp_hmac_sha1 tp)
     \<and> (\<forall>rem. \<exists>x st ds. tp_accept tp (udp_peer_stream_new rem) = (WouldBlock x, st, ds))
     \<and> handshake_sets_up tp
     \<and> (\<forall>b x p. fst (tp_unprotect tp b x) = Some p \<longrightarrow> 12 \<le> length p)"

lemma put_server_ok:
  assumes "server_ok g" "sessions g i = Some s" "same_identity s s'"
    and "\<And>c. sess_client s' = Some c \<Longrightarrow> ssl_state c \<noteq> Shutdown"
  shows "server_ok (put_session i s' g)"
  using assms put_session_inv [of g i s s']
  by (auto simp: server_ok_def alive_def short_names_def same_identity_def put_session_def)

lemma alive_client: "server_ok g \<Longrightarrow> sessions g i = Some s \<Longrightarrow> sess_client s = Some c \<Longrightarrow> ssl_state c \<noteq> Shutdown"
  by (auto simp: server_ok_def alive_def)

lemma same_identity_ttl [simp]: "same_identity s (s\<lparr>ttl := n\<rparr>)"
  by (simp add: same_identity_def address_of_def role_def)

lemma same_identity_client:
  "sess_client s = Some c \<Longrightarrow> remote_address c' = remote_address c \<Longrightarrow> same_identity s (s\<lparr>sess_client := Some c'\<rparr>)"
  by (simp add: same_identity_def address_of_def role_def)

lemma same_identity_trans: "same_identity s t \<Longrightarrow> same_identity t u \<Longrightarrow> same_identity s u"
  by (simp add: same_identity_def)

text \<open>Sessions reached through an index.\<close>

lemma by_username_stored:
  assumes "server_ok g" "get_session_by_username_mut u g = Some (i, s)"
  shows "i = sess_id s" "sessions g (sess_id s) = Some s" "length (username_of (ice_credentials (media_session s))) \<le> 96"
  using assms store.name_stored [of g u s]
  by (auto simp: server_ok_def by_username_mut short_names_def)

lemma by_address_stored:
  assumes "server_ok g" "get_session_by_address_mut a g = Some (i, s)"
  shows "i = sess_id s" "sessions g (sess_id s) = Some s" "address_of s = Some a" "get_session_by_address a g = Some s"
  using assms store.address_stored [of g a s]
  by (auto simp: server_ok_def by_address_mut)

section \<open>STUN requests\<close>

lemma stun_reply_ok:
  assumes "tp_ok tp" "length tid = 12" "length (username_of creds) \<le> 96"
  shows "\<exists>out. stun_reply chk tp creds tid rem = Inr [(rem, out)]"
proof -
  let ?attrs = "response_attrs (written_username creds) tid rem"
  have p: "pad4 (length (username_of creds)) \<le> 96" using assms(3) unfolding pad4_def by presburger
  have room: "52 + length ?attrs \<le> length (replicate 200 (0 :: u8))"
    using p assms(2) by (cases rem) (simp_all add: response_attrs_def written_username_def address_value_len_def pad4_def)
  obtain d rest where d: "tp_hmac_sha1 tp (as_bytes (host_password creds))
        (stun_header (stun_type_code SuccessResponse) (length ?attrs + 24) tid @ ?attrs) = Some d"
    and c: "create_stun_success chk (tp_hmac_sha1 tp) (tp_crc32 tp) creds tid rem (replicate 200 0)
      = Inr (Inr (52 + length ?attrs, sealed (tp_crc32 tp) tid ?attrs d @ rest))"
    using create_stun_success_shape [OF assms(2) _ _ room, of "tp_hmac_sha1 tp" chk "tp_crc32 tp"] assms(1,3)
    by (auto simp: tp_ok_def)
  have "length d = 20" using assms(1) d by (auto simp: tp_ok_def hmac_sha1_ok_def) (metis option.inject)
  then have "length (sealed (tp_crc32 tp) tid ?attrs d) = 52 + length ?attrs"
    using assms(2) by (simp add: sealed_def pad4_def)
  with c show ?thesis by (simp add: stun_reply_def slice_to_def)
qed

fun message_packet :: "ice_stun_message_type \<Rightarrow> ice_stun_packet" where
  "message_packet (LiveCheck p) = p" | "message_packet (Nomination p) = p"

lemma get_stun_packet_tid:
  assumes "get_stun_packet chk data = Inr (Some m)"
  shows "length (transaction_id (message_packet m)) = 12"
proof -
  have l: "length packet = length r + 4" if "read_u32 packet = Some (w, r)" for packet w r
    using that by (cases packet rule: read_u32.cases) auto
  from assms obtain q where q: "parse_stun_packet chk data = Inr (Some q)" "parse_binding_request q = Some m"
    by (auto simp: get_stun_packet_def map_res_eq_Inr) (metis bind_eq_Some_conv)
  then have "length (req_transaction_id q) = 12"
    by (auto simp: parse_stun_packet_def stun_consts bind_res_eq_Inr split: if_splits option.splits
        dest!: read_u16_length l)
  moreover have "transaction_id (message_packet m) = req_transaction_id q"
    using q(2) by (auto simp: parse_binding_request_def Let_def bind_eq_Some_conv simp del: find_map_None split: option.splits)
  ultimately show ?thesis by simp
qed

lemma client_new_ok:
  assumes "tp_ok tp"
  shows "\<exists>c outs. client_new tp rem = Inr (Inr c, outs) \<and> remote_address c = rem \<and> ssl_state c \<noteq> Shutdown"
proof -
  obtain x st ds where "tp_accept tp (udp_peer_stream_new rem) = (WouldBlock x, st, ds)"
    using assms unfolding tp_ok_def by blast
  then show ?thesis by (simp add: client_new_def)
qed

lemma nominate_ok:
  assumes "server_ok g" "sessions g i = Some s" "sess_client s = None" "ssl_state c \<noteq> Shutdown"
  shows "server_ok (snd (nominate_client c i g))"
  using assms nominate_client_inv [of g i s c]
  by (auto simp: server_ok_def alive_def short_names_def nominate_client_def put_session_def Let_def)

text \<open>The one panic a well-formed request can cause: it nominates a session that has no client yet, and the
  operating system refuses another handle of the socket.\<close>

definition stun_panics :: "'x third_party \<Rightarrow> ice_stun_message_type \<Rightarrow> 'x session_registry \<Rightarrow> bool" where
  "stun_panics tp m g \<longleftrightarrow> \<not> tp_try_clone tp \<and> (\<exists>msg s. m = Nomination msg
     \<and> get_session_by_username (username_attribute msg) g = Some s \<and> sess_client s = None)"

lemma handle_stun_panics:
  assumes "server_ok (session_registry srv)" "stun_panics tp m (session_registry srv)"
  shows "handle_stun_packet chk tp now rem m srv = Inl UnwrapFailed"
proof -
  obtain msg s where m: "m = Nomination msg" "get_session_by_username (username_attribute msg) (session_registry srv) = Some s"
      "sess_client s = None" "\<not> tp_try_clone tp" using assms(2) unfolding stun_panics_def by blast
  moreover have "get_session_by_username_mut (username_attribute msg) (session_registry srv) = Some (sess_id s, s)"
    using by_username_mut [of "session_registry srv"] m(2) assms(1) by (simp add: server_ok_def)
  ultimately show ?thesis by (simp add: handle_stun_packet_def Let_def get_session_def put_session_def)
qed

lemma handle_stun_ok:
  assumes "tp_ok tp" "server_ok (session_registry srv)" "length (transaction_id (message_packet m)) = 12"
    and "\<not> stun_panics tp m (session_registry srv)"
  shows "\<exists>srv' outs. handle_stun_packet chk tp now rem m srv = Inr (srv', outs) \<and> server_ok (session_registry srv')"
proof -
  let ?g = "session_registry srv" and ?u = "username_attribute (message_packet m)"
  show ?thesis
  proof (cases "get_session_by_username_mut ?u ?g")
    case None
    with assms(2) show ?thesis by (cases m) (simp_all add: handle_stun_packet_def)
  next
    case (Some p)
    then obtain s where s: "get_session_by_username_mut ?u ?g = Some (sess_id s, s)"
      using by_username_stored [OF assms(2)] by (metis prod.collapse)
    note st = by_username_stored [OF assms(2) s]
    let ?s = "s\<lparr>ttl := now\<rparr>" and ?g1 = "put_session (sess_id s) (s\<lparr>ttl := now\<rparr>) ?g"
    have ok1: "server_ok ?g1"
      using alive_client [OF assms(2) st(2)] by (intro put_server_ok [OF assms(2) st(2)]) auto
    have g1: "sessions ?g1 (sess_id s) = Some ?s" by (simp add: put_session_def)
    obtain out where out: "stun_reply chk tp (ice_credentials (media_session s)) (transaction_id (message_packet m)) rem = Inr [(rem, out)]"
      using stun_reply_ok [OF assms(1,3) st(3)] by blast
    show ?thesis
    proof (cases m)
      case (LiveCheck msg)
      with s ok1 out show ?thesis by (simp add: handle_stun_packet_def)
    next
      case (Nomination msg)
      show ?thesis
      proof (cases "sess_client s")
        case (Some c)
        with Nomination s ok1 out g1 show ?thesis by (simp add: handle_stun_packet_def get_session_def)
      next
        case None
        obtain c outs where c: "client_new tp rem = Inr (Inr c, outs)" "ssl_state c \<noteq> Shutdown"
          using client_new_ok [OF assms(1)] by blast
        have "server_ok (snd (nominate_client c (sess_id s) ?g1))"
          using nominate_ok [OF ok1 g1 _ c(2)] None by simp
        moreover have "get_session_by_username (username_attribute msg) ?g = Some s"
          using s Nomination by_username_mut [of ?g "username_attribute msg"] assms(2)
          by (cases "get_session_by_username (username_attribute msg) ?g") (auto simp: server_ok_def)
        then have "tp_try_clone tp" using assms(4) Nomination None unfolding stun_panics_def by blast
        ultimately show ?thesis using Nomination s out g1 c None
          by (simp add: handle_stun_packet_def get_session_def nominate_client_def put_session_def Let_def)
      qed
    qed
  qed
qed

section \<open>Other packets\<close>

lemma read_packet_ok:
  assumes "tp_ok tp" "ssl_state c \<noteq> Shutdown" "\<not> keyless tp packet c"
  shows "\<exists>r c' outs. read_packet tp packet c = Inr (r, c', outs) \<and> ssl_state c' \<noteq> Shutdown \<and> remote_address c' = remote_address c"
proof -
  obtain r c' outs where r: "read_packet tp packet c = Inr (r, c', outs)"
    using assms(3) read_packet_ok_iff [of tp packet c] by (force simp: is_ok_ex)
  have "phase (ssl_state c) \<noteq> IsShutdown" using assms(2) by (cases "ssl_state c") auto
  with read_packet_phase [OF r] assms(1) have "phase (ssl_state c') \<noteq> IsShutdown" "remote_address c' = remote_address c"
    by (auto simp: tp_ok_def)
  with r show ?thesis by auto
qed

lemma handshake_packet_ok:
  assumes "tp_ok tp" "server_ok (session_registry srv)" "sessions (session_registry srv) i = Some s0"
    and "same_identity s0 s" "sess_client s = Some c" "ssl_state c \<noteq> Shutdown" "\<not> keyless tp (inbound_buffer srv) c"
  shows "\<exists>srv' outs. handshake_packet tp i s c srv = Inr (srv', outs) \<and> server_ok (session_registry srv')"
proof -
  obtain r c' outs where r: "read_packet tp (inbound_buffer srv) c = Inr (r, c', outs)" "ssl_state c' \<noteq> Shutdown"
      "remote_address c' = remote_address c"
    using read_packet_ok [OF assms(1,6,7)] by blast
  have "server_ok (put_session i (s\<lparr>sess_client := Some c'\<rparr>) (session_registry srv))"
    using same_identity_trans [OF assms(4) same_identity_client [OF assms(5) r(3)]] r(2)
    by (intro put_server_ok [OF assms(2,3)]) auto
  with r(1) show ?thesis by (simp add: handshake_packet_def)
qed

lemma handshake_packet_panics: "keyless tp (inbound_buffer srv) c \<Longrightarrow> \<exists>p. handshake_packet tp i s c srv = Inl p"
  using read_packet_ok_iff [of tp "inbound_buffer srv" c]
  by (cases "read_packet tp (inbound_buffer srv) c") (simp_all add: handshake_packet_def)

text \<open>What one viewer is sent for a decrypted packet of a streamer.\<close>

definition viewer_datagram :: "'x third_party \<Rightarrow> bytes \<Rightarrow> negotiated_session \<Rightarrow> 'x session \<Rightarrow> outputs" where
  "viewer_datagram tp plain media s = (case sess_client s of
       None \<Rightarrow> []
     | Some c \<Rightarrow>
         (case ssl_state c of
            Established e \<Rightarrow>
              (case remap_rtp_header plain media (media_session s) of
                 Inl _ \<Rightarrow> []
               | Inr out \<Rightarrow> (case fst (tp_protect tp out (srtp_outbound e)) of None \<Rightarrow> [] | Some enc \<Rightarrow> [(remote_address c, enc)]))
          | _ \<Rightarrow> []))"

lemma remap_ok: "12 \<le> length b \<Longrightarrow> \<exists>b'. remap_rtp_header b s v = Inr b'"
  using remap_alt [of b] by (auto simp: header_data_iff)

lemma forward_to_viewer_ok:
  assumes "server_ok (session_registry srv)" "12 \<le> length (inbound_buffer srv)"
    and "get_session_by_address rem (session_registry srv) = Some s" "sessions (session_registry srv) v = Some t"
  shows "\<exists>srv' t'. forward_to_viewer tp rem v srv = Inr (srv', viewer_datagram tp (inbound_buffer srv) (media_session s) t)
     \<and> server_ok (session_registry srv') \<and> inbound_buffer srv' = inbound_buffer srv
     \<and> sessions (session_registry srv') = (sessions (session_registry srv))(v \<mapsto> t') \<and> same_identity t t'
     \<and> map_option media_session (get_session_by_address rem (session_registry srv')) = Some (media_session s)"
proof -
  let ?g = "session_registry srv"
  have inv: "reg_inv ?g" using assms(1) by (simp add: server_ok_def)
  have addr: "get_session_by_address_mut rem ?g = Some (sess_id s, s)"
    using by_address_mut [OF inv, of rem] assms(3) by simp
  have unchanged: ?thesis if "forward_to_viewer tp rem v srv = Inr (srv, [])"
      "viewer_datagram tp (inbound_buffer srv) (media_session s) t = []"
    using that assms by (intro exI [of _ srv] exI [of _ t]) (auto simp: same_identity_def fun_upd_idem)
  show ?thesis
  proof (cases "sess_client t")
    case None
    with addr assms(4) show ?thesis
      by (intro unchanged) (simp_all add: forward_to_viewer_def get_session_def viewer_datagram_def)
  next
    case (Some c)
    show ?thesis
    proof (cases "\<exists>e. ssl_state c = Established e")
      case True
      then obtain e where Established: "ssl_state c = Established e" by blast
      obtain out where out: "remap_rtp_header (inbound_buffer srv) (media_session s) (media_session t) = Inr out"
        using remap_ok [OF assms(2)] by blast
      obtain r ob where p: "tp_protect tp out (srtp_outbound e) = (r, ob)" by fastforce
      let ?t = "t\<lparr>sess_client := Some (c\<lparr>ssl_state := Established (e\<lparr>srtp_outbound := ob\<rparr>)\<rparr>)\<rparr>"
      have same: "same_identity t ?t" using Some by (intro same_identity_client) auto
      have ok: "server_ok (put_session v ?t ?g)" by (rule put_server_ok [OF assms(1,4) same]) auto
      have med: "map_option media_session (get_session_by_address rem (put_session v ?t ?g)) = Some (media_session s)"
        using store.put_address [OF inv assms(4) same, of rem] assms(3,4) reg_invD(1) [OF inv assms(4)]
          store.address_stored [OF inv assms(3)] same
        by (auto simp: same_identity_def)
      let ?srv = "srv\<lparr>session_registry := put_session v ?t ?g, outbound_buffer := (case r of None \<Rightarrow> out | Some enc \<Rightarrow> enc)\<rparr>"
      have "forward_to_viewer tp rem v srv = Inr (?srv, viewer_datagram tp (inbound_buffer srv) (media_session s) t)"
        using addr assms(4) Some Established out p
        by (cases r) (simp_all add: forward_to_viewer_def get_session_def viewer_datagram_def)
      with ok same med show ?thesis
        by (intro exI [of _ ?srv] exI [of _ ?t]) (simp add: put_session_def)
    next
      case False
      with addr assms(4) Some show ?thesis
        by (intro unchanged) (auto simp: forward_to_viewer_def get_session_def viewer_datagram_def split: client_ssl_state.split)
    qed
  qed
qed

lemma forward_to_viewers_ok:
  assumes "server_ok (session_registry srv)" "12 \<le> length (inbound_buffer srv)" "distinct vs"
    and "map_option media_session (get_session_by_address rem (session_registry srv)) = Some m"
    and "\<forall>v \<in> set vs. sessions (session_registry srv) v \<noteq> None"
  shows "\<exists>srv'. forward_to_viewers tp rem vs srv = Inr (srv',
       concat (map (\<lambda>v. viewer_datagram tp (inbound_buffer srv) m (the (sessions (session_registry srv) v))) vs))
     \<and> server_ok (session_registry srv')"
  using assms
proof (induction vs arbitrary: srv)
  case (Cons v vs)
  let ?g = "session_registry srv"
  obtain s t where s: "get_session_by_address rem ?g = Some s" "media_session s = m" and t: "sessions ?g v = Some t"
    using Cons.prems(4,5) by auto
  obtain srv1 t' where f: "forward_to_viewer tp rem v srv = Inr (srv1, viewer_datagram tp (inbound_buffer srv) m t)"
      "server_ok (session_registry srv1)" "inbound_buffer srv1 = inbound_buffer srv"
      "sessions (session_registry srv1) = (sessions ?g)(v \<mapsto> t')"
      "map_option media_session (get_session_by_address rem (session_registry srv1)) = Some m"
    using forward_to_viewer_ok [OF Cons.prems(1,2) s(1) t, of tp] s(2) by auto
  have same: "sessions (session_registry srv1) w = sessions ?g w" if "w \<in> set vs" for w
    using f(4) Cons.prems(3) that by auto
  obtain srv2 where "forward_to_viewers tp rem vs srv1 = Inr (srv2,
       concat (map (\<lambda>w. viewer_datagram tp (inbound_buffer srv1) m (the (sessions (session_registry srv1) w))) vs))"
     "server_ok (session_registry srv2)"
    using Cons.IH [OF f(2) _ _ f(5)] f(3) Cons.prems(2,3,5) same by auto
  with f t same show ?case by (simp cong: map_cong)
qed simp

text \<open>The viewers of the room a streamer owns, in the order they are walked.\<close>

lemma owner_viewers:
  assumes inv: "reg_inv g" and "sessions g i = Some s" "connection_type s = Streamer st" and ord: "enumerates ord"
  shows "\<exists>rm. rooms g (owned_room_id st) = Some rm \<and> set (ord (viewer_ids rm)) = viewer_ids rm
     \<and> distinct (ord (viewer_ids rm)) \<and> (\<forall>v \<in> viewer_ids rm. v \<noteq> i \<and> sessions g v \<noteq> None)"
proof -
  have own: "owns g i (owned_room_id st)" using assms(2,3) by (simp add: owns_def role_def)
  then obtain rm where rm: "rooms g (owned_room_id st) = Some rm" using reg_invD(5) [OF inv] by blast
  have "viewer_ids rm = {v. views g v (owned_room_id st)}" using reg_invD(4) [OF inv rm] by simp
  with own have vs: "\<forall>v \<in> viewer_ids rm. v \<noteq> i \<and> sessions g v \<noteq> None" by (auto simp: views_def owns_def)
  have "finite (viewer_ids rm)"
    by (rule finite_subset [of _ "dom (sessions g)"]) (use vs inv in \<open>auto simp: reg_inv_def sessions_ok_def\<close>)
  with ord rm vs show ?thesis by (auto simp: enumerates_def)
qed

text \<open>A decrypted packet of the video makes the thumbnail extractor panic.\<close>

definition video_chokes :: "negotiated_session \<Rightarrow> 'x streamer \<Rightarrow> bytes \<Rightarrow> bool" where
  "video_chokes m st plain \<longleftrightarrow> (\<exists>h. get_rtp_header_data plain = Inr h
     \<and> payload_type h = of_nat (vs_payload_number (video_session m)) \<and> extraction_chokes plain (thumbnail_extractor st))"

lemma rtp_safe_video: "rtp_safe plain \<Longrightarrow> \<not> video_chokes m st plain"
  using rtp_safe_extracts unfolding video_chokes_def by blast

lemma media_packet_panics:
  assumes "tp_unprotect tp (inbound_buffer srv) (srtp_inbound e) = (Some plain, ib)" "video_chokes (media_session s) st plain"
  shows "\<exists>p. media_packet tp ord rem i s c st e srv = Inl p"
proof -
  obtain h where h: "get_rtp_header_data plain = Inr h" "payload_type h = of_nat (vs_payload_number (video_session (media_session s)))"
      "extraction_chokes plain (thumbnail_extractor st)" using assms(2) unfolding video_chokes_def by blast
  then have "\<not> is_ok (try_extract_thumbnail (tp_h264_decode tp) (tp_nal_units tp) plain (thumbnail_extractor st))"
    by (simp add: try_extract_thumbnail_ok_iff)
  with h(1,2) assms(1) show ?thesis
    by (cases "try_extract_thumbnail (tp_h264_decode tp) (tp_nal_units tp) plain (thumbnail_extractor st)")
      (simp_all add: media_packet_def Let_def)
qed

lemma media_packet_ok:
  assumes tp: "tp_ok tp" and ok: "server_ok (session_registry srv)" and ord: "enumerates ord"
    and addr: "get_session_by_address rem (session_registry srv) = Some s0"
    and s: "s = s0\<lparr>ttl := now\<rparr>" and c: "sess_client s0 = Some c" and e: "ssl_state c = Established e"
    and st: "connection_type s0 = Streamer st"
    and un: "tp_unprotect tp (inbound_buffer srv) (srtp_inbound e) = (Some plain, ib)" and safe: "\<not> video_chokes (media_session s0) st plain"
  shows "\<exists>srv' rm. rooms (session_registry srv) (owned_room_id st) = Some rm
     \<and> media_packet tp ord rem (sess_id s0) s c st e srv = Inr (srv', concat (map (\<lambda>v. viewer_datagram tp plain
          (media_session s0) (the (sessions (session_registry srv) v))) (ord (viewer_ids rm))))
     \<and> server_ok (session_registry srv')"
proof -
  let ?g = "session_registry srv"
  have inv: "reg_inv ?g" using ok by (simp add: server_ok_def)
  have stored: "sessions ?g (sess_id s0) = Some s0" using store.address_stored [OF inv addr] by simp
  have len: "12 \<le> length plain" using tp un unfolding tp_ok_def by (metis fst_conv)
  then obtain h where h: "get_rtp_header_data plain = Inr h" by (auto simp: header_data_iff)
  obtain st1 where st1: "(if payload_type h = of_nat (vs_payload_number (video_session (media_session s)))
       then map_res (\<lambda>(_, te). st\<lparr>thumbnail_extractor := te\<rparr>)
         (try_extract_thumbnail (tp_h264_decode tp) (tp_nal_units tp) plain (thumbnail_extractor st)) else Inr st) = Inr st1"
      "owned_room_id st1 = owned_room_id st"
  proof (cases "payload_type h = of_nat (vs_payload_number (video_session (media_session s)))")
    case True
    with safe h have "\<not> extraction_chokes plain (thumbnail_extractor st)" by (auto simp: video_chokes_def s)
    then obtain pic te where "try_extract_thumbnail (tp_h264_decode tp) (tp_nal_units tp) plain (thumbnail_extractor st) = Inr (pic, te)"
      using try_extract_thumbnail_ok_iff [of "tp_h264_decode tp" "tp_nal_units tp" plain "thumbnail_extractor st"] by (force simp: is_ok_ex)
    with True that show thesis by simp
  qed (use that in simp)
  let ?c = "c\<lparr>ssl_state := Established (e\<lparr>srtp_inbound := ib\<rparr>)\<rparr>"
  let ?s = "s\<lparr>sess_client := Some ?c, connection_type := Streamer st1\<rparr>"
  have same: "same_identity s0 ?s"
    using c st st1(2) by (simp add: same_identity_def s address_of_def role_def)
  let ?g1 = "put_session (sess_id s0) ?s ?g"
  have ok1: "server_ok ?g1" by (rule put_server_ok [OF ok stored same]) auto
  obtain rm where rm: "rooms ?g (owned_room_id st) = Some rm" and ids: "set (ord (viewer_ids rm)) = viewer_ids rm"
      "distinct (ord (viewer_ids rm))" and vs: "\<forall>v \<in> viewer_ids rm. v \<noteq> sess_id s0 \<and> sessions ?g v \<noteq> None"
    using owner_viewers [OF inv stored st ord] by blast
  have med: "map_option media_session (get_session_by_address rem ?g1) = Some (media_session s0)"
    using store.touch_by_address(2) [OF inv addr same] by (simp add: s)
  let ?srv = "srv\<lparr>session_registry := ?g1, inbound_buffer := plain\<rparr>"
  obtain srv' where f: "forward_to_viewers tp rem (ord (viewer_ids rm)) ?srv = Inr (srv',
       concat (map (\<lambda>v. viewer_datagram tp plain (media_session s0) (the (sessions ?g1 v))) (ord (viewer_ids rm))))"
      "server_ok (session_registry srv')"
    using forward_to_viewers_ok [of ?srv "ord (viewer_ids rm)" rem "media_session s0" tp] ok1 len ids vs med
    by (auto simp: put_session_def)
  have eqv: "map (\<lambda>v. viewer_datagram tp plain (media_session s0) (the (sessions ?g1 v))) (ord (viewer_ids rm))
      = map (\<lambda>v. viewer_datagram tp plain (media_session s0) (the (sessions ?g v))) (ord (viewer_ids rm))"
    using ids vs by (auto simp: put_session_def)
  have "media_packet tp ord rem (sess_id s0) s c st e srv = forward_to_viewers tp rem (ord (viewer_ids rm)) ?srv"
    using un h st1(1) rm by (simp add: media_packet_def Let_def get_room_def put_session_def)
  with f eqv rm show ?thesis by auto
qed

text \<open>What can make the server panic on a datagram that is not STUN, from the address of a session: it
  finishes the handshake and there are no keys, or it is video that chokes the extractor.\<close>

definition session_panics :: "'x third_party \<Rightarrow> bytes \<Rightarrow> 'x session \<Rightarrow> bool" where
  "session_panics tp data s \<longleftrightarrow> (\<exists>c. sess_client s = Some c \<and> (keyless tp data c \<or>
     (\<exists>st e plain. connection_type s = Streamer st \<and> ssl_state c = Established e
        \<and> fst (tp_unprotect tp data (srtp_inbound e)) = Some plain \<and> video_chokes (media_session s) st plain)))"

lemma handle_other_panics:
  assumes "server_ok (session_registry srv)" "get_session_by_address rem (session_registry srv) = Some s"
    and "session_panics tp (inbound_buffer srv) s"
  shows "\<exists>p. handle_other_packets tp ord now rem srv = Inl p"
proof -
  have mut: "get_session_by_address_mut rem (session_registry srv) = Some (sess_id s, s)"
    using by_address_mut [of "session_registry srv"] assms(1,2) by (simp add: server_ok_def)
  obtain c where c: "sess_client s = Some c" and why: "keyless tp (inbound_buffer srv) c \<or>
     (\<exists>st e plain. connection_type s = Streamer st \<and> ssl_state c = Established e
        \<and> fst (tp_unprotect tp (inbound_buffer srv) (srtp_inbound e)) = Some plain \<and> video_chokes (media_session s) st plain)"
    using assms(3) unfolding session_panics_def by blast
  show ?thesis
  proof (cases "keyless tp (inbound_buffer srv) c")
    case True
    then obtain x t where "ssl_state c = Handshake x t" by (auto simp: keyless_def split: client_ssl_state.splits)
    with mut c handshake_packet_panics [OF True] show ?thesis
      by (cases "connection_type s") (simp_all add: handle_other_packets_def Let_def)
  next
    case False
    with why obtain st e plain where st: "connection_type s = Streamer st" "ssl_state c = Established e"
        "fst (tp_unprotect tp (inbound_buffer srv) (srtp_inbound e)) = Some plain" "video_chokes (media_session s) st plain" by blast
    then obtain ib where "tp_unprotect tp (inbound_buffer srv) (srtp_inbound e) = (Some plain, ib)" by (metis prod.collapse)
    from media_packet_panics [OF this, of "s\<lparr>ttl := now\<rparr>" st] st mut c show ?thesis
      by (simp add: handle_other_packets_def Let_def)
  qed
qed

lemma handle_other_ok:
  assumes "tp_ok tp" "server_ok (session_registry srv)" "enumerates ord"
    and "\<And>s. get_session_by_address rem (session_registry srv) = Some s \<Longrightarrow> \<not> session_panics tp (inbound_buffer srv) s"
  shows "\<exists>srv' outs. handle_other_packets tp ord now rem srv = Inr (srv', outs) \<and> server_ok (session_registry srv')"
proof (cases "get_session_by_address_mut rem (session_registry srv)")
  case None
  with assms(2) show ?thesis by (simp add: handle_other_packets_def)
next
  case (Some p)
  let ?g = "session_registry srv"
  obtain s0 where s0: "get_session_by_address_mut rem ?g = Some (sess_id s0, s0)"
    using Some by_address_stored [OF assms(2)] by (metis prod.collapse)
  note st = by_address_stored [OF assms(2) s0]
  obtain c where c: "sess_client s0 = Some c" using st(3) by (auto simp: address_of_def)
  let ?s = "s0\<lparr>ttl := now\<rparr>"
  have safe: "\<not> keyless tp (inbound_buffer srv) c" "\<And>st e plain. connection_type s0 = Streamer st \<Longrightarrow> ssl_state c = Established e \<Longrightarrow>
      fst (tp_unprotect tp (inbound_buffer srv) (srtp_inbound e)) = Some plain \<Longrightarrow> \<not> video_chokes (media_session s0) st plain"
    using assms(4) [OF st(4)] c unfolding session_panics_def by blast+
  have alive: "ssl_state c \<noteq> Shutdown" by (rule alive_client [OF assms(2) st(2) c])
  have touched: "server_ok (put_session (sess_id s0) ?s ?g)"
    using c alive by (intro put_server_ok [OF assms(2) st(2)]) auto
  have hs: "\<exists>srv' outs. handshake_packet tp (sess_id s0) ?s c srv = Inr (srv', outs) \<and> server_ok (session_registry srv')"
    using handshake_packet_ok [OF assms(1,2) st(2) same_identity_ttl, of now c] c alive safe(1) by simp
  have media: "\<exists>srv' outs. media_packet tp ord rem (sess_id s0) ?s c strm e srv = Inr (srv', outs) \<and> server_ok (session_registry srv')"
    if e: "ssl_state c = Established e" and strm: "connection_type s0 = Streamer strm" for e strm
  proof -
    obtain r ib where u: "tp_unprotect tp (inbound_buffer srv) (srtp_inbound e) = (r, ib)" by fastforce
    show ?thesis
    proof (cases r)
      case None
      let ?c = "c\<lparr>ssl_state := Established (e\<lparr>srtp_inbound := ib\<rparr>)\<rparr>"
      have "server_ok (put_session (sess_id s0) (?s\<lparr>sess_client := Some ?c\<rparr>) ?g)"
        by (intro put_server_ok [OF assms(2) st(2)] same_identity_trans [OF same_identity_ttl same_identity_client]) (auto simp: c)
      with None u show ?thesis by (simp add: media_packet_def Let_def)
    next
      case (Some plain)
      with u safe(2) [OF strm e] have "\<not> video_chokes (media_session s0) strm plain" by simp
      with u Some media_packet_ok [OF assms(1-3) st(4) refl c e strm, of plain ib] show ?thesis by blast
    qed
  qed
  from s0 c touched hs media alive show ?thesis
    by (cases "connection_type s0"; cases "ssl_state c") (simp_all add: handle_other_packets_def Let_def)
qed

text \<open>All that can make the server panic on a datagram: the STUN parser does (see \<open>get_stun_packet_panics\<close>),
  or one of the above.\<close>

definition datagram_panics :: "bool \<Rightarrow> 'x third_party \<Rightarrow> bytes \<Rightarrow> socket_addr \<Rightarrow> 'x session_registry \<Rightarrow> bool" where
  "datagram_panics chk tp data rem g = (case get_stun_packet chk data of
       Inl _ \<Rightarrow> True
     | Inr (Some m) \<Rightarrow> stun_panics tp m g
     | Inr None \<Rightarrow> (case get_session_by_address rem g of None \<Rightarrow> False | Some s \<Rightarrow> session_panics tp data s))"

lemma process_packet_ok:
  assumes "tp_ok tp" "server_ok (session_registry srv)" "enumerates ord" "\<not> datagram_panics chk tp data rem (session_registry srv)"
  shows "\<exists>srv' outs. process_packet chk tp ord now data rem srv = Inr (srv', outs) \<and> server_ok (session_registry srv')"
proof -
  obtain r where r: "get_stun_packet chk data = Inr r" using assms(4) by (auto simp: datagram_panics_def split: sum.splits)
  let ?srv = "srv\<lparr>inbound_buffer := data\<rparr>"
  show ?thesis
  proof (cases r)
    case None
    with r assms(4) have "\<not> session_panics tp data s" if "get_session_by_address rem (session_registry srv) = Some s" for s
      using that by (simp add: datagram_panics_def)
    with r None handle_other_ok [OF assms(1) _ assms(3), of ?srv rem now] assms(2) show ?thesis
      by (simp add: process_packet_def)
  next
    case (Some m)
    with r handle_stun_ok [OF assms(1), of ?srv m chk now rem] get_stun_packet_tid [of chk data m] assms(2,4) show ?thesis
      by (simp add: process_packet_def datagram_panics_def)
  qed
qed

lemma process_packet_panics:
  assumes "server_ok (session_registry srv)" "datagram_panics chk tp data rem (session_registry srv)"
  shows "\<exists>p. process_packet chk tp ord now data rem srv = Inl p"
  using assms(2) handle_stun_panics [of "srv\<lparr>inbound_buffer := data\<rparr>"] handle_other_panics [of "srv\<lparr>inbound_buffer := data\<rparr>"] assms(1)
  by (auto simp: datagram_panics_def process_packet_def split: sum.splits option.splits)

text \<open>A datagram that cannot, whatever the state: one that is no malformed STUN and does not decrypt to a
  payload that could choke the extractor, where the libraries refuse nothing.\<close>

lemma datagram_safe:
  assumes "is_ok (get_stun_packet chk data)" "\<And>x p. fst (tp_unprotect tp data x) = Some p \<Longrightarrow> rtp_safe p"
    and "\<And>y. tp_session_pair tp y \<noteq> None" "tp_try_clone tp"
  shows "\<not> datagram_panics chk tp data rem g"
proof -
  have "\<not> keyless tp data c" for c
    using assms(3) by (simp add: keyless_def split: client_ssl_state.split handshake_outcome.split)
  then have "\<not> session_panics tp data s" for s
    using assms(2) rtp_safe_video unfolding session_panics_def by blast
  with assms(1,4) show ?thesis by (auto simp: datagram_panics_def stun_panics_def is_ok_ex split: option.split)
qed

section \<open>What the handlers guarantee\<close>

text \<open>Media goes where it should: a packet from the address of an established streamer that decrypts is
  sent to each viewer of the streamer's own room whose client is established, once, with the header
  remapped from the streamer's to that viewer's numbers and encrypted with that viewer's outbound session,
  and to nobody else.\<close>

lemma media_outputs:
  assumes "tp_ok tp" "server_ok (session_registry srv)" "enumerates ord"
    and "get_stun_packet chk data = Inr None"
    and "get_session_by_address rem (session_registry srv) = Some s" "connection_type s = Streamer st"
    and "sess_client s = Some c" "ssl_state c = Established e"
    and "tp_unprotect tp data (srtp_inbound e) = (Some plain, ib)" "rtp_safe plain"
  shows "\<exists>srv' rm. get_room (owned_room_id st) (session_registry srv) = Some rm
     \<and> process_packet chk tp ord now data rem srv = Inr (srv', concat (map (\<lambda>v. viewer_datagram tp plain
          (media_session s) (the (get_session v (session_registry srv)))) (ord (viewer_ids rm))))"
proof -
  let ?srv = "srv\<lparr>inbound_buffer := data\<rparr>"
  have inv: "reg_inv (session_registry srv)" using assms(2) by (simp add: server_ok_def)
  have mut: "get_session_by_address_mut rem (session_registry srv) = Some (sess_id s, s)"
    using by_address_mut [OF inv, of rem] assms(5) by simp
  have "process_packet chk tp ord now data rem srv = media_packet tp ord rem (sess_id s) (s\<lparr>ttl := now\<rparr>) c st e ?srv"
    using assms(4,6-8) mut by (simp add: process_packet_def handle_other_packets_def Let_def)
  with media_packet_ok [OF assms(1) _ assms(3) _ refl assms(7,8,6), of ?srv rem plain ib now] assms(2,5,9) rtp_safe_video [OF assms(10)]
  show ?thesis by (auto simp: get_room_def get_session_def)
qed

text \<open>C25. Strangers have no effect but one: a datagram that is not STUN, from an address no session was
  nominated from, or that is a STUN request under an unknown username, changes nothing but the scratch
  buffer and is not answered; one on which the STUN parser panics makes the server panic the same way, as
  it does for everybody (\<open>get_stun_packet_panics\<close>).\<close>

theorem strangers_ignored:
  assumes "get_stun_packet chk data = Inr None \<Longrightarrow> get_session_by_address rem (session_registry srv) = None"
    and "\<And>m. get_stun_packet chk data = Inr (Some m) \<Longrightarrow>
          get_session_by_username (username_attribute (message_packet m)) (session_registry srv) = None"
    and "reg_inv (session_registry srv)"
  shows "process_packet chk tp ord now data rem srv = (case get_stun_packet chk data of
       Inl p \<Rightarrow> Inl p | Inr _ \<Rightarrow> Inr (srv\<lparr>inbound_buffer := data\<rparr>, []))"
proof (cases "get_stun_packet chk data")
  case (Inr r)
  show ?thesis
  proof (cases r)
    case None
    with Inr assms(1) show ?thesis using by_address_mut [OF assms(3), of rem] by (simp add: process_packet_def handle_other_packets_def)
  next
    case (Some m)
    with Inr assms(2) have "get_session_by_username_mut (username_attribute (message_packet m)) (session_registry srv) = None"
      using by_username_mut [OF assms(3)] by simp
    with Inr Some show ?thesis by (cases m) (simp_all add: process_packet_def handle_stun_packet_def)
  qed
qed (simp add: process_packet_def)

text \<open>C12. The first nomination of a session, where the socket can be duplicated for its client, binds it to
  the sender's address, under which it is found from then on; later nominations, from whatever address, only refresh it and cannot move it. Each is answered
  to its sender, and no other session is touched.\<close>

theorem nomination_binds_once:
  assumes "tp_ok tp" "server_ok (session_registry srv)"
    and "get_stun_packet chk data = Inr (Some (Nomination msg))"
    and "get_session_by_username (username_attribute msg) (session_registry srv) = Some s"
    and "sess_client s = None \<Longrightarrow> tp_try_clone tp"
  shows "\<exists>srv' outs out s'. process_packet chk tp ord now data rem srv = Inr (srv', outs @ [(rem, out)])
     \<and> get_session (sess_id s) (session_registry srv') = Some s' \<and> ttl s' = now
     \<and> address_of s' = (case address_of s of None \<Rightarrow> Some rem | Some a \<Rightarrow> Some a)
     \<and> (address_of s = None \<longrightarrow> get_session_by_address rem (session_registry srv') = Some s')
     \<and> (\<forall>j. j \<noteq> sess_id s \<longrightarrow> get_session j (session_registry srv') = get_session j (session_registry srv))"
proof -
  let ?g = "session_registry srv" and ?s = "s\<lparr>ttl := now\<rparr>"
  have inv: "reg_inv ?g" using assms(2) by (simp add: server_ok_def)
  have mut: "get_session_by_username_mut (username_attribute msg) ?g = Some (sess_id s, s)"
    using by_username_mut [OF inv] assms(4) by simp
  note st = by_username_stored [OF assms(2) mut]
  have "length (transaction_id msg) = 12" using get_stun_packet_tid [OF assms(3)] by simp
  from stun_reply_ok [OF assms(1) this st(3)] obtain out where
    out: "stun_reply chk tp (ice_credentials (media_session s)) (transaction_id msg) rem = Inr [(rem, out)]" by blast
  show ?thesis
  proof (cases "sess_client s")
    case (Some c)
    with assms(3) mut out have "process_packet chk tp ord now data rem srv
        = Inr (srv\<lparr>inbound_buffer := data, session_registry := put_session (sess_id s) ?s ?g\<rparr>, [(rem, out)])"
      by (simp add: process_packet_def handle_stun_packet_def get_session_def put_session_def Let_def)
    with Some show ?thesis
      by (auto simp: get_session_def put_session_def address_of_def)
  next
    case None
    obtain c outs where c: "client_new tp rem = Inr (Inr c, outs)" "remote_address c = rem"
      using client_new_ok [OF assms(1)] by blast
    let ?g1 = "put_session (sess_id s) ?s ?g"
    let ?g2 = "snd (nominate_client c (sess_id s) ?g1)"
    have "process_packet chk tp ord now data rem srv
        = Inr (srv\<lparr>inbound_buffer := data, session_registry := ?g2\<rparr>, outs @ [(rem, out)])"
      using assms(3) assms(5) [OF None] mut out None c(1)
      by (simp add: process_packet_def handle_stun_packet_def get_session_def nominate_client_def put_session_def Let_def)
    moreover have "sessions ?g2 = (sessions ?g)(sess_id s \<mapsto> ?s\<lparr>sess_client := Some c\<rparr>)" "address_map ?g2 rem = Some (sess_id s)"
      using c(2) by (simp_all add: nominate_client_def put_session_def Let_def)
    ultimately show ?thesis
      using None c(2) by (auto simp: get_session_def get_session_by_address_def address_of_def)
  qed
qed

text \<open>C33. The message integrity of a request is never checked: a request with any other digest, such as one
  made without the password, is handled in exactly the same way.\<close>

theorem stun_integrity_unchecked:
  "handle_stun_packet chk tp now rem (LiveCheck (msg\<lparr>message_integrity := d\<rparr>)) srv
     = handle_stun_packet chk tp now rem (LiveCheck msg) srv \<and>
   handle_stun_packet chk tp now rem (Nomination (msg\<lparr>message_integrity := d\<rparr>)) srv
     = handle_stun_packet chk tp now rem (Nomination msg) srv"
proof -
  have "transaction_id (msg\<lparr>message_integrity := d\<rparr>) = transaction_id msg"
    "username_attribute (msg\<lparr>message_integrity := d\<rparr>) = username_attribute msg" by simp_all
  then show ?thesis by (simp only: handle_stun_packet_def ice_stun_message_type.case simp_thms)
qed

section \<open>A server with a streamer and a viewer\<close>

definition demo_order :: id_order where
  "demo_order S = sorted_list_of_set S"

lemma demo_order_enumerates: "enumerates demo_order"
  by (simp add: enumerates_def demo_order_def)

definition established_client :: "socket_addr \<Rightarrow> nat client" where
  "established_client a = \<lparr>ssl_state = Established \<lparr>ssl_stream = (2, udp_peer_stream_new a), srtp_inbound = 3, srtp_outbound = 4\<rparr>,
     remote_address = a\<rparr>"

definition demo_live :: "nat session_registry" where
  "demo_live = (case add_viewer 2 0 (demo_media ''vW8x'') 7 demo_registry of Inl _ \<Rightarrow> registry_new
     | Inr (_, g) \<Rightarrow> snd (nominate_client (established_client (SockV4 2 2)) 2
                        (snd (nominate_client (established_client (SockV4 1 1)) 1 g))))"

definition demo_server :: "nat udp_server" where
  "demo_server = \<lparr>session_registry = demo_live, sdp_resolver = \<lparr>res_fingerprint = \<lparr>hash_function = SHA256, hash = ''AB''\<rparr>,
       res_candidate = \<lparr>foundation = ''1'', component_id = 1, priority = 1, connection_address = V4 1, port = 9\<rparr>\<rparr>,
      inbound_buffer = [], outbound_buffer = []\<rparr>"

definition demo_streamer_session :: "nat session" where
  "demo_streamer_session = (streamer_session 0 1 0 (demo_media ''E2Fr'') 7)\<lparr>sess_client := Some (established_client (SockV4 1 1))\<rparr>"

definition demo_viewer_session :: "nat session" where
  "demo_viewer_session = (session_new_viewer 2 0 7 (demo_media ''vW8x''))\<lparr>sess_client := Some (established_client (SockV4 2 2))\<rparr>"

lemma demo_live_parts:
  "sessions demo_live = [1 \<mapsto> demo_streamer_session, 2 \<mapsto> demo_viewer_session]"
  "rooms demo_live = [7 \<mapsto> \<lparr>rid = 7, owner_id = 1, viewer_ids = {2}\<rparr>]"
  "address_map demo_live = [SockV4 1 1 \<mapsto> 1, SockV4 2 2 \<mapsto> 2]"
  "username_map demo_live = [\<lparr>host = ''hU5r'', remote = ''E2Fr''\<rparr> \<mapsto> 1, \<lparr>host = ''hU5r'', remote = ''vW8x''\<rparr> \<mapsto> 2]"
  by (simp_all add: demo_live_def add_viewer_def Let_def demo_registry_def register_streamer_def registry_new_def
      nominate_client_def put_session_def demo_streamer_session_def demo_viewer_session_def established_client_def
      room_new_def session_username_of_def streamer_session_def session_new_viewer_def demo_media_def fun_upd_twist)

lemma demo_live_ok: "server_ok demo_live"
proof -
  have "sessions_ok demo_live"
    by (auto simp: sessions_ok_def demo_live_parts demo_streamer_session_def demo_viewer_session_def
        streamer_session_def session_new_viewer_def split: if_splits)
  moreover have "names_ok demo_live" "addresses_ok demo_live"
    by (auto simp: names_ok_def addresses_ok_def demo_live_parts demo_streamer_session_def demo_viewer_session_def
        streamer_session_def session_new_viewer_def session_username_of_def address_of_def established_client_def demo_media_def split: if_splits)
  moreover have "owns demo_live i r \<longleftrightarrow> i = 1 \<and> r = 7" "views demo_live i r \<longleftrightarrow> i = 2 \<and> r = 7" for i r
    by (auto simp: owns_def views_def demo_live_parts demo_streamer_session_def demo_viewer_session_def
        streamer_session_def session_new_viewer_def role_def split: if_splits)
  then have "rooms_ok demo_live" by (auto simp: rooms_ok_def demo_live_parts split: if_splits)
  moreover have "alive demo_live" "short_names demo_live"
    by (auto simp: alive_def short_names_def demo_live_parts demo_streamer_session_def demo_viewer_session_def
        streamer_session_def session_new_viewer_def established_client_def demo_media_def username_of_def split: if_splits)
  ultimately show ?thesis by (simp add: server_ok_def reg_inv_def)
qed

lemma demo_tp_ok: "tp_ok demo_tp"
  by (auto simp: tp_ok_def demo_tp_def hmac_sha1_ok_def handshake_sets_up_def split: if_splits)

lemma demo_packet_safe: "rtp_safe demo_packet" "get_stun_packet True demo_packet = Inr None"
  by code_simp+

lemma demo_server_parts: "session_registry demo_server = demo_live"
  by (simp add: demo_server_def)

lemma demo_by_address: "get_session_by_address (SockV4 1 1) demo_live = Some demo_streamer_session"
  by (simp add: get_session_by_address_def demo_live_parts)

theorem strangers_ignored_witness:
  "process_packet True demo_tp demo_order 9 demo_packet (SockV4 3 3) demo_server = Inr (demo_server\<lparr>inbound_buffer := demo_packet\<rparr>, [])"
proof -
  have "reg_inv demo_live" using demo_live_ok by (simp add: server_ok_def)
  moreover have "get_session_by_address (SockV4 3 3) demo_live = None"
    by (simp add: get_session_by_address_def demo_live_parts)
  ultimately show ?thesis
    using strangers_ignored [of True demo_packet "SockV4 3 3" demo_server demo_tp demo_order 9] demo_packet_safe
    by (simp add: demo_server_parts)
qed

definition demo_nomination :: bytes where
  "demo_nomination = stun_message (stun_type_code BindingRequest) (replicate 12 7)
     (concat (map wire [WUsername ''hU5r'' ''E2Fr'', WUseCandidate, WIntegrity (replicate 20 9)]))"

lemma demo_nomination_parsed:
  "get_stun_packet True demo_nomination = Inr (Some (Nomination \<lparr>username_attribute = \<lparr>host = ''hU5r'', remote = ''E2Fr''\<rparr>,
     message_integrity = replicate 20 9, transaction_id = replicate 12 7\<rparr>))"
  unfolding demo_nomination_def by (subst stun_packet_of_wires) (simp_all add: plain_name_def NUL_def pad4_def)

theorem nomination_binds_once_witness:
  "\<exists>srv' outs out s'. process_packet True demo_tp demo_order 9 demo_nomination (SockV4 5 5) demo_server = Inr (srv', outs @ [(SockV4 5 5, out)])
     \<and> get_session 1 (session_registry srv') = Some s' \<and> ttl s' = 9 \<and> address_of s' = Some (SockV4 1 1)"
proof -
  have u: "get_session_by_username \<lparr>host = ''hU5r'', remote = ''E2Fr''\<rparr> (session_registry demo_server) = Some demo_streamer_session"
    by (simp add: get_session_by_username_def demo_server_parts demo_live_parts)
  have s: "sess_id demo_streamer_session = 1" "address_of demo_streamer_session = Some (SockV4 1 1)"
    by (simp_all add: demo_streamer_session_def streamer_session_def address_of_def established_client_def)
  show ?thesis
    using nomination_binds_once [OF demo_tp_ok _ demo_nomination_parsed, of demo_server demo_streamer_session demo_order 9 "SockV4 5 5"]
      u demo_live_ok s
    by (auto simp: demo_server_parts demo_tp_def)
qed

end
