(* ===== verification/Sdp_Negotiation.thy ===== *)
theory Sdp_Negotiation
  imports Sdp_Resolver
begin

text \<open>
  What the negotiation of \<open>resolvers.rs\<close> guarantees: the sections partition the offer, an accepted
  offer has what the server needs, a viewer is only given what the streamer negotiated, and the
  answers the server sends can be read back by the same parser.
\<close>

section \<open>Sections\<close>

definition no_media :: "sdp_line list \<Rightarrow> bool" where
  "no_media ls \<longleftrightarrow> list_all (\<lambda>l. line_media l = None) ls"

text \<open>Session lines, then one audio and one video section, each opened by its media line.\<close>

definition well_sectioned :: "sdp \<Rightarrow> bool" where
  "well_sectioned s \<longleftrightarrow>
     (\<exists>o' n t rest. session_section s = ProtocolVersion ''0'' # OriginatorLine o' # SessionName n
                                     # SessionTimeLine t # rest) \<and>
     no_media (session_section s) \<and>
     (\<exists>am rest. audio_section s = MediaDescriptionLine am # rest \<and> md_media_type am = Audio \<and> no_media rest) \<and>
     (\<exists>vm rest. video_section s = MediaDescriptionLine vm # rest \<and> md_media_type vm = Video \<and> no_media rest)"

lemma line_media_Some [simp]: "line_media l = Some m \<longleftrightarrow> l = MediaDescriptionLine m"
  by (cases l) auto

lemma not_media_simps [simp]:
  "line_media l = None \<Longrightarrow> not_media m l"
  "not_media m (MediaDescriptionLine m') \<longleftrightarrow> m' \<noteq> m"
  by (simp_all add: not_media_def)

lemma filter_map_no_media [simp]: "no_media ls \<Longrightarrow> filter_map line_media ls = []"
  by (simp add: no_media_def list_all_iff)

lemma takeWhile_no_media [simp]: "no_media ls \<Longrightarrow> takeWhile (not_media m) (ls @ xs) = ls @ takeWhile (not_media m) xs"
  by (rule takeWhile_append2) (auto simp: no_media_def list_all_iff)

lemma dropWhile_no_media [simp]: "no_media ls \<Longrightarrow> dropWhile (not_media m) (ls @ xs) = dropWhile (not_media m) xs"
  by (rule dropWhile_append2) (auto simp: no_media_def list_all_iff)

lemma no_media_append [simp]: "no_media (xs @ ys) \<longleftrightarrow> no_media xs \<and> no_media ys"
  by (auto simp: no_media_def)

lemma two_media_split:
  assumes "filter_map line_media ls = [a, v]"
  shows "\<exists>S A V. ls = S @ MediaDescriptionLine a # A @ MediaDescriptionLine v # V
     \<and> no_media S \<and> no_media A \<and> no_media V"
proof -
  from filter_map_Cons [OF assms] obtain S x r where
    1: "ls = S @ x # r" "line_media x = Some a" "filter_map line_media r = [v]" "\<forall>l \<in> set S. line_media l = None"
    by blast
  from filter_map_Cons [OF 1(3)] obtain A y V where
    2: "r = A @ y # V" "line_media y = Some v" "filter_map line_media V = []" "\<forall>l \<in> set A. line_media l = None"
    by blast
  from 1 2 show ?thesis
    by (intro exI [of _ S] exI [of _ A] exI [of _ V]) (auto simp: no_media_def list_all_iff)
qed

lemma sections_of_shape:
  assumes "no_media S" "no_media A" "no_media V" "md_media_type a = Audio" "md_media_type v = Video"
  shows "takeWhile (not_media a) (S @ MediaDescriptionLine a # A @ MediaDescriptionLine v # V) = S"
    and "takeWhile (not_media v) (dropWhile (not_media a) (S @ MediaDescriptionLine a # A @ MediaDescriptionLine v # V))
           = MediaDescriptionLine a # A"
    and "dropWhile (not_media v) (S @ MediaDescriptionLine a # A @ MediaDescriptionLine v # V)
           = MediaDescriptionLine v # V"
    and "filter_map line_media (S @ MediaDescriptionLine a # A @ MediaDescriptionLine v # V) = [a, v]"
  using assms by (auto simp: filter_map_append)

lemma is_line_simps:
  "is_originator l \<longleftrightarrow> (\<exists>v. l = OriginatorLine v)"
  "is_session_name l \<longleftrightarrow> (\<exists>n. l = SessionName n)"
  "is_session_time l \<longleftrightarrow> (\<exists>t. l = SessionTimeLine t)"
  by (cases l; simp)+

lemma nth_or_eq_Inr [rust_elims]: "nth_or e n xs = Inr x \<longleftrightarrow> n < length xs \<and> xs ! n = x"
  by (auto simp: nth_or_def)

text \<open>The first four lines of an accepted offer.\<close>

definition session_head :: "sdp_line list \<Rightarrow> bool" where
  "session_head ls \<longleftrightarrow> (\<exists>o' n t rest. ls = ProtocolVersion ''0'' # OriginatorLine o' # SessionName n # SessionTimeLine t # rest)"

lemma session_head_nth:
  "session_head ls \<longleftrightarrow> 3 < length ls \<and> ls ! 0 = ProtocolVersion ''0'' \<and> is_originator (ls ! 1)
     \<and> is_session_name (ls ! 2) \<and> is_session_time (ls ! 3)"
proof
  assume R: "3 < length ls \<and> ls ! 0 = ProtocolVersion ''0'' \<and> is_originator (ls ! 1)
     \<and> is_session_name (ls ! 2) \<and> is_session_time (ls ! 3)"
  then have "4 \<le> length ls" by simp
  then obtain a b c d rest where "ls = a # b # c # d # rest"
    by (auto simp: numeral_eq_Suc Suc_le_length_iff)
  with R show "session_head ls" by (auto simp: session_head_def is_line_simps)
qed (auto simp: session_head_def)

lemma sections_of_alt:
  "sections_of ls = Inr s \<longleftrightarrow> session_head ls \<and>
     (\<exists>a v. filter_map line_media ls = [a, v] \<and> md_media_type a = Audio \<and> md_media_type v = Video
        \<and> s = \<lparr>session_section = takeWhile (not_media a) ls, video_section = dropWhile (not_media v) ls,
               audio_section = takeWhile (not_media v) (dropWhile (not_media a) ls)\<rparr>)"
  by (auto simp: sections_of_def session_head_nth bind_res_eq_Inr nth_or_eq_Inr
      simp del: filter_map_Nil split: if_splits list.splits)

lemma session_head_append:
  "no_media S \<Longrightarrow> session_head (S @ MediaDescriptionLine a # r) \<longleftrightarrow> session_head S"
  by (auto simp: session_head_def append_eq_Cons_conv no_media_def Cons_eq_append_conv)

lemma sections_of_iff:
  "sections_of ls = Inr s \<longleftrightarrow>
     ls = session_section s @ audio_section s @ video_section s \<and> well_sectioned s"
proof
  assume "sections_of ls = Inr s"
  then obtain a v where *: "session_head ls" "filter_map line_media ls = [a, v]"
      "md_media_type a = Audio" "md_media_type v = Video"
      "s = \<lparr>session_section = takeWhile (not_media a) ls, video_section = dropWhile (not_media v) ls,
               audio_section = takeWhile (not_media v) (dropWhile (not_media a) ls)\<rparr>"
    by (auto simp: sections_of_alt)
  obtain S A V where ls: "ls = S @ MediaDescriptionLine a # A @ MediaDescriptionLine v # V"
      and nm: "no_media S" "no_media A" "no_media V"
    using two_media_split [OF *(2)] by blast
  have s: "s = \<lparr>session_section = S, video_section = MediaDescriptionLine v # V,
               audio_section = MediaDescriptionLine a # A\<rparr>"
    using *(3-5) sections_of_shape [OF nm] by (simp add: ls)
  moreover have "session_head S"
    using *(1) session_head_append [OF nm(1)] by (simp add: ls)
  ultimately show "ls = session_section s @ audio_section s @ video_section s \<and> well_sectioned s"
    using ls nm *(3,4) by (simp add: well_sectioned_def session_head_def)
next
  assume R: "ls = session_section s @ audio_section s @ video_section s \<and> well_sectioned s"
  then obtain a A v V where av: "audio_section s = MediaDescriptionLine a # A"
      "video_section s = MediaDescriptionLine v # V" "md_media_type a = Audio" "md_media_type v = Video"
      "no_media A" "no_media V" "no_media (session_section s)" "session_head (session_section s)"
    by (auto simp: well_sectioned_def session_head_def)
  with R have ls: "ls = session_section s @ MediaDescriptionLine a # A @ MediaDescriptionLine v # V" by simp
  note sh = sections_of_shape [OF av(7,5,6,3,4)]
  show "sections_of ls = Inr s"
    unfolding sections_of_alt ls using av sh
    by (simp add: session_head_append)
qed

text \<open>C16. The three sections of a parsed offer are exactly its non-empty lines in order: an offer is
  accepted by \<open>get_sdp\<close> iff all its lines parse and fall into a session head (version 0,
  originator, name, time), one audio section and one video section, in this order, and nothing is
  lost or duplicated.\<close>

theorem get_sdp_partition:
  "get_sdp raw = Inr s \<longleftrightarrow>
     collect_res sdp_line_try_from (filter (\<lambda>l. l \<noteq> []) (str_lines raw))
       = Inr (session_section s @ audio_section s @ video_section s) \<and> well_sectioned s"
  by (auto simp: get_sdp_def bind_res_eq_Inr sections_of_iff)

section \<open>What an accepted offer has\<close>

lemma find_map_mux: "find_map attr_rtcp_mux ls \<noteq> None \<longleftrightarrow> AttributeLine RTCPMux \<in> set ls"
proof -
  have "attr_rtcp_mux l \<noteq> None \<longleftrightarrow> l = AttributeLine RTCPMux" for l
    by (cases l rule: attr_rtcp_mux.cases) auto
  then show ?thesis by (auto simp del: not_None_eq)
qed

lemma find_map_send_only: "find_map attr_send_only ls \<noteq> None \<longleftrightarrow> AttributeLine SendOnly \<in> set ls"
proof -
  have "attr_send_only l \<noteq> None \<longleftrightarrow> l = AttributeLine SendOnly" for l
    by (cases l rule: attr_send_only.cases) auto
  then show ?thesis by (auto simp del: not_None_eq)
qed

lemma find_map_receive_only: "find_map attr_receive_only ls \<noteq> None \<longleftrightarrow> AttributeLine ReceiveOnly \<in> set ls"
proof -
  have "attr_receive_only l \<noteq> None \<longleftrightarrow> l = AttributeLine ReceiveOnly" for l
    by (cases l rule: attr_receive_only.cases) auto
  then show ?thesis by (auto simp del: not_None_eq)
qed

lemma attr_codec_payload_Some:
  "attr_codec_payload c l = Some n \<longleftrightarrow>
     l = AttributeLine (RTPMapAttr \<lparr>rtpmap_codec = c, rtpmap_payload_number = n\<rparr>)"
proof -
  have "attr_codec_payload c (AttributeLine (RTPMapAttr m)) = Some n \<longleftrightarrow>
      m = \<lparr>rtpmap_codec = c, rtpmap_payload_number = n\<rparr>" for m
    by (cases m) auto
  then show ?thesis
    by (cases l rule: attr_media_ssrc.cases) (auto simp del: attr_codec_payload.simps(1))
qed

lemma attr_fmtp_Some:
  "attr_fmtp p l = Some f \<longleftrightarrow> l = AttributeLine (FMTPAttr f) \<and> p (fmtp_payload_number f)"
  by (cases l rule: attr_media_ssrc.cases) auto

lemma attr_bundle_Some: "attr_bundle l = Some g \<longleftrightarrow> l = AttributeLine (MediaGroupAttr (Bundle g))"
  by (cases l rule: attr_bundle.cases) auto

lemma attr_media_id_Some: "attr_media_id l = Some m \<longleftrightarrow> l = AttributeLine (MediaIDAttr m)"
  by (cases l rule: attr_media_id.cases) auto

lemma attr_is_passive_Some: "attr_is_passive l = Some b \<longleftrightarrow> (\<exists>r. l = AttributeLine (SetupAttr r) \<and> b = (r = Passive))"
  by (cases l rule: attr_is_passive.cases) auto

lemmas attr_Some = attr_codec_payload_Some attr_fmtp_Some attr_bundle_Some attr_media_id_Some
  attr_is_passive_Some

lemma find_map_ex: "(\<exists>y. find_map f xs = Some y) \<longleftrightarrow> (\<exists>x \<in> set xs. \<exists>y. f x = Some y)"
proof -
  have "find_map f xs \<noteq> None \<longleftrightarrow> (\<exists>x \<in> set xs. f x \<noteq> None)" by simp
  then show ?thesis by (simp only: not_None_eq)
qed

lemma streamer_audio_ok:
  "is_ok (get_streamer_audio_session r media) \<longleftrightarrow>
     AttributeLine RTCPMux \<in> set media \<and> AttributeLine SendOnly \<in> set media \<and>
     (\<exists>n. AttributeLine (RTPMapAttr \<lparr>rtpmap_codec = AudioCodec Opus, rtpmap_payload_number = n\<rparr>) \<in> set media)"
  using find_map_mux [of media] find_map_send_only [of media]
    find_map_ex [of "attr_codec_payload (AudioCodec Opus)" media]
  by (auto simp: get_streamer_audio_session_def is_ok_ex bind_res_eq_Inr ok_or_eq_Inr
      ACCEPTED_AUDIO_CODEC_def attr_Some simp del: find_map_None)

lemma streamer_audio_result:
  assumes "get_streamer_audio_session r media = Inr a"
  shows "as_codec a = Opus" "as_host_ssrc a = r"
    "AttributeLine (RTPMapAttr \<lparr>rtpmap_codec = AudioCodec Opus, rtpmap_payload_number = as_payload_number a\<rparr>) \<in> set media"
  using assms
  by (auto simp: get_streamer_audio_session_def bind_res_eq_Inr ok_or_eq_Inr ACCEPTED_AUDIO_CODEC_def
      attr_Some dest!: find_map_SomeD split: if_splits)

lemma streamer_video_result:
  assumes "get_streamer_video_session r media = Inr v"
  shows "vs_codec v = H264" "vs_host_ssrc v = r"
    "AttributeLine (RTPMapAttr \<lparr>rtpmap_codec = VideoCodec H264, rtpmap_payload_number = vs_payload_number v\<rparr>) \<in> set media"
    "AttributeLine (FMTPAttr \<lparr>fmtp_payload_number = vs_payload_number v, format_capability = vs_capabilities v\<rparr>) \<in> set media"
    "AttributeLine RTCPMux \<in> set media" "AttributeLine SendOnly \<in> set media"
proof -
  from assms obtain f where f: "vs_codec v = H264" "vs_host_ssrc v = r"
      "find_map (attr_codec_payload (VideoCodec H264)) media = Some (vs_payload_number v)"
      "find_map (attr_fmtp (\<lambda>n. n = vs_payload_number v)) media = Some f" "vs_capabilities v = format_capability f"
      "find_map attr_rtcp_mux media \<noteq> None" "find_map attr_send_only media \<noteq> None"
    by (auto simp: get_streamer_video_session_def bind_res_eq_Inr ok_or_eq_Inr ACCEPTED_VIDEO_CODEC_def
        simp del: find_map_None not_None_eq split: if_splits)
  show "vs_codec v = H264" "vs_host_ssrc v = r" by fact+
  show "AttributeLine (RTPMapAttr \<lparr>rtpmap_codec = VideoCodec H264, rtpmap_payload_number = vs_payload_number v\<rparr>) \<in> set media"
    using find_map_SomeD [OF f(3)] by (auto simp: attr_Some)
  have "\<lparr>fmtp_payload_number = vs_payload_number v, format_capability = vs_capabilities v\<rparr> = f"
    "AttributeLine (FMTPAttr f) \<in> set media"
    using find_map_SomeD [OF f(4)] f(5) by (auto simp: attr_Some)
  then show "AttributeLine (FMTPAttr \<lparr>fmtp_payload_number = vs_payload_number v, format_capability = vs_capabilities v\<rparr>) \<in> set media"
    by simp
  show "AttributeLine RTCPMux \<in> set media" "AttributeLine SendOnly \<in> set media"
    using f(6,7) find_map_mux find_map_send_only by blast+
qed

lemma media_ids_result:
  assumes "get_media_ids s = Inr (am, vm)"
  shows "\<exists>g. AttributeLine (MediaGroupAttr (Bundle (mid_id am # mid_id vm # g))) \<in> set (session_section s)"
    "AttributeLine (MediaIDAttr am) \<in> set (audio_section s)" "AttributeLine (MediaIDAttr vm) \<in> set (video_section s)"
proof -
  from assms obtain g where g: "find_map attr_bundle (session_section s) = Some g" "1 < length g"
      "am = \<lparr>mid_id = g ! 0\<rparr>" "vm = \<lparr>mid_id = g ! 1\<rparr>"
      "find_map attr_media_id (audio_section s) = Some am" "find_map attr_media_id (video_section s) = Some vm"
    by (auto simp: get_media_ids_def bind_res_eq_Inr ok_or_eq_Inr nth_or_eq_Inr split: if_splits)
  from g(2) obtain x y r where "g = x # y # r"
    by (cases g; cases "tl g") auto
  with g(3,4) find_map_SomeD [OF g(1)]
  show "\<exists>g. AttributeLine (MediaGroupAttr (Bundle (mid_id am # mid_id vm # g))) \<in> set (session_section s)"
    by (auto simp: attr_Some)
  show "AttributeLine (MediaIDAttr am) \<in> set (audio_section s)" "AttributeLine (MediaIDAttr vm) \<in> set (video_section s)"
    using find_map_SomeD [OF g(5)] find_map_SomeD [OF g(6)] by (auto simp: attr_Some)
qed

lemma setup_result:
  "find_map attr_is_passive ls = Some False \<Longrightarrow> \<exists>r. AttributeLine (SetupAttr r) \<in> set ls \<and> r \<noteq> Passive"
  by (auto simp: attr_Some dest!: find_map_SomeD)

lemma viewer_audio_result:
  assumes "get_viewer_audio_session r media str = Inr a"
  shows "as_codec a = as_codec str"
    "AttributeLine (RTPMapAttr \<lparr>rtpmap_codec = AudioCodec (as_codec str), rtpmap_payload_number = as_payload_number a\<rparr>) \<in> set media"
    "AttributeLine RTCPMux \<in> set media" "AttributeLine ReceiveOnly \<in> set media"
    "\<exists>r. AttributeLine (SetupAttr r) \<in> set media \<and> r \<noteq> Passive"
proof -
  from assms have f: "as_codec a = as_codec str"
      "find_map (attr_codec_payload (AudioCodec (as_codec str))) media = Some (as_payload_number a)"
      "find_map attr_rtcp_mux media \<noteq> None" "find_map attr_receive_only media \<noteq> None"
      "find_map attr_is_passive media = Some False"
    by (auto simp: get_viewer_audio_session_def bind_res_eq_Inr ok_or_eq_Inr
        simp del: find_map_None not_None_eq split: if_splits)
  show "as_codec a = as_codec str" by fact
  show "AttributeLine (RTPMapAttr \<lparr>rtpmap_codec = AudioCodec (as_codec str), rtpmap_payload_number = as_payload_number a\<rparr>) \<in> set media"
    using find_map_SomeD [OF f(2)] by (auto simp: attr_Some)
  show "AttributeLine RTCPMux \<in> set media" "AttributeLine ReceiveOnly \<in> set media"
    using f(3,4) find_map_mux find_map_receive_only by blast+
  show "\<exists>r. AttributeLine (SetupAttr r) \<in> set media \<and> r \<noteq> Passive"
    using setup_result [OF f(5)] .
qed

lemma viewer_video_result:
  assumes "get_viewer_video_session r media str = Inr v"
  shows "vs_codec v = vs_codec str" "vs_capabilities v = vs_capabilities str"
    "AttributeLine (RTPMapAttr \<lparr>rtpmap_codec = VideoCodec (vs_codec str), rtpmap_payload_number = vs_payload_number v\<rparr>) \<in> set media"
    "AttributeLine (FMTPAttr \<lparr>fmtp_payload_number = vs_payload_number v, format_capability = vs_capabilities str\<rparr>) \<in> set media"
    "AttributeLine RTCPMux \<in> set media" "AttributeLine ReceiveOnly \<in> set media"
    "\<exists>r. AttributeLine (SetupAttr r) \<in> set media \<and> r \<noteq> Passive"
proof -
  let ?avail = "filter_map (attr_codec_payload (VideoCodec (vs_codec str))) media"
  from assms have f: "vs_codec v = vs_codec str" "vs_capabilities v = vs_capabilities str"
      "find_map (\<lambda>f. if format_capability f = vs_capabilities str then Some (fmtp_payload_number f) else None)
         (filter_map (attr_fmtp (\<lambda>n. n \<in> set ?avail)) media) = Some (vs_payload_number v)"
      "find_map attr_rtcp_mux media \<noteq> None" "find_map attr_receive_only media \<noteq> None"
      "find_map attr_is_passive media = Some False"
    by (auto simp: get_viewer_video_session_def Let_def bind_res_eq_Inr ok_or_eq_Inr
        simp del: find_map_None not_None_eq split: if_splits)
  show "vs_codec v = vs_codec str" "vs_capabilities v = vs_capabilities str" by fact+
  obtain x where x: "AttributeLine (FMTPAttr x) \<in> set media" "fmtp_payload_number x \<in> set ?avail"
      "format_capability x = vs_capabilities str" "fmtp_payload_number x = vs_payload_number v"
    using find_map_SomeD [OF f(3)] by (auto simp: set_filter_map attr_Some split: if_splits)
  then show "AttributeLine (RTPMapAttr \<lparr>rtpmap_codec = VideoCodec (vs_codec str), rtpmap_payload_number = vs_payload_number v\<rparr>) \<in> set media"
    by (auto simp: set_filter_map attr_Some)
  have "x = \<lparr>fmtp_payload_number = vs_payload_number v, format_capability = vs_capabilities str\<rparr>"
    using x(3,4) by simp
  with x(1) show "AttributeLine (FMTPAttr \<lparr>fmtp_payload_number = vs_payload_number v, format_capability = vs_capabilities str\<rparr>) \<in> set media"
    by simp
  show "AttributeLine RTCPMux \<in> set media" "AttributeLine ReceiveOnly \<in> set media"
    using f(4,5) find_map_mux find_map_receive_only by blast+
  show "\<exists>r. AttributeLine (SetupAttr r) \<in> set media \<and> r \<noteq> Passive"
    using setup_result [OF f(6)] .
qed

lemma stream_offer_parts:
  assumes "parse_stream_offer self rnd s = Inr ns"
  shows "\<exists>am vm. get_media_ids s = Inr (am, vm) \<and> get_ice_credentials rnd s = Some (ice_credentials ns)
     \<and> get_streamer_audio_session (rnd_audio_ssrc rnd) (audio_section s) = Inr (audio_session ns)
     \<and> get_streamer_video_session (rnd_video_ssrc rnd) (video_section s) = Inr (video_session ns)
     \<and> find_map attr_is_passive (session_section s) = Some False
     \<and> AttributeLine (MediaIDAttr am) \<in> set (audio_section (sdp_answer ns))
     \<and> AttributeLine (MediaIDAttr vm) \<in> set (video_section (sdp_answer ns))"
  using assms
  by (fastforce simp: parse_stream_offer_def Let_def bind_res_eq_Inr ok_or_eq_Inr split: if_splits)

lemma viewer_offer_parts:
  assumes "parse_viewer_offer self rnd s str = Inr ns"
  shows "\<exists>am vm. get_media_ids s = Inr (am, vm) \<and> get_ice_credentials rnd s = Some (ice_credentials ns)
     \<and> get_viewer_audio_session (rnd_audio_ssrc rnd) (audio_section s) (audio_session str) = Inr (audio_session ns)
     \<and> get_viewer_video_session (rnd_video_ssrc rnd) (video_section s) (video_session str) = Inr (video_session ns)
     \<and> AttributeLine (MediaIDAttr am) \<in> set (audio_section (sdp_answer ns))
     \<and> AttributeLine (MediaIDAttr vm) \<in> set (video_section (sdp_answer ns))"
  using assms
  by (fastforce simp: parse_viewer_offer_def Let_def bind_res_eq_Inr ok_or_eq_Inr split: if_splits)

text \<open>The codec lines an accepted session rests on.\<close>

definition offers_audio :: "sdp_line list \<Rightarrow> audio_session \<Rightarrow> bool" where
  "offers_audio media a \<longleftrightarrow> AttributeLine (RTPMapAttr \<lparr>rtpmap_codec = AudioCodec (as_codec a),
     rtpmap_payload_number = as_payload_number a\<rparr>) \<in> set media"

definition offers_video :: "sdp_line list \<Rightarrow> video_session \<Rightarrow> bool" where
  "offers_video media v \<longleftrightarrow>
     AttributeLine (RTPMapAttr \<lparr>rtpmap_codec = VideoCodec (vs_codec v),
       rtpmap_payload_number = vs_payload_number v\<rparr>) \<in> set media \<and>
     AttributeLine (FMTPAttr \<lparr>fmtp_payload_number = vs_payload_number v,
       format_capability = vs_capabilities v\<rparr>) \<in> set media"

definition bundled :: "sdp \<Rightarrow> sdp \<Rightarrow> bool" where
  "bundled s answer \<longleftrightarrow> (\<exists>am vm g.
     AttributeLine (MediaGroupAttr (Bundle (mid_id am # mid_id vm # g))) \<in> set (session_section s) \<and>
     AttributeLine (MediaIDAttr am) \<in> set (audio_section s) \<and> AttributeLine (MediaIDAttr am) \<in> set (audio_section answer) \<and>
     AttributeLine (MediaIDAttr vm) \<in> set (video_section s) \<and> AttributeLine (MediaIDAttr vm) \<in> set (video_section answer))"

lemma get_ice_credentials_host:
  "get_ice_credentials rnd s = Some c \<Longrightarrow> host_username c = get_random_string 4 (rnd_username rnd)
     \<and> host_password c = get_random_string 22 (rnd_password rnd)"
  by (auto simp: get_ice_credentials_def Let_def split: if_splits bind_splits)

lemma streamer_audio_mux:
  "get_streamer_audio_session r media = Inr a \<Longrightarrow> AttributeLine RTCPMux \<in> set media \<and> AttributeLine SendOnly \<in> set media"
  using streamer_audio_ok [of r media] by (auto simp: is_ok_ex)

text \<open>C10. An accepted WHIP offer is one the server can serve: both media sections are multiplexed
  and \<open>sendonly\<close>, audio is an Opus payload and video an H264 payload with its format parameters
  of the offer, the offer does not insist on the passive DTLS role, the bundle's two ids are those
  of the two sections and are the ids of the answer, and the host credentials and SSRCs are the
  freshly drawn ones.\<close>

theorem accepted_stream_offer:
  assumes "accept_stream_offer self rnd raw = Inr ns"
  shows "\<exists>s. get_sdp raw = Inr s
     \<and> (\<forall>media \<in> {audio_section s, video_section s}. AttributeLine RTCPMux \<in> set media \<and> AttributeLine SendOnly \<in> set media)
     \<and> as_codec (audio_session ns) = Opus \<and> offers_audio (audio_section s) (audio_session ns)
     \<and> vs_codec (video_session ns) = H264 \<and> offers_video (video_section s) (video_session ns)
     \<and> (\<exists>r. AttributeLine (SetupAttr r) \<in> set (session_section s) \<and> r \<noteq> Passive)
     \<and> bundled s (sdp_answer ns)
     \<and> host_username (ice_credentials ns) = get_random_string 4 (rnd_username rnd)
     \<and> host_password (ice_credentials ns) = get_random_string 22 (rnd_password rnd)
     \<and> as_host_ssrc (audio_session ns) = rnd_audio_ssrc rnd \<and> vs_host_ssrc (video_session ns) = rnd_video_ssrc rnd"
proof -
  from assms obtain s where s: "get_sdp raw = Inr s" "parse_stream_offer self rnd s = Inr ns"
    by (auto simp: accept_stream_offer_def bind_res_eq_Inr)
  from stream_offer_parts [OF s(2)] obtain am vm where p:
      "get_media_ids s = Inr (am, vm)" "get_ice_credentials rnd s = Some (ice_credentials ns)"
      "get_streamer_audio_session (rnd_audio_ssrc rnd) (audio_section s) = Inr (audio_session ns)"
      "get_streamer_video_session (rnd_video_ssrc rnd) (video_section s) = Inr (video_session ns)"
      "find_map attr_is_passive (session_section s) = Some False"
      "AttributeLine (MediaIDAttr am) \<in> set (audio_section (sdp_answer ns))"
      "AttributeLine (MediaIDAttr vm) \<in> set (video_section (sdp_answer ns))"
    by blast
  have "host_username (ice_credentials ns) = get_random_string 4 (rnd_username rnd)"
      "host_password (ice_credentials ns) = get_random_string 22 (rnd_password rnd)"
    using get_ice_credentials_host [OF p(2)] by simp_all
  moreover have "bundled s (sdp_answer ns)"
    unfolding bundled_def using media_ids_result [OF p(1)] p(6,7) by blast
  ultimately show ?thesis
    using s(1) streamer_audio_result [OF p(3)] streamer_audio_mux [OF p(3)] streamer_video_result [OF p(4)]
      setup_result [OF p(5)]
    by (auto simp: offers_audio_def offers_video_def)
qed

text \<open>C9. A viewer only gets what the streamer negotiated: the viewer's session has the streamer's
  codecs and exactly the streamer's video format parameters, under payload numbers the viewer's own
  offer maps to them; its sections are multiplexed, \<open>recvonly\<close> and not passive.\<close>

theorem accepted_viewer_offer:
  assumes "accept_viewer_offer self rnd raw str = Inr ns"
  shows "\<exists>s. get_sdp raw = Inr s
     \<and> (\<forall>media \<in> {audio_section s, video_section s}. AttributeLine RTCPMux \<in> set media
          \<and> AttributeLine ReceiveOnly \<in> set media \<and> (\<exists>r. AttributeLine (SetupAttr r) \<in> set media \<and> r \<noteq> Passive))
     \<and> as_codec (audio_session ns) = as_codec (audio_session str) \<and> offers_audio (audio_section s) (audio_session ns)
     \<and> vs_codec (video_session ns) = vs_codec (video_session str)
     \<and> vs_capabilities (video_session ns) = vs_capabilities (video_session str)
     \<and> offers_video (video_section s) (video_session ns)
     \<and> bundled s (sdp_answer ns)"
proof -
  from assms obtain s where s: "get_sdp raw = Inr s" "parse_viewer_offer self rnd s str = Inr ns"
    by (auto simp: accept_viewer_offer_def bind_res_eq_Inr)
  from viewer_offer_parts [OF s(2)] obtain am vm where p:
      "get_media_ids s = Inr (am, vm)"
      "get_viewer_audio_session (rnd_audio_ssrc rnd) (audio_section s) (audio_session str) = Inr (audio_session ns)"
      "get_viewer_video_session (rnd_video_ssrc rnd) (video_section s) (video_session str) = Inr (video_session ns)"
      "AttributeLine (MediaIDAttr am) \<in> set (audio_section (sdp_answer ns))"
      "AttributeLine (MediaIDAttr vm) \<in> set (video_section (sdp_answer ns))"
    by blast
  have "bundled s (sdp_answer ns)"
    unfolding bundled_def using media_ids_result [OF p(1)] p(4,5) by blast
  then show ?thesis
    using s(1) viewer_audio_result [OF p(2)] viewer_video_result [OF p(3)]
    by (auto simp: offers_audio_def offers_video_def)
qed

end
