(* ===== verification/Sdp_Answer.thy ===== *)
theory Sdp_Answer
  imports Sdp_Negotiation
begin

text \<open>
  The text of the answers. Every answer the resolver builds prints without panicking, and the
  printed text, read by the crate's own parser, gives the answer back line by line, except for
  \<open>a=ice-lite\<close>, which the parser does not know.
\<close>

section \<open>Lines without line breaks\<close>

fun clean_attribute :: "attribute \<Rightarrow> bool" where
  "clean_attribute (ICEUsernameAttr v) = (LF \<notin> set (username v))"
| "clean_attribute (ICEPasswordAttr v) = (LF \<notin> set (password v))"
| "clean_attribute (MediaIDAttr v) = (LF \<notin> set (mid_id v))"
| "clean_attribute (FingerprintAttr v) = (LF \<notin> set (hash v))"
| "clean_attribute (MediaGroupAttr (Bundle gs)) = list_all (\<lambda>g. LF \<notin> set g) gs"
| "clean_attribute (MediaGroupAttr (LipSync gs)) = list_all (\<lambda>g. LF \<notin> set g) gs"
| "clean_attribute (MediaSSRCAttr v) = (case source_attribute v of CNAME c \<Rightarrow> LF \<notin> set c | _ \<Rightarrow> True)"
| "clean_attribute (FMTPAttr v) = (\<forall>c \<in> format_capability v. LF \<notin> set c)"
| "clean_attribute (CandidateAttr v) = (LF \<notin> set (foundation v))"
| "clean_attribute _ = True"

fun clean_line :: "sdp_line \<Rightarrow> bool" where
  "clean_line (ProtocolVersion s) = (LF \<notin> set s)"
| "clean_line (SessionName s) = (LF \<notin> set s)"
| "clean_line (OriginatorLine v) = (LF \<notin> set (o_username v) \<and> LF \<notin> set (o_session_id v) \<and> LF \<notin> set (o_session_version v))"
| "clean_line (AttributeLine a) = clean_attribute a"
| "clean_line _ = True"

lemma join_no_LF: "LF \<notin> set sep \<Longrightarrow> (\<And>x. x \<in> set xs \<Longrightarrow> LF \<notin> set x) \<Longrightarrow> LF \<notin> set (join sep xs)"
  using set_join [of sep xs] by blast

lemma ip_family_no_LF [simp]: "LF \<notin> set (ip_family ip)"
  by (cases ip) auto

lemma codec_no_LF [simp]: "LF \<notin> set (string_from_audio_codec ac)" "LF \<notin> set (string_from_video_codec vc)"
  by (cases ac, simp) (cases vc, simp)

lemma ice_option_no_LF: "collect_res string_from_ice_option xs = Inr ss \<Longrightarrow> s \<in> set ss \<Longrightarrow> LF \<notin> set s"
  by (induction xs arbitrary: ss) (auto simp: bind_res_eq_Inr elim!: string_from_ice_option.elims)

lemma attribute_no_LF:
  assumes "clean_attribute a" "valid_attribute a \<or> a = ICELite" "iterates iter" "attribute_name iter a = Inr s"
  shows "LF \<notin> set s"
proof (cases a)
  case (MediaGroupAttr g)
  have "list_all (\<lambda>g. LF \<notin> set g) gs \<Longrightarrow> LF \<notin> set (join '' '' gs)" for gs
    by (rule join_no_LF) (auto simp: list_all_iff)
  with MediaGroupAttr assms show ?thesis by (cases g) auto
next
  case (FMTPAttr v)
  with assms have "set (iter (format_capability v)) = format_capability v"
    by (simp add: valid_fmtp_def iterates_def)
  with FMTPAttr assms have "LF \<notin> set (join '';'' (iter (format_capability v)))"
    by (intro join_no_LF) auto
  with FMTPAttr assms show ?thesis by (auto simp: string_from_fmtp_def)
next
  case (SetupAttr v)
  with assms show ?thesis by (cases v) auto
next
  case (ICEOptionsAttr v)
  with assms obtain ss where ss: "collect_res string_from_ice_option (options v) = Inr ss"
      "s = ''ice-options:'' @ join '' '' ss"
    by (auto simp: string_from_ice_options_def map_res_eq_Inr)
  with ice_option_no_LF [OF ss(1)] join_no_LF [of "'' ''" ss] show ?thesis by auto
qed (use assms in \<open>auto simp: printed_defs map_res_eq_Inr
      elim!: string_from_hash_function.elims string_from_media_codec.elims
        string_from_source_attribute.elims string_from_audio_codec.elims string_from_video_codec.elims\<close>)

lemma line_no_LF:
  assumes "clean_line l" "valid_line l \<or> l = AttributeLine ICELite" "iterates iter" "string_from_sdp_line iter l = Inr s"
  shows "LF \<notin> set s"
proof (cases l)
  case (AttributeLine a)
  with assms obtain n where "attribute_name iter a = Inr n" "s = ''a='' @ n"
    by (auto simp: string_from_attribute_def map_res_eq_Inr)
  with AttributeLine assms attribute_no_LF [of a iter n] show ?thesis by auto
next
  case (MediaDescriptionLine m)
  have "LF \<notin> set (join '' '' (map show_nat (md_media_format_description m)))"
    by (rule join_no_LF) auto
  moreover have "LF \<notin> set (string_from_media_type (md_media_type m))"
    by (cases "md_media_type m") auto
  moreover have "LF \<notin> set (string_from_media_transport_protocol (md_transport_protocol m))"
    by (cases "md_transport_protocol m") auto
  ultimately show ?thesis using MediaDescriptionLine assms
    by (auto simp: string_from_media_description_def)
next
  case (OriginatorLine v)
  with assms show ?thesis by (auto simp: string_from_originator_def)
next
  case (ConnectionDataLine v)
  with assms show ?thesis by (auto simp: string_from_connection_data_def)
qed (use assms in \<open>auto simp: string_from_session_time_def\<close>)

section \<open>What the parser reads back\<close>

fun as_parsed :: "sdp_line \<Rightarrow> sdp_line" where
  "as_parsed (AttributeLine ICELite) = AttributeLine UnrecognizedAttr"
| "as_parsed l = l"

definition sdp_as_parsed :: "sdp \<Rightarrow> sdp" where
  "sdp_as_parsed s = \<lparr>session_section = map as_parsed (session_section s),
     video_section = map as_parsed (video_section s), audio_section = map as_parsed (audio_section s)\<rparr>"

definition answer_line :: "sdp_line \<Rightarrow> bool" where
  "answer_line l \<longleftrightarrow> clean_line l \<and> (valid_line l \<or> l = AttributeLine ICELite)"

lemma as_parsed_valid [simp]: "valid_line l \<Longrightarrow> as_parsed l = l"
  by (cases l rule: as_parsed.cases) auto

lemma answer_line_roundtrip:
  assumes "answer_line l" "iterates iter"
  shows "\<exists>s. string_from_sdp_line iter l = Inr s \<and> sdp_line_try_from s = Inr (as_parsed l)
     \<and> LF \<notin> set s \<and> s \<noteq> []"
proof (cases "l = AttributeLine ICELite")
  case True
  then show ?thesis
    using attribute_bare [of "''ice-lite''"]
    by (simp add: string_from_attribute_def sdp_line_try_from_def attribute_of_key_def)
next
  case False
  with assms obtain s where s: "string_from_sdp_line iter l = Inr s" "sdp_line_try_from s = Inr l"
    using line.roundtrip [of iter l] by (auto simp: answer_line_def)
  moreover have "s \<noteq> []" using s(2) by (auto simp: sdp_line_try_from_def)
  ultimately show ?thesis
    using False assms line_no_LF [of l iter s] by (auto simp: answer_line_def)
qed

lemma answer_lines_roundtrip:
  assumes "list_all answer_line ls" "iterates iter"
  shows "\<exists>ss. collect_res (string_from_sdp_line iter) ls = Inr ss
     \<and> collect_res sdp_line_try_from ss = Inr (map as_parsed ls)
     \<and> list_all (\<lambda>s. LF \<notin> set s \<and> s \<noteq> []) ss"
  using assms(1)
proof (induction ls)
  case (Cons l ls)
  then obtain ss where "collect_res (string_from_sdp_line iter) ls = Inr ss"
      "collect_res sdp_line_try_from ss = Inr (map as_parsed ls)" "list_all (\<lambda>s. LF \<notin> set s \<and> s \<noteq> []) ss"
    by auto
  moreover obtain s where "string_from_sdp_line iter l = Inr s" "sdp_line_try_from s = Inr (as_parsed l)"
      "LF \<notin> set s" "s \<noteq> []"
    using answer_line_roundtrip [of l iter] Cons.prems assms(2) by auto
  ultimately show ?case by simp
qed simp

lemma collect_res_append:
  "collect_res f xs = Inr us \<Longrightarrow> collect_res f ys = Inr vs \<Longrightarrow> collect_res f (xs @ ys) = Inr (us @ vs)"
  by (induction xs arbitrary: us) (auto simp: bind_res_eq_Inr)

lemma section_text:
  assumes "list_all (\<lambda>s. LF \<notin> set s \<and> s \<noteq> []) ss" "ss \<noteq> []"
  shows "filter (\<lambda>l. l \<noteq> []) (str_lines (join CRLF ss @ CRLF @ rest)) = ss @ filter (\<lambda>l. l \<noteq> []) (str_lines rest)"
proof -
  have "str_lines (join CRLF ss @ CRLF @ rest) = ss @ str_lines rest"
    using assms by (intro str_lines_join) (auto simp: list_all_iff)
  moreover have "filter (\<lambda>l. l \<noteq> []) ss = ss"
    using assms(1) by (auto simp: list_all_iff intro: filter_True)
  ultimately show ?thesis by (simp del: append_Cons)
qed

text \<open>A well-formed SDP whose lines are answer lines prints, and its text parses to it.\<close>

lemma sdp_text_roundtrip:
  assumes "list_all answer_line (session_section s)" "list_all answer_line (audio_section s)"
    and "list_all answer_line (video_section s)" "well_sectioned (sdp_as_parsed s)" "iterates iter"
  shows "\<exists>txt. string_from_sdp iter s = Inr txt \<and> get_sdp txt = Inr (sdp_as_parsed s)"
proof -
  obtain ss where ss: "collect_res (string_from_sdp_line iter) (session_section s) = Inr ss"
      "collect_res sdp_line_try_from ss = Inr (map as_parsed (session_section s))"
      "list_all (\<lambda>s. LF \<notin> set s \<and> s \<noteq> []) ss"
    using answer_lines_roundtrip [OF assms(1,5)] by blast
  obtain aa where aa: "collect_res (string_from_sdp_line iter) (audio_section s) = Inr aa"
      "collect_res sdp_line_try_from aa = Inr (map as_parsed (audio_section s))"
      "list_all (\<lambda>s. LF \<notin> set s \<and> s \<noteq> []) aa"
    using answer_lines_roundtrip [OF assms(2,5)] by blast
  obtain vv where vv: "collect_res (string_from_sdp_line iter) (video_section s) = Inr vv"
      "collect_res sdp_line_try_from vv = Inr (map as_parsed (video_section s))"
      "list_all (\<lambda>s. LF \<notin> set s \<and> s \<noteq> []) vv"
    using answer_lines_roundtrip [OF assms(3,5)] by blast
  let ?txt = "join CRLF ss @ CRLF @ join CRLF aa @ CRLF @ join CRLF vv @ CRLF @ []"
  have ne: "ss \<noteq> []" "aa \<noteq> []" "vv \<noteq> []"
    using assms(4) ss(2) aa(2) vv(2) by (auto simp: well_sectioned_def sdp_as_parsed_def)
  have "filter (\<lambda>l. l \<noteq> []) (str_lines ?txt) = ss @ aa @ vv"
    by (simp only: section_text [OF ss(3) ne(1)] section_text [OF aa(3) ne(2)]
        section_text [OF vv(3) ne(3)] str_lines_Nil filter.simps) simp
  moreover have "collect_res sdp_line_try_from (ss @ aa @ vv) =
      Inr (map as_parsed (session_section s) @ map as_parsed (audio_section s) @ map as_parsed (video_section s))"
    using ss(2) aa(2) vv(2) by (intro collect_res_append)
  ultimately have "get_sdp ?txt = Inr (sdp_as_parsed s)"
    using assms(4) by (simp only: get_sdp_def bind_res_simps sections_of_iff) (simp add: sdp_as_parsed_def)
  moreover have "string_from_sdp iter s = Inr ?txt"
    using ss(1) aa(1) vv(1) by (simp add: string_from_sdp_def string_from_section_def)
  ultimately show ?thesis by blast
qed

section \<open>What parsed lines are like\<close>

lemma split_once_chars: "split_once p s = Some (a, b) \<Longrightarrow> set b \<subseteq> set s"
  by (auto dest: split_once_sound)

lemma parsed_attribute:
  assumes "sdp_line_try_from l = Inr (AttributeLine a)"
  shows "\<exists>k v. attribute_of_key k v = Inr a \<and> set v \<subseteq> set l"
  using assms split_once_chars
  by (fastforce simp: sdp_line_try_from_def attribute_try_from_def bind_res_eq_Inr map_res_eq_Inr ok_or_eq_Inr
      split: if_splits)

lemma attribute_of_key_inv:
  "attribute_of_key k v = Inr (MediaGroupAttr g) \<Longrightarrow> media_group_try_from v = Inr g"
  "attribute_of_key k v = Inr (RTPMapAttr m) \<Longrightarrow> rtp_map_try_from v = Inr m"
  "attribute_of_key k v = Inr (FMTPAttr f) \<Longrightarrow> fmtp_try_from v = Inr f"
  by (auto simp: attribute_of_key_def map_res_eq_Inr split: if_splits)

lemma parsed_bundle:
  assumes "sdp_line_try_from l = Inr (AttributeLine (MediaGroupAttr (Bundle g)))" "x \<in> set g"
  shows "no_sp x \<and> set x \<subseteq> set l"
proof -
  from parsed_attribute [OF assms(1)] obtain k v where v: "media_group_try_from v = Inr (Bundle g)" "set v \<subseteq> set l"
    using attribute_of_key_inv(1) by blast
  from v(1) obtain a b c d where "split_once ''group:'' v = Some (a, b)" "split_once '' '' b = Some (c, d)" "g = split_on SP d"
    by (auto simp: media_group_try_from_def Let_def bind_res_eq_Inr ok_or_eq_Inr split: if_splits)
  with assms(2) v(2) split_on_pieces [of x SP d] split_on_chars [of x SP d] split_once_chars
  show ?thesis unfolding no_sp_def by blast
qed

lemma parsed_rtp_map:
  assumes "sdp_line_try_from l = Inr (AttributeLine (RTPMapAttr m))"
  shows "rtpmap_payload_number m \<le> usize_max"
proof -
  from parsed_attribute [OF assms] obtain v where "rtp_map_try_from v = Inr m"
    using attribute_of_key_inv(2) by blast
  then show ?thesis
    by (auto simp: rtp_map_try_from_def Let_def bind_res_eq_Inr ok_or_eq_Inr parse_usize_def dest: parse_uint_le)
qed

lemma parsed_fmtp:
  assumes "sdp_line_try_from l = Inr (AttributeLine (FMTPAttr f))"
  shows "valid_fmtp f \<and> (\<forall>c \<in> format_capability f. set c \<subseteq> set l)"
proof -
  from parsed_attribute [OF assms] obtain v where v: "fmtp_try_from v = Inr f" "set v \<subseteq> set l"
    using attribute_of_key_inv(3) by blast
  from v(1) obtain a b c d n where f: "split_once ''fmtp:'' v = Some (a, b)" "split_once '' '' b = Some (c, d)"
      "parse_uint usize_max c = Some n" "f = \<lparr>fmtp_payload_number = n, format_capability = set (split_on (CHR '';'') d)\<rparr>"
    by (auto simp: fmtp_try_from_def bind_res_eq_Inr ok_or_eq_Inr parse_usize_def)
  have "set x \<subseteq> set l" if "x \<in> set (split_on (CHR '';'') d)" for x
    using that split_on_chars [of x "CHR '';''" d] split_once_chars [OF f(1)] split_once_chars [OF f(2)] v(2) by blast
  then show ?thesis
    using f(3,4) split_on_pieces [of _ "CHR '';''" d] by (auto simp: valid_fmtp_def dest: parse_uint_le)
qed

text \<open>Every line of a parsed offer comes from a line of the text, without a line break.\<close>

lemma get_sdp_line_origin:
  assumes "get_sdp raw = Inr s" "x \<in> set (session_section s @ audio_section s @ video_section s)"
  shows "\<exists>l. sdp_line_try_from l = Inr x \<and> LF \<notin> set l"
proof -
  let ?ls = "filter (\<lambda>l. l \<noteq> []) (str_lines raw)"
  from assms(1) have c: "collect_res sdp_line_try_from ?ls = Inr (session_section s @ audio_section s @ video_section s)"
    by (auto simp: get_sdp_def bind_res_eq_Inr sections_of_iff)
  from assms(2) obtain i where i: "i < length (session_section s @ audio_section s @ video_section s)"
      "x = (session_section s @ audio_section s @ video_section s) ! i"
    by (metis in_set_conv_nth)
  with c have "i < length ?ls" "sdp_line_try_from (?ls ! i) = Inr x"
    by (simp_all only: collect_res_Inr)
  moreover from this(1) have "?ls ! i \<in> set (str_lines raw)"
    using nth_mem [of i ?ls] by simp
  ultimately show ?thesis using str_lines_no_LF by blast
qed

section \<open>The answers\<close>

text \<open>What the configuration and the random source give the resolver.\<close>

definition resolver_ok :: "sdp_resolver \<Rightarrow> bool" where
  "resolver_ok self \<longleftrightarrow> valid_candidate (res_candidate self) \<and> LF \<notin> set (foundation (res_candidate self))
     \<and> valid_fingerprint (res_fingerprint self) \<and> LF \<notin> set (hash (res_fingerprint self))"

text \<open>What the \<open>Alphanumeric\<close> distribution promises: letters and digits.\<close>

definition alphanumeric :: "u8 \<Rightarrow> bool" where
  "alphanumeric b \<longleftrightarrow> 48 \<le> b \<and> b \<le> 57 \<or> 65 \<le> b \<and> b \<le> 90 \<or> 97 \<le> b \<and> b \<le> 122"

definition random_ok :: "host_random \<Rightarrow> bool" where
  "random_ok rnd \<longleftrightarrow> (\<forall>k. alphanumeric (rnd_username rnd k) \<and> alphanumeric (rnd_password rnd k))"

lemma length_random_string [simp]: "length (get_random_string n f) = n"
  by (simp add: get_random_string_def)

lemma random_string_chars:
  assumes "\<And>k. alphanumeric (f k)" "c \<in> set (get_random_string n f)"
  shows "48 \<le> (of_char c :: nat) \<and> (of_char c :: nat) \<le> 122"
proof -
  from assms(2) obtain k where c: "c = char_of (unat (f k))" by (auto simp: get_random_string_def)
  have "unat (f k) < 256" using unsigned_less [of "f k"] by simp
  with c have "(of_char c :: nat) = unat (f k)" by (simp only: of_char_of mod_less)
  with assms(1) [of k] show ?thesis by (auto simp: alphanumeric_def word_le_nat_alt)
qed

lemma random_string_no_LF: "random_ok rnd \<Longrightarrow> LF \<notin> set (get_random_string n (rnd_username rnd))"
    "random_ok rnd \<Longrightarrow> LF \<notin> set (get_random_string n (rnd_password rnd))"
  using random_string_chars [of _ LF n] by (auto simp: random_ok_def)

lemma u16_le_usize [simp]: "unat (p :: u16) \<le> usize_max"
  using unat_le_max(2) [of p] by (simp add: u16_max_def usize_max_def)

text \<open>The parts of an offer that go into the answer.\<close>

definition answer_parts :: "sdp \<Rightarrow> media_id \<Rightarrow> media_id \<Rightarrow> audio_session \<Rightarrow> video_session \<Rightarrow> bool" where
  "answer_parts s am vm a v \<longleftrightarrow> offers_audio (audio_section s) a \<and> offers_video (video_section s) v \<and>
     (\<exists>g. AttributeLine (MediaGroupAttr (Bundle (mid_id am # mid_id vm # g))) \<in> set (session_section s))"

lemma answer_parts_valid:
  assumes "get_sdp raw = Inr s" "answer_parts s am vm a v"
  shows "as_payload_number a \<le> usize_max" "vs_payload_number v \<le> usize_max"
    "no_sp (mid_id am)" "no_sp (mid_id vm)" "LF \<notin> set (mid_id am)" "LF \<notin> set (mid_id vm)"
    "valid_fmtp \<lparr>fmtp_payload_number = vs_payload_number v, format_capability = vs_capabilities v\<rparr>"
    "\<forall>c \<in> vs_capabilities v. LF \<notin> set c"
proof -
  let ?all = "session_section s @ audio_section s @ video_section s"
  have org: "x \<in> set ?all \<Longrightarrow> \<exists>l. sdp_line_try_from l = Inr x \<and> LF \<notin> set l" for x
    using get_sdp_line_origin [OF assms(1)] .
  from assms(2) obtain g where mem:
      "AttributeLine (RTPMapAttr \<lparr>rtpmap_codec = AudioCodec (as_codec a), rtpmap_payload_number = as_payload_number a\<rparr>) \<in> set ?all"
      "AttributeLine (RTPMapAttr \<lparr>rtpmap_codec = VideoCodec (vs_codec v), rtpmap_payload_number = vs_payload_number v\<rparr>) \<in> set ?all"
      "AttributeLine (FMTPAttr \<lparr>fmtp_payload_number = vs_payload_number v, format_capability = vs_capabilities v\<rparr>) \<in> set ?all"
      "AttributeLine (MediaGroupAttr (Bundle (mid_id am # mid_id vm # g))) \<in> set ?all"
    by (auto simp: answer_parts_def offers_audio_def offers_video_def)
  show "as_payload_number a \<le> usize_max" using org [OF mem(1)] parsed_rtp_map by fastforce
  show "vs_payload_number v \<le> usize_max" using org [OF mem(2)] parsed_rtp_map by fastforce
  obtain lf where lf: "sdp_line_try_from lf = Inr (AttributeLine (FMTPAttr \<lparr>fmtp_payload_number = vs_payload_number v,
      format_capability = vs_capabilities v\<rparr>))" "LF \<notin> set lf"
    using org [OF mem(3)] by blast
  from parsed_fmtp [OF lf(1)] lf(2)
  show "valid_fmtp \<lparr>fmtp_payload_number = vs_payload_number v, format_capability = vs_capabilities v\<rparr>"
    "\<forall>c \<in> vs_capabilities v. LF \<notin> set c"
    by auto
  obtain lg where lg: "sdp_line_try_from lg = Inr (AttributeLine (MediaGroupAttr (Bundle (mid_id am # mid_id vm # g))))"
      "LF \<notin> set lg"
    using org [OF mem(4)] by blast
  from parsed_bundle [OF lg(1), of "mid_id am"] parsed_bundle [OF lg(1), of "mid_id vm"] lg(2)
  show "no_sp (mid_id am)" "no_sp (mid_id vm)" "LF \<notin> set (mid_id am)" "LF \<notin> set (mid_id vm)"
    by auto
qed

text \<open>Both answers have one shape; only the direction of the media sections differs.\<close>

definition answer_sdp ::
    "attribute \<Rightarrow> sdp_resolver \<Rightarrow> media_id \<Rightarrow> media_id \<Rightarrow> ice_credentials \<Rightarrow> audio_session \<Rightarrow> video_session \<Rightarrow> sdp" where
  "answer_sdp dir self am vm creds a v = (let c = res_candidate self in
     \<lparr>session_section = [
        ProtocolVersion ''0'',
        OriginatorLine \<lparr>o_username = HOST_CNAME, o_session_id = ''3767197920'', o_session_version = ''0'',
          o_ip_addr = connection_address c\<rparr>,
        SessionName HOST_CNAME, SessionTimeLine \<lparr>start_time = 0, end_time = 0\<rparr>,
        AttributeLine (MediaGroupAttr (Bundle [mid_id am, mid_id vm])),
        AttributeLine (ICEUsernameAttr \<lparr>username = host_username creds\<rparr>),
        AttributeLine (ICEPasswordAttr \<lparr>password = host_password creds\<rparr>),
        AttributeLine (ICEOptionsAttr \<lparr>options = [ICE2]\<rparr>), AttributeLine ICELite,
        AttributeLine (FingerprintAttr (res_fingerprint self)), AttributeLine (SetupAttr Passive)],
      video_section = [
        MediaDescriptionLine \<lparr>md_media_type = Video, md_transport_port = unat (port c),
          md_transport_protocol = DtlsSrtp, md_media_format_description = [vs_payload_number v]\<rparr>,
        ConnectionDataLine \<lparr>cd_ip = connection_address c\<rparr>,
        AttributeLine dir, AttributeLine RTCPMux, AttributeLine (MediaIDAttr vm),
        AttributeLine (RTPMapAttr \<lparr>rtpmap_codec = VideoCodec (vs_codec v), rtpmap_payload_number = vs_payload_number v\<rparr>),
        AttributeLine (MediaSSRCAttr \<lparr>ssrc = vs_host_ssrc v, source_attribute = CNAME HOST_CNAME\<rparr>),
        AttributeLine (FMTPAttr \<lparr>fmtp_payload_number = vs_payload_number v, format_capability = vs_capabilities v\<rparr>)],
      audio_section = [
        MediaDescriptionLine \<lparr>md_media_type = Audio, md_transport_port = unat (port c),
          md_transport_protocol = DtlsSrtp, md_media_format_description = [as_payload_number a]\<rparr>,
        ConnectionDataLine \<lparr>cd_ip = connection_address c\<rparr>,
        AttributeLine dir, AttributeLine RTCPMux, AttributeLine (MediaIDAttr am),
        AttributeLine (CandidateAttr c), AttributeLine EndOfCandidates,
        AttributeLine (RTPMapAttr \<lparr>rtpmap_codec = AudioCodec (as_codec a), rtpmap_payload_number = as_payload_number a\<rparr>),
        AttributeLine (MediaSSRCAttr \<lparr>ssrc = as_host_ssrc a, source_attribute = CNAME HOST_CNAME\<rparr>)]\<rparr>)"

lemma stream_answer_shape:
  assumes "parse_stream_offer self rnd s = Inr ns"
  shows "\<exists>am vm. answer_parts s am vm (audio_session ns) (video_session ns)
     \<and> get_ice_credentials rnd s = Some (ice_credentials ns)
     \<and> sdp_answer ns = answer_sdp ReceiveOnly self am vm (ice_credentials ns) (audio_session ns) (video_session ns)
     \<and> get_media_ids s = Inr (am, vm)"
proof -
  from assms obtain am vm where p: "get_media_ids s = Inr (am, vm)" "get_ice_credentials rnd s = Some (ice_credentials ns)"
      "get_streamer_audio_session (rnd_audio_ssrc rnd) (audio_section s) = Inr (audio_session ns)"
      "get_streamer_video_session (rnd_video_ssrc rnd) (video_section s) = Inr (video_session ns)"
      "sdp_answer ns = answer_sdp ReceiveOnly self am vm (ice_credentials ns) (audio_session ns) (video_session ns)"
    by (fastforce simp: parse_stream_offer_def answer_sdp_def Let_def bind_res_eq_Inr ok_or_eq_Inr split: if_splits)
  have "answer_parts s am vm (audio_session ns) (video_session ns)"
    using media_ids_result [OF p(1)] streamer_audio_result [OF p(3)] streamer_video_result [OF p(4)]
    by (simp add: answer_parts_def offers_audio_def offers_video_def)
  with p show ?thesis by blast
qed

lemma viewer_answer_shape:
  assumes "parse_viewer_offer self rnd s str = Inr ns"
  shows "\<exists>am vm. answer_parts s am vm (audio_session ns) (video_session ns)
     \<and> get_ice_credentials rnd s = Some (ice_credentials ns)
     \<and> sdp_answer ns = answer_sdp SendOnly self am vm (ice_credentials ns) (audio_session ns) (video_session ns)
     \<and> get_media_ids s = Inr (am, vm)"
proof -
  from assms obtain am vm where p: "get_media_ids s = Inr (am, vm)" "get_ice_credentials rnd s = Some (ice_credentials ns)"
      "get_viewer_audio_session (rnd_audio_ssrc rnd) (audio_section s) (audio_session str) = Inr (audio_session ns)"
      "get_viewer_video_session (rnd_video_ssrc rnd) (video_section s) (video_session str) = Inr (video_session ns)"
      "sdp_answer ns = answer_sdp SendOnly self am vm (ice_credentials ns) (audio_session ns) (video_session ns)"
    by (fastforce simp: parse_viewer_offer_def answer_sdp_def Let_def bind_res_eq_Inr ok_or_eq_Inr split: if_splits)
  have "answer_parts s am vm (audio_session ns) (video_session ns)"
    using media_ids_result [OF p(1)] viewer_audio_result [OF p(3)] viewer_video_result [OF p(4)]
    by (simp add: answer_parts_def offers_audio_def offers_video_def)
  with p show ?thesis by blast
qed

lemma answer_sdp_readable:
  assumes "get_sdp raw = Inr s" "answer_parts s am vm a v" "get_ice_credentials rnd s = Some creds"
    and "resolver_ok self" "random_ok rnd" "iterates iter" "dir \<in> {SendOnly, ReceiveOnly}"
  shows "\<exists>txt. string_from_sdp iter (answer_sdp dir self am vm creds a v) = Inr txt
     \<and> get_sdp txt = Inr (sdp_as_parsed (answer_sdp dir self am vm creds a v))"
proof (rule sdp_text_roundtrip)
  note parts = answer_parts_valid [OF assms(1,2)]
  have host: "LF \<notin> set (host_username creds)" "LF \<notin> set (host_password creds)"
    using get_ice_credentials_host [OF assms(3)] assms(5) by (simp_all add: random_string_no_LF)
  have cand: "valid_candidate (res_candidate self)"
      "LF \<notin> set (foundation (res_candidate self))" "valid_fingerprint (res_fingerprint self)" "LF \<notin> set (hash (res_fingerprint self))"
    using assms(4) by (simp_all add: resolver_ok_def valid_candidate_def)
  note defs = answer_sdp_def Let_def answer_line_def HOST_CNAME_def
  show "list_all answer_line (session_section (answer_sdp dir self am vm creds a v))"
    using parts host cand
    by (simp add: defs valid_originator_def valid_session_time_def valid_ice_options_def no_sp_def)
  show "list_all answer_line (audio_section (answer_sdp dir self am vm creds a v))"
    using parts cand assms(7)
    by (auto simp: defs valid_media_description_def valid_rtp_map_def
        valid_media_ssrc_def no_sp_def)
  show "list_all answer_line (video_section (answer_sdp dir self am vm creds a v))"
    using parts cand assms(7)
    by (auto simp: defs valid_media_description_def valid_rtp_map_def
        valid_media_ssrc_def no_sp_def)
  have "as_parsed (AttributeLine dir) = AttributeLine dir"
    using assms(7) by auto
  then show "well_sectioned (sdp_as_parsed (answer_sdp dir self am vm creds a v))"
    by (simp add: well_sectioned_def sdp_as_parsed_def answer_sdp_def Let_def no_media_def)
  show "iterates iter" by fact
qed

text \<open>C17. The answer to an accepted offer, WHIP or WHEP, is printed without panicking, and its text is
  again a valid SDP for the crate's own parser: every line is read back as it was meant, except
  \<open>ice-lite\<close>, which is read as an unrecognized attribute.\<close>

theorem answer_readable:
  assumes "accept_stream_offer self rnd raw = Inr ns \<or> accept_viewer_offer self rnd raw str = Inr ns"
    and "resolver_ok self" "random_ok rnd" "iterates iter"
  shows "\<exists>txt. string_from_sdp iter (sdp_answer ns) = Inr txt \<and> get_sdp txt = Inr (sdp_as_parsed (sdp_answer ns))"
proof -
  from assms(1) obtain s where s: "get_sdp raw = Inr s" "parse_stream_offer self rnd s = Inr ns \<or> parse_viewer_offer self rnd s str = Inr ns"
    by (auto simp: accept_stream_offer_def accept_viewer_offer_def bind_res_eq_Inr)
  then show ?thesis
    using stream_answer_shape [of self rnd s ns] viewer_answer_shape [of self rnd s str ns] answer_sdp_readable [OF s(1) _ _ assms(2-4)]
    by auto
qed

end
