(* ===== verification/Command_Loop.thy ===== *)
theory Command_Loop
  imports Udp_Server_Props Sdp_Answer
begin

text \<open>
  The command loop of \<open>src/main.rs\<close>. One thread owns the server and takes commands from a channel that
  the UDP reader, the HTTP workers and the timer feed, so whatever the threads do the server sees one
  sequence of commands. A command is handled with the draws the code makes while it handles it: one
  reading of the clock, random ids and strings, and the orders of the hash tables it walks. The handler
  returns the server and the effects in order: datagrams, answers to the HTTP workers, and thumbnails
  given to the storage threads.
\<close>

section \<open>Commands and effects\<close>

text \<open>The reply channels of the HTTP workers are represented by whether the worker still listens.\<close>

datatype server_command =
    AddStreamer string bool
  | AddViewer string room_id bool
  | HandlePacket bytes socket_addr
  | SendRoomsStatus
  | RunPeriodicChecks

record room_status =
  viewer_count :: nat
  status_id :: room_id

datatype effect =
    Datagram socket_addr bytes
  | Reply "string option"
  | Notification "room_status list"
  | SaveThumbnail room_id image_data

record draws =
  d_now :: instant
  d_room_id :: room_id
  d_resource_id :: resource_id
  d_random :: host_random
  d_ids :: id_order
  d_strings :: set_order

definition SECOND :: instant where "SECOND = 10 ^ 9"

section \<open>The handlers\<close>

definition send_reply :: "bool \<Rightarrow> string option \<Rightarrow> panic + effect list" where
  "send_reply listens r = (if listens then Inr [Reply r] else Inl UnwrapFailed)"

definition handle_add_streamer ::
    "'x third_party \<Rightarrow> draws \<Rightarrow> string \<Rightarrow> bool \<Rightarrow> 'x udp_server \<Rightarrow> panic + ('x udp_server \<times> effect list)" where
  "handle_add_streamer tp d sdp_offer listens srv =
     bind_res
       (case accept_stream_offer (sdp_resolver srv) (d_random d) sdp_offer of
          Inl _ \<Rightarrow> Inr (srv, None)
        | Inr ns \<Rightarrow>
            bind_res (string_from_sdp (d_strings d) (sdp_answer ns)) (\<lambda>answer.
            bind_res (add_streamer (tp_decoder_new tp) (d_room_id d) (d_resource_id d) (d_now d) ns (session_registry srv)) (\<lambda>(_, g').
              Inr (set_registry g' srv, Some answer)))) (\<lambda>(srv', response).
     bind_res (send_reply listens response) (\<lambda>es. Inr (srv', es)))"

definition handle_add_viewer ::
    "draws \<Rightarrow> string \<Rightarrow> room_id \<Rightarrow> bool \<Rightarrow> 'x udp_server \<Rightarrow> panic + ('x udp_server \<times> effect list)" where
  "handle_add_viewer d sdp_offer target listens srv =
     (let g = session_registry srv;
          streamer_session = Option.bind (map_option owner_id (get_room target g))
             (\<lambda>owner. map_option media_session (get_session owner g)) in
      bind_res
        (case Option.bind streamer_session (\<lambda>ms. ok (accept_viewer_offer (sdp_resolver srv) (d_random d) sdp_offer ms)) of
           None \<Rightarrow> Inr (srv, None)
         | Some ns \<Rightarrow>
             bind_res (string_from_sdp (d_strings d) (sdp_answer ns)) (\<lambda>answer.
             bind_res (add_viewer (d_resource_id d) (d_now d) ns target g) (\<lambda>(_, g').
               Inr (set_registry g' srv, Some answer)))) (\<lambda>(srv', response).
      bind_res (send_reply listens response) (\<lambda>es. Inr (srv', es))))"

definition rooms_notification :: "id_order \<Rightarrow> 'x session_registry \<Rightarrow> room_status list" where
  "rooms_notification ord g =
     map (\<lambda>rm. \<lparr>viewer_count = card (viewer_ids rm), status_id = rid rm\<rparr>) (get_rooms ord g)"

text \<open>The thumbnail of one session: due when there was none or the last is more than two minutes old,
  and a picture is there.\<close>

definition thumbnail_due :: "instant \<Rightarrow> 'x streamer \<Rightarrow> bool" where
  "thumbnail_due now st \<longleftrightarrow>
     (case image_timestamp st of None \<Rightarrow> True | Some t \<Rightarrow> 120 * SECOND < now - t)"

definition update_thumbnail :: "instant \<Rightarrow> 'x session \<Rightarrow> 'x session \<times> (room_id \<times> image_data) option" where
  "update_thumbnail now s = (case connection_type s of
       Viewer _ \<Rightarrow> (s, None)
     | Streamer st \<Rightarrow>
         (case last_picture (thumbnail_extractor st) of
            Some pic \<Rightarrow>
              if thumbnail_due now st
              then (s\<lparr>connection_type := Streamer (st\<lparr>image_timestamp := Some now\<rparr>)\<rparr>, Some (owned_room_id st, pic))
              else (s, None)
          | None \<Rightarrow> (s, None)))"

fun update_thumbnails ::
    "instant \<Rightarrow> resource_id list \<Rightarrow> 'x session_registry \<Rightarrow> 'x session_registry \<times> (room_id \<times> image_data) list" where
  "update_thumbnails now [] g = (g, [])"
| "update_thumbnails now (i # ids) g = (case sessions g i of
       None \<Rightarrow> update_thumbnails now ids g
     | Some s \<Rightarrow>
         let (s', t) = update_thumbnail now s; (g', ts) = update_thumbnails now ids (put_session i s' g)
         in (g', (case t of None \<Rightarrow> ts | Some x \<Rightarrow> x # ts)))"

definition stale :: "instant \<Rightarrow> instant \<Rightarrow> bool" where
  "stale now t \<longleftrightarrow> 5 * SECOND < now - t"

fun remove_stale ::
    "instant \<Rightarrow> (resource_id \<times> instant) list \<Rightarrow> 'x session_registry \<Rightarrow> panic + 'x session_registry" where
  "remove_stale now [] g = Inr g"
| "remove_stale now ((i, t) # rest) g =
     (if stale now t then bind_res (remove_session i g) (remove_stale now rest) else remove_stale now rest g)"

definition run_periodic_checks ::
    "instant \<Rightarrow> id_order \<Rightarrow> 'x udp_server \<Rightarrow> panic + ('x udp_server \<times> effect list)" where
  "run_periodic_checks now ord srv =
     (let g = session_registry srv;
          (g1, thumbs) = update_thumbnails now (ord (dom (sessions g))) g;
          ss = map (\<lambda>s. (sess_id s, ttl s)) (get_all_sessions ord g1) in
      bind_res (remove_stale now ss g1) (\<lambda>g2.
        Inr (set_registry g2 srv, map (\<lambda>(r, pic). SaveThumbnail r pic) thumbs)))"

definition handle_command ::
    "bool \<Rightarrow> 'x third_party \<Rightarrow> draws \<Rightarrow> server_command \<Rightarrow> 'x udp_server \<Rightarrow> panic + ('x udp_server \<times> effect list)" where
  "handle_command chk tp d cmd srv = (case cmd of
       HandlePacket packet rem \<Rightarrow>
         map_res (\<lambda>(srv', outs). (srv', map (\<lambda>(a, b). Datagram a b) outs))
           (process_packet chk tp (d_ids d) (d_now d) packet rem srv)
     | AddStreamer sdp_offer listens \<Rightarrow> handle_add_streamer tp d sdp_offer listens srv
     | AddViewer sdp_offer target listens \<Rightarrow> handle_add_viewer d sdp_offer target listens srv
     | SendRoomsStatus \<Rightarrow> Inr (srv, [Notification (rooms_notification (d_ids d) (session_registry srv))])
     | RunPeriodicChecks \<Rightarrow> run_periodic_checks (d_now d) (d_ids d) srv)"

text \<open>One turn of the loop, without the effects.\<close>

definition loop_step :: "bool \<Rightarrow> 'x third_party \<Rightarrow> draws \<times> server_command \<Rightarrow> 'x udp_server \<Rightarrow> panic + 'x udp_server" where
  "loop_step chk tp i srv = map_res fst (handle_command chk tp (fst i) (snd i) srv)"

end
