(* ===== verification/Http.thy ===== *)
theory Http
  imports Config Command_Loop
begin

text \<open>
  The HTTP front end: requests and responses (\<open>src/http/mod.rs\<close>, \<open>response_builder.rs\<close>), the request
  parser (\<open>parsers.rs\<close>) and the routes (\<open>server.rs\<close>). A TCP connection is the sequence of bytes that
  arrive on it. A route either answers at once or asks the command loop and turns its reply into the
  response; the exchange of one connection with the server is their composition.
\<close>

section \<open>Requests\<close>

datatype http_method = GET | POST | OPTIONS | DELETE

record request =
  req_path :: string
  req_method :: http_method
  req_search :: "string \<rightharpoonup> string"
  req_headers :: "string \<rightharpoonup> string"
  req_body :: "bytes option"

datatype http_error = NotFound | Unauthorized | InternalServerError | BadRequest | MethodNotAllowed

fun string_from_http_method :: "http_method \<Rightarrow> string" where
  "string_from_http_method GET = ''GET''"
| "string_from_http_method POST = ''POST''"
| "string_from_http_method OPTIONS = ''OPTIONS''"
| "string_from_http_method DELETE = ''DELETE''"

definition string_from_request :: "request \<Rightarrow> string" where
  "string_from_request r = string_from_http_method (req_method r) @ '' '' @ req_path r"

fun string_from_http_error :: "http_error \<Rightarrow> string" where
  "string_from_http_error NotFound = ''404 Not Found''"
| "string_from_http_error InternalServerError = ''500 Internal Server Error''"
| "string_from_http_error BadRequest = ''400 Bad Request''"
| "string_from_http_error MethodNotAllowed = ''405 Method Not Allowed''"
| "string_from_http_error Unauthorized = ''401 Unauthorized''"

section \<open>What the front end depends on\<close>

text \<open>The configuration; the Unicode tables behind \<open>to_lowercase\<close>; the size above which an allocation
  fails; the order in which a header table is walked; \<open>serde_json\<close>; the file system.\<close>

record http_env =
  he_config :: config
  he_lower :: "string \<Rightarrow> string"
  he_alloc :: nat
  he_order :: set_order
  he_json :: "room_status list \<Rightarrow> string"
  he_files :: "string \<Rightarrow> bytes option"

section \<open>Responses\<close>

record response =
  resp_inner :: bytes
  resp_status :: nat

record response_builder =
  rb_status :: "nat option"
  rb_headers :: "string \<rightharpoonup> string"
  rb_body :: "bytes option"

definition response_builder_new :: response_builder where
  "response_builder_new = \<lparr>rb_status = None, rb_headers = Map.empty, rb_body = None\<rparr>"

definition set_status :: "nat \<Rightarrow> response_builder \<Rightarrow> response_builder" where
  "set_status status b = b\<lparr>rb_status := Some status\<rparr>"

definition set_header :: "string \<Rightarrow> string \<Rightarrow> response_builder \<Rightarrow> response_builder" where
  "set_header key v b = b\<lparr>rb_headers := (rb_headers b)(key \<mapsto> v)\<rparr>"

definition set_body :: "bytes \<Rightarrow> response_builder \<Rightarrow> response_builder" where
  "set_body body b = b\<lparr>rb_body := Some body\<rparr>"

definition add_body :: "bytes \<Rightarrow> response_builder \<Rightarrow> response_builder" where
  "add_body body b = b\<lparr>rb_body := Some body\<rparr>"

definition status_text :: "nat \<Rightarrow> string" where
  "status_text status =
     (if status = 200 then ''OK'' else if status = 201 then ''CREATED'' else if status = 400 then ''BAD REQUEST''
      else if status = 401 then ''UNAUTHORIZED'' else if status = 404 then ''NOT FOUND''
      else if status = 405 then ''METHOD NOT ALLOWED'' else [])"

definition concat_headers :: "set_order \<Rightarrow> (string \<rightharpoonup> string) \<Rightarrow> string" where
  "concat_headers ord h = concat (map (\<lambda>k. k @ '': '' @ the (h k) @ CRLF) (ord (dom h)))"

definition build :: "http_env \<Rightarrow> response_builder \<Rightarrow> panic + response" where
  "build w b =
     (case rb_status b of
        None \<Rightarrow> Inl UnwrapFailed
      | Some status \<Rightarrow>
          let start = ''HTTP/1.1 '' @ show_nat status @ '' '' @ status_text status @ CRLF;
              headers = (rb_headers b)(''Access-Control-Allow-Origin'' \<mapsto> frontend_url (he_config w)) in
          (case rb_body b of
             None \<Rightarrow> Inr \<lparr>resp_inner = as_bytes (start @ concat_headers (he_order w) headers @ CRLF), resp_status = status\<rparr>
           | Some body \<Rightarrow>
               let headers' = headers(''content-length'' \<mapsto> show_nat (length body)) in
               Inr \<lparr>resp_inner = as_bytes (start @ concat_headers (he_order w) headers' @ CRLF) @ body, resp_status = status\<rparr>))"

definition http_error_status :: "http_error \<Rightarrow> nat" where
  "http_error_status err = (case err of NotFound \<Rightarrow> 404 | Unauthorized \<Rightarrow> 401 | InternalServerError \<Rightarrow> 500
     | BadRequest \<Rightarrow> 404 | MethodNotAllowed \<Rightarrow> 405)"

definition map_http_err_to_response :: "http_env \<Rightarrow> http_error \<Rightarrow> panic + response" where
  "map_http_err_to_response w err = build w (set_status (http_error_status err) response_builder_new)"

section \<open>The request parser\<close>

fun parse_search_pairs :: "string list \<Rightarrow> (string \<rightharpoonup> string) \<Rightarrow> (string \<rightharpoonup> string) option" where
  "parse_search_pairs [] m = Some m"
| "parse_search_pairs (p # ps) m = (case split_once ''='' p of
       None \<Rightarrow> None | Some (k, v) \<Rightarrow> parse_search_pairs ps (m(k \<mapsto> v)))"

definition parse_search :: "string \<Rightarrow> (string \<rightharpoonup> string) option" where
  "parse_search search = parse_search_pairs (split_on (CHR ''&'') search) Map.empty"

definition http_method_of :: "string \<Rightarrow> http_method option" where
  "http_method_of m = (if m = ''GET'' then Some GET else if m = ''POST'' then Some POST
     else if m = ''OPTIONS'' then Some OPTIONS else if m = ''DELETE'' then Some DELETE else None)"

lemma read_line_Nil [simp]: "read_line [] = ([], [])"
  by (simp add: read_line_def str_of_bytes_def)

lemma trim_Nil [simp]: "trim [] = []"
  by (simp add: trim_ascii)

function parse_headers ::
    "(string \<Rightarrow> string) \<Rightarrow> bytes \<Rightarrow> (string \<rightharpoonup> string) \<Rightarrow> ((string \<rightharpoonup> string) \<times> bytes) option" where
  "parse_headers lower bs h =
     (if trim (fst (read_line bs)) = [] then Some (h, snd (read_line bs))
      else case split_once '':'' (fst (read_line bs)) of
             None \<Rightarrow> None
           | Some (key, v) \<Rightarrow> parse_headers lower (snd (read_line bs)) (h(lower (trim key) \<mapsto> trim v)))"
  by pat_completeness auto
termination
proof (relation "measure (\<lambda>(_, bs, _). length bs)")
  fix lower :: "string \<Rightarrow> string" and bs h p key v
  assume "trim (fst (read_line bs)) \<noteq> []"
  then have "bs \<noteq> []" by (cases bs) auto
  then show "((lower, snd (read_line bs), h(lower (trim key) \<mapsto> trim v)), lower, bs, h) \<in> measure (\<lambda>(_, bs, _). length bs)"
    by (simp add: read_line_length)
qed simp

declare parse_headers.simps [simp del]

definition HTTP_LIMIT :: nat where "HTTP_LIMIT = 15000"

text \<open>The request line and the headers, and what follows them.\<close>

definition parse_head :: "(string \<Rightarrow> string) \<Rightarrow> bytes
    \<Rightarrow> (http_method \<times> string \<times> (string \<rightharpoonup> string) \<times> (string \<rightharpoonup> string) \<times> bytes) option" where
  "parse_head lower stream =
     (let (request_line, r1) = read_line stream in
      case split_on SP request_line of
        m # pathname # _ \<Rightarrow>
          Option.bind (http_method_of m) (\<lambda>meth.
          Option.bind (case split_once ''?'' pathname of
                         Some (path, search) \<Rightarrow> map_option (Pair path) (parse_search search)
                       | None \<Rightarrow> Some (pathname, Map.empty)) (\<lambda>(path, search).
          Option.bind (parse_headers lower r1 Map.empty) (\<lambda>(headers, r2).
            Some (meth, path, search, headers, r2))))
      | _ \<Rightarrow> None)"

text \<open>The body buffer is allocated and zeroed first and then filled with what there is; that less came
  than was announced is not noticed.\<close>

definition read_body :: "nat \<Rightarrow> nat \<Rightarrow> bytes \<Rightarrow> panic + bytes" where
  "read_body alloc n bs = (if alloc < n then Inl AllocFailed else Inr (take n bs @ replicate (n - length bs) 0))"

definition parse_http :: "http_env \<Rightarrow> bytes \<Rightarrow> panic + request option" where
  "parse_http w stream = (case parse_head (he_lower w) (take HTTP_LIMIT stream) of
       None \<Rightarrow> Inr None
     | Some (meth, path, search, headers, r2) \<Rightarrow>
         let content_length = Option.bind (headers ''content-length'') parse_usize in
         bind_res (case content_length of None \<Rightarrow> Inr None
                   | Some n \<Rightarrow> map_res Some (read_body (he_alloc w) n r2)) (\<lambda>body.
           Inr (Some \<lparr>req_path = path, req_method = meth, req_search = search,
                      req_headers = headers, req_body = body\<rparr>)))"

section \<open>The routes\<close>

definition whip_request :: "http_env \<Rightarrow> request \<Rightarrow> http_error + string" where
  "whip_request w req =
     bind_res (ok_or Unauthorized (req_headers req ''authorization'')) (\<lambda>bearer_token.
     if bearer_token \<noteq> ''Bearer '' @ whip_token (tcp_server_config (he_config w)) then Inl Unauthorized else
     ok_or BadRequest (Option.bind (req_body req) string_from_utf8))"

definition whip_response :: "http_env \<Rightarrow> string option \<Rightarrow> panic + response" where
  "whip_response w reply = (case reply of
       None \<Rightarrow> map_http_err_to_response w NotFound
     | Some answer \<Rightarrow>
         build w (set_body (as_bytes answer)
           (set_header ''location'' ''http://localhost:8080/whip''
             (set_header ''content-type'' ''application/sdp'' (set_status 201 response_builder_new)))))"

definition options_route :: "http_env \<Rightarrow> panic + response" where
  "options_route w = build w (set_header ''Access-Control-Allow-Headers'' ''content-type''
     (set_header ''Access-Control-Allow-Method'' ''POST'' (set_status 204 response_builder_new)))"

definition whep_request :: "request \<Rightarrow> http_error + (string \<times> u32)" where
  "whep_request req =
     bind_res (ok_or BadRequest (req_search req ''target_id'')) (\<lambda>t.
     bind_res (ok_or BadRequest (parse_u32 t)) (\<lambda>target_id.
     bind_res (ok_or BadRequest (Option.bind (req_body req) string_from_utf8)) (\<lambda>body.
       Inr (body, target_id))))"

definition whep_response :: "http_env \<Rightarrow> string option \<Rightarrow> panic + response" where
  "whep_response w reply = (case reply of
       None \<Rightarrow> map_http_err_to_response w BadRequest
     | Some answer \<Rightarrow>
         build w (set_body (as_bytes answer)
           (set_header ''location'' ''http://localhost:8080/whep''
             (set_header ''Access-Control-Allow-Origin'' (frontend_url (he_config w))
               (set_header ''Access-Control-Allow-Method'' ''POST''
                 (set_header ''content-type'' ''application/sdp'' (set_status 200 response_builder_new)))))))"

definition rooms_response :: "http_env \<Rightarrow> room_status list \<Rightarrow> panic + response" where
  "rooms_response w notification =
     build w (set_body (as_bytes (he_json w notification))
       (set_header ''content-type'' ''application/json'' (set_status 200 response_builder_new)))"

definition images_route :: "http_env \<Rightarrow> request \<Rightarrow> panic + response" where
  "images_route w req =
     (case bind_res (ok_or BadRequest (req_search req ''image'')) (\<lambda>file_name.
           bind_res (ok_or BadRequest (path_file_name file_name)) (\<lambda>parsed_name.
             ok_or NotFound (he_files w (path_push (storage_dir (he_config w)) parsed_name)))) of
        Inl e \<Rightarrow> map_http_err_to_response w e
      | Inr target_file \<Rightarrow>
          build w (add_body target_file (set_header ''Content-Type'' ''image/webp'' (set_status 200 response_builder_new))))"

definition notification_header :: "http_env \<Rightarrow> panic + response" where
  "notification_header w =
     build w (set_header ''content-type'' ''text/event-stream''
       (set_header ''Cache-control'' ''no-cache''
         (set_header ''Connection'' ''keep-alive'' (set_status 200 response_builder_new))))"

definition format_notification_to_string :: "http_env \<Rightarrow> room_status list \<Rightarrow> string" where
  "format_notification_to_string w n = ''data: '' @ he_json w n @ CRLF @ CRLF"

section \<open>One connection\<close>

text \<open>What a worker does with a request: answer, or send a command and answer with what comes back on
  its reply channel. Nothing comes back when the channel was dropped: \<open>/whip\<close> and \<open>/whep\<close> panic then,
  \<open>/rooms\<close> answers with an error, \<open>/notifications\<close> goes on waiting.\<close>

datatype exchange =
    Answer response
  | Ask server_command "effect option \<Rightarrow> panic + bytes"

definition on_reply :: "(string option \<Rightarrow> panic + response) \<Rightarrow> effect option \<Rightarrow> panic + bytes" where
  "on_reply f e = (case e of Some (Reply r) \<Rightarrow> map_res resp_inner (f r) | _ \<Rightarrow> Inl UnwrapFailed)"

definition whip_route :: "http_env \<Rightarrow> request \<Rightarrow> panic + exchange" where
  "whip_route w req = (case whip_request w req of
       Inl e \<Rightarrow> map_res Answer (map_http_err_to_response w e)
     | Inr sdp_offer \<Rightarrow> Inr (Ask (AddStreamer sdp_offer True) (on_reply (whip_response w))))"

definition whep_route :: "http_env \<Rightarrow> request \<Rightarrow> panic + exchange" where
  "whep_route w req = (case whep_request req of
       Inl e \<Rightarrow> map_res Answer (map_http_err_to_response w e)
     | Inr (body, target_id) \<Rightarrow> Inr (Ask (AddViewer body target_id True) (on_reply (whep_response w))))"

definition rooms_route :: "http_env \<Rightarrow> exchange" where
  "rooms_route w = Ask SendRoomsStatus (\<lambda>e. map_res resp_inner (case e of
       Some (Notification n) \<Rightarrow> rooms_response w n
     | _ \<Rightarrow> map_http_err_to_response w InternalServerError))"

text \<open>The event stream. Each round is a notification that came and whether it could be written; a round
  that is written asks for the next status, one that is not ends the stream. The result is what was
  written and the commands that were sent.\<close>

fun notification_loop :: "http_env \<Rightarrow> (room_status list \<times> bool) list \<Rightarrow> bytes \<times> server_command list" where
  "notification_loop w [] = ([], [])"
| "notification_loop w ((n, writes) # rounds) =
     (if \<not> writes then ([], [])
      else let (out, cmds) = notification_loop w rounds in
        (as_bytes (format_notification_to_string w n) @ out, SendRoomsStatus # cmds))"

definition notification_route ::
    "http_env \<Rightarrow> bool \<Rightarrow> (room_status list \<times> bool) list \<Rightarrow> panic + (bytes \<times> server_command list)" where
  "notification_route w writes rounds =
     bind_res (notification_header w) (\<lambda>r.
       if \<not> writes then Inr ([], [SendRoomsStatus])
       else let (out, cmds) = notification_loop w rounds in Inr (resp_inner r @ out, SendRoomsStatus # cmds))"

text \<open>The stream as far as its first event.\<close>

definition notification_exchange :: "http_env \<Rightarrow> exchange" where
  "notification_exchange w = Ask SendRoomsStatus (\<lambda>e. map_res fst
     (notification_route w True (case e of Some (Notification n) \<Rightarrow> [(n, True)] | _ \<Rightarrow> [])))"

definition serve :: "http_env \<Rightarrow> request \<Rightarrow> panic + exchange" where
  "serve w req =
     (if req_path req = ''/whip'' then whip_route w req
      else if req_path req = ''/whep'' then
        (case req_method req of
           POST \<Rightarrow> whep_route w req
         | OPTIONS \<Rightarrow> map_res Answer (options_route w)
         | _ \<Rightarrow> map_res Answer (map_http_err_to_response w MethodNotAllowed))
      else if req_path req = ''/images'' then map_res Answer (images_route w req)
      else if req_path req = ''/rooms'' then Inr (rooms_route w)
      else if req_path req = ''/notifications'' then Inr (notification_exchange w)
      else map_res Answer (map_http_err_to_response w NotFound))"

text \<open>A connection served while the command loop runs: the bytes handed to \<open>write_all\<close>, if any. That the peer
  may be gone by then, and the unwraps of the write that fails, are steps of the worker in Threads.\<close>

definition http_exchange ::
    "bool \<Rightarrow> 'x third_party \<Rightarrow> draws \<Rightarrow> http_env \<Rightarrow> bytes \<Rightarrow> 'x udp_server \<Rightarrow> panic + ('x udp_server \<times> bytes option)" where
  "http_exchange chk tp d w stream srv =
     bind_res (parse_http w stream) (\<lambda>r. case r of
       None \<Rightarrow> Inr (srv, None)
     | Some req \<Rightarrow> bind_res (serve w req) (\<lambda>ex. case ex of
         Answer resp \<Rightarrow> Inr (srv, Some (resp_inner resp))
       | Ask cmd k \<Rightarrow> bind_res (handle_command chk tp d cmd srv) (\<lambda>(srv', es).
           bind_res (k (case es of [] \<Rightarrow> None | e # _ \<Rightarrow> Some e)) (\<lambda>out. Inr (srv', Some out)))))"

end
