(* ===== verification/Session_Types.thy ===== *)
theory Session_Types
  imports Command_Loop
begin

text \<open>
  What a session is, once it is registered: its host credentials are the strings the resolver draws, of the
  lengths ICE asks for, and what a viewer negotiated fits the streamer of its room. Both are decided when
  the session is negotiated and never change, because packets and the periodic checks keep the profile of
  every session they leave.
\<close>

section \<open>Profiles\<close>

definition profile :: "'x session \<Rightarrow> (bool \<times> room_id) \<times> negotiated_session" where
  "profile s = (role s, media_session s)"

definition profiles :: "'x session_registry \<Rightarrow> (resource_id \<rightharpoonup> (bool \<times> room_id) \<times> negotiated_session)" where
  "profiles g i = map_option profile (sessions g i)"

lemma profiles_put: "sessions g i = Some s \<Longrightarrow> profile s' = profile s \<Longrightarrow> profiles (put_session i s' g) = profiles g"
  by (auto simp: profiles_def put_session_def fun_eq_iff)

lemma profiles_nominate [simp]: "profiles (snd (nominate_client c i g)) = profiles g"
  by (auto simp: profiles_def nominate_client_def put_session_def profile_def role_def fun_eq_iff Let_def split: option.splits)

lemma profile_upd [simp]:
  "profile (s\<lparr>ttl := n\<rparr>) = profile s" "profile (s\<lparr>sess_client := c\<rparr>) = profile s"
  "profile (s\<lparr>connection_type := Streamer st\<rparr>) = ((True, owned_room_id st), media_session s)"
  by (simp_all add: profile_def role_def)

lemma profile_same: "same_identity s s' \<Longrightarrow> profile s' = profile s"
  by (simp add: same_identity_def profile_def)

section \<open>The types of sessions\<close>

definition credentials_ok :: "ice_credentials \<Rightarrow> bool" where
  "credentials_ok c \<longleftrightarrow> length (host_username c) = 4 \<and> length (host_password c) = 22
     \<and> (\<forall>ch \<in> set (host_username c) \<union> set (host_password c). alphanumeric (of_char ch))"

definition serves :: "negotiated_session \<Rightarrow> negotiated_session \<Rightarrow> bool" where
  "serves str v \<longleftrightarrow> as_codec (audio_session v) = as_codec (audio_session str)
     \<and> vs_codec (video_session v) = vs_codec (video_session str)
     \<and> vs_capabilities (video_session v) = vs_capabilities (video_session str)"

definition typed :: "'x session_registry \<Rightarrow> bool" where
  "typed g \<longleftrightarrow> (\<forall>i ro ms. profiles g i = Some (ro, ms) \<longrightarrow> credentials_ok (ice_credentials ms))
     \<and> (\<forall>i j r ms ms'. profiles g i = Some ((True, r), ms) \<and> profiles g j = Some ((False, r), ms') \<longrightarrow> serves ms ms')"

lemma typed_mono: "typed g \<Longrightarrow> profiles g' \<subseteq>\<^sub>m profiles g \<Longrightarrow> typed g'"
  unfolding typed_def map_le_def by (metis domI)

lemma typed_new [simp]: "typed registry_new"
  by (simp add: typed_def profiles_def registry_new_def)

lemma random_string_alphanumeric:
  assumes "\<And>k. alphanumeric (f k)" "ch \<in> set (get_random_string n f)"
  shows "alphanumeric (of_char ch)"
proof -
  from assms(2) obtain k where ch: "ch = char_of (unat (f k))" by (auto simp: get_random_string_def)
  have "unat (f k) < 256" using unsigned_less [of "f k"] by simp
  then have "(of_char ch :: nat) = unat (f k)" unfolding ch by (simp only: of_char_of mod_less)
  then have "(of_char ch :: u8) = f k" by (metis of_nat_of_char of_nat_unat ucast_id)
  with assms(1) show ?thesis by simp
qed

lemma credentials_typed: "get_ice_credentials rnd s = Some c \<Longrightarrow> random_ok rnd \<Longrightarrow> credentials_ok c"
  using random_string_alphanumeric [of "rnd_username rnd" _ 4] random_string_alphanumeric [of "rnd_password rnd" _ 22]
  by (auto simp: credentials_ok_def random_ok_def dest!: get_ice_credentials_host)

lemma stream_typed:
  assumes "accept_stream_offer self rnd raw = Inr ns" "random_ok rnd"
  shows "credentials_ok (ice_credentials ns)"
proof -
  from assms(1) obtain s where "parse_stream_offer self rnd s = Inr ns" by (auto simp: accept_stream_offer_def bind_res_eq_Inr)
  from stream_offer_parts [OF this] credentials_typed [OF _ assms(2)] show ?thesis by blast
qed

lemma viewer_typed:
  assumes "accept_viewer_offer self rnd raw str = Inr ns" "random_ok rnd"
  shows "credentials_ok (ice_credentials ns) \<and> serves str ns"
proof -
  from assms(1) obtain s where "parse_viewer_offer self rnd s str = Inr ns" by (auto simp: accept_viewer_offer_def bind_res_eq_Inr)
  from viewer_offer_parts [OF this] obtain am vm where "get_ice_credentials rnd s = Some (ice_credentials ns)"
      "get_viewer_audio_session (rnd_audio_ssrc rnd) (audio_section s) (audio_session str) = Inr (audio_session ns)"
      "get_viewer_video_session (rnd_video_ssrc rnd) (video_section s) (video_session str) = Inr (video_session ns)" by blast
  with credentials_typed [OF _ assms(2)] viewer_audio_result(1) viewer_video_result(1,2) show ?thesis
    unfolding serves_def by blast
qed

section \<open>Sessions that join\<close>

lemma typed_streamer:
  assumes "typed g" "reg_inv g" "fresh_ids r i g" "credentials_ok (ice_credentials ns)"
  shows "typed (register_streamer (streamer_session dec i now ns r) r g)"
proof -
  have p: "profiles (register_streamer (streamer_session dec i now ns r) r g) = (profiles g)(i \<mapsto> ((True, r), ns))"
    by (auto simp: register_streamer_def profiles_def fun_eq_iff streamer_session_def profile_def role_def)
  have "profiles g j \<noteq> Some ((False, r), ms)" for j ms
    using assms(3) by (auto simp: fresh_ids_def views_def profiles_def profile_def)
  with assms(1,4) show ?thesis unfolding typed_def p by (auto split: if_splits)
qed

lemma typed_viewer:
  assumes "typed g" "credentials_ok (ice_credentials ns)" "sessions g' = (sessions g)(i \<mapsto> session_new_viewer i now r ns)"
    and "\<And>j ms. profiles g j = Some ((True, r), ms) \<Longrightarrow> serves ms ns"
  shows "typed g'"
proof -
  have p: "profiles g' = (profiles g)(i \<mapsto> ((False, r), ns))"
    using assms(3) by (auto simp: profiles_def fun_eq_iff session_new_viewer_def profile_def role_def)
  with assms(1,2,4) show ?thesis unfolding typed_def p by (auto split: if_splits)
qed

end
