(* ===== verification/Sdp_Demo.thy ===== *)
theory Sdp_Demo
  imports Sdp_Answer "HOL-Library.List_Lexorder" "HOL-Library.Char_ord"
begin

text \<open>
  Concrete offers, a resolver and random values, at which the theorems on the negotiation are
  instantiated: a WHIP offer of a streamer and a WHEP offer of a viewer that fits it.
\<close>

definition demo_resolver :: sdp_resolver where
  "demo_resolver = \<lparr>res_fingerprint = \<lparr>hash_function = SHA256, hash = ''AB:CD''\<rparr>,
     res_candidate = \<lparr>foundation = ''1'', component_id = 1, priority = 2015363327,
       connection_address = V4 0x7F000001, port = 52000\<rparr>\<rparr>"

text \<open>Samples that spell a word.\<close>

definition demo_samples :: "string \<Rightarrow> samples" where
  "demo_samples s k = (if k < length s then of_nat (of_char (s ! k)) else 97)"

lemma demo_samples_spell: "get_random_string (length s) (demo_samples s) = s"
proof (rule nth_equalityI)
  fix k
  assume "k < length (get_random_string (length s) (demo_samples s))"
  moreover have "(of_char c :: nat) < 256" for c by simp
  then have "unat (of_nat (of_char c) :: u8) = of_char c" for c by (simp add: unat_of_nat)
  ultimately show "get_random_string (length s) (demo_samples s) ! k = s ! k"
    by (simp add: get_random_string_def demo_samples_def)
qed simp

lemma demo_samples_alphanumeric:
  "\<forall>c \<in> set s. alphanumeric (of_nat (of_char c)) \<Longrightarrow> alphanumeric (demo_samples s k)"
  by (auto simp: demo_samples_def) (simp add: alphanumeric_def)

definition demo_random :: host_random where
  "demo_random = \<lparr>rnd_username = demo_samples ''hU5r'', rnd_password = demo_samples ''0123456789abcdefghijkl'',
     rnd_audio_ssrc = 11, rnd_video_ssrc = 22\<rparr>"

lemma demo_random_parts:
  "get_random_string 4 (rnd_username demo_random) = ''hU5r''"
  "get_random_string 22 (rnd_password demo_random) = ''0123456789abcdefghijkl''"
  "rnd_audio_ssrc demo_random = 11" "rnd_video_ssrc demo_random = 22"
  using demo_samples_spell [of "''hU5r''"] demo_samples_spell [of "''0123456789abcdefghijkl''"]
  by (simp_all add: demo_random_def numeral_eq_Suc)

lemma demo_random_ok: "random_ok demo_random"
proof -
  have "\<forall>c \<in> set ''hU5r''. alphanumeric (of_nat (of_char c))" "\<forall>c \<in> set ''0123456789abcdefghijkl''. alphanumeric (of_nat (of_char c))"
    by (simp_all add: alphanumeric_def)
  then show ?thesis using demo_samples_alphanumeric unfolding random_ok_def demo_random_def by simp
qed

definition demo_iter :: set_order where
  "demo_iter S = sorted_list_of_set S"

definition demo_whip_lines :: "string list" where
  "demo_whip_lines = [''v=0'', ''o=- 0 0 IN IP4 127.0.0.1'', ''s=-'', ''t=0 0'',
     ''a=group:BUNDLE 0 1'', ''a=setup:actpass'', ''a=ice-ufrag:E2Fr'', ''a=ice-pwd:OpQzg1'',
     ''m=audio 9 UDP/TLS/RTP/SAVPF 111'', ''a=mid:0'', ''a=sendonly'', ''a=rtcp-mux'',
     ''a=rtpmap:111 opus/48000/2'',
     ''m=video 9 UDP/TLS/RTP/SAVPF 96'', ''a=mid:1'', ''a=sendonly'', ''a=rtcp-mux'',
     ''a=rtpmap:96 H264/90000'', ''a=fmtp:96 profile-level-id=42e01f;packetization-mode=1'']"

definition demo_whep_lines :: "string list" where
  "demo_whep_lines = [''v=0'', ''o=- 0 0 IN IP4 127.0.0.1'', ''s=-'', ''t=0 0'',
     ''a=group:BUNDLE 0 1'', ''a=ice-ufrag:vW8x'', ''a=ice-pwd:Zz9'',
     ''m=audio 9 UDP/TLS/RTP/SAVPF 109'', ''a=mid:0'', ''a=recvonly'', ''a=setup:actpass'', ''a=rtcp-mux'',
     ''a=rtpmap:109 opus/48000/2'',
     ''m=video 9 UDP/TLS/RTP/SAVPF 126'', ''a=mid:1'', ''a=recvonly'', ''a=setup:actpass'', ''a=rtcp-mux'',
     ''a=rtpmap:126 H264/90000'', ''a=fmtp:126 packetization-mode=1;profile-level-id=42e01f'']"

definition demo_whip :: string where
  "demo_whip = join CRLF demo_whip_lines @ CRLF"

definition demo_whep :: string where
  "demo_whep = join CRLF demo_whep_lines @ CRLF"

definition demo_caps :: "string set" where
  "demo_caps = {''profile-level-id=42e01f'', ''packetization-mode=1''}"

definition demo_whip_sdp :: sdp where
  "demo_whip_sdp = \<lparr>
     session_section = [ProtocolVersion ''0'',
       OriginatorLine \<lparr>o_username = ''-'', o_session_id = ''0'', o_session_version = ''0'', o_ip_addr = V4 0x7F000001\<rparr>,
       SessionName ''-'', SessionTimeLine \<lparr>start_time = 0, end_time = 0\<rparr>,
       AttributeLine (MediaGroupAttr (Bundle [''0'', ''1''])), AttributeLine (SetupAttr ActivePassive),
       AttributeLine (ICEUsernameAttr \<lparr>username = ''E2Fr''\<rparr>), AttributeLine (ICEPasswordAttr \<lparr>password = ''OpQzg1''\<rparr>)],
     video_section = [MediaDescriptionLine \<lparr>md_media_type = Video, md_transport_port = 9,
         md_transport_protocol = DtlsSrtp, md_media_format_description = [96]\<rparr>,
       AttributeLine (MediaIDAttr \<lparr>mid_id = ''1''\<rparr>), AttributeLine SendOnly, AttributeLine RTCPMux,
       AttributeLine (RTPMapAttr \<lparr>rtpmap_codec = VideoCodec H264, rtpmap_payload_number = 96\<rparr>),
       AttributeLine (FMTPAttr \<lparr>fmtp_payload_number = 96, format_capability = demo_caps\<rparr>)],
     audio_section = [MediaDescriptionLine \<lparr>md_media_type = Audio, md_transport_port = 9,
         md_transport_protocol = DtlsSrtp, md_media_format_description = [111]\<rparr>,
       AttributeLine (MediaIDAttr \<lparr>mid_id = ''0''\<rparr>), AttributeLine SendOnly, AttributeLine RTCPMux,
       AttributeLine (RTPMapAttr \<lparr>rtpmap_codec = AudioCodec Opus, rtpmap_payload_number = 111\<rparr>)]\<rparr>"

definition demo_whep_sdp :: sdp where
  "demo_whep_sdp = \<lparr>
     session_section = [ProtocolVersion ''0'',
       OriginatorLine \<lparr>o_username = ''-'', o_session_id = ''0'', o_session_version = ''0'', o_ip_addr = V4 0x7F000001\<rparr>,
       SessionName ''-'', SessionTimeLine \<lparr>start_time = 0, end_time = 0\<rparr>,
       AttributeLine (MediaGroupAttr (Bundle [''0'', ''1''])),
       AttributeLine (ICEUsernameAttr \<lparr>username = ''vW8x''\<rparr>), AttributeLine (ICEPasswordAttr \<lparr>password = ''Zz9''\<rparr>)],
     video_section = [MediaDescriptionLine \<lparr>md_media_type = Video, md_transport_port = 9,
         md_transport_protocol = DtlsSrtp, md_media_format_description = [126]\<rparr>,
       AttributeLine (MediaIDAttr \<lparr>mid_id = ''1''\<rparr>), AttributeLine ReceiveOnly, AttributeLine (SetupAttr ActivePassive),
       AttributeLine RTCPMux,
       AttributeLine (RTPMapAttr \<lparr>rtpmap_codec = VideoCodec H264, rtpmap_payload_number = 126\<rparr>),
       AttributeLine (FMTPAttr \<lparr>fmtp_payload_number = 126, format_capability = demo_caps\<rparr>)],
     audio_section = [MediaDescriptionLine \<lparr>md_media_type = Audio, md_transport_port = 9,
         md_transport_protocol = DtlsSrtp, md_media_format_description = [109]\<rparr>,
       AttributeLine (MediaIDAttr \<lparr>mid_id = ''0''\<rparr>), AttributeLine ReceiveOnly, AttributeLine (SetupAttr ActivePassive),
       AttributeLine RTCPMux,
       AttributeLine (RTPMapAttr \<lparr>rtpmap_codec = AudioCodec Opus, rtpmap_payload_number = 109\<rparr>)]\<rparr>"

text \<open>The demonstration iterator keeps the promise of \<open>HashSet\<close>.\<close>

lemma demo_iter_iterates: "iterates demo_iter"
  by (simp add: iterates_def demo_iter_def)

lemmas line_parser_defs =
  sdp_line_try_from_def attribute_try_from_def attribute_of_key_def ice_username_try_from_def
  ice_password_try_from_def media_id_try_from_def media_group_try_from_def rtp_map_try_from_def
  fmtp_try_from_def setup_try_from_def session_time_try_from_def media_description_try_from_def
  media_type_try_from_def media_transport_protocol_try_from_def originator_try_from_def
  parse_usize_def parse_uint_def digit_val_def usize_max_def to_ascii_lowercase_def ascii_lower_def
  char_of_eq_iff

lemma ipv4_loopback: "ipv4_from_str ''127.0.0.1'' = Some 0x7F000001"
  by (simp add: ipv4_from_str_def parse_all_def read_ipv4_addr_def octet_reader_def read_separator_def
      read_number_def read_given_char_def to_digit_def rd32_def)

text \<open>Reading the two offers, line by line.\<close>

lemma demo_whip_collected:
  "collect_res sdp_line_try_from demo_whip_lines
     = Inr (session_section demo_whip_sdp @ audio_section demo_whip_sdp @ video_section demo_whip_sdp)"
  by (simp add: demo_whip_lines_def demo_whip_sdp_def demo_caps_def line_parser_defs ipv4_loopback)

lemma demo_whep_collected:
  "collect_res sdp_line_try_from demo_whep_lines
     = Inr (session_section demo_whep_sdp @ audio_section demo_whep_sdp @ video_section demo_whep_sdp)"
  by (simp add: demo_whep_lines_def demo_whep_sdp_def demo_caps_def line_parser_defs ipv4_loopback insert_commute)

lemma demo_lines: "str_lines demo_whip = demo_whip_lines" "str_lines demo_whep = demo_whep_lines"
proof -
  have one: "str_lines (join CRLF ls @ CRLF) = ls" if "list_all (\<lambda>l. LF \<notin> set l) ls" "ls \<noteq> []" for ls
    using str_lines_join [of ls "[]"] that by (auto simp: list_all_iff)
  show "str_lines demo_whip = demo_whip_lines"
    unfolding demo_whip_def by (rule one) (simp_all add: demo_whip_lines_def)
  show "str_lines demo_whep = demo_whep_lines"
    unfolding demo_whep_def by (rule one) (simp_all add: demo_whep_lines_def)
qed

lemma demo_sectioned: "well_sectioned demo_whip_sdp" "well_sectioned demo_whep_sdp"
  by (simp_all add: well_sectioned_def demo_whip_sdp_def demo_whep_sdp_def no_media_def)

lemma demo_parsed: "get_sdp demo_whip = Inr demo_whip_sdp" "get_sdp demo_whep = Inr demo_whep_sdp"
proof -
  have "filter (\<lambda>l. l \<noteq> []) demo_whip_lines = demo_whip_lines"
    "filter (\<lambda>l. l \<noteq> []) demo_whep_lines = demo_whep_lines"
    by (simp_all add: demo_whip_lines_def demo_whep_lines_def)
  then show "get_sdp demo_whip = Inr demo_whip_sdp" "get_sdp demo_whep = Inr demo_whep_sdp"
    using demo_sectioned demo_whip_collected demo_whep_collected
    by (simp_all add: get_sdp_def demo_lines bind_res_eq_Inr sections_of_iff)
qed

definition demo_streamer :: negotiated_session where
  "demo_streamer = (let a = \<lparr>as_codec = Opus, as_payload_number = 111, as_host_ssrc = 11, as_remote_ssrc = None\<rparr>;
     v = \<lparr>vs_codec = H264, vs_payload_number = 96, vs_host_ssrc = 22, vs_remote_ssrc = None, vs_capabilities = demo_caps\<rparr>;
     c = \<lparr>host_username = ''hU5r'', host_password = ''0123456789abcdefghijkl'',
          remote_username = ''E2Fr'', remote_password = ''OpQzg1''\<rparr>
   in \<lparr>sdp_answer = answer_sdp ReceiveOnly demo_resolver \<lparr>mid_id = ''0''\<rparr> \<lparr>mid_id = ''1''\<rparr> c a v,
       ice_credentials = c, video_session = v, audio_session = a\<rparr>)"

definition demo_viewer :: negotiated_session where
  "demo_viewer = (let a = \<lparr>as_codec = Opus, as_payload_number = 109, as_host_ssrc = 11, as_remote_ssrc = None\<rparr>;
     v = \<lparr>vs_codec = H264, vs_payload_number = 126, vs_host_ssrc = 22, vs_remote_ssrc = None, vs_capabilities = demo_caps\<rparr>;
     c = \<lparr>host_username = ''hU5r'', host_password = ''0123456789abcdefghijkl'',
          remote_username = ''vW8x'', remote_password = ''Zz9''\<rparr>
   in \<lparr>sdp_answer = answer_sdp SendOnly demo_resolver \<lparr>mid_id = ''0''\<rparr> \<lparr>mid_id = ''1''\<rparr> c a v,
       ice_credentials = c, video_session = v, audio_session = a\<rparr>)"

lemmas negotiation_defs =
  get_media_ids_def get_ice_credentials_def get_streamer_audio_session_def get_streamer_video_session_def
  get_viewer_audio_session_def get_viewer_video_session_def nth_or_def Let_def
  ACCEPTED_AUDIO_CODEC_def ACCEPTED_VIDEO_CODEC_def answer_sdp_def demo_random_parts demo_streamer_def

lemma demo_stream_accepted: "accept_stream_offer demo_resolver demo_random demo_whip = Inr demo_streamer"
  by (simp add: accept_stream_offer_def demo_parsed parse_stream_offer_def demo_whip_sdp_def negotiation_defs)

lemma demo_viewer_accepted: "accept_viewer_offer demo_resolver demo_random demo_whep demo_streamer = Inr demo_viewer"
  by (simp add: accept_viewer_offer_def demo_parsed parse_viewer_offer_def demo_whep_sdp_def negotiation_defs demo_viewer_def)

lemma demo_host_ok: "resolver_ok demo_resolver" "random_ok demo_random"
  by (simp_all add: resolver_ok_def demo_random_ok demo_resolver_def valid_candidate_def
      valid_fingerprint_def no_sp_def usize_max_def)

section \<open>The theorems at the demonstration offers\<close>

theorem accepted_stream_offer_witness:
  "accept_stream_offer demo_resolver demo_random demo_whip = Inr demo_streamer
     \<and> offers_video (video_section demo_whip_sdp) (video_session demo_streamer)"
  using accepted_stream_offer [OF demo_stream_accepted] demo_stream_accepted by (auto simp: demo_parsed)

theorem accepted_viewer_offer_witness:
  "accept_viewer_offer demo_resolver demo_random demo_whep demo_streamer = Inr demo_viewer
     \<and> vs_capabilities (video_session demo_viewer) = vs_capabilities (video_session demo_streamer)"
  using accepted_viewer_offer [OF demo_viewer_accepted] demo_viewer_accepted by auto

theorem answer_readable_witness:
  "(\<exists>txt. string_from_sdp demo_iter (sdp_answer demo_streamer) = Inr txt
     \<and> get_sdp txt = Inr (sdp_as_parsed (sdp_answer demo_streamer)))
   \<and> (\<exists>txt. string_from_sdp demo_iter (sdp_answer demo_viewer) = Inr txt
     \<and> get_sdp txt = Inr (sdp_as_parsed (sdp_answer demo_viewer)))"
  using answer_readable [of demo_resolver demo_random demo_whip demo_streamer demo_streamer demo_iter]
    answer_readable [of demo_resolver demo_random demo_whep demo_viewer demo_streamer demo_iter]
    demo_stream_accepted demo_viewer_accepted demo_host_ok demo_iter_iterates
  by auto

end
