(* ===== verification/Command_Loop_Props.thy ===== *)
theory Command_Loop_Props
  imports Session_Types Sdp_Demo
begin

text \<open>
  What the command loop guarantees: no sequence of admitted commands makes the server thread panic, from
  the moment the server is made; the periodic checks remove exactly the stale sessions and save exactly
  the thumbnails that are due; viewers are only added to rooms that exist; the rooms' status is exact.
\<close>

section \<open>Packets change neither the members nor the resolver\<close>

text \<open>Who streams into which room, and who watches which.\<close>

type_synonym directory = "resource_id \<rightharpoonup> bool \<times> room_id"

definition members :: "'x session_registry \<Rightarrow> directory" where
  "members g i = map_option role (sessions g i)"

lemma members_profiles: "members g i = map_option fst (profiles g i)"
  by (simp add: members_def profiles_def profile_def option.map_comp comp_def)

lemma members_put: "sessions g i = Some s \<Longrightarrow> role s' = role s \<Longrightarrow> members (put_session i s' g) = members g"
  by (auto simp: members_def put_session_def fun_eq_iff)

lemma members_nominate [simp]: "members (snd (nominate_client c i g)) = members g"
  by (auto simp: members_def nominate_client_def put_session_def role_def fun_eq_iff Let_def split: option.splits)

lemma members_map [simp]: "members (g\<lparr>address_map := a\<rparr>) = members g" "members (g\<lparr>rooms := r\<rparr>) = members g"
  by (simp_all add: members_def fun_eq_iff)

lemma role_upd [simp]:
  "role (s\<lparr>ttl := n\<rparr>) = role s" "role (s\<lparr>sess_client := c\<rparr>) = role s"
  "role (s\<lparr>connection_type := Streamer st\<rparr>) = (True, owned_room_id st)"
  by (simp_all add: role_def)

lemma mut_stored:
  "get_session_by_username_mut u g = Some (i, s) \<Longrightarrow> sessions g i = Some s"
  "get_session_by_address_mut a g = Some (i, s) \<Longrightarrow> sessions g i = Some s"
  by (auto simp: get_session_by_username_mut_def get_session_by_address_mut_def bind_eq_Some_conv)

definition keeps :: "'x udp_server \<Rightarrow> 'x udp_server \<Rightarrow> bool" where
  "keeps srv srv' \<longleftrightarrow> sdp_resolver srv' = sdp_resolver srv \<and> profiles (session_registry srv') = profiles (session_registry srv)"

lemma keeps_members: "keeps srv srv' \<Longrightarrow> members (session_registry srv') = members (session_registry srv)"
  by (simp add: keeps_def members_profiles fun_eq_iff)

lemma forward_to_viewer_keeps:
  "forward_to_viewer tp rem v srv = Inr (srv', outs) \<Longrightarrow> keeps srv srv'"
  by (auto simp: keeps_def forward_to_viewer_def get_session_def ok_or_eq_Inr profiles_put Let_def
      split: option.splits client_ssl_state.splits prod.splits elim!: bind_resE)

lemma forward_to_viewers_keeps:
  "forward_to_viewers tp rem vs srv = Inr (srv', outs) \<Longrightarrow> keeps srv srv'"
proof (induction vs arbitrary: srv outs)
  case (Cons v vs)
  then obtain srv1 outs1 outs2 where "forward_to_viewer tp rem v srv = Inr (srv1, outs1)"
      "forward_to_viewers tp rem vs srv1 = Inr (srv', outs2)"
    by (auto elim!: bind_resE)
  with Cons.IH forward_to_viewer_keeps show ?case by (fastforce simp: keeps_def)
qed (simp add: keeps_def)

lemma media_packet_keeps:
  assumes "media_packet tp ord rem i s c st e srv = Inr (srv', outs)"
    and "sessions (session_registry srv) i = Some s0" "profile s0 = ((True, owned_room_id st), media_session s)"  "profile s = profile s0"
  shows "keeps srv srv'"
proof -
  obtain r ib where r: "tp_unprotect tp (inbound_buffer srv) (srtp_inbound e) = (r, ib)" by force
  show ?thesis
  proof (cases r)
    case None
    with assms r show ?thesis by (auto simp: media_packet_def keeps_def Let_def profiles_put)
  next
    case (Some plain)
    with assms r show ?thesis
      by (auto simp: media_packet_def Let_def map_res_eq_Inr keeps_def profiles_put split: if_splits
          elim!: bind_resE dest!: forward_to_viewers_keeps)
  qed
qed

lemma handshake_packet_keeps:
  "handshake_packet tp i s c srv = Inr (srv', outs) \<Longrightarrow> sessions (session_registry srv) i = Some s0 \<Longrightarrow> profile s = profile s0 \<Longrightarrow> keeps srv srv'"
  by (auto simp: handshake_packet_def keeps_def profiles_put elim!: bind_resE)

lemma handle_other_keeps:
  assumes "handle_other_packets tp ord now rem srv = Inr (srv', outs)"
  shows "keeps srv srv'"
proof -
  have self: "keeps srv srv" by (simp add: keeps_def)
  show ?thesis
  proof (cases "get_session_by_address_mut rem (session_registry srv)")
    case (Some p)
    obtain i s where p: "p = (i, s)" by force
    have s: "sessions (session_registry srv) i = Some s" using Some p mut_stored(2) by simp
    note hs = handshake_packet_keeps [OF _ s, of tp "s\<lparr>ttl := now\<rparr>"]
      and media = media_packet_keeps [OF _ s, of tp ord rem "s\<lparr>ttl := now\<rparr>"]
    have put: "keeps srv (set_registry (put_session i (s\<lparr>ttl := now\<rparr>) (session_registry srv)) srv)"
      using s by (simp add: keeps_def profiles_put)
    from assms Some p self put show ?thesis
      by (auto simp: handle_other_packets_def Let_def role_def profile_def
          split: option.splits connection_type.splits client_ssl_state.splits dest!: hs media)
  qed (use assms self in \<open>simp add: handle_other_packets_def\<close>)
qed

lemma handle_stun_keeps:
  assumes "handle_stun_packet chk tp now rem m srv = Inr (srv', outs)"
  shows "keeps srv srv'"
proof -
  let ?u = "username_attribute (message_packet m)" and ?g = "session_registry srv"
  have self: "keeps srv srv" by (simp add: keeps_def)
  show ?thesis
  proof (cases "get_session_by_username_mut ?u ?g")
    case None
    with assms self show ?thesis by (cases m) (simp_all add: handle_stun_packet_def)
  next
    case (Some p)
    obtain i s where p: "p = (i, s)" by force
    have "profiles (put_session i (s\<lparr>ttl := now\<rparr>) ?g) = profiles ?g"
      by (rule profiles_put [of _ _ s]) (use Some p in \<open>simp_all add: mut_stored(1)\<close>)
    with assms Some p show ?thesis
      by (cases m) (auto simp: handle_stun_packet_def Let_def keeps_def elim!: bind_resE split: if_splits sum.splits)
  qed
qed

lemma process_packet_keeps:
  assumes "process_packet chk tp ord now data rem srv = Inr (srv', outs)"
  shows "keeps srv srv'"
proof -
  let ?srv = "srv\<lparr>inbound_buffer := data\<rparr>"
  from assms obtain r where r: "get_stun_packet chk data = Inr r" by (auto simp: process_packet_def Let_def elim: bind_resE)
  have "keeps ?srv srv'"
    using assms r handle_other_keeps [of tp ord now rem ?srv srv' outs] handle_stun_keeps [of chk tp now rem _ ?srv srv' outs]
    by (cases r) (auto simp: process_packet_def)
  then show ?thesis by (simp add: keeps_def)
qed

section \<open>The periodic checks\<close>

lemma update_thumbnail_keeps:
  "same_identity s (fst (update_thumbnail now s))" "ttl (fst (update_thumbnail now s)) = ttl s"
  "sess_client (fst (update_thumbnail now s)) = sess_client s"
  by (auto simp: update_thumbnail_def same_identity_def address_of_def role_def split: connection_type.splits option.splits)

lemma update_thumbnails_spec:
  assumes "server_ok g" "distinct ids" "update_thumbnails now ids g = (g', ts)"
  shows "server_ok g' \<and> sessions g' = (\<lambda>i. if i \<in> set ids then map_option (\<lambda>s. fst (update_thumbnail now s)) (sessions g i) else sessions g i)
     \<and> ts = filter_map (\<lambda>i. Option.bind (sessions g i) (\<lambda>s. snd (update_thumbnail now s))) ids"
  using assms
proof (induction ids arbitrary: g g' ts)
  case Nil
  then show ?case by simp
next
  case (Cons i ids)
  show ?case
  proof (cases "sessions g i")
    case None
    with Cons.prems Cons.IH [of g g' ts] show ?thesis by (auto simp: fun_eq_iff)
  next
    case (Some s)
    obtain s' t where s': "update_thumbnail now s = (s', t)" by force
    let ?g = "put_session i s' g"
    obtain g1 ts1 where g1: "update_thumbnails now ids ?g = (g1, ts1)" by force
    have "server_ok ?g"
      using put_server_ok [OF Cons.prems(1) Some, of s'] update_thumbnail_keeps [where s = s and now = now] s'
        alive_client [OF Cons.prems(1) Some] by (metis fst_conv)
    from Cons.IH [OF this _ g1] Cons.prems(2)
    have "server_ok g1" "sessions g1 = (\<lambda>k. if k \<in> set ids then map_option (\<lambda>s. fst (update_thumbnail now s)) (sessions ?g k) else sessions ?g k)"
      "ts1 = filter_map (\<lambda>k. Option.bind (sessions ?g k) (\<lambda>s. snd (update_thumbnail now s))) ids" by auto
    moreover have "filter_map (\<lambda>k. Option.bind (sessions ?g k) (\<lambda>s. snd (update_thumbnail now s))) ids
        = filter_map (\<lambda>k. Option.bind (sessions g k) (\<lambda>s. snd (update_thumbnail now s))) ids"
      by (rule filter_map_cong) (use Cons.prems(2) in \<open>auto simp: put_session_def\<close>)
    ultimately show ?thesis
      using Cons.prems(2,3) Some s' g1 by (auto simp: put_session_def fun_eq_iff split: option.splits)
  qed
qed

lemma remove_server_ok:
  assumes "server_ok g" "sessions g i = Some s"
  shows "\<exists>g'. remove_session i g = Inr g' \<and> server_ok g' \<and> sessions g' = (sessions g)(i := None)"
proof -
  from assms obtain g' where g': "remove_session i g = Inr g'" "reg_inv g'"
    using remove_session_inv [of g i s] by (auto simp: server_ok_def)
  with assms remove_session_effect(1) [OF assms(2) g'(1)] show ?thesis
    by (auto simp: server_ok_def alive_def short_names_def)
qed

lemma remove_stale_spec:
  assumes "server_ok g" "distinct (map fst ss)" "\<forall>(i, t) \<in> set ss. sessions g i \<noteq> None"
  shows "\<exists>g'. remove_stale now ss g = Inr g' \<and> server_ok g'
     \<and> sessions g' = (\<lambda>i. if \<exists>t. (i, t) \<in> set ss \<and> stale now t then None else sessions g i)"
  using assms
proof (induction ss arbitrary: g)
  case Nil
  then show ?case by simp
next
  case (Cons x ss)
  obtain i t where x: "x = (i, t)" by force
  show ?case
  proof (cases "stale now t")
    case False
    with Cons.prems Cons.IH [of g] x show ?thesis by (auto simp: fun_eq_iff)
  next
    case True
    from Cons.prems(3) x obtain s where "sessions g i = Some s" by auto
    with remove_server_ok [OF Cons.prems(1)] obtain g1 where
      g1: "remove_session i g = Inr g1" "server_ok g1" "sessions g1 = (sessions g)(i := None)" by blast
    have "\<forall>(j, t) \<in> set ss. sessions g1 j \<noteq> None"
      using Cons.prems(2,3) x g1(3) by (force simp: fun_upd_apply)
    with Cons.IH [OF g1(2)] Cons.prems(2) obtain g' where g': "remove_stale now ss g1 = Inr g'" "server_ok g'"
      "sessions g' = (\<lambda>j. if \<exists>t. (j, t) \<in> set ss \<and> stale now t then None else sessions g1 j)" by auto
    from g'(3) g1(3) True x have "sessions g' = (\<lambda>j. if \<exists>t. (j, t) \<in> set (x # ss) \<and> stale now t then None else sessions g j)"
      by (auto simp: fun_eq_iff)
    with g'(1,2) g1(1) True x show ?thesis by simp
  qed
qed

lemma all_sessions_map:
  assumes "reg_inv g" "set (ord (dom (sessions g))) = dom (sessions g)"
  shows "map (\<lambda>s. (sess_id s, f s)) (get_all_sessions ord g) = map (\<lambda>i. (i, f (the (sessions g i)))) (ord (dom (sessions g)))"
proof -
  have "set ids \<subseteq> dom (sessions g) \<Longrightarrow>
      map (\<lambda>s. (sess_id s, f s)) (filter_map (sessions g) ids) = map (\<lambda>i. (i, f (the (sessions g i)))) ids" for ids
    by (induction ids) (auto simp: reg_invD(1) [OF assms(1)])
  with assms(2) show ?thesis by (simp add: get_all_sessions_def)
qed

text \<open>The rooms of a consistent registry are determined by its sessions.\<close>

lemma room_iff:
  assumes "reg_inv g"
  shows "rooms g r = Some rm \<longleftrightarrow> rid rm = r \<and> owns g (owner_id rm) r \<and> viewer_ids rm = {v. views g v r}"
proof
  assume "rid rm = r \<and> owns g (owner_id rm) r \<and> viewer_ids rm = {v. views g v r}"
  moreover from this reg_invD(5) [OF assms, of "owner_id rm" r] obtain rm' where
    "rooms g r = Some rm'" "owner_id rm' = owner_id rm" by blast
  ultimately show "rooms g r = Some rm"
    using reg_invD(4) [OF assms, of r rm'] by (cases rm; cases rm') auto
qed (rule reg_invD(4) [OF assms])

lemma one_owner: "reg_inv g \<Longrightarrow> owns g i r \<Longrightarrow> owns g j r \<Longrightarrow> i = j"
  using reg_invD(5) [of g i r] reg_invD(5) [of g j r] by auto

text \<open>What the checks do to a registry: a session is kept, with its thumbnail time updated, unless it is
  stale.\<close>

definition checked :: "instant \<Rightarrow> 'x session option \<Rightarrow> 'x session option" where
  "checked now r = Option.bind r (\<lambda>s. if stale now (ttl s) then None else Some (fst (update_thumbnail now s)))"

lemma role_update_thumbnail [simp]: "role (fst (update_thumbnail now s)) = role s"
  using update_thumbnail_keeps(1) [where s = s and now = now] by (simp add: same_identity_def)

lemma run_periodic_checks_spec:
  assumes "server_ok (session_registry srv)" "enumerates ord"
  shows "\<exists>g'. run_periodic_checks now ord srv = Inr (set_registry g' srv,
       map (\<lambda>(r, pic). SaveThumbnail r pic) (filter_map (\<lambda>i. Option.bind (get_session i (session_registry srv))
         (\<lambda>s. snd (update_thumbnail now s))) (ord (dom (sessions (session_registry srv))))))
     \<and> server_ok g' \<and> (\<forall>i. get_session i g' = checked now (get_session i (session_registry srv)))"
proof -
  let ?g = "session_registry srv"
  have "finite (dom (sessions ?g))" using assms(1) by (simp add: server_ok_def reg_inv_def sessions_ok_def)
  with assms(2) have o: "set (ord (dom (sessions ?g))) = dom (sessions ?g)" "distinct (ord (dom (sessions ?g)))"
    by (auto simp: enumerates_def)
  obtain g1 ts where g1: "update_thumbnails now (ord (dom (sessions ?g))) ?g = (g1, ts)" by force
  from update_thumbnails_spec [OF assms(1) o(2) g1] o(1) have ok1: "server_ok g1"
    and s1: "sessions g1 i = map_option (\<lambda>s. fst (update_thumbnail now s)) (sessions ?g i)"
    and ts: "ts = filter_map (\<lambda>i. Option.bind (sessions ?g i) (\<lambda>s. snd (update_thumbnail now s))) (ord (dom (sessions ?g)))" for i
    by (auto simp: domIff split: if_splits)
  let ?ss = "map (\<lambda>s. (sess_id s, ttl s)) (get_all_sessions ord g1)"
  have dom1: "dom (sessions g1) = dom (sessions ?g)" by (auto simp: s1)
  have ss: "?ss = map (\<lambda>i. (i, ttl (the (sessions g1 i)))) (ord (dom (sessions ?g)))"
    using all_sessions_map [of g1 ord] ok1 o dom1 by (simp add: server_ok_def)
  have stale: "(\<exists>t. (i, t) \<in> set ?ss \<and> stale now t) \<longleftrightarrow> (\<exists>s. sessions ?g i = Some s \<and> stale now (ttl s))" for i
    unfolding ss by (force simp: o(1) s1 update_thumbnail_keeps image_iff)
  have dist: "distinct (map fst ?ss)" unfolding ss by (simp add: comp_def o(2))
  have present: "\<forall>(i, t) \<in> set ?ss. sessions g1 i \<noteq> None" unfolding ss using o(1) dom1 by auto
  obtain g2 where g2: "remove_stale now ?ss g1 = Inr g2" "server_ok g2"
      "sessions g2 = (\<lambda>i. if \<exists>t. (i, t) \<in> set ?ss \<and> stale now t then None else sessions g1 i)"
    using remove_stale_spec [OF ok1 dist present, of now] by blast
  have "get_session i g2 = checked now (get_session i ?g)" for i
    unfolding get_session_def g2(3) stale s1 by (auto simp: checked_def split: bind_splits)
  with g1 g2(1,2) ts show ?thesis by (auto simp: run_periodic_checks_def get_session_def Let_def)
qed

section \<open>Streamers and viewers join\<close>

text \<open>What the environment promises: the hash tables are walked in some order, the random strings are
  printable, and the random ids are not in use.\<close>

definition draws_ok :: "draws \<Rightarrow> 'x session_registry \<Rightarrow> bool" where
  "draws_ok d g \<longleftrightarrow> enumerates (d_ids d) \<and> iterates (d_strings d) \<and> random_ok (d_random d)
     \<and> fresh_ids (d_room_id d) (d_resource_id d) g"

text \<open>The ICE user names of an offer are short: with the four characters of the host's name and the colon
  they fit the STUN responses.\<close>

definition short_name :: "sdp_line \<Rightarrow> bool" where
  "short_name l \<longleftrightarrow> (case attr_ice_username l of None \<Rightarrow> True | Some u \<Rightarrow> length (username u) \<le> 91)"

definition offer_ok :: "string \<Rightarrow> bool" where
  "offer_ok raw \<longleftrightarrow> (case get_sdp raw of Inl _ \<Rightarrow> True
     | Inr s \<Rightarrow> list_all short_name (session_section s @ audio_section s @ video_section s))"

lemma offer_ok_username:
  assumes "offer_ok raw" "get_sdp raw = Inr s" "get_ice_credentials rnd s = Some c"
  shows "length (username_of c) \<le> 96"
proof -
  have n: "length (username u) \<le> 91" if "find_map attr_ice_username ls = Some u" "list_all short_name ls" for ls u
    using find_map_SomeD [OF that(1)] that(2) by (auto simp: list_all_iff short_name_def)
  have "list_all short_name (session_section s)" "list_all short_name (audio_section s)" using assms(1,2) by (simp_all add: offer_ok_def)
  then have "length (remote_username c) \<le> 91"
    using assms(3) n by (auto simp: get_ice_credentials_def Let_def bind_eq_Some_conv split: if_splits)
  then show ?thesis using get_ice_credentials_host [OF assms(3)] by (simp add: username_of_def)
qed

lemma stream_offer_printed:
  assumes "accept_stream_offer self rnd raw = Inr ns" "resolver_ok self" "random_ok rnd" "iterates iter" "offer_ok raw"
  shows "\<exists>ans. string_from_sdp iter (sdp_answer ns) = Inr ans \<and> get_sdp ans = Inr (sdp_as_parsed (sdp_answer ns))
     \<and> length (username_of (ice_credentials ns)) \<le> 96"
proof -
  from assms(1) obtain s where s: "get_sdp raw = Inr s" "parse_stream_offer self rnd s = Inr ns"
    by (auto simp: accept_stream_offer_def bind_res_eq_Inr)
  from stream_answer_shape [OF s(2)] obtain am vm where a: "answer_parts s am vm (audio_session ns) (video_session ns)"
      "get_ice_credentials rnd s = Some (ice_credentials ns)"
      "sdp_answer ns = answer_sdp ReceiveOnly self am vm (ice_credentials ns) (audio_session ns) (video_session ns)" by blast
  from answer_sdp_readable [OF s(1) a(1,2) assms(2-4), of ReceiveOnly] a(3) obtain ans where
    "string_from_sdp iter (sdp_answer ns) = Inr ans" "get_sdp ans = Inr (sdp_as_parsed (sdp_answer ns))" by auto
  moreover have "length (username_of (ice_credentials ns)) \<le> 96"
    by (rule offer_ok_username [OF assms(5) s(1) a(2)])
  ultimately show ?thesis by blast
qed

lemma viewer_offer_printed:
  assumes "accept_viewer_offer self rnd raw str = Inr ns" "resolver_ok self" "random_ok rnd" "iterates iter" "offer_ok raw"
  shows "\<exists>ans. string_from_sdp iter (sdp_answer ns) = Inr ans \<and> get_sdp ans = Inr (sdp_as_parsed (sdp_answer ns))
     \<and> length (username_of (ice_credentials ns)) \<le> 96"
proof -
  from assms(1) obtain s where s: "get_sdp raw = Inr s" "parse_viewer_offer self rnd s str = Inr ns"
    by (auto simp: accept_viewer_offer_def bind_res_eq_Inr)
  from viewer_answer_shape [OF s(2)] obtain am vm where a: "answer_parts s am vm (audio_session ns) (video_session ns)"
      "get_ice_credentials rnd s = Some (ice_credentials ns)"
      "sdp_answer ns = answer_sdp SendOnly self am vm (ice_credentials ns) (audio_session ns) (video_session ns)" by blast
  from answer_sdp_readable [OF s(1) a(1,2) assms(2-4), of SendOnly] a(3) obtain ans where
    "string_from_sdp iter (sdp_answer ns) = Inr ans" "get_sdp ans = Inr (sdp_as_parsed (sdp_answer ns))" by auto
  moreover have "length (username_of (ice_credentials ns)) \<le> 96"
    by (rule offer_ok_username [OF assms(5) s(1) a(2)])
  ultimately show ?thesis by blast
qed

lemma add_streamer_server_ok:
  assumes "server_ok g" "fresh_ids r i g" "length (username_of (ice_credentials ns)) \<le> 96"
  shows "server_ok (register_streamer (streamer_session dec i now ns r) r g)"
  using register_streamer_inv [OF _ assms(2) refl, of dec now ns] assms(1,3)
  by (auto simp: server_ok_def alive_def short_names_def register_streamer_def streamer_session_def)

lemma add_viewer_server_ok:
  assumes "server_ok g" "sessions g i = None" "rooms g r = Some rm" "length (username_of (ice_credentials ns)) \<le> 96"
  shows "\<exists>g'. add_viewer i now ns r g = Inr (i, g') \<and> server_ok g' \<and> sessions g' = (sessions g)(i \<mapsto> session_new_viewer i now r ns)"
proof -
  obtain g' where g': "add_viewer i now ns r g = Inr (i, g')" "reg_inv g'"
    using add_viewer_inv [of g i r rm now ns] assms by (auto simp: server_ok_def)
  moreover from g'(1) assms(3) have "sessions g' = (sessions g)(i \<mapsto> session_new_viewer i now r ns)"
    by (auto simp: add_viewer_def Let_def)
  ultimately show ?thesis using assms(1,4)
    by (auto simp: server_ok_def alive_def short_names_def session_new_viewer_def)
qed

lemma handle_add_streamer_cases:
  assumes "server_ok (session_registry srv)" "resolver_ok (sdp_resolver srv)" "draws_ok d (session_registry srv)" "offer_ok raw"
  obtains (refused) "\<not> is_ok (accept_stream_offer (sdp_resolver srv) (d_random d) raw)"
      "handle_add_streamer tp d raw True srv = Inr (srv, [Reply None])"
  | (undecoded) ns where "accept_stream_offer (sdp_resolver srv) (d_random d) raw = Inr ns" "tp_decoder_new tp = None"
      "handle_add_streamer tp d raw True srv = Inl UnwrapFailed"
  | (accepted) ns dec ans g' where "accept_stream_offer (sdp_resolver srv) (d_random d) raw = Inr ns"
      "string_from_sdp (d_strings d) (sdp_answer ns) = Inr ans" "tp_decoder_new tp = Some dec"
      "g' = register_streamer (streamer_session dec (d_resource_id d) (d_now d) ns (d_room_id d)) (d_room_id d) (session_registry srv)"
      "server_ok g'" "handle_add_streamer tp d raw True srv = Inr (set_registry g' srv, [Reply (Some ans)])"
proof (cases "accept_stream_offer (sdp_resolver srv) (d_random d) raw")
  case (Inl e)
  then show ?thesis by (intro refused) (simp_all add: handle_add_streamer_def send_reply_def)
next
  case (Inr ns)
  with stream_offer_printed [OF Inr, of "d_strings d"] assms obtain ans where
    ans: "string_from_sdp (d_strings d) (sdp_answer ns) = Inr ans" "length (username_of (ice_credentials ns)) \<le> 96"
    by (auto simp: draws_ok_def)
  show ?thesis
  proof (cases "tp_decoder_new tp")
    case None
    with Inr ans(1) show ?thesis by (intro undecoded) (simp_all add: handle_add_streamer_def)
  next
    case (Some dec)
    have "server_ok (register_streamer (streamer_session dec (d_resource_id d) (d_now d) ns (d_room_id d)) (d_room_id d) (session_registry srv))"
      using add_streamer_server_ok [OF assms(1) _ ans(2)] assms(3) by (simp add: draws_ok_def)
    with Inr ans(1) Some show ?thesis by (intro accepted [OF Inr _ Some refl]) (simp_all add: handle_add_streamer_def send_reply_def)
  qed
qed

text \<open>The media session a viewer of a room is negotiated against.\<close>

definition room_media :: "room_id \<Rightarrow> 'x session_registry \<Rightarrow> negotiated_session option" where
  "room_media r g = Option.bind (get_room r g) (\<lambda>rm. map_option media_session (get_session (owner_id rm) g))"

lemma handle_add_viewer_cases:
  assumes "server_ok (session_registry srv)" "resolver_ok (sdp_resolver srv)" "draws_ok d (session_registry srv)" "offer_ok raw"
  obtains (refused) "\<And>ms. room_media r (session_registry srv) = Some ms \<Longrightarrow> \<not> is_ok (accept_viewer_offer (sdp_resolver srv) (d_random d) raw ms)"
      "handle_add_viewer d raw r True srv = Inr (srv, [Reply None])"
  | (accepted) ms ns ans g' where "room_media r (session_registry srv) = Some ms"
      "accept_viewer_offer (sdp_resolver srv) (d_random d) raw ms = Inr ns"
      "string_from_sdp (d_strings d) (sdp_answer ns) = Inr ans"
      "add_viewer (d_resource_id d) (d_now d) ns r (session_registry srv) = Inr (d_resource_id d, g')" "server_ok g'"
      "sessions g' = (sessions (session_registry srv))(d_resource_id d \<mapsto> session_new_viewer (d_resource_id d) (d_now d) r ns)"
      "handle_add_viewer d raw r True srv = Inr (set_registry g' srv, [Reply (Some ans)])"
proof -
  let ?g = "session_registry srv"
  let ?acc = "Option.bind (room_media r ?g) (\<lambda>ms. ok (accept_viewer_offer (sdp_resolver srv) (d_random d) raw ms))"
  have rm: "Option.bind (map_option owner_id (get_room r ?g)) (\<lambda>owner. map_option media_session (get_session owner ?g)) = room_media r ?g"
    by (cases "get_room r ?g") (simp_all add: room_media_def)
  show ?thesis
  proof (cases ?acc)
    case None
    then have "\<not> is_ok (accept_viewer_offer (sdp_resolver srv) (d_random d) raw ms)" if "room_media r ?g = Some ms" for ms
      using that by (cases "accept_viewer_offer (sdp_resolver srv) (d_random d) raw ms") simp_all
    moreover have "handle_add_viewer d raw r True srv = Inr (srv, [Reply None])"
      unfolding handle_add_viewer_def Let_def rm None by (simp add: send_reply_def)
    ultimately show ?thesis by (rule refused)
  next
    case (Some ns)
    then obtain ms where ms: "room_media r ?g = Some ms" "accept_viewer_offer (sdp_resolver srv) (d_random d) raw ms = Inr ns"
      by (auto simp: bind_eq_Some_conv ok_eq_Some)
    from viewer_offer_printed [OF ms(2), of "d_strings d"] assms obtain ans where
      ans: "string_from_sdp (d_strings d) (sdp_answer ns) = Inr ans" "length (username_of (ice_credentials ns)) \<le> 96"
      by (auto simp: draws_ok_def)
    from ms(1) obtain rm' where rm': "rooms ?g r = Some rm'" by (auto simp: room_media_def get_room_def bind_eq_Some_conv)
    from add_viewer_server_ok [OF assms(1) _ rm' ans(2), of "d_resource_id d" "d_now d"] assms(3) obtain g' where
      g': "add_viewer (d_resource_id d) (d_now d) ns r ?g = Inr (d_resource_id d, g')" "server_ok g'"
        "sessions g' = (sessions ?g)(d_resource_id d \<mapsto> session_new_viewer (d_resource_id d) (d_now d) r ns)"
      by (auto simp: draws_ok_def fresh_ids_def)
    have "handle_add_viewer d raw r True srv = Inr (set_registry g' srv, [Reply (Some ans)])"
      unfolding handle_add_viewer_def Let_def rm Some by (simp add: ans(1) g'(1) send_reply_def)
    with ms ans(1) g' show ?thesis by (intro accepted)
  qed
qed

section \<open>The loop as a machine\<close>

definition loop_inv :: "'x udp_server \<Rightarrow> bool" where
  "loop_inv srv \<longleftrightarrow> server_ok (session_registry srv) \<and> resolver_ok (sdp_resolver srv) \<and> typed (session_registry srv)"

text \<open>What the threads may send: the user name of an offer is short.\<close>

fun command_ok :: "server_command \<Rightarrow> bool" where
  "command_ok (AddStreamer raw listens) \<longleftrightarrow> offer_ok raw"
| "command_ok (AddViewer raw r listens) \<longleftrightarrow> offer_ok raw"
| "command_ok _ \<longleftrightarrow> True"

text \<open>All that can make a command panic: a datagram of the kinds above; a worker that no longer listens for
  its reply; a streamer that is accepted when no decoder can be initialised.\<close>

fun command_panics :: "bool \<Rightarrow> 'x third_party \<Rightarrow> 'x udp_server \<Rightarrow> draws \<times> server_command \<Rightarrow> bool" where
  "command_panics chk tp srv (d, HandlePacket packet rem) \<longleftrightarrow> datagram_panics chk tp packet rem (session_registry srv)"
| "command_panics chk tp srv (d, AddStreamer raw listens) \<longleftrightarrow> \<not> listens
     \<or> is_ok (accept_stream_offer (sdp_resolver srv) (d_random d) raw) \<and> tp_decoder_new tp = None"
| "command_panics chk tp srv (d, AddViewer raw r listens) \<longleftrightarrow> \<not> listens"
| "command_panics chk tp srv (d, SendRoomsStatus) \<longleftrightarrow> False"
| "command_panics chk tp srv (d, RunPeriodicChecks) \<longleftrightarrow> False"

text \<open>The libraries behave as documented, the draws are new and the offers short; and, for a command that is
  to be handled to its end, none of the panics.\<close>

definition loop_allows :: "'x third_party \<Rightarrow> 'x udp_server \<Rightarrow> draws \<times> server_command \<Rightarrow> bool" where
  "loop_allows tp srv i \<longleftrightarrow> tp_ok tp \<and> draws_ok (fst i) (session_registry srv) \<and> command_ok (snd i)"

definition loop_admits :: "bool \<Rightarrow> 'x third_party \<Rightarrow> 'x udp_server \<Rightarrow> draws \<times> server_command \<Rightarrow> bool" where
  "loop_admits chk tp srv i \<longleftrightarrow> loop_allows tp srv i \<and> \<not> command_panics chk tp srv i"

text \<open>What the commands may do to the directory of members.\<close>

definition hosted :: "directory \<Rightarrow> room_id \<Rightarrow> bool" where
  "hosted m r \<longleftrightarrow> (\<exists>i. m i = Some (True, r))"

inductive dir_step :: "draws \<times> server_command \<Rightarrow> directory \<Rightarrow> directory \<Rightarrow> bool" where
  dir_packet: "dir_step (d, HandlePacket packet rem) m m"
| dir_status: "dir_step (d, SendRoomsStatus) m m"
| dir_no_streamer: "dir_step (d, AddStreamer raw listens) m m"
| dir_streamer: "m (d_resource_id d) = None \<Longrightarrow> \<not> hosted m (d_room_id d) \<Longrightarrow>
    dir_step (d, AddStreamer raw listens) m (m(d_resource_id d \<mapsto> (True, d_room_id d)))"
| dir_no_viewer: "dir_step (d, AddViewer raw r listens) m m"
| dir_viewer: "m (d_resource_id d) = None \<Longrightarrow> hosted m r \<Longrightarrow>
    dir_step (d, AddViewer raw r listens) m (m(d_resource_id d \<mapsto> (False, r)))"
| dir_leave: "dir_step (d, RunPeriodicChecks) m (m |` K)"

inductive_cases dir_stepE: "dir_step i m m'"

lemma members_iff: "members g i = Some (True, r) \<longleftrightarrow> owns g i r" "members g i = Some (False, r) \<longleftrightarrow> views g i r"
  by (simp_all add: members_def owns_def views_def)

text \<open>What every command has to show, and that each does.\<close>

definition turn_ok :: "bool \<Rightarrow> 'x third_party \<Rightarrow> draws \<Rightarrow> server_command \<Rightarrow> 'x udp_server \<Rightarrow> bool" where
  "turn_ok chk tp d cmd srv \<longleftrightarrow> (\<exists>srv'. loop_step chk tp (d, cmd) srv = Inr srv' \<and> loop_inv srv'
     \<and> dir_step (d, cmd) (members (session_registry srv)) (members (session_registry srv')))"

lemma turn_okI:
  "handle_command chk tp d cmd srv = Inr (srv', es) \<Longrightarrow> loop_inv srv' \<Longrightarrow>
     dir_step (d, cmd) (members (session_registry srv)) (members (session_registry srv')) \<Longrightarrow> turn_ok chk tp d cmd srv"
  by (simp add: turn_ok_def loop_step_def)

lemma packet_turn:
  assumes "loop_inv srv" "tp_ok tp" "draws_ok d (session_registry srv)" "\<not> datagram_panics chk tp packet rem (session_registry srv)"
  shows "turn_ok chk tp d (HandlePacket packet rem) srv"
proof -
  from process_packet_ok [OF assms(2), of srv "d_ids d" chk packet rem "d_now d"] assms
  obtain srv' outs where p: "process_packet chk tp (d_ids d) (d_now d) packet rem srv = Inr (srv', outs)"
      "server_ok (session_registry srv')" by (auto simp: draws_ok_def loop_inv_def)
  with process_packet_keeps [OF p(1)] keeps_members [OF process_packet_keeps [OF p(1)]] assms(1) dir_packet show ?thesis
    by (intro turn_okI [where srv' = srv']) (simp_all add: handle_command_def loop_inv_def keeps_def typed_def)
qed

lemma streamer_turn:
  assumes "loop_inv srv" "draws_ok d (session_registry srv)" "offer_ok raw"
    and "\<not> command_panics chk tp srv (d, AddStreamer raw True)"
  shows "turn_ok chk tp d (AddStreamer raw True) srv"
proof -
  let ?g = "session_registry srv" and ?m = "members (session_registry srv)"
  have ok: "server_ok ?g" "resolver_ok (sdp_resolver srv)" and inv: "reg_inv ?g"
    using assms(1) by (simp_all add: loop_inv_def server_ok_def)
  from ok assms(2,3) show ?thesis
  proof (cases rule: handle_add_streamer_cases [where tp = tp])
    case (undecoded ns)
    with assms(4) show ?thesis by simp
  next
    case refused
    with assms(1) dir_no_streamer show ?thesis by (intro turn_okI [where srv' = srv]) (simp_all add: handle_command_def)
  next
    case (accepted ns dec ans g')
    have "\<not> hosted ?m (d_room_id d)" "?m (d_resource_id d) = None"
      using assms(2) reg_invD(5) [OF inv] by (fastforce simp: hosted_def members_iff draws_ok_def fresh_ids_def, simp add: members_def draws_ok_def fresh_ids_def)
    moreover have "members g' = ?m(d_resource_id d \<mapsto> (True, d_room_id d))"
      by (auto simp: accepted(4) register_streamer_def members_def fun_eq_iff streamer_session_def role_def)
    moreover have "typed g'"
      unfolding accepted(4) using assms(1,2) inv stream_typed [OF accepted(1)]
      by (intro typed_streamer) (simp_all add: loop_inv_def draws_ok_def)
    ultimately show ?thesis using accepted(5,6) ok(2)
      by (intro turn_okI [where srv' = "set_registry g' srv"]) (auto simp: handle_command_def loop_inv_def intro: dir_streamer)
  qed
qed

lemma room_media_owner:
  assumes "reg_inv g" "room_media r g = Some ms" "sessions g j = Some s" "role s = (True, r)"
  shows "media_session s = ms"
proof -
  from assms(2) obtain rm t where t: "rooms g r = Some rm" "sessions g (owner_id rm) = Some t" "media_session t = ms"
    by (auto simp: room_media_def get_room_def get_session_def bind_eq_Some_conv)
  have "owns g j r" "owns g (owner_id rm) r" using assms(3,4) reg_invD(4) [OF assms(1) t(1)] by (simp_all add: owns_def)
  with one_owner [OF assms(1)] have "j = owner_id rm" by blast
  with t assms(3) show ?thesis by simp
qed

lemma viewer_turn:
  assumes "loop_inv srv" "draws_ok d (session_registry srv)" "offer_ok raw"
  shows "turn_ok chk tp d (AddViewer raw r True) srv"
proof -
  let ?g = "session_registry srv" and ?m = "members (session_registry srv)"
  have ok: "server_ok ?g" "resolver_ok (sdp_resolver srv)" and inv: "reg_inv ?g"
    using assms(1) by (simp_all add: loop_inv_def server_ok_def)
  from ok assms(2,3) show ?thesis
  proof (cases rule: handle_add_viewer_cases [where r = r])
    case refused
    with assms(1) dir_no_viewer show ?thesis by (intro turn_okI [where srv' = srv]) (simp_all add: handle_command_def)
  next
    case (accepted ms ns ans g')
    from accepted(1) obtain rm where "rooms ?g r = Some rm" by (auto simp: room_media_def get_room_def bind_eq_Some_conv)
    with reg_invD(4) [OF inv] have "hosted ?m r" by (auto simp: hosted_def members_iff)
    moreover have "?m (d_resource_id d) = None" using assms(2) by (simp add: members_def draws_ok_def fresh_ids_def)
    moreover have "members g' = ?m(d_resource_id d \<mapsto> (False, r))"
      by (auto simp: accepted(6) members_def fun_eq_iff session_new_viewer_def role_def)
    moreover have "typed g'"
    proof (rule typed_viewer [OF _ _ accepted(6)])
      have v: "credentials_ok (ice_credentials ns) \<and> serves ms ns" using viewer_typed [OF accepted(2)] assms(2) by (simp add: draws_ok_def)
      then show "credentials_ok (ice_credentials ns)" by simp
      show "typed ?g" using assms(1) by (simp add: loop_inv_def)
      show "serves ms' ns" if "profiles ?g j = Some ((True, r), ms')" for j ms'
        using that v room_media_owner [OF inv accepted(1)] by (auto simp: profiles_def profile_def owns_def)
    qed
    ultimately show ?thesis using accepted(5,7) ok(2)
      by (intro turn_okI [where srv' = "set_registry g' srv"]) (auto simp: handle_command_def loop_inv_def intro: dir_viewer)
  qed
qed

lemma checks_turn:
  assumes "loop_inv srv" "draws_ok d (session_registry srv)"
  shows "turn_ok chk tp d RunPeriodicChecks srv"
proof -
  let ?g = "session_registry srv"
  have ok: "server_ok ?g" "resolver_ok (sdp_resolver srv)" using assms(1) by (simp_all add: loop_inv_def)
  from run_periodic_checks_spec [OF ok(1), of "d_ids d" "d_now d"] assms(2) obtain g' es where
    g': "run_periodic_checks (d_now d) (d_ids d) srv = Inr (set_registry g' srv, es)" "server_ok g'"
      "\<And>i. get_session i g' = checked (d_now d) (get_session i ?g)" by (auto simp: draws_ok_def)
  have "members g' = members ?g |` {i. \<exists>s. sessions ?g i = Some s \<and> \<not> stale (d_now d) (ttl s)}"
    using g'(3) by (auto simp: members_def fun_eq_iff get_session_def checked_def restrict_map_def split: bind_splits)
  moreover have "typed g'"
  proof (rule typed_mono)
    show "typed ?g" using assms(1) by (simp add: loop_inv_def)
    have "profiles g' i = profiles ?g i" if "profiles g' i \<noteq> None" for i
      using that g'(3) [of i] profile_same [OF update_thumbnail_keeps(1)]
      by (auto simp: profiles_def get_session_def checked_def split: bind_splits if_splits)
    then show "profiles g' \<subseteq>\<^sub>m profiles ?g" by (auto simp: map_le_def)
  qed
  ultimately show ?thesis using g'(1,2) ok(2)
    by (intro turn_okI [where srv' = "set_registry g' srv"]) (auto simp: handle_command_def loop_inv_def intro: dir_leave)
qed

lemma loop_step_ok:
  assumes "loop_inv srv" "loop_admits chk tp srv (d, cmd)"
  shows "\<exists>srv'. loop_step chk tp (d, cmd) srv = Inr srv' \<and> loop_inv srv'
     \<and> dir_step (d, cmd) (members (session_registry srv)) (members (session_registry srv'))"
proof -
  have "turn_ok chk tp d SendRoomsStatus srv"
    using assms(1) dir_status by (intro turn_okI [where srv' = srv]) (simp_all add: handle_command_def)
  with assms have "turn_ok chk tp d cmd srv"
    by (cases cmd) (auto simp: loop_admits_def loop_allows_def packet_turn viewer_turn checks_turn intro: streamer_turn)
  then show ?thesis by (simp add: turn_ok_def)
qed

lemma command_panics_stops:
  assumes "loop_inv srv" "loop_allows tp srv i" "command_panics chk tp srv i"
  shows "\<exists>p. loop_step chk tp i srv = Inl p"
proof -
  obtain d cmd where i: "i = (d, cmd)" by force
  have ok: "server_ok (session_registry srv)" "resolver_ok (sdp_resolver srv)" using assms(1) by (simp_all add: loop_inv_def)
  have "\<exists>p. handle_command chk tp d cmd srv = Inl p"
  proof (cases cmd)
    case (HandlePacket packet rem)
    with process_packet_panics [OF ok(1), of chk tp packet rem "d_ids d" "d_now d"] assms(3) i show ?thesis
      by (auto simp: handle_command_def)
  next
    case (AddStreamer raw listens)
    have "draws_ok d (session_registry srv)" "offer_ok raw" using assms(2) i AddStreamer by (simp_all add: loop_allows_def)
    with ok show ?thesis
      using assms(3) i AddStreamer
      by (cases rule: handle_add_streamer_cases [where tp = tp])
        (auto simp: handle_command_def handle_add_streamer_def send_reply_def bind_res_def split: sum.splits)
  next
    case (AddViewer raw r listens)
    with assms(3) i show ?thesis
      by (auto simp: handle_command_def handle_add_viewer_def send_reply_def Let_def bind_res_def split: sum.splits)
  qed (use assms(3) i in simp_all)
  with i show ?thesis by (auto simp: loop_step_def)
qed

interpretation loop: exact_simulation "loop_step chk tp" loop_inv "loop_admits chk tp"
    "\<lambda>srv. members (session_registry srv)" dir_step "loop_allows tp" "command_panics chk tp" for chk tp
  by unfold_locales (use loop_step_ok command_panics_stops in \<open>fastforce simp: loop_admits_def\<close>)+

end
