(* ===== verification/Command_Loop_Safety.thy ===== *)
theory Command_Loop_Safety
  imports Command_Loop_Props
begin

text \<open>
  The theorems on the command loop: the types of the sessions, exactly which commands panic, refinement of the
  directory of members, and what the commands that do not carry packets do, with witnesses at a server that
  a streamer and a viewer join.
\<close>

lemma udp_server_new_inv:
  assumes "LF \<notin> set fingerprint"
  shows "\<exists>srv. udp_server_new fingerprint address = Inr srv \<and> loop_inv srv \<and> session_registry srv = registry_new
     \<and> members (session_registry srv) = Map.empty"
proof -
  have f: "fingerprint_try_from (''fingerprint:'' @ ''sha-256 '' @ fingerprint) = Inr \<lparr>hash_function = SHA256, hash = fingerprint\<rparr>"
    using split_once_char [of "CHR '' ''" "''sha-256''" fingerprint]
    by (simp add: fingerprint_try_from_def hash_function_from_def)
  have "server_ok registry_new"
    unfolding server_ok_def using registry_new_inv by (auto simp: alive_def short_names_def registry_new_def)
  moreover have "members registry_new = Map.empty" by (simp add: members_def registry_new_def fun_eq_iff)
  ultimately show ?thesis using assms f
    by (auto simp: udp_server_new_def resolver_new_def loop_inv_def resolver_ok_def typed_new valid_candidate_def valid_fingerprint_def
        no_sp_def usize_max_def)
qed

lemma typed_sessions:
  assumes "loop_inv srv"
  shows "get_session i (session_registry srv) = Some s \<Longrightarrow> credentials_ok (ice_credentials (media_session s))"
    and "get_room r (session_registry srv) = Some rm \<Longrightarrow> v \<in> viewer_ids rm \<Longrightarrow>
       \<exists>s t. get_session (owner_id rm) (session_registry srv) = Some s \<and> get_session v (session_registry srv) = Some t
         \<and> serves (media_session s) (media_session t)"
proof -
  let ?g = "session_registry srv"
  have ty: "typed ?g" and inv: "reg_inv ?g" using assms by (simp_all add: loop_inv_def server_ok_def)
  show "credentials_ok (ice_credentials (media_session s))" if "get_session i ?g = Some s"
  proof -
    have "profiles ?g i = Some (role s, media_session s)" using that by (simp add: get_session_def profiles_def profile_def)
    with ty show ?thesis unfolding typed_def by blast
  qed
  show "\<exists>s t. get_session (owner_id rm) ?g = Some s \<and> get_session v ?g = Some t \<and> serves (media_session s) (media_session t)"
    if rm: "get_room r ?g = Some rm" "v \<in> viewer_ids rm"
  proof -
    have "owns ?g (owner_id rm) r" "views ?g v r" using reg_invD(4) [OF inv, of r rm] rm by (auto simp: get_room_def)
    then obtain s t where st: "sessions ?g (owner_id rm) = Some s" "role s = (True, r)" "sessions ?g v = Some t" "role t = (False, r)"
      by (auto simp: owns_def views_def)
    then have "profiles ?g (owner_id rm) = Some ((True, r), media_session s)" "profiles ?g v = Some ((False, r), media_session t)"
      by (simp_all add: profiles_def profile_def)
    with ty have "serves (media_session s) (media_session t)" unfolding typed_def by blast
    with st show ?thesis by (simp add: get_session_def)
  qed
qed

text \<open>C3. Every session the server thread keeps is well typed: from the fresh server, whatever commands the
  other threads send and in whatever order, as long as the libraries behave as documented, user names are
  short and the random ids are new, the thread either comes to a command that is one of the panicking ones in
  the state it meets (\<open>command_panics\<close>: a datagram on which the STUN parser or the thumbnail extractor panics
  or which finishes a handshake without SRTP keys, a socket that cannot be duplicated, a decoder that does not
  initialise, a worker that stopped listening), or handles them all; and then every session has host
  credentials of four and twenty-two letters and digits, and every viewer of a room has the codecs and the
  video format of the session that streams into it.\<close>

theorem sessions_typed:
  fixes tp :: "'x third_party"
  assumes "LF \<notin> set fingerprint"
  shows "\<exists>srv. udp_server_new fingerprint address = Inr srv \<and>
     (\<forall>inputs. admitted (loop_step chk tp) (loop_allows tp) inputs srv \<longrightarrow>
        (case run (loop_step chk tp) inputs srv of
           Inl p \<Rightarrow> \<exists>before i rest srv1. inputs = before @ i # rest \<and> run (loop_step chk tp) before srv = Inr srv1
             \<and> command_panics chk tp srv1 i
         | Inr srv' \<Rightarrow>
             (\<forall>i s. get_session i (session_registry srv') = Some s \<longrightarrow> credentials_ok (ice_credentials (media_session s)))
           \<and> (\<forall>r rm v. get_room r (session_registry srv') = Some rm \<and> v \<in> viewer_ids rm \<longrightarrow>
                (\<exists>s t. get_session (owner_id rm) (session_registry srv') = Some s \<and> get_session v (session_registry srv') = Some t
                   \<and> serves (media_session s) (media_session t)))))"
proof -
  obtain srv :: "'x udp_server" where srv: "udp_server_new fingerprint address = Inr srv" "loop_inv srv"
    using udp_server_new_inv [OF assms] by blast
  from loop.run_until_panic [OF srv(2)] srv(1) show ?thesis
    by (intro exI [of _ srv] conjI allI impI) (fastforce split: sum.split dest: typed_sessions)+
qed

section \<open>The panics of the server thread\<close>

text \<open>C19. Exactly which commands make the server thread panic, in a consistent state: a datagram on which the
  STUN parser panics; a nomination of a session without a client when the socket cannot be duplicated; a
  datagram that finishes the handshake of the session at its address while no SRTP keys can be had; a
  decrypted video packet of a streamer that continues the access unit in progress with an unusable payload;
  an accepted streamer when no H.264 decoder initialises; a worker that no longer listens. Every other
  command is handled to its end and leaves the server consistent.\<close>

theorem command_panics_exactly:
  assumes "loop_inv srv" "tp_ok tp" "draws_ok d (session_registry srv)" "command_ok cmd"
  shows "if (case cmd of
       HandlePacket data rem \<Rightarrow>
         (case get_stun_packet chk data of
            Inl _ \<Rightarrow> True
          | Inr (Some (LiveCheck msg)) \<Rightarrow> False
          | Inr (Some (Nomination msg)) \<Rightarrow> \<not> tp_try_clone tp \<and>
              (\<exists>s. get_session_by_username (username_attribute msg) (session_registry srv) = Some s \<and> sess_client s = None)
          | Inr None \<Rightarrow> \<exists>s c. get_session_by_address rem (session_registry srv) = Some s \<and> sess_client s = Some c \<and>
              ((\<exists>x st y. ssl_state c = Handshake x st \<and> fst (tp_handshake tp x (push_back data st)) = HandshakeOk y
                  \<and> tp_session_pair tp y = None) \<or>
               (\<exists>strm e plain h p. connection_type s = Streamer strm \<and> ssl_state c = Established e
                  \<and> fst (tp_unprotect tp data (srtp_inbound e)) = Some plain \<and> get_rtp_header_data plain = Inr h
                  \<and> payload_type h = of_nat (vs_payload_number (video_session (media_session s)))
                  \<and> rtp_packet_try_from plain = Inr p \<and> au_chokes p (au_decoder (thumbnail_extractor strm)))))
     | AddStreamer raw listens \<Rightarrow> \<not> listens \<or>
         is_ok (accept_stream_offer (sdp_resolver srv) (d_random d) raw) \<and> tp_decoder_new tp = None
     | AddViewer raw r listens \<Rightarrow> \<not> listens
     | SendRoomsStatus \<Rightarrow> False
     | RunPeriodicChecks \<Rightarrow> False)
   then \<exists>p. handle_command chk tp d cmd srv = Inl p
   else \<exists>srv' es. handle_command chk tp d cmd srv = Inr (srv', es) \<and> loop_inv srv'"
    (is "if ?why then _ else _")
proof -
  have hs: "keyless tp data c \<longleftrightarrow> (\<exists>x st y. ssl_state c = Handshake x st \<and> fst (tp_handshake tp x (push_back data st)) = HandshakeOk y
      \<and> tp_session_pair tp y = None)" for data c
    by (auto simp: keyless_def split: client_ssl_state.splits handshake_outcome.splits)
  have ex: "extraction_chokes plain te \<longleftrightarrow> (\<exists>p. rtp_packet_try_from plain = Inr p \<and> au_chokes p (au_decoder te))" for plain and te :: "'a thumbnail_extractor"
    by (auto simp: extraction_chokes_def split: sum.splits)
  have why: "?why \<longleftrightarrow> command_panics chk tp srv (d, cmd)"
    by (cases cmd) (auto simp: datagram_panics_def stun_panics_def session_panics_def video_chokes_def hs ex
        split: sum.splits option.splits ice_stun_message_type.splits)
  have al: "loop_allows tp srv (d, cmd)" using assms(2-4) by (simp add: loop_allows_def)
  show ?thesis
    unfolding why using command_panics_stops [OF assms(1) al, of chk] loop_step_ok [OF assms(1), of chk tp d cmd] al
    by (cases "handle_command chk tp d cmd srv") (auto simp: loop_admits_def loop_step_def)
qed

section \<open>Media\<close>

text \<open>A packet that is another but for its payload type, marker and SSRC.\<close>

definition recast :: "bytes \<Rightarrow> bytes \<Rightarrow> rtp_header \<Rightarrow> bool" where
  "recast b b' h' \<longleftrightarrow> length b' = length b \<and> (\<forall>i < length b. i \<noteq> 1 \<and> \<not> (8 \<le> i \<and> i < 12) \<longrightarrow> b' ! i = b ! i)
     \<and> get_rtp_header_data b' = Inr h'"

text \<open>What an established viewer is sent for a packet: the packet in the viewer's own numbers, encrypted
  with its outbound session.\<close>

definition plays :: "'x third_party \<Rightarrow> bytes \<Rightarrow> rtp_header \<Rightarrow> negotiated_session \<Rightarrow> 'x session \<Rightarrow> bool" where
  "plays tp plain h m t \<longleftrightarrow> (\<forall>c e. sess_client t = Some c \<and> ssl_state c = Established e
     \<and> viewer_payload (is_audio m h) (media_session t) < 128 \<longrightarrow>
       (\<exists>b'. recast plain b' \<lparr>marker_set = marker_set h, payload_type = of_nat (viewer_payload (is_audio m h) (media_session t)),
              hdr_ssrc = viewer_ssrc (is_audio m h) (media_session t)\<rparr>
          \<and> viewer_datagram tp plain m t
              = (case fst (tp_protect tp b' (srtp_outbound e)) of None \<Rightarrow> [] | Some enc \<Rightarrow> [(remote_address c, enc)])))"

lemma viewer_datagram_plays:
  assumes "get_rtp_header_data plain = Inr h"
  shows "plays tp plain h m t"
  unfolding plays_def
proof (intro allI impI)
  fix c e
  assume a: "sess_client t = Some c \<and> ssl_state c = Established e \<and> viewer_payload (is_audio m h) (media_session t) < 128"
  then obtain b' where "remap_rtp_header plain m (media_session t) = Inr b'" "recast plain b' \<lparr>marker_set = marker_set h,
      payload_type = of_nat (viewer_payload (is_audio m h) (media_session t)), hdr_ssrc = viewer_ssrc (is_audio m h) (media_session t)\<rparr>"
    using remap_rtp_header_correct [OF assms, of m "media_session t"] unfolding recast_def by blast
  with a show "\<exists>b'. recast plain b' \<lparr>marker_set = marker_set h, payload_type = of_nat (viewer_payload (is_audio m h) (media_session t)),
        hdr_ssrc = viewer_ssrc (is_audio m h) (media_session t)\<rparr>
      \<and> viewer_datagram tp plain m t = (case fst (tp_protect tp b' (srtp_outbound e)) of None \<Rightarrow> [] | Some enc \<Rightarrow> [(remote_address c, enc)])"
    by (auto simp: viewer_datagram_def)
qed

text \<open>C2. The stream reaches its viewers, in their terms: a packet from the address of an established
  streamer that decrypts, and whose payload is not too short for the thumbnail extractor, is sent to each viewer of the streamer's own room whose client is established,
  once, and to nobody else. Every viewer of the room has negotiated the codecs and the video format of that
  streamer, and what is encrypted for it with its own outbound session is the packet byte by byte, with its
  marker, except that the payload type and the SSRC are those this viewer was told for that media, provided
  the payload number fits seven bits.\<close>

theorem stream_reaches_viewers:
  assumes "loop_inv srv" "tp_ok tp" "enumerates ord" "get_stun_packet chk data = Inr None"
    and "get_session_by_address rem (session_registry srv) = Some s" "connection_type s = Streamer st"
    and "sess_client s = Some c" "ssl_state c = Established e"
    and "tp_unprotect tp data (srtp_inbound e) = (Some plain, ib)" "rtp_safe plain"
  shows "\<exists>srv' rm h. get_room (owned_room_id st) (session_registry srv) = Some rm \<and> get_rtp_header_data plain = Inr h
     \<and> process_packet chk tp ord now data rem srv = Inr (srv', concat (map (\<lambda>v. viewer_datagram tp plain
          (media_session s) (the (get_session v (session_registry srv)))) (ord (viewer_ids rm))))
     \<and> (\<forall>v \<in> viewer_ids rm. \<exists>t. get_session v (session_registry srv) = Some t \<and> serves (media_session s) (media_session t)
          \<and> plays tp plain h (media_session s) t)"
proof -
  let ?g = "session_registry srv"
  have ok: "server_ok ?g" and inv: "reg_inv ?g" using assms(1) by (simp_all add: loop_inv_def server_ok_def)
  obtain srv' rm where out: "get_room (owned_room_id st) ?g = Some rm"
      "process_packet chk tp ord now data rem srv = Inr (srv', concat (map (\<lambda>v. viewer_datagram tp plain
          (media_session s) (the (get_session v ?g))) (ord (viewer_ids rm))))"
    using media_outputs [OF assms(2) ok assms(3-10)] by blast
  have "12 \<le> length plain" using assms(2,9) unfolding tp_ok_def by (metis fst_conv)
  then obtain h where h: "get_rtp_header_data plain = Inr h" by (auto simp: header_data_iff)
  have "owns ?g (sess_id s) (owned_room_id st)" "owns ?g (owner_id rm) (owned_room_id st)"
    using store.address_stored [OF inv assms(5)] assms(6) reg_invD(4) [OF inv, of "owned_room_id st" rm] out(1)
    by (auto simp: owns_def role_def get_room_def)
  then have "owner_id rm = sess_id s" using one_owner [OF inv] by blast
  then have s: "get_session (owner_id rm) ?g = Some s" using store.address_stored [OF inv assms(5)] by (simp add: get_session_def)
  have "\<exists>t. get_session v ?g = Some t \<and> serves (media_session s) (media_session t)" if "v \<in> viewer_ids rm" for v
    using typed_sessions(2) [OF assms(1) out(1) that] s by auto
  with out h viewer_datagram_plays [OF h] show ?thesis by blast
qed

section \<open>Members\<close>

text \<open>C6. Seen through its directory of members the server does only what it should: packets and status
  requests change nobody's membership, a streamer opens a room that had no streamer, a viewer only enters
  a room that is being streamed, and only the periodic checks remove members. Every run of commands with
  new random ids and short user names, over libraries that behave as documented, is a run of that abstract
  system, in which no room has two streamers, unless it stops before its end, at a command for
  which \<open>command_panics\<close> holds in the state it meets.\<close>

theorem loop_refines_directory:
  assumes "loop_inv srv" "admitted (loop_step chk tp) (loop_allows tp) inputs srv"
  shows "case run (loop_step chk tp) inputs srv of
       Inl p \<Rightarrow> \<exists>before i rest srv1. inputs = before @ i # rest \<and> run (loop_step chk tp) before srv = Inr srv1
         \<and> command_panics chk tp srv1 i
     | Inr srv' \<Rightarrow> abs_run dir_step inputs (members (session_registry srv)) (members (session_registry srv'))
         \<and> (\<forall>i j r. members (session_registry srv') i = Some (True, r) \<and> members (session_registry srv') j = Some (True, r) \<longrightarrow> i = j)"
proof -
  have "i = j" if "loop_inv srv'" "members (session_registry srv') i = Some (True, r)" "members (session_registry srv') j = Some (True, r)"
    for srv' :: "'a udp_server" and i j r
    using that one_owner [of "session_registry srv'"] unfolding members_iff by (auto simp: loop_inv_def server_ok_def)
  with loop.run_until_panic [OF assms] show ?thesis by (auto split: sum.splits)
qed

text \<open>The thumbnails that are due.\<close>

definition due_picture :: "instant \<Rightarrow> 'x session \<Rightarrow> room_id \<Rightarrow> image_data \<Rightarrow> bool" where
  "due_picture now s r pic \<longleftrightarrow> (\<exists>st. connection_type s = Streamer st \<and> owned_room_id st = r
     \<and> last_picture (thumbnail_extractor st) = Some pic
     \<and> (\<forall>t. image_timestamp st = Some t \<longrightarrow> t + 120 * 10 ^ 9 < now))"

lemma update_thumbnail_due: "snd (update_thumbnail now s) = Some (r, pic) \<longleftrightarrow> due_picture now s r pic"
  by (auto simp: update_thumbnail_def due_picture_def thumbnail_due_def SECOND_def less_diff_conv
      split: connection_type.splits option.splits)

definition thumbnail_effects :: "instant \<Rightarrow> id_order \<Rightarrow> 'x session_registry \<Rightarrow> effect list" where
  "thumbnail_effects now ord g = map (\<lambda>(r, pic). SaveThumbnail r pic)
     (filter_map (\<lambda>i. Option.bind (get_session i g) (\<lambda>s. snd (update_thumbnail now s))) (ord (dom (sessions g))))"

lemma set_thumbnail_effects:
  assumes "reg_inv g" "enumerates ord"
  shows "e \<in> set (thumbnail_effects now ord g) \<longleftrightarrow>
     (\<exists>i s r pic. get_session i g = Some s \<and> due_picture now s r pic \<and> e = SaveThumbnail r pic)"
proof -
  have ids: "set (ord (dom (sessions g))) = dom (sessions g)"
    using assms by (simp add: enumerates_def reg_inv_def sessions_ok_def)
  show ?thesis
    unfolding thumbnail_effects_def
    by (force simp: set_filter_map ids bind_eq_Some_conv update_thumbnail_due get_session_def image_iff)
qed

lemma checked_gone: "checked now r = None \<longleftrightarrow> (\<forall>s. r = Some s \<longrightarrow> ttl s + 5 * 10 ^ 9 < now)"
  by (auto simp: checked_def stale_def SECOND_def less_diff_conv split: bind_splits)

lemma checked_kept: "checked now (Some s) = Some s' \<Longrightarrow> same_identity s s' \<and> ttl s' = ttl s \<and> sess_client s' = sess_client s"
  by (auto simp: checked_def update_thumbnail_keeps split: if_splits)

lemma periodic_rooms:
  assumes "reg_inv g" "reg_inv g'" "\<And>i. get_session i g' = checked now (get_session i g)"
  shows "get_room r g' = Option.bind (get_room r g) (\<lambda>rm.
          if get_session (owner_id rm) g' = None then None
          else Some (rm\<lparr>viewer_ids := {v \<in> viewer_ids rm. get_session v g' \<noteq> None}\<rparr>))"
proof -
  have role: "map_option role (sessions g' i) = (if get_session i g' = None then None else map_option role (sessions g i))" for i
    using assms(3) [of i] by (auto simp: get_session_def checked_def split: bind_splits)
  have o: "owns g' i r \<longleftrightarrow> owns g i r \<and> get_session i g' \<noteq> None" and v: "views g' i r \<longleftrightarrow> views g i r \<and> get_session i g' \<noteq> None" for i r
    by (auto simp: owns_def views_def role)
  show ?thesis
  proof (cases "get_room r g")
    case None
    then have "\<not> owns g i r" for i using reg_invD(5) [OF assms(1), of i r] by (auto simp: get_room_def)
    with None reg_invD(4) [OF assms(2), of r] o show ?thesis by (cases "rooms g' r") (auto simp: get_room_def)
  next
    case (Some rm)
    note rm = reg_invD(4) [OF assms(1), of r rm] and rm' = reg_invD(4) [OF assms(2), of r]
    show ?thesis
    proof (cases "get_session (owner_id rm) g' = None")
      case True
      have "rooms g' r = None"
      proof (rule ccontr)
        assume "rooms g' r \<noteq> None"
        then obtain x where "owns g' x r" using rm' by auto
        with o have "owns g x r" "get_session x g' \<noteq> None" by blast+
        with one_owner [OF assms(1), of x r "owner_id rm"] rm Some True show False by (simp add: get_room_def)
      qed
      with Some True show ?thesis by (simp add: get_room_def)
    next
      case False
      have "rooms g' r = Some (rm\<lparr>viewer_ids := {v \<in> viewer_ids rm. get_session v g' \<noteq> None}\<rparr>)"
        unfolding room_iff [OF assms(2)] o v using rm Some False by (auto simp: get_room_def)
      with Some False show ?thesis by (simp add: get_room_def)
    qed
  qed
qed

text \<open>C11. The periodic checks are exact: they never panic; a session survives iff at most five seconds
  passed since it was last heard of, and a surviving one keeps its identity, its client and its time; a
  room survives iff its streamer does, with those of its viewers that survive; and a thumbnail is handed to
  storage for exactly the streamers that have a picture and none saved within the last two minutes.\<close>

theorem periodic_checks_exact:
  assumes "server_ok (session_registry srv)" "enumerates ord"
  shows "\<exists>g' es. run_periodic_checks now ord srv = Inr (set_registry g' srv, es)
     \<and> (\<forall>i. get_session i g' = None \<longleftrightarrow> (\<forall>s. get_session i (session_registry srv) = Some s \<longrightarrow> ttl s + 5 * 10 ^ 9 < now))
     \<and> (\<forall>i s s'. get_session i (session_registry srv) = Some s \<and> get_session i g' = Some s' \<longrightarrow>
          same_identity s s' \<and> ttl s' = ttl s \<and> sess_client s' = sess_client s)
     \<and> (\<forall>r. get_room r g' = Option.bind (get_room r (session_registry srv)) (\<lambda>rm.
          if get_session (owner_id rm) g' = None then None
          else Some (rm\<lparr>viewer_ids := {v \<in> viewer_ids rm. get_session v g' \<noteq> None}\<rparr>)))
     \<and> (\<forall>e. e \<in> set es \<longleftrightarrow> (\<exists>i s r pic. get_session i (session_registry srv) = Some s \<and> due_picture now s r pic
          \<and> e = SaveThumbnail r pic))"
proof -
  let ?g = "session_registry srv"
  let ?es = "thumbnail_effects now ord ?g"
  have inv: "reg_inv ?g" using assms(1) by (simp add: server_ok_def)
  obtain g' where g': "run_periodic_checks now ord srv = Inr (set_registry g' srv, ?es)"
    "server_ok g'" "\<And>i. get_session i g' = checked now (get_session i ?g)"
    using run_periodic_checks_spec [OF assms] unfolding thumbnail_effects_def by blast
  note set_thumbnail_effects [OF inv assms(2), where now = now]
  moreover have "same_identity s s' \<and> ttl s' = ttl s \<and> sess_client s' = sess_client s"
    if "get_session i ?g = Some s" "get_session i g' = Some s'" for i s s'
    using checked_kept [of now s s'] g'(3) [of i] that by simp
  moreover have "get_session i g' = None \<longleftrightarrow> (\<forall>s. get_session i ?g = Some s \<longrightarrow> ttl s + 5 * 10 ^ 9 < now)" for i
    unfolding g'(3) by (rule checked_gone)
  ultimately show ?thesis
    using g'(1) periodic_rooms [OF inv _ g'(3)] g'(2) unfolding server_ok_def by (intro exI [of _ g'] exI [of _ ?es]) blast
qed

text \<open>C20. A viewer joins only a room that exists, and what it is told fits the streamer: with no such room,
  or an offer that does not fit the streamer's session, the worker is answered with nothing and the server
  is unchanged; otherwise the worker gets the printed answer, the new session is found by its ICE user name
  and the room has exactly one more viewer.\<close>

theorem viewer_joins:
  assumes "loop_inv srv" "draws_ok d (session_registry srv)" "offer_ok raw"
  shows "(get_room r (session_registry srv) = None \<longrightarrow> handle_add_viewer d raw r True srv = Inr (srv, [Reply None]))
     \<and> (\<forall>rm. get_room r (session_registry srv) = Some rm \<longrightarrow> (\<exists>s. get_session (owner_id rm) (session_registry srv) = Some s \<and>
          (case accept_viewer_offer (sdp_resolver srv) (d_random d) raw (media_session s) of
             Inl e \<Rightarrow> handle_add_viewer d raw r True srv = Inr (srv, [Reply None])
           | Inr ns \<Rightarrow> \<exists>g' ans. handle_add_viewer d raw r True srv = Inr (set_registry g' srv, [Reply (Some ans)])
               \<and> string_from_sdp (d_strings d) (sdp_answer ns) = Inr ans
               \<and> get_room r g' = Some (rm\<lparr>viewer_ids := insert (d_resource_id d) (viewer_ids rm)\<rparr>)
               \<and> get_session_by_username \<lparr>host = host_username (ice_credentials ns), remote = remote_username (ice_credentials ns)\<rparr> g'
                   = Some (session_new_viewer (d_resource_id d) (d_now d) r ns))))"
proof -
  let ?g = "session_registry srv"
  have ok: "server_ok ?g" "resolver_ok (sdp_resolver srv)" "reg_inv ?g" using assms(1) by (simp_all add: loop_inv_def server_ok_def)
  show ?thesis
  proof (cases "get_room r ?g")
    case None
    from ok(1,2) assms(2,3) None show ?thesis
      by (cases rule: handle_add_viewer_cases [where r = r]) (simp_all add: room_media_def)
  next
    case (Some rm)
    then obtain s where s: "get_session (owner_id rm) ?g = Some s"
      using reg_invD(4) [OF ok(3), of r rm] by (auto simp: get_room_def get_session_def owns_def)
    with Some have m: "room_media r ?g = Some (media_session s)" by (simp add: room_media_def)
    from ok(1,2) assms(2,3) show ?thesis
    proof (cases rule: handle_add_viewer_cases [where r = r])
      case refused
      from refused(1) [OF m] obtain e where "accept_viewer_offer (sdp_resolver srv) (d_random d) raw (media_session s) = Inl e"
        by (cases "accept_viewer_offer (sdp_resolver srv) (d_random d) raw (media_session s)") auto
      with Some s refused(2) show ?thesis by simp
    next
      case (accepted ms ns ans g')
      have "username_map g' \<lparr>host = host_username (ice_credentials ns), remote = remote_username (ice_credentials ns)\<rparr> = Some (d_resource_id d)"
        "rooms g' r = Some (rm\<lparr>viewer_ids := insert (d_resource_id d) (viewer_ids rm)\<rparr>)"
        using accepted(4) Some by (auto simp: add_viewer_def Let_def session_username_of_def session_new_viewer_def get_room_def)
      with accepted m Some s show ?thesis
        by (auto simp: get_room_def get_session_by_username_def)
    qed
  qed
qed

lemma finite_rooms: "reg_inv g \<Longrightarrow> finite (dom (rooms g))"
proof -
  assume inv: "reg_inv g"
  have "dom (rooms g) \<subseteq> (\<lambda>i. snd (role (the (sessions g i)))) ` dom (sessions g)"
  proof
    fix r
    assume "r \<in> dom (rooms g)"
    then obtain rm where "rooms g r = Some rm" by blast
    with reg_invD(4) [OF inv, of r rm] obtain s where "sessions g (owner_id rm) = Some s" "role s = (True, r)"
      by (auto simp: owns_def)
    then show "r \<in> (\<lambda>i. snd (role (the (sessions g i)))) ` dom (sessions g)"
      by (intro image_eqI [of _ _ "owner_id rm"]) auto
  qed
  with inv show ?thesis by (auto simp: reg_inv_def sessions_ok_def intro: finite_subset)
qed

text \<open>C30. The status the HTTP workers get is exact: one entry for every room that is being streamed, and no
  other, with the number of sessions that watch it.\<close>

theorem rooms_status_exact:
  assumes "reg_inv g" "enumerates ord"
  shows "distinct (map status_id (rooms_notification ord g))
     \<and> (\<forall>r n. \<lparr>viewer_count = n, status_id = r\<rparr> \<in> set (rooms_notification ord g) \<longleftrightarrow>
          hosted (members g) r \<and> n = card {v. members g v = Some (False, r)})"
proof -
  let ?ids = "ord (dom (rooms g))"
  have ids: "set ?ids = dom (rooms g)" "distinct ?ids" using assms(2) finite_rooms [OF assms(1)] by (simp_all add: enumerates_def)
  have get: "get_rooms ord g = map (\<lambda>r. the (rooms g r)) ?ids"
  proof -
    have "set ids \<subseteq> dom (rooms g) \<Longrightarrow> filter_map (rooms g) ids = map (\<lambda>r. the (rooms g r)) ids" for ids
      by (induction ids) auto
    with ids(1) show ?thesis by (simp add: get_rooms_def)
  qed
  have rid: "rid (the (rooms g r)) = r" if "r \<in> dom (rooms g)" for r using that reg_invD(4) [OF assms(1)] by auto
  have "map status_id (rooms_notification ord g) = ?ids"
    unfolding rooms_notification_def get using ids(1) rid by (auto intro: map_idI)
  moreover have "hosted (members g) r \<longleftrightarrow> r \<in> dom (rooms g)" for r
    unfolding hosted_def members_iff using reg_invD(4,5) [OF assms(1)] by (metis domD domI)
  moreover have "card (viewer_ids (the (rooms g r))) = card {v. members g v = Some (False, r)}" if "r \<in> dom (rooms g)" for r
    using that reg_invD(4) [OF assms(1)] by (auto simp: members_iff)
  ultimately show ?thesis using ids rid
    by (auto simp: rooms_notification_def get image_iff)
qed

section \<open>A server that is joined\<close>

definition demo_draws :: "instant \<Rightarrow> room_id \<Rightarrow> resource_id \<Rightarrow> draws" where
  "demo_draws now r i = \<lparr>d_now = now, d_room_id = r, d_resource_id = i, d_random = demo_random,
     d_ids = demo_order, d_strings = demo_iter\<rparr>"

definition demo_fresh_server :: "nat udp_server" where
  "demo_fresh_server = \<lparr>session_registry = registry_new, sdp_resolver = demo_resolver, inbound_buffer = [], outbound_buffer = []\<rparr>"

definition demo_commands :: "(draws \<times> server_command) list" where
  "demo_commands = [(demo_draws 0 7 1, AddStreamer demo_whip True), (demo_draws 1 8 2, AddViewer demo_whep 7 True),
     (demo_draws 2 9 3, HandlePacket demo_packet (SockV4 1 1)), (demo_draws (10 ^ 10) 9 3, RunPeriodicChecks)]"

lemma fresh_ids_members:
  "reg_inv g \<Longrightarrow> members g i = None \<Longrightarrow> (\<And>v b. members g v \<noteq> Some (b, r)) \<Longrightarrow> fresh_ids r i g"
  using reg_invD(4) [of g r] unfolding fresh_ids_def members_iff [symmetric]
  by (metis map_option_is_None members_def not_None_eq)

lemma demo_draws_ok:
  "loop_inv srv \<Longrightarrow> members (session_registry srv) i = None \<Longrightarrow> (\<And>v b. members (session_registry srv) v \<noteq> Some (b, r)) \<Longrightarrow>
     draws_ok (demo_draws now r i) (session_registry srv)"
  using fresh_ids_members [of "session_registry srv" i r] demo_order_enumerates demo_iter_iterates demo_host_ok
  by (simp add: draws_ok_def demo_draws_def loop_inv_def server_ok_def)

lemma demo_offers_ok: "offer_ok demo_whip" "offer_ok demo_whep"
  by (simp_all add: offer_ok_def demo_parsed demo_whip_sdp_def demo_whep_sdp_def short_name_def)

lemma demo_packet_ok: "\<not> datagram_panics True demo_tp demo_packet rem g"
  by (rule datagram_safe) (use demo_packet_safe in \<open>auto simp: demo_tp_def split: if_splits\<close>)

lemma demo_decoder: "tp_decoder_new demo_tp = Some 0"
  by (simp add: demo_tp_def)

lemma demo_new: "udp_server_new ''AB:CD'' (SockV4 0x7F000001 52000) = Inr demo_fresh_server"
  by (simp add: udp_server_new_def resolver_new_def demo_fresh_server_def demo_resolver_def fingerprint_try_from_def
      hash_function_from_def)

lemma demo_fresh_inv: "loop_inv demo_fresh_server" "members (session_registry demo_fresh_server) = Map.empty"
proof -
  obtain srv :: "nat udp_server" where "udp_server_new ''AB:CD'' (SockV4 0x7F000001 52000) = Inr srv" "loop_inv srv"
      "members (session_registry srv) = Map.empty"
    using udp_server_new_inv [where address = "SockV4 0x7F000001 52000" and fingerprint = "''AB:CD''"] by auto
  then show "loop_inv demo_fresh_server" "members (session_registry demo_fresh_server) = Map.empty"
    by (simp_all only: demo_new sum.inject)
qed

lemma demo_admitted: "admitted (loop_step True demo_tp) (loop_admits True demo_tp) demo_commands demo_fresh_server"
proof -
  note st = loop_step_ok [of _ True demo_tp]
  have a: "loop_admits True demo_tp srv (demo_draws now r i, cmd)"
    if "loop_inv srv" "command_ok cmd" "\<not> command_panics True demo_tp srv (demo_draws now r i, cmd)"
      "members (session_registry srv) i = None" "\<And>v b. members (session_registry srv) v \<noteq> Some (b, r)" for srv now r i cmd
    using that demo_draws_ok [of srv i r now] demo_tp_ok by (simp add: loop_admits_def loop_allows_def)
  let ?c1 = "(demo_draws 0 7 1, AddStreamer demo_whip True)" and ?c2 = "(demo_draws 1 8 2, AddViewer demo_whep 7 True)"
    and ?c3 = "(demo_draws 2 9 3, HandlePacket demo_packet (SockV4 1 1))" and ?c4 = "(demo_draws (10 ^ 10) 9 3, RunPeriodicChecks)"
  have a1: "loop_admits True demo_tp demo_fresh_server ?c1" by (rule a) (simp_all add: demo_fresh_inv demo_offers_ok demo_decoder)
  from st [OF demo_fresh_inv(1) a1] obtain s1 where s1: "loop_step True demo_tp ?c1 demo_fresh_server = Inr s1" "loop_inv s1"
      "dir_step ?c1 Map.empty (members (session_registry s1))" by (auto simp: demo_fresh_inv(2))
  have m1: "members (session_registry s1) = [1 \<mapsto> (True, 7)]"
    using s1(1) demo_stream_accepted stream_offer_printed [OF demo_stream_accepted demo_host_ok demo_iter_iterates demo_offers_ok(1)]
    by (auto simp: loop_step_def handle_command_def handle_add_streamer_def demo_draws_def demo_fresh_server_def map_res_eq_Inr
        send_reply_def members_def demo_decoder register_streamer_def registry_new_def streamer_session_def role_def fun_eq_iff)
  have a2: "loop_admits True demo_tp s1 ?c2" by (rule a) (simp_all add: s1(2) m1 demo_offers_ok)
  from st [OF s1(2) a2] obtain s2 where s2: "loop_step True demo_tp ?c2 s1 = Inr s2" "loop_inv s2"
      "dir_step ?c2 [1 \<mapsto> (True, 7)] (members (session_registry s2))" by (auto simp: m1)
  have m2: "members (session_registry s2) v \<noteq> Some (b, 9)" "members (session_registry s2) 3 = None" for v b
    using s2(3) by (auto simp: demo_draws_def elim!: dir_stepE split: if_splits)
  have a3: "loop_admits True demo_tp s2 ?c3" using m2 by (intro a) (auto simp: s2(2) demo_packet_ok)
  from st [OF s2(2) a3] obtain s3 where s3: "loop_step True demo_tp ?c3 s2 = Inr s3" "loop_inv s3"
      "members (session_registry s3) = members (session_registry s2)" by (auto elim: dir_stepE)
  have a4: "loop_admits True demo_tp s3 ?c4" using m2 by (intro a) (auto simp: s3(2,3))
  from st [OF s3(2) a4] obtain s4 where "loop_step True demo_tp ?c4 s3 = Inr s4" by auto
  with a1 a2 a3 a4 s1(1) s2(1) s3(1) show ?thesis by (simp add: demo_commands_def)
qed

lemma demo_live_typed: "typed demo_live"
  by (auto simp: typed_def profiles_def profile_def role_def demo_live_parts demo_streamer_session_def demo_viewer_session_def
      streamer_session_def session_new_viewer_def demo_media_def credentials_ok_def alphanumeric_def serves_def split: if_splits)

lemma demo_server_inv: "loop_inv (demo_fresh_server\<lparr>session_registry := demo_live\<rparr>)"
  using demo_fresh_inv(1) demo_live_ok demo_live_typed by (simp add: loop_inv_def)

theorem stream_reaches_viewers_witness:
  "\<exists>srv' out. process_packet True demo_tp demo_order 9 demo_packet (SockV4 1 1) (demo_fresh_server\<lparr>session_registry := demo_live\<rparr>)
       = Inr (srv', [(SockV4 2 2, out)])
     \<and> recast demo_packet out \<lparr>marker_set = True, payload_type = 96, hdr_ssrc = 22\<rparr>"
proof -
  let ?st = "\<lparr>owned_room_id = 7, thumbnail_extractor = extractor_with None 0, image_timestamp = None\<rparr> :: nat streamer"
  let ?e = "\<lparr>ssl_stream = (2, udp_peer_stream_new (SockV4 1 1)), srtp_inbound = 3, srtp_outbound = 4\<rparr> :: nat established_stream"
  let ?srv = "demo_fresh_server\<lparr>session_registry := demo_live\<rparr>"
  have len: "length demo_packet = 14" by (simp add: demo_packet_def)
  have m: "media_session demo_streamer_session = demo_media ''E2Fr''" "media_session demo_viewer_session = demo_media ''vW8x''"
    by (simp_all add: demo_streamer_session_def streamer_session_def demo_viewer_session_def session_new_viewer_def)
  have st: "connection_type demo_streamer_session = Streamer ?st" "sess_client demo_streamer_session = Some (established_client (SockV4 1 1))"
      "sess_client demo_viewer_session = Some (established_client (SockV4 2 2))"
    by (simp_all add: demo_streamer_session_def streamer_session_def demo_viewer_session_def session_new_viewer_def)
  have un: "tp_unprotect demo_tp demo_packet (srtp_inbound ?e) = (Some demo_packet, 3)" using len by (simp add: demo_tp_def)
  have cl: "ssl_state (established_client (SockV4 1 1)) = Established ?e" "\<exists>e. ssl_state (established_client (SockV4 2 2)) = Established e"
      "remote_address (established_client (SockV4 2 2)) = SockV4 2 2"
    by (simp_all add: established_client_def)
  have addr: "get_session_by_address (SockV4 1 1) (session_registry ?srv) = Some demo_streamer_session" using demo_by_address by simp
  have parts: "get_room (owned_room_id ?st) (session_registry ?srv) = Some \<lparr>rid = 7, owner_id = 1, viewer_ids = {2}\<rparr>"
      "get_session 2 (session_registry ?srv) = Some demo_viewer_session"
    by (simp_all add: get_room_def get_session_def demo_live_parts)
  have num: "\<not> is_audio (demo_media ''E2Fr'') demo_header" "viewer_payload False (demo_media ''vW8x'') = 96"
      "viewer_ssrc False (demo_media ''vW8x'') = 22" "demo_order {2 :: resource_id} = [2]"
    by (simp_all add: is_audio_def viewer_payload_def viewer_ssrc_def demo_media_def demo_header_def demo_order_def)
  from stream_reaches_viewers [OF demo_server_inv demo_tp_ok demo_order_enumerates demo_packet_safe(2) addr st(1,2) cl(1) un demo_packet_safe(1),
      of 9] parts obtain srv' where
    p: "process_packet True demo_tp demo_order 9 demo_packet (SockV4 1 1) ?srv
        = Inr (srv', viewer_datagram demo_tp demo_packet (demo_media ''E2Fr'') demo_viewer_session)"
      "plays demo_tp demo_packet demo_header (demo_media ''E2Fr'') demo_viewer_session"
    using demo_packet_header by (auto simp: num m)
  obtain e' where e': "ssl_state (established_client (SockV4 2 2)) = Established e'" using cl(2) by blast
  have "marker_set demo_header" by (simp add: demo_header_def)
  with p(2) [unfolded plays_def, rule_format, of "established_client (SockV4 2 2)" e'] st(3) e' obtain b' where "recast demo_packet b' \<lparr>marker_set = True, payload_type = 96, hdr_ssrc = 22\<rparr>"
      "viewer_datagram demo_tp demo_packet (demo_media ''E2Fr'') demo_viewer_session
         = (case fst (tp_protect demo_tp b' (srtp_outbound e')) of None \<Rightarrow> []
            | Some enc \<Rightarrow> [(remote_address (established_client (SockV4 2 2)), enc)])"
    by (auto simp: m num)
  with p(1) cl(3) show ?thesis by (auto simp: demo_tp_def)
qed

lemma admitted_weaken: "admitted step ad inputs s \<Longrightarrow> (\<And>s i. ad s i \<Longrightarrow> ad' s i) \<Longrightarrow> admitted step ad' inputs s"
  by (induction inputs arbitrary: s) (auto split: sum.splits)

lemma demo_allowed: "admitted (loop_step True demo_tp) (loop_allows demo_tp) demo_commands demo_fresh_server"
  using admitted_weaken [OF demo_admitted] by (simp add: loop_admits_def)

theorem sessions_typed_witness:
  "\<exists>srv'. run (loop_step True demo_tp) demo_commands demo_fresh_server = Inr srv'
     \<and> (\<forall>i s. get_session i (session_registry srv') = Some s \<longrightarrow> credentials_ok (ice_credentials (media_session s)))"
  using sessions_typed [where address = "SockV4 0x7F000001 52000" and fingerprint = "''AB:CD''" and chk = True and tp = demo_tp]
    demo_allowed loop.run_safe [OF demo_fresh_inv(1) demo_admitted] unfolding demo_new by auto

theorem loop_refines_directory_witness:
  "\<exists>srv'. run (loop_step True demo_tp) demo_commands demo_fresh_server = Inr srv'
     \<and> abs_run dir_step demo_commands Map.empty (members (session_registry srv'))"
  using loop_refines_directory [OF demo_fresh_inv(1) demo_allowed] loop.run_safe [OF demo_fresh_inv(1) demo_admitted]
  by (auto simp: demo_fresh_inv(2))

text \<open>A peer that negotiated no SRTP profile: its last handshake packet ends the server thread.\<close>

definition keyless_tp :: "nat third_party" where
  "keyless_tp = demo_tp\<lparr>tp_handshake := \<lambda>x st. (HandshakeOk 2, st, []), tp_session_pair := \<lambda>x. None\<rparr>"

definition demo_greeting :: "nat udp_server" where
  "demo_greeting = demo_fresh_server\<lparr>session_registry := put_session 1
     (demo_streamer_session\<lparr>sess_client := Some \<lparr>ssl_state = Handshake 1 (udp_peer_stream_new (SockV4 1 1)), remote_address = SockV4 1 1\<rparr>\<rparr>) demo_live\<rparr>"

lemma demo_greeting_inv: "loop_inv demo_greeting"
proof -
  have s: "sessions demo_live 1 = Some demo_streamer_session" by (simp add: demo_live_parts)
  let ?s = "demo_streamer_session\<lparr>sess_client := Some \<lparr>ssl_state = Handshake 1 (udp_peer_stream_new (SockV4 1 1)), remote_address = SockV4 1 1\<rparr>\<rparr>"
  have id: "same_identity demo_streamer_session ?s"
    by (simp add: same_identity_def address_of_def role_def demo_streamer_session_def established_client_def)
  have "server_ok (put_session 1 ?s demo_live)" by (rule put_server_ok [OF demo_live_ok s id]) auto
  moreover have "typed (put_session 1 ?s demo_live)"
    using demo_live_typed profiles_put [OF s profile_same [OF id]] by (simp add: typed_def)
  ultimately show ?thesis using demo_fresh_inv(1) by (simp add: loop_inv_def demo_greeting_def)
qed

theorem command_panics_exactly_witness:
  "(\<exists>p. handle_command True keyless_tp (demo_draws 2 9 3) (HandlePacket demo_packet (SockV4 1 1)) demo_greeting = Inl p)
   \<and> (\<exists>srv' es. handle_command True demo_tp (demo_draws 2 9 3) (HandlePacket demo_packet (SockV4 1 1)) demo_greeting = Inr (srv', es))"
proof -
  have ok: "tp_ok keyless_tp" using demo_tp_ok by (simp add: tp_ok_def keyless_tp_def handshake_sets_up_def demo_tp_def)
  have "members (session_registry demo_greeting) i = members demo_live i" for i
    by (simp add: demo_greeting_def members_def put_session_def demo_live_parts role_def)
  then have "members (session_registry demo_greeting) = [1 \<mapsto> (True, 7), 2 \<mapsto> (False, 7)]"
    by (auto simp: members_def demo_live_parts role_def demo_streamer_session_def demo_viewer_session_def
        streamer_session_def session_new_viewer_def fun_eq_iff)
  then have d: "draws_ok (demo_draws 2 9 3) (session_registry demo_greeting)"
    by (intro demo_draws_ok [OF demo_greeting_inv]) auto
  have s: "get_session_by_address (SockV4 1 1) (session_registry demo_greeting) = Some (demo_streamer_session\<lparr>sess_client :=
      Some \<lparr>ssl_state = Handshake 1 (udp_peer_stream_new (SockV4 1 1)), remote_address = SockV4 1 1\<rparr>\<rparr>)"
    by (simp add: get_session_by_address_def demo_greeting_def put_session_def demo_live_parts)
  note exact = command_panics_exactly [OF demo_greeting_inv _ d, of _ "HandlePacket demo_packet (SockV4 1 1)" True]
  have "\<exists>p. handle_command True keyless_tp (demo_draws 2 9 3) (HandlePacket demo_packet (SockV4 1 1)) demo_greeting = Inl p"
    using exact [OF ok] s demo_packet_safe(2) by (simp add: keyless_tp_def)
  moreover have "\<exists>srv' es. handle_command True demo_tp (demo_draws 2 9 3) (HandlePacket demo_packet (SockV4 1 1)) demo_greeting = Inr (srv', es)"
    using exact [OF demo_tp_ok] s demo_packet_safe(2) by (auto simp: demo_tp_def split: if_splits)
  ultimately show ?thesis by blast
qed

theorem periodic_checks_exact_witness:
  "\<exists>g' es. run_periodic_checks (5 * 10 ^ 9) demo_order demo_server = Inr (set_registry g' demo_server, es)
     \<and> get_session 1 g' \<noteq> None \<and> es = []"
proof -
  from periodic_checks_exact [of demo_server demo_order "5 * 10 ^ 9"] demo_live_ok demo_order_enumerates
  obtain g' es where g': "run_periodic_checks (5 * 10 ^ 9) demo_order demo_server = Inr (set_registry g' demo_server, es)"
      "\<forall>i. get_session i g' = None \<longleftrightarrow> (\<forall>s. get_session i demo_live = Some s \<longrightarrow> ttl s + 5 * 10 ^ 9 < 5 * 10 ^ 9)"
      "\<forall>e. e \<in> set es \<longleftrightarrow> (\<exists>i s r pic. get_session i demo_live = Some s \<and> due_picture (5 * 10 ^ 9) s r pic \<and> e = SaveThumbnail r pic)"
    by (auto simp: demo_server_parts)
  have "set es = {}"
    using g'(3) by (auto simp: get_session_def demo_live_parts due_picture_def demo_streamer_session_def demo_viewer_session_def
        streamer_session_def session_new_viewer_def extractor_with_def split: if_splits)
  moreover have "get_session 1 g' \<noteq> None" using g'(2) by (auto simp: get_session_def demo_live_parts)
  ultimately show ?thesis using g'(1) by auto
qed

theorem viewer_joins_witness:
  "handle_add_viewer (demo_draws 1 8 2) demo_whep 9 True demo_fresh_server = Inr (demo_fresh_server, [Reply None])"
  using viewer_joins [of demo_fresh_server "demo_draws 1 8 2" demo_whep 9] demo_fresh_inv demo_draws_ok [of demo_fresh_server 2 8 1]
    demo_offers_ok(2)
  by (simp add: get_room_def demo_fresh_server_def registry_new_def)

theorem rooms_status_exact_witness:
  "\<lparr>viewer_count = 1, status_id = 7\<rparr> \<in> set (rooms_notification demo_order demo_live)"
proof -
  have inv: "reg_inv demo_live" using demo_live_ok by (simp add: server_ok_def)
  have "members demo_live v = (if v = 1 then Some (True, 7) else if v = 2 then Some (False, 7) else None)" for v
    by (simp add: members_def demo_live_parts role_def demo_streamer_session_def demo_viewer_session_def
        streamer_session_def session_new_viewer_def)
  then have "hosted (members demo_live) 7" "{v. members demo_live v = Some (False, 7)} = {2}"
    by (auto simp: hosted_def intro: exI [of _ 1] split: if_splits)
  with rooms_status_exact [OF inv demo_order_enumerates] show ?thesis by simp
qed

end
