(* ===== verification/Http_Props.thy ===== *)
theory Http_Props
  imports Http Command_Loop_Safety
begin

text \<open>
  What the HTTP front end guarantees: requests and responses survive the wire, only authorised requests
  reach the registry, images are read from the storage directory only, and a WHIP request with the token
  and an acceptable offer is answered with an answer the SDP parser reads, its session registered.
\<close>

section \<open>Text on the wire\<close>

definition search_text :: "(string \<times> string) list \<Rightarrow> string" where
  "search_text ps = join ''&'' (map (\<lambda>(k, v). k @ ''='' @ v) ps)"

definition target_text :: "string \<Rightarrow> (string \<times> string) list \<Rightarrow> string" where
  "target_text path ps = (if ps = [] then path else path @ ''?'' @ search_text ps)"

definition header_text :: "(string \<times> string) list \<Rightarrow> string" where
  "header_text hs = concat (map (\<lambda>(k, v). k @ '': '' @ v @ CRLF) hs)"

definition request_text :: "http_method \<Rightarrow> string \<Rightarrow> (string \<times> string) list \<Rightarrow> (string \<times> string) list \<Rightarrow> string" where
  "request_text meth path ps hs =
     string_from_http_method meth @ '' '' @ target_text path ps @ '' HTTP/1.1'' @ CRLF @ header_text hs @ CRLF"

definition word_ok :: "char list \<Rightarrow> string \<Rightarrow> bool" where
  "word_ok bad s \<longleftrightarrow> is_ascii s \<and> LF \<notin> set s \<and> (\<forall>c \<in> set bad. c \<notin> set s)"

definition header_ok :: "string \<times> string \<Rightarrow> bool" where
  "header_ok h \<longleftrightarrow> word_ok '':'' (fst h) \<and> word_ok [] (snd h) \<and> trimmed (fst h) \<and> trimmed (snd h)"

definition search_ok :: "string \<times> string \<Rightarrow> bool" where
  "search_ok p \<longleftrightarrow> word_ok ''=& '' (fst p) \<and> word_ok ''& '' (snd p)"

text \<open>Tables filled in order; a later entry replaces an earlier one.\<close>

definition table :: "(string \<Rightarrow> string) \<Rightarrow> (string \<rightharpoonup> string) \<Rightarrow> (string \<times> string) list \<Rightarrow> (string \<rightharpoonup> string)" where
  "table f m xs = foldl (\<lambda>m (k, v). m(f k \<mapsto> v)) m xs"

lemma table_simps [simp]: "table f m [] = m" "table f m ((k, v) # xs) = table f (m(f k \<mapsto> v)) xs"
  by (simp_all add: table_def)

lemma trim_eq_Nil: "is_ascii s \<Longrightarrow> trim s = [] \<longleftrightarrow> list_all ascii_space s"
proof -
  assume "is_ascii s"
  then have "trim s = [] \<longleftrightarrow> (\<forall>c \<in> set (dropWhile ascii_space s). ascii_space c)" by (simp add: trim_ascii)
  also have "\<dots> \<longleftrightarrow> (\<forall>c \<in> set s. ascii_space c)"
    by (metis dropWhile_eq_Nil_conv empty_iff hd_dropWhile list.set(1) list.set_sel(1))
  finally show ?thesis by (simp add: list_all_iff)
qed

lemma trim_trimmed: "is_ascii s \<Longrightarrow> trimmed s \<Longrightarrow> trim s = s"
  using trim_padded [of "[]" s "[]"] by simp

lemma parse_headers_text:
  assumes "list_all header_ok hs"
  shows "parse_headers lower (as_bytes (header_text hs @ CRLF) @ rest) h = Some (table lower h hs, rest)"
  using assms
proof (induction hs arbitrary: h)
  case Nil
  have "read_line (as_bytes CRLF @ rest) = (CRLF, rest)" using read_line_text [of "[CR]" rest] by simp
  moreover have "trim CRLF = []" by (simp add: trim_eq_Nil ascii_space_def)
  ultimately show ?case by (subst parse_headers.simps) (simp add: header_text_def)
next
  case (Cons x hs)
  obtain k v where x: "x = (k, v)" by force
  let ?l = "k @ '': '' @ v @ [CR]"
  from Cons.prems x have ok: "is_ascii k" "LF \<notin> set k" "CHR '':'' \<notin> set k" "is_ascii v" "LF \<notin> set v" "trimmed k" "trimmed v"
    by (auto simp: header_ok_def word_ok_def)
  have line: "read_line (as_bytes (header_text (x # hs) @ CRLF) @ rest) = (?l @ [LF], as_bytes (header_text hs @ CRLF) @ rest)"
    using read_line_text [of ?l "as_bytes (header_text hs @ CRLF) @ rest"] ok x by (simp add: header_text_def)
  have "trim (?l @ [LF]) \<noteq> []" using ok by (subst trim_eq_Nil) (auto simp: ascii_space_def)
  moreover have "split_once '':'' (?l @ [LF]) = Some (k, '' '' @ v @ CRLF)"
    using split_once_char [of "CHR '':''" k "'' '' @ v @ CRLF"] ok(3) by simp
  moreover have "trim (SP # v @ CRLF) = v"
    using trim_padded [of "'' ''" v CRLF] ok by (simp add: ascii_space_def)
  moreover have "trim k = k" using ok by (simp add: trim_trimmed)
  ultimately show ?case
    unfolding parse_headers.simps [of lower "as_bytes (header_text (x # hs) @ CRLF) @ rest"] line
    using Cons x by simp
qed

lemma parse_search_text:
  assumes "list_all search_ok ps" "ps \<noteq> []"
  shows "parse_search (search_text ps) = Some (table (\<lambda>k. k) Map.empty ps)"
proof -
  let ?t = "\<lambda>(k, v). k @ ''='' @ v :: string"
  have "CHR ''&'' \<notin> set (?t p)" if "p \<in> set ps" for p
    using assms(1) that by (auto simp: list_all_iff search_ok_def word_ok_def)
  then have "split_on (CHR ''&'') (search_text ps) = map ?t ps"
    unfolding search_text_def using assms(2) by (intro split_on_join) auto
  moreover have "parse_search_pairs (map ?t ps) m = Some (table (\<lambda>k. k) m ps)" for m
    using assms(1)
  proof (induction ps arbitrary: m)
    case (Cons p ps)
    then have "CHR ''='' \<notin> set (fst p)" by (simp add: search_ok_def word_ok_def)
    then have "split_once ''='' (fst p @ ''='' @ snd p) = Some (fst p, snd p)"
      using split_once_char [of "CHR ''=''" "fst p" "snd p"] by simp
    with Cons show ?case by (cases p) simp
  qed simp
  ultimately show ?thesis by (simp add: parse_search_def)
qed

section \<open>Requests\<close>

text \<open>The lower-case mapping of the standard library on ASCII text.\<close>

definition lowers_ascii :: "(string \<Rightarrow> string) \<Rightarrow> bool" where
  "lowers_ascii lower \<longleftrightarrow> (\<forall>s. is_ascii s \<longrightarrow> lower s = to_ascii_lowercase s)"

lemma table_cong: "(\<And>k v. (k, v) \<in> set xs \<Longrightarrow> f k = g k) \<Longrightarrow> table f m xs = table g m xs"
proof (induction xs arbitrary: m)
  case (Cons x xs)
  obtain k v where x: "x = (k, v)" by force
  with Cons.prems have "f k = g k" by auto
  with Cons x show ?case by auto
qed simp

lemma method_text: "http_method_of (string_from_http_method m) = Some m" "word_ok '' '' (string_from_http_method m)"
  by (cases m; simp add: http_method_of_def word_ok_def)+

lemma target_word:
  assumes "word_ok '' '' path" "list_all search_ok ps"
  shows "word_ok '' '' (target_text path ps)"
proof -
  have "word_ok '' '' (search_text ps)"
    using assms(2) set_join [of "''&''" "map (\<lambda>(k, v). k @ ''='' @ v) ps"]
    by (fastforce simp: word_ok_def search_text_def list_all_iff search_ok_def is_ascii_def)
  with assms(1) show ?thesis by (auto simp: target_text_def word_ok_def)
qed

lemma target_split:
  assumes "CHR ''?'' \<notin> set path" "list_all search_ok ps"
  shows "(case split_once ''?'' (target_text path ps) of
       Some (path, search) \<Rightarrow> map_option (Pair path) (parse_search search) | None \<Rightarrow> Some (target_text path ps, Map.empty))
     = Some (path, table (\<lambda>k. k) Map.empty ps)"
proof (cases "ps = []")
  case True
  then have "target_text path ps = path" "split_once ''?'' path = None" using assms(1) by (simp_all add: target_text_def)
  with True show ?thesis by (simp del: split_once_char_None)
next
  case False
  with assms split_once_char [of "CHR ''?''" path "search_text ps"] parse_search_text [OF assms(2)]
  show ?thesis by (simp add: target_text_def)
qed

lemma request_line_read:
  assumes "word_ok '' '' path" "list_all search_ok ps"
  shows "read_line (as_bytes (request_text meth path ps hs) @ body)
     = (string_from_http_method meth @ '' '' @ target_text path ps @ '' HTTP/1.1'' @ CRLF, as_bytes (header_text hs @ CRLF) @ body)"
  using read_line_text [of "string_from_http_method meth @ '' '' @ target_text path ps @ '' HTTP/1.1'' @ [CR]"
      "as_bytes (header_text hs @ CRLF) @ body"] target_word [OF assms] method_text(2) [of meth]
  by (simp add: request_text_def word_ok_def)

lemma parse_head_text:
  assumes "lowers_ascii lower" "word_ok '' ?'' path" "list_all search_ok ps" "list_all header_ok hs"
  shows "parse_head lower (as_bytes (request_text meth path ps hs) @ rest)
     = Some (meth, path, table (\<lambda>k. k) Map.empty ps, table to_ascii_lowercase Map.empty hs, rest)"
proof -
  have p: "word_ok '' '' path" "CHR ''?'' \<notin> set path" using assms(2) by (auto simp: word_ok_def)
  have words: "split_on SP (string_from_http_method meth @ '' '' @ target_text path ps @ '' HTTP/1.1'' @ CRLF)
      = [string_from_http_method meth, target_text path ps, ''HTTP/1.1'' @ CRLF]"
    using target_word [OF p(1) assms(3)] method_text(2) [of meth] by (simp add: word_ok_def)
  have "table lower Map.empty hs = table to_ascii_lowercase Map.empty hs"
    by (rule table_cong) (use assms(1,4) in \<open>auto simp: lowers_ascii_def list_all_iff header_ok_def word_ok_def\<close>)
  then have headers: "parse_headers lower (as_bytes (header_text hs @ CRLF) @ rest) Map.empty
      = Some (table to_ascii_lowercase Map.empty hs, rest)"
    using parse_headers_text [OF assms(4)] by simp
  show ?thesis
    unfolding parse_head_def request_line_read [OF p(1) assms(3)] Let_def prod.case words list.case
      method_text(1) Option.bind.simps target_split [OF p(2) assms(3)] headers by simp
qed

lemma parse_http_text:
  assumes "lowers_ascii (he_lower w)" "word_ok '' ?'' path" "list_all search_ok ps" "list_all header_ok hs"
    and "length (request_text meth path ps hs) + length sent \<le> HTTP_LIMIT"
    and "Option.bind (table to_ascii_lowercase Map.empty hs ''content-length'') parse_usize = n" "n = None \<or> the n \<le> he_alloc w"
  shows "parse_http w (as_bytes (request_text meth path ps hs) @ sent)
     = Inr (Some \<lparr>req_path = path, req_method = meth, req_search = table (\<lambda>k. k) Map.empty ps,
                  req_headers = table to_ascii_lowercase Map.empty hs,
                  req_body = map_option (\<lambda>n. take n sent @ replicate (n - length sent) 0) n\<rparr>)"
proof -
  have "take HTTP_LIMIT (as_bytes (request_text meth path ps hs) @ sent) = as_bytes (request_text meth path ps hs) @ sent"
    using assms(5) by simp
  with parse_head_text [OF assms(1-4)] assms(6,7) show ?thesis
    by (auto simp: parse_http_def Let_def read_body_def not_less split: option.split)
qed

text \<open>C26. A request survives the wire: written with its target, its query and its headers, and followed by a
  body of the announced length, it is read back with the same method, path, query, headers (their names in
  lower case, later ones winning) and body, as long as it fits the 15000 bytes a worker reads and the memory
  there is.\<close>

theorem parse_http_roundtrip:
  assumes "lowers_ascii (he_lower w)" "word_ok '' ?'' path" "list_all search_ok ps" "list_all header_ok hs"
    and "table to_ascii_lowercase Map.empty hs ''content-length'' = Some (show_nat (length body))"
    and "length (request_text meth path ps hs) + length body \<le> HTTP_LIMIT" "length body \<le> he_alloc w"
  shows "parse_http w (as_bytes (request_text meth path ps hs) @ body)
     = Inr (Some \<lparr>req_path = path, req_method = meth, req_search = table (\<lambda>k. k) Map.empty ps,
                  req_headers = table to_ascii_lowercase Map.empty hs, req_body = Some body\<rparr>)"
proof -
  have "length body \<le> usize_max" using assms(6) by (simp add: HTTP_LIMIT_def usize_max_def)
  with parse_http_text [OF assms(1-4,6), of "Some (length body)"] assms(5,7) show ?thesis by simp
qed

text \<open>A body that is cut off, by the peer or by the limit of 15000 bytes, is not noticed: the request is
  accepted with the missing bytes replaced by zeros.\<close>

lemma truncated_body_padded:
  assumes "lowers_ascii (he_lower w)" "word_ok '' ?'' path" "list_all search_ok ps" "list_all header_ok hs"
    and "table to_ascii_lowercase Map.empty hs ''content-length'' = Some (show_nat n)" "n \<le> usize_max" "n \<le> he_alloc w"
    and "length (request_text meth path ps hs) + length sent \<le> HTTP_LIMIT" "length sent < n"
  shows "\<exists>req. parse_http w (as_bytes (request_text meth path ps hs) @ sent) = Inr (Some req)
     \<and> req_body req = Some (sent @ replicate (n - length sent) 0)"
  using parse_http_text [OF assms(1-4,8), of "Some n"] assms(5-7,9) by simp

section \<open>Responses\<close>

text \<open>Reading a response: the status, the headers, and what follows the empty line.\<close>

definition read_response :: "bytes \<Rightarrow> (nat \<times> (string \<rightharpoonup> string) \<times> bytes) option" where
  "read_response bs = (let (l, r) = read_line bs in
     case split_on SP l of
       version # st # _ \<Rightarrow>
         if version \<noteq> ''HTTP/1.1'' then None else
         Option.bind (parse_usize st) (\<lambda>status.
           map_option (Pair status) (parse_headers (\<lambda>k. k) r Map.empty))
     | _ \<Rightarrow> None)"

definition headers_ok :: "(string \<rightharpoonup> string) \<Rightarrow> bool" where
  "headers_ok h \<longleftrightarrow> finite (dom h) \<and> (\<forall>k v. h k = Some v \<longrightarrow> header_ok (k, v))"

lemma table_of_order: "table (\<lambda>k. k) m (map (\<lambda>k. (k, the (h k))) ks) = (\<lambda>k. if k \<in> set ks then Some (the (h k)) else m k)"
  by (induction ks arbitrary: m) auto

lemma concat_headers_text:
  "concat_headers ord h = header_text (map (\<lambda>k. (k, the (h k))) (ord (dom h)))"
  by (simp add: concat_headers_def header_text_def comp_def)

lemma read_headers:
  assumes "headers_ok h" "iterates ord"
  shows "parse_headers (\<lambda>k. k) (as_bytes (concat_headers ord h @ CRLF) @ body) Map.empty = Some (h, body)"
proof -
  have ks: "set (ord (dom h)) = dom h" using assms by (simp add: headers_ok_def iterates_def)
  have "list_all header_ok (map (\<lambda>k. (k, the (h k))) (ord (dom h)))"
    using assms(1) ks by (auto simp: list_all_iff headers_ok_def)
  moreover have "table (\<lambda>k. k) Map.empty (map (\<lambda>k. (k, the (h k))) (ord (dom h))) = h"
    unfolding table_of_order ks by (rule ext) (metis domIff option.collapse)
  ultimately show ?thesis
    using parse_headers_text [of "map (\<lambda>k. (k, the (h k))) (ord (dom h))" "\<lambda>k. k" body Map.empty] by (simp only: concat_headers_text)
qed

lemma read_response_text:
  assumes "headers_ok h" "iterates ord" "st \<le> usize_max"
  shows "read_response (as_bytes (''HTTP/1.1 '' @ show_nat st @ '' '' @ status_text st @ CRLF @ concat_headers ord h @ CRLF) @ body)
     = Some (st, h, body)"
proof -
  let ?l = "''HTTP/1.1 '' @ show_nat st @ '' '' @ status_text st @ [CR]"
  let ?rest = "as_bytes (concat_headers ord h @ CRLF) @ body"
  have chars: "LF \<notin> set (show_nat st)" "SP \<notin> set (show_nat st)" "is_ascii (show_nat st)"
    using show_nat_chars [of _ st] by (fastforce simp: is_ascii_def)+
  moreover have "LF \<notin> set (status_text st)" "is_ascii (status_text st)" by (simp_all add: status_text_def)
  ultimately have l: "read_line (as_bytes (?l @ [LF]) @ ?rest) = (?l @ [LF], ?rest)" by (intro read_line_text) auto
  have w: "split_on SP (?l @ [LF]) = ''HTTP/1.1'' # show_nat st # split_on SP (status_text st @ CRLF)"
    using split_on_append [of SP "''HTTP/1.1''" "show_nat st @ SP # status_text st @ CRLF"]
      split_on_append [of SP "show_nat st" "status_text st @ CRLF"] chars(2) by simp
  have e: "as_bytes (''HTTP/1.1 '' @ show_nat st @ '' '' @ status_text st @ CRLF @ concat_headers ord h @ CRLF) @ body
      = as_bytes (?l @ [LF]) @ ?rest" by simp
  show ?thesis
    unfolding read_response_def e l Let_def prod.case w list.case read_headers [OF assms(1,2)] using assms(3) by simp
qed

lemma length_header_ok: "header_ok (''content-length'', show_nat n)"
proof -
  have c: "\<not> ascii_space x \<and> of_char x < (128 :: nat)" if "x \<in> set (show_nat n)" for x
    using show_nat_chars [OF that] by (auto simp: ascii_space_def)
  then have "trimmed (show_nat n)" "is_ascii (show_nat n)" "LF \<notin> set (show_nat n)"
    by (auto simp: trimmed_def is_ascii_def ascii_space_def)
  then show ?thesis by (simp add: header_ok_def word_ok_def trimmed_def ascii_space_def)
qed

text \<open>The configured origin can be sent as a header.\<close>

definition origin_ok :: "http_env \<Rightarrow> bool" where
  "origin_ok w \<longleftrightarrow> iterates (he_order w) \<and> word_ok [] (frontend_url (he_config w)) \<and> trimmed (frontend_url (he_config w))"

lemma build_read:
  assumes "rb_status b = Some st" "st \<le> usize_max" "headers_ok (rb_headers b)" "origin_ok w"
  shows "\<exists>r. build w b = Inr r \<and> resp_status r = st \<and> read_response (resp_inner r) = Some (st,
       (case rb_body b of
          None \<Rightarrow> (rb_headers b)(''Access-Control-Allow-Origin'' \<mapsto> frontend_url (he_config w))
        | Some body \<Rightarrow> (rb_headers b)(''Access-Control-Allow-Origin'' \<mapsto> frontend_url (he_config w),
                                      ''content-length'' \<mapsto> show_nat (length body))),
       (case rb_body b of None \<Rightarrow> [] | Some body \<Rightarrow> body))"
proof -
  let ?h = "(rb_headers b)(''Access-Control-Allow-Origin'' \<mapsto> frontend_url (he_config w))"
  have ord: "iterates (he_order w)"
    and name: "header_ok (''Access-Control-Allow-Origin'', frontend_url (he_config w))"
    using assms(4) by (simp_all add: origin_ok_def header_ok_def word_ok_def trimmed_def ascii_space_def)
  have h: "headers_ok ?h" using assms(3) name by (auto simp: headers_ok_def)
  have h': "headers_ok (?h(''content-length'' \<mapsto> show_nat n))" for n
    using h length_header_ok [of n] by (auto simp: headers_ok_def)
  show ?thesis
  proof (cases "rb_body b")
    case None
    with assms(1) read_response_text [OF h ord assms(2), of "[]"] show ?thesis by (simp add: build_def Let_def)
  next
    case (Some body)
    with assms(1) read_response_text [OF h' ord assms(2), of "length body" body] show ?thesis by (simp add: build_def Let_def)
  qed
qed

section \<open>Who may change what\<close>

lemma build_some: "rb_status b = Some st \<Longrightarrow> \<exists>r. build w b = Inr r \<and> resp_status r = st"
  by (simp add: build_def Let_def split: option.splits)

lemma error_response: "\<exists>r. map_http_err_to_response w e = Inr r \<and> resp_status r = http_error_status e"
  using build_some [of "set_status (http_error_status e) response_builder_new"]
  by (simp add: map_http_err_to_response_def set_status_def)

lemma handle_command_keeps:
  "handle_command chk tp d SendRoomsStatus srv = Inr (srv, [Notification (rooms_notification (d_ids d) (session_registry srv))])"
  by (simp add: handle_command_def)

text \<open>An error response is read with its status and no body.\<close>

lemma error_read:
  assumes "origin_ok w"
  shows "\<exists>r h. map_http_err_to_response w e = Inr r \<and> read_response (resp_inner r) = Some (http_error_status e, h, [])"
proof -
  have h: "headers_ok (rb_headers (set_status (http_error_status e) response_builder_new))"
    by (simp add: headers_ok_def set_status_def response_builder_new_def)
  have "http_error_status e \<le> usize_max" by (cases e) (simp_all add: http_error_status_def usize_max_def)
  from build_read [OF _ this h assms] show ?thesis
    by (auto simp: map_http_err_to_response_def set_status_def response_builder_new_def)
qed

text \<open>What a viewer that joins changes.\<close>

definition viewer_joined :: "draws \<Rightarrow> 'x session_registry \<Rightarrow> 'x session_registry \<Rightarrow> bool" where
  "viewer_joined d g g' \<longleftrightarrow> (\<exists>ns r rm.
       get_session (d_resource_id d) g' = Some (session_new_viewer (d_resource_id d) (d_now d) r ns)
     \<and> (\<forall>i. i \<noteq> d_resource_id d \<longrightarrow> get_session i g' = get_session i g)
     \<and> get_room r g = Some rm \<and> get_room r g' = Some (rm\<lparr>viewer_ids := insert (d_resource_id d) (viewer_ids rm)\<rparr>)
     \<and> (\<forall>q. q \<noteq> r \<longrightarrow> get_room q g' = get_room q g))"

lemma add_viewer_joined:
  assumes "handle_add_viewer d raw r listens srv = Inr (srv', es)" "srv' \<noteq> srv"
  shows "viewer_joined d (session_registry srv) (session_registry srv')"
proof -
  from assms obtain ns g' j where g': "add_viewer (d_resource_id d) (d_now d) ns r (session_registry srv) = Inr (j, g')"
      "srv' = set_registry g' srv"
    by (auto simp: handle_add_viewer_def Let_def elim!: bind_resE split: option.splits)
  then show ?thesis
    by (auto simp: viewer_joined_def add_viewer_def Let_def get_session_def get_room_def split: option.splits
        intro!: exI [of _ ns] exI [of _ r])
qed

definition authorised :: "http_env \<Rightarrow> request \<Rightarrow> bool" where
  "authorised w req \<longleftrightarrow> req_headers req ''authorization'' = Some (''Bearer '' @ whip_token (tcp_server_config (he_config w)))"

lemma whip_request_authorised: "whip_request w req = Inr raw \<Longrightarrow> authorised w req"
  by (auto simp: whip_request_def bind_res_eq_Inr ok_or_eq_Inr authorised_def split: if_splits)

lemma whip_request_refused: "\<not> authorised w req \<Longrightarrow> whip_request w req = Inl Unauthorized"
  by (cases "req_headers req ''authorization''") (auto simp: whip_request_def authorised_def ok_or_def)

text \<open>The commands a request can cause.\<close>

lemma serve_asks:
  assumes "serve w req = Inr (Ask cmd k)"
  shows "cmd = SendRoomsStatus \<or> (\<exists>raw. cmd = AddStreamer raw True \<and> req_path req = ''/whip'' \<and> authorised w req)
     \<or> (\<exists>raw r. cmd = AddViewer raw r True \<and> req_path req = ''/whep'' \<and> req_method req = POST)"
  using assms whip_request_authorised [of w req]
  by (auto simp: serve_def whip_route_def whep_route_def rooms_route_def notification_exchange_def map_res_eq_Inr
      split: if_splits sum.splits http_method.splits prod.splits)

text \<open>C13. Only those who may change the server: a connection that changes anything is a request to \<open>/whip\<close>
  that carries the configured bearer token, or a \<open>POST\<close> to \<open>/whep\<close>, and all the latter does is to add one
  viewer, under an id that was free, to one room that existed: every other session and every other room is as
  it was. A request to \<open>/whip\<close> without the token changes nothing, and the bytes it is answered with are a
  response with status 401 and no body.\<close>

theorem http_access_control:
  assumes "parse_http w stream = Inr (Some req)" "get_session (d_resource_id d) (session_registry srv) = None" "origin_ok w"
  shows "(\<forall>srv' out. http_exchange chk tp d w stream srv = Inr (srv', out) \<and> srv' \<noteq> srv \<longrightarrow>
            req_path req = ''/whip'' \<and> req_headers req ''authorization'' = Some (''Bearer '' @ whip_token (tcp_server_config (he_config w)))
          \<or> req_path req = ''/whep'' \<and> req_method req = POST \<and> (\<exists>ns r rm.
                get_session (d_resource_id d) (session_registry srv') = Some (session_new_viewer (d_resource_id d) (d_now d) r ns)
              \<and> (\<forall>i s. get_session i (session_registry srv) = Some s \<longrightarrow> get_session i (session_registry srv') = Some s)
              \<and> (\<forall>i. i \<noteq> d_resource_id d \<longrightarrow> get_session i (session_registry srv') = get_session i (session_registry srv))
              \<and> get_room r (session_registry srv) = Some rm
              \<and> get_room r (session_registry srv') = Some (rm\<lparr>viewer_ids := insert (d_resource_id d) (viewer_ids rm)\<rparr>)
              \<and> (\<forall>q. q \<noteq> r \<longrightarrow> get_room q (session_registry srv') = get_room q (session_registry srv))))
     \<and> (req_path req = ''/whip'' \<and> req_headers req ''authorization'' \<noteq> Some (''Bearer '' @ whip_token (tcp_server_config (he_config w))) \<longrightarrow>
          (\<exists>out h. http_exchange chk tp d w stream srv = Inr (srv, Some out) \<and> read_response out = Some (401, h, [])))"
    (is "(\<forall>srv' out. _ \<longrightarrow> ?allowed srv') \<and> (_ \<longrightarrow> ?refused)")
proof (intro conjI allI impI)
  fix srv' out
  assume *: "http_exchange chk tp d w stream srv = Inr (srv', out) \<and> srv' \<noteq> srv"
  then obtain ex where ex: "serve w req = Inr ex" using assms(1) by (auto simp: http_exchange_def elim!: bind_resE)
  with * assms(1) obtain cmd k where k: "ex = Ask cmd k" by (cases ex) (auto simp: http_exchange_def)
  with * assms(1) ex obtain es where es: "handle_command chk tp d cmd srv = Inr (srv', es)"
    by (auto simp: http_exchange_def elim!: bind_resE split: list.splits)
  from ex k have "serve w req = Inr (Ask cmd k)" by simp
  from serve_asks [OF this] show "?allowed srv'"
  proof (elim disjE exE conjE)
    assume "cmd = SendRoomsStatus"
    with es * show ?thesis by (simp add: handle_command_keeps)
  next
    fix raw r
    assume c: "cmd = AddViewer raw r True" "req_path req = ''/whep''" "req_method req = POST"
    with es have "handle_add_viewer d raw r True srv = Inr (srv', es)" by (simp add: handle_command_def)
    from add_viewer_joined [OF this] * have "viewer_joined d (session_registry srv) (session_registry srv')" by blast
    moreover have "get_session i (session_registry srv') = Some s" if "get_session i (session_registry srv) = Some s"
        "\<forall>i. i \<noteq> d_resource_id d \<longrightarrow> get_session i (session_registry srv') = get_session i (session_registry srv)" for i s
      using that assms(2) by (metis option.distinct(1))
    ultimately show ?thesis using c(2,3) unfolding viewer_joined_def by blast
  qed (simp add: authorised_def)
next
  assume "req_path req = ''/whip'' \<and> req_headers req ''authorization'' \<noteq> Some (''Bearer '' @ whip_token (tcp_server_config (he_config w)))"
  then have "req_path req = ''/whip''" "whip_request w req = Inl Unauthorized"
    using whip_request_refused [of w req] by (simp_all add: authorised_def)
  moreover obtain r :: response and h where "map_http_err_to_response w Unauthorized = Inr r" "read_response (resp_inner r) = Some (401, h, [])"
    using error_read [OF assms(3), of Unauthorized] by (auto simp: http_error_status_def)
  ultimately have "http_exchange chk tp d w stream srv = Inr (srv, Some (resp_inner r)) \<and> read_response (resp_inner r) = Some (401, h, [])"
    using assms(1) by (simp add: http_exchange_def serve_def whip_route_def)
  then show ?refused by blast
qed

text \<open>C27. Only images of the storage directory are given out: whatever file name a request asks for, the
  answer depends on no file but those that lie directly in the configured directory, under a name that has no
  separator and is neither \<open>.\<close> nor \<open>..\<close>.\<close>

theorem images_confined:
  assumes "\<And>n. CHR ''/'' \<notin> set n \<Longrightarrow> n \<notin> {[], ''.'', ''..''} \<Longrightarrow>
      he_files w (path_push (storage_dir (he_config w)) n) = files (path_push (storage_dir (he_config w)) n)"
  shows "images_route w req = images_route (w\<lparr>he_files := files\<rparr>) req"
proof -
  have "he_files w (path_push (storage_dir (he_config w)) n) = files (path_push (storage_dir (he_config w)) n)"
    if "path_file_name f = Some n" for f n
    using assms [of n] path_file_name_plain [OF that] by blast
  then show ?thesis
    by (auto simp: images_route_def map_http_err_to_response_def build_def ok_or_def bind_res_def Let_def split: option.splits)
qed

section \<open>Publishing a stream over HTTP\<close>

lemma route_headers_ok:
  "headers_ok (rb_headers (set_header ''location'' ''http://localhost:8080/whip''
     (set_header ''content-type'' ''application/sdp'' (set_status 201 response_builder_new))))"
  by (auto simp: headers_ok_def set_header_def set_status_def response_builder_new_def header_ok_def word_ok_def trimmed_def
      ascii_space_def split: if_splits)

lemma whip_response_read:
  assumes "origin_ok w"
  shows "\<exists>r h. whip_response w (Some ans) = Inr r \<and> read_response (resp_inner r) = Some (201, h, as_bytes ans)
     \<and> h ''content-type'' = Some ''application/sdp'' \<and> h ''content-length'' = Some (show_nat (length ans))"
    "\<exists>r h. whip_response w None = Inr r \<and> read_response (resp_inner r) = Some (404, h, [])"
proof -
  let ?b = "set_body (as_bytes ans) (set_header ''location'' ''http://localhost:8080/whip''
     (set_header ''content-type'' ''application/sdp'' (set_status 201 response_builder_new)))"
  have "rb_status ?b = Some 201" "rb_body ?b = Some (as_bytes ans)" "headers_ok (rb_headers ?b)"
    using route_headers_ok by (simp_all add: set_body_def) (simp add: set_header_def set_status_def)
  from build_read [OF this(1) _ this(3) assms] this(2)
  show "\<exists>r h. whip_response w (Some ans) = Inr r \<and> read_response (resp_inner r) = Some (201, h, as_bytes ans)
     \<and> h ''content-type'' = Some ''application/sdp'' \<and> h ''content-length'' = Some (show_nat (length ans))"
    by (auto simp: whip_response_def usize_max_def set_body_def set_header_def)
  show "\<exists>r h. whip_response w None = Inr r \<and> read_response (resp_inner r) = Some (404, h, [])"
    using error_read [OF assms, of NotFound] by (auto simp: whip_response_def http_error_status_def)
qed

text \<open>C5. Publishing works end to end: a \<open>/whip\<close> request with the token and an offer the resolver accepts is
  answered with status 201 and an SDP answer that the crate's own parser reads as the negotiated one, and from
  then on the session is found by its ICE user name and owns a new, empty room, provided an H.264 decoder can
  be initialised for it; otherwise the server thread panics. An offer the resolver refuses is answered with
  status 404 and changes nothing.\<close>

theorem whip_publishes:
  assumes "loop_inv srv" "draws_ok d (session_registry srv)" "offer_ok raw" "origin_ok w"
    and "parse_http w stream = Inr (Some req)" "req_path req = ''/whip''"
    and "req_headers req ''authorization'' = Some (''Bearer '' @ whip_token (tcp_server_config (he_config w)))"
    and "Option.bind (req_body req) string_from_utf8 = Some raw"
  shows "case accept_stream_offer (sdp_resolver srv) (d_random d) raw of
       Inl e \<Rightarrow> \<exists>out h. http_exchange chk tp d w stream srv = Inr (srv, Some out) \<and> read_response out = Some (404, h, [])
     | Inr ns \<Rightarrow> (case tp_decoder_new tp of
         None \<Rightarrow> http_exchange chk tp d w stream srv = Inl UnwrapFailed
       | Some dec \<Rightarrow> \<exists>srv' out h ans. http_exchange chk tp d w stream srv = Inr (srv', Some out)
         \<and> read_response out = Some (201, h, as_bytes ans) \<and> h ''content-type'' = Some ''application/sdp''
         \<and> get_sdp ans = Inr (sdp_as_parsed (sdp_answer ns))
         \<and> get_session_by_username \<lparr>host = host_username (ice_credentials ns), remote = remote_username (ice_credentials ns)\<rparr>
             (session_registry srv') = Some (streamer_session dec (d_resource_id d) (d_now d) ns (d_room_id d))
         \<and> get_room (d_room_id d) (session_registry srv') = Some \<lparr>rid = d_room_id d, owner_id = d_resource_id d, viewer_ids = {}\<rparr>)"
proof -
  have ok: "server_ok (session_registry srv)" "resolver_ok (sdp_resolver srv)" using assms(1) by (simp_all add: loop_inv_def)
  have s: "serve w req = Inr (Ask (AddStreamer raw True) (on_reply (whip_response w)))"
    using assms(6-8) by (simp add: serve_def whip_route_def whip_request_def)
  from ok assms(2,3) show ?thesis
  proof (cases rule: handle_add_streamer_cases [where tp = tp])
    case refused
    from refused(1) obtain e where e: "accept_stream_offer (sdp_resolver srv) (d_random d) raw = Inl e"
      by (cases "accept_stream_offer (sdp_resolver srv) (d_random d) raw") auto
    with whip_response_read(2) [OF assms(4)] refused(2) s assms(5) show ?thesis
      by (auto simp: http_exchange_def handle_command_def on_reply_def)
  next
    case (undecoded ns)
    with s assms(5) show ?thesis by (simp add: http_exchange_def handle_command_def)
  next
    case (accepted ns dec ans g')
    have readable: "get_sdp ans = Inr (sdp_as_parsed (sdp_answer ns))"
      using stream_offer_printed [OF accepted(1) ok(2) _ _ assms(3), of "d_strings d"] assms(2) accepted(2) by (auto simp: draws_ok_def)
    have "get_session_by_username \<lparr>host = host_username (ice_credentials ns), remote = remote_username (ice_credentials ns)\<rparr> g'
        = Some (streamer_session dec (d_resource_id d) (d_now d) ns (d_room_id d))"
      "get_room (d_room_id d) g' = Some \<lparr>rid = d_room_id d, owner_id = d_resource_id d, viewer_ids = {}\<rparr>"
      unfolding accepted(4)
      by (simp_all add: register_streamer_def get_session_by_username_def get_room_def room_new_def session_username_of_def
          streamer_session_def)
    with readable whip_response_read(1) [OF assms(4), of ans] accepted(1,3,6) s assms(5) show ?thesis
      by (fastforce simp: http_exchange_def handle_command_def on_reply_def)
  qed
qed

end
