(* ===== verification/Thumbnail_Storage.thy ===== *)
theory Thumbnail_Storage
  imports Config Extractor
begin

text \<open>
  Saving thumbnails (\<open>src/thumbnail.rs\<close>). The WebP encoder (the \<open>webp\<close> crate, at quality 75 over RGB
  pixels; it may give up, which ends the storage thread) and \<open>fs::write\<close> are arguments; the file system is
  a partial map from paths to contents.
\<close>

type_synonym files = "string \<rightharpoonup> bytes"

record storage_library =
  st_webp :: "bytes \<Rightarrow> u32 \<Rightarrow> u32 \<Rightarrow> bytes option"
  st_write :: "string \<Rightarrow> bytes \<Rightarrow> files \<Rightarrow> bool \<times> files"

text \<open>What \<open>fs::write\<close> promises: it touches no other file, and when it succeeds the file has the contents.\<close>

definition storage_ok :: "storage_library \<Rightarrow> bool" where
  "storage_ok lib \<longleftrightarrow> (\<forall>p b fs. (\<forall>q. q \<noteq> p \<longrightarrow> snd (st_write lib p b fs) q = fs q)
     \<and> (fst (st_write lib p b fs) \<longrightarrow> snd (st_write lib p b fs) p = Some b))"

definition thumbnail_name :: "u32 \<Rightarrow> string" where
  "thumbnail_name r = show_nat (unat r) @ ''.webp''"

definition thumbnail_encoded :: "storage_library \<Rightarrow> image_data \<Rightarrow> bytes option" where
  "thumbnail_encoded lib img = st_webp lib (data_buffer img) (ucast (img_width img)) (ucast (img_height img))"

text \<open>A failed write is only logged.\<close>

definition save_thumbnail_to_storage :: "storage_library \<Rightarrow> config \<Rightarrow> u32 \<Rightarrow> image_data \<Rightarrow> files \<Rightarrow> files" where
  "save_thumbnail_to_storage lib cfg r img fs = (case thumbnail_encoded lib img of
       None \<Rightarrow> fs
     | Some encoded \<Rightarrow> snd (st_write lib (path_push (storage_dir cfg) (thumbnail_name r)) encoded fs))"

lemma show_nat_eq: "show_nat m = show_nat n \<longleftrightarrow> m = n"
proof
  assume "show_nat m = show_nat n"
  then have "parse_uint (max m n) (show_nat m) = parse_uint (max m n) (show_nat n)" by simp
  then show "m = n" by simp
qed simp

lemma thumbnail_path_eq:
  "path_push dir (thumbnail_name i) = path_push dir (thumbnail_name j) \<longleftrightarrow> i = j"
  by (auto simp: path_push_def thumbnail_name_def show_nat_eq word_unat_eq_iff)

lemma save_thumbnail_other:
  assumes "storage_ok lib" "q \<noteq> path_push (storage_dir cfg) (thumbnail_name r)"
  shows "save_thumbnail_to_storage lib cfg r img fs q = fs q"
  using assms by (auto simp: save_thumbnail_to_storage_def storage_ok_def split: option.split)

lemma save_thumbnail_stored:
  assumes "storage_ok lib" "thumbnail_encoded lib img = Some encoded"
    and "fst (st_write lib (path_push (storage_dir cfg) (thumbnail_name r)) encoded fs)"
  shows "save_thumbnail_to_storage lib cfg r img fs (path_push (storage_dir cfg) (thumbnail_name r)) = Some encoded"
  using assms by (simp add: save_thumbnail_to_storage_def storage_ok_def)

text \<open>The name is one that \<open>Path::file_name\<close> gives back.\<close>

lemma thumbnail_name_file: "path_file_name (thumbnail_name r) = Some (thumbnail_name r)"
proof -
  have c: "CHR ''/'' \<notin> set (thumbnail_name r)"
    using show_nat_chars [of "CHR ''/''" "unat r"] by (auto simp: thumbnail_name_def)
  have "thumbnail_name r \<noteq> s" if "length s \<le> 2" for s
    using that by (auto simp: thumbnail_name_def)
  from this [of "[]"] this [of "''.''"] this [of "''..''"] show ?thesis using c by (simp add: path_file_name_def)
qed

end
