(* ===== verification/Media_Server.thy ===== *)
theory Media_Server
  imports Http_Props Thumbnail_Storage
begin

text \<open>
  The start of the program (\<open>main\<close> of \<open>src/main.rs\<close>) from the environment, what the UDP thread and the timer
  feed into the command loop, and which requests an HTTP worker can serve to their end. The threads
  themselves are in Threads.
\<close>

section \<open>The threads\<close>

definition UDP_BUFFER :: nat where "UDP_BUFFER = 3600"

text \<open>The UDP thread: a datagram longer than the buffer is cut off.\<close>

definition start_udp_server :: "bytes \<Rightarrow> socket_addr \<Rightarrow> server_command" where
  "start_udp_server datagram rem = HandlePacket (take UDP_BUFFER datagram) rem"

definition start_timeout_interval :: server_command where
  "start_timeout_interval = RunPeriodicChecks"

text \<open>The start: the configuration is read, the UDP socket bound and duplicated for the server, the server
  made, and the socket duplicated once more for the UDP thread. Each duplicate is unwrapped; \<open>clones n\<close> tells
  whether the operating system grants the \<open>n\<close>-th.\<close>

definition build_udp_socket :: "(socket_addr \<Rightarrow> bool) \<Rightarrow> config \<Rightarrow> panic + socket_addr" where
  "build_udp_socket binds cfg =
     (if binds (udp_address (udp_server_config cfg)) then Inr (udp_address (udp_server_config cfg)) else Inl UnwrapFailed)"

definition main_start ::
    "(socket_addr \<Rightarrow> bool) \<Rightarrow> (nat \<Rightarrow> bool) \<Rightarrow> tls_library \<Rightarrow> (string \<rightharpoonup> string) \<Rightarrow> panic + (config \<times> 'x udp_server)" where
  "main_start binds clones tls env =
     bind_res (get_global_config tls env None) (\<lambda>(cfg, _).
     bind_res (build_udp_socket binds cfg) (\<lambda>_.
     if \<not> clones 0 then Inl UnwrapFailed else
     bind_res (udp_server_new (fingerprint (ssl_config cfg)) (udp_address (udp_server_config cfg))) (\<lambda>srv.
     if \<not> clones 1 then Inl UnwrapFailed else Inr (cfg, srv))))"

section \<open>Requests that can be served\<close>

text \<open>The length a request announces.\<close>

definition announced :: "http_env \<Rightarrow> bytes \<Rightarrow> nat option" where
  "announced w stream = Option.bind (parse_head (he_lower w) (take HTTP_LIMIT stream))
     (\<lambda>(_, _, _, headers, _). Option.bind (headers ''content-length'') parse_usize)"

definition connection_ok :: "http_env \<Rightarrow> bytes \<Rightarrow> bool" where
  "connection_ok w stream \<longleftrightarrow> (\<forall>n. announced w stream = Some n \<longrightarrow> n \<le> he_alloc w)
     \<and> (\<forall>req raw. parse_http w stream = Inr (Some req) \<and> Option.bind (req_body req) string_from_utf8 = Some raw \<longrightarrow> offer_ok raw)"

section \<open>Connections\<close>

text \<open>A request is read unless it announces more than can be allocated.\<close>

lemma parse_http_ok:
  assumes "\<forall>n. announced w stream = Some n \<longrightarrow> n \<le> he_alloc w"
  shows "\<exists>r. parse_http w stream = Inr r"
  using assms by (auto simp: announced_def parse_http_def Let_def read_body_def not_less split: option.split)

lemma parse_http_files [simp]: "parse_http (w\<lparr>he_files := fs\<rparr>) = parse_http w"
  by (rule ext) (simp add: parse_http_def Let_def split: option.split)

lemma authorised_files [simp]: "authorised (w\<lparr>he_files := fs\<rparr>) = authorised w"
  by (simp add: authorised_def fun_eq_iff)

lemma build_ok: "rb_status b = Some st \<Longrightarrow> \<exists>r. build w b = Inr r"
  using build_some by blast

lemma error_ok: "\<exists>r. map_http_err_to_response w e = Inr r"
  using error_response by blast

lemma map_res_ok: "(\<exists>r. x = Inr r) \<Longrightarrow> \<exists>r. map_res f x = Inr r"
  by auto

lemmas route_defs = whip_response_def whep_response_def rooms_response_def options_route_def notification_header_def
  set_status_def set_header_def set_body_def add_body_def response_builder_new_def

lemma responses_ok: "\<exists>r. whip_response w ans = Inr r" "\<exists>r. whep_response w ans = Inr r" "\<exists>r. rooms_response w n = Inr r"
    "\<exists>r. options_route w = Inr r" "\<exists>r. images_route w req = Inr r" "\<exists>r. notification_header w = Inr r"
  by (auto simp: route_defs images_route_def error_ok intro!: build_ok split: option.split sum.split)

text \<open>Every request is served: the worker answers, or asks with a command of its route and turns the reply
  to it into an answer.\<close>

definition replies :: "server_command \<Rightarrow> effect \<Rightarrow> bool" where
  "replies cmd e \<longleftrightarrow> (case cmd of SendRoomsStatus \<Rightarrow> \<exists>n. e = Notification n | _ \<Rightarrow> \<exists>r. e = Reply r)"

lemma serve_ok: "\<exists>ex. serve w req = Inr ex \<and> (\<forall>cmd k e. ex = Ask cmd k \<and> replies cmd e \<longrightarrow> (\<exists>out. k (Some e) = Inr out))"
proof -
  note ok = responses_ok [of w] error_ok [of w] map_res_ok
  have a: "\<exists>ex. map_res Answer x = Inr ex \<and> (\<forall>cmd k e. ex = Ask cmd k \<and> replies cmd e \<longrightarrow> (\<exists>out. k (Some e) = Inr out))"
    if "\<exists>r. x = Inr r" for x :: "panic + response"
    using that by auto
  have whip: "\<exists>ex. whip_route w req = Inr ex \<and> (\<forall>cmd k e. ex = Ask cmd k \<and> replies cmd e \<longrightarrow> (\<exists>out. k (Some e) = Inr out))"
    using a [OF ok(7)] ok(1) by (cases "whip_request w req") (fastforce simp: whip_route_def replies_def on_reply_def intro: map_res_ok)+
  have whep: "\<exists>ex. whep_route w req = Inr ex \<and> (\<forall>cmd k e. ex = Ask cmd k \<and> replies cmd e \<longrightarrow> (\<exists>out. k (Some e) = Inr out))"
    using a [OF ok(7)] ok(2) by (cases "whep_request req") (fastforce simp: whep_route_def replies_def on_reply_def intro: map_res_ok)+
  have n: "\<exists>out. map_res fst (notification_route w True [(n, True)]) = Inr out" for n
    using ok(6) by (auto simp: notification_route_def)
  show ?thesis
    using whip whep a [OF ok(4)] a [OF ok(5)] a [OF ok(7)] n ok(3)
    by (auto simp: serve_def rooms_route_def notification_exchange_def replies_def intro: map_res_ok split: http_method.split)
qed

lemma serve_asks_ok:
  assumes "serve w req = Inr (Ask cmd k)" "connection_ok w stream" "parse_http w stream = Inr (Some req)"
  shows "command_ok cmd"
proof -
  have "Option.bind (req_body req) string_from_utf8 = Some raw"
    if "cmd = AddStreamer raw listens \<or> cmd = AddViewer raw r listens" for raw listens r
    using assms(1) that
    by (auto simp: serve_def whip_route_def whep_route_def rooms_route_def notification_exchange_def map_res_eq_Inr
        whip_request_def whep_request_def bind_res_eq_Inr ok_or_eq_Inr split: if_splits sum.splits http_method.splits prod.splits)
  then have "offer_ok raw" if "cmd = AddStreamer raw listens \<or> cmd = AddViewer raw r listens" for raw listens r
    using assms(2,3) that unfolding connection_ok_def by blast
  with serve_asks [OF assms(1)] show ?thesis by auto
qed

lemma connection_ok_files [simp]: "connection_ok (w\<lparr>he_files := fs\<rparr>) = connection_ok w"
  by (simp add: connection_ok_def announced_def fun_eq_iff)

end
