(* ===== verification/Traces.thy ===== *)
theory Traces
  imports Prelude
begin

text \<open>
  Runs of a system whose steps put commands into a channel and take commands out of it, with the commands
  that were sent and handled on the way. What one step does to the channel and to the state behind it is
  the contract of the locale \<open>channel_system\<close>; that whole runs then have one order of commands is proved
  once from it.
\<close>

inductive traced ::
    "('a \<Rightarrow> 's \<Rightarrow> 's \<Rightarrow> bool) \<Rightarrow> ('a \<Rightarrow> 's \<Rightarrow> 'q list) \<Rightarrow> ('a \<Rightarrow> 's \<Rightarrow> 'h list) \<Rightarrow> 's \<Rightarrow> 'a list \<Rightarrow> 'q list \<Rightarrow> 'h list \<Rightarrow> 's \<Rightarrow> bool"
  for step sends handles s0 where
  run_start: "traced step sends handles s0 [] [] [] s0"
| run_step: "traced step sends handles s0 acts sent handled s \<Longrightarrow> step act s s' \<Longrightarrow>
    traced step sends handles s0 (acts @ [act]) (sent @ sends act s) (handled @ handles act s) s'"

text \<open>A run can be cut at any of its actions.\<close>

lemma traced_split:
  assumes "traced step sends handles s0 acts sent handled s" "act \<in> set acts"
  shows "\<exists>a1 a2 q1 q2 h1 h2 s1 s2. acts = a1 @ act # a2 \<and> traced step sends handles s0 a1 q1 h1 s1
     \<and> step act s1 s2 \<and> traced step sends handles s2 a2 q2 h2 s \<and> handled = h1 @ handles act s1 @ h2"
  using assms
proof (induction rule: traced.induct)
  case (run_step acts sent handled s act' s')
  show ?case
  proof (cases "act \<in> set acts")
    case True
    with run_step.IH obtain a1 a2 q1 q2 h1 h2 s1 s2 where "acts = a1 @ act # a2" "traced step sends handles s0 a1 q1 h1 s1"
        "step act s1 s2" "traced step sends handles s2 a2 q2 h2 s" "handled = h1 @ handles act s1 @ h2"
      by blast
    with traced.run_step [of step sends handles s2 a2 q2 h2 s act' s'] run_step.hyps(2) show ?thesis
      by (intro exI [of _ a1] exI [of _ "a2 @ [act']"] exI [of _ q1] exI [of _ "q2 @ sends act' s"] exI [of _ h1]
          exI [of _ "h2 @ handles act' s"] exI [of _ s1] exI [of _ s2]) simp
  next
    case False
    with run_step traced.run_start [of step sends handles s'] show ?thesis
      by (intro exI [of _ acts] exI [of _ "[]"] exI [of _ sent] exI [of _ "[]"] exI [of _ handled]
          exI [of _ "[]"] exI [of _ s] exI [of _ s']) simp
  qed
qed simp

locale kept_by_steps =
  fixes step :: "'a \<Rightarrow> 's \<Rightarrow> 's \<Rightarrow> bool" and inv :: "'s \<Rightarrow> bool"
  assumes step_keeps: "step act s s' \<Longrightarrow> inv s \<Longrightarrow> inv s'"
begin

lemma run_keeps: "traced step sends handles s0 acts sent handled s \<Longrightarrow> inv s0 \<Longrightarrow> inv s"
  by (induction rule: traced.induct) (auto intro: step_keeps)

end

locale channel_system =
  fixes step :: "'a \<Rightarrow> 's \<Rightarrow> 's \<Rightarrow> bool" and sends :: "'a \<Rightarrow> 's \<Rightarrow> 'q list" and handles :: "'a \<Rightarrow> 's \<Rightarrow> 'h list"
    and channel :: "'s \<Rightarrow> 'q list" and command :: "'h \<Rightarrow> 'q"
    and view :: "'s \<Rightarrow> 'v" and perform :: "'h list \<Rightarrow> 'v \<Rightarrow> 'e + 'v"
  assumes step_queues: "step act s s' \<Longrightarrow> map command (handles act s) @ channel s' = channel s @ sends act s"
    and step_performs: "step act s s' \<Longrightarrow> perform (handles act s) (view s) = Inr (view s')"
    and perform_none: "perform [] v = Inr v"
    and perform_append: "perform (h @ h') v = bind_res (perform h v) (perform h')"
begin

text \<open>Commands are handled in the order they were sent, and the state is what they make of it in that
  order.\<close>

lemma run_fifo: "traced step sends handles s0 acts sent handled s \<Longrightarrow> map command handled @ channel s = channel s0 @ sent"
proof (induction rule: traced.induct)
  case (run_step acts sent handled s act s')
  then show ?case using step_queues [OF run_step.hyps(2)] by (metis append.assoc map_append)
qed simp

lemma run_performs: "traced step sends handles s0 acts sent handled s \<Longrightarrow> perform handled (view s0) = Inr (view s)"
  by (induction rule: traced.induct) (simp_all add: perform_none perform_append step_performs)

end

end
