(* ===== verification/Threads.thy ===== *)
theory Threads
  imports Media_Server Traces
begin

text \<open>
  The threads of the program and the channel between them. The UDP thread, the timer and the HTTP
  workers run beside the thread that owns the server; they meet in the command channel of \<open>main\<close>, a
  queue without bound, and in the reply channel each worker makes for its command. A step is one thread
  going from one of these meeting points to its next; which thread goes is up to the scheduler. What a
  worker does between its meeting points touches nothing the others see, except the stored images,
  which it reads when it serves a request for one.
\<close>

section \<open>The state of the threads\<close>

text \<open>A worker waits for its reply, has it, has written its response and gone, holds an event stream
  open between two events, or has gone without a response because its peer went away before anything was
  written, with the panic it ended in, if any. The flag tells the workers of event streams from the others.\<close>

datatype worker =
    Awaiting bool "effect option \<Rightarrow> panic + bytes"
  | Replied bool "effect option \<Rightarrow> panic + bytes" effect
  | Finished "bytes option"
  | Subscribed bytes
  | Dropped "panic option"

datatype origin = UdpThread | TimerThread | Worker nat

record 'x program =
  pg_server :: "'x udp_server"
  pg_channel :: "(origin \<times> server_command) list"
  pg_workers :: "nat \<rightharpoonup> worker"
  pg_storage :: "(room_id \<times> image_data) list"
  pg_files :: files

definition program_start :: "'x udp_server \<Rightarrow> files \<Rightarrow> 'x program" where
  "program_start srv fs = \<lparr>pg_server = srv, pg_channel = [], pg_workers = Map.empty, pg_storage = [], pg_files = fs\<rparr>"

definition send :: "origin \<Rightarrow> server_command \<Rightarrow> 'x program \<Rightarrow> 'x program" where
  "send src cmd st = st\<lparr>pg_channel := pg_channel st @ [(src, cmd)]\<rparr>"

definition set_worker :: "nat \<Rightarrow> worker \<Rightarrow> 'x program \<Rightarrow> 'x program" where
  "set_worker i wk st = st\<lparr>pg_workers := (pg_workers st)(i \<mapsto> wk)\<rparr>"

text \<open>The reply goes to the worker that sent the command; the thumbnails to new threads.\<close>

fun deliver :: "origin \<Rightarrow> effect list \<Rightarrow> (nat \<rightharpoonup> worker) \<Rightarrow> (nat \<rightharpoonup> worker)" where
  "deliver (Worker i) (e # _) ws = (case ws i of Some (Awaiting b k) \<Rightarrow> ws(i \<mapsto> Replied b k e) | _ \<Rightarrow> ws)"
| "deliver _ _ ws = ws"

definition thumbnails_of :: "effect list \<Rightarrow> (room_id \<times> image_data) list" where
  "thumbnails_of es = filter_map (\<lambda>e. case e of SaveThumbnail r pic \<Rightarrow> Some (r, pic) | _ \<Rightarrow> None) es"

text \<open>The loop of an event stream: the next notification is written after what was written so far.\<close>

definition next_event :: "http_env \<Rightarrow> bytes \<Rightarrow> effect option \<Rightarrow> panic + bytes" where
  "next_event w out e = Inr (out @ fst (notification_loop w (case e of Some (Notification n) \<Rightarrow> [(n, True)] | _ \<Rightarrow> [])))"

text \<open>The pool runs at most sixty jobs at a time; a connection beyond that waits until a worker is free.\<close>

definition POOL_SIZE :: nat where "POOL_SIZE = 60"

fun unfinished :: "worker \<Rightarrow> bool" where
  "unfinished (Finished _) = False"
| "unfinished (Dropped _) = False"
| "unfinished _ = True"

definition busy :: "'x program \<Rightarrow> nat set" where
  "busy st = {i. \<exists>wk. pg_workers st i = Some wk \<and> unfinished wk}"

definition pool_free :: "'x program \<Rightarrow> bool" where
  "pool_free st \<longleftrightarrow> card (busy st) < POOL_SIZE"

section \<open>Steps\<close>

datatype action =
    Receive bytes socket_addr
  | Tick
  | Accept nat bytes
  | AcceptBroken nat bytes
  | Turn draws
  | Collect nat
  | Resubscribe nat
  | Disconnect nat
  | Store nat

text \<open>The steps of the workers: a connection is taken when a worker of the pool is free. A peer that has
  gone away is noticed when something is written to it: an event stream then ends with what was written
  before; the worker of another request has no response to show for it. That worker panics for \<open>/whip\<close> and
  \<open>/whep\<close>, which unwrap the failed write (and are the routes that are answered by a \<open>Reply\<close>); the others
  ignore it. The pool replaces a worker that panicked, so its place is free again in either case.\<close>

definition write_failure :: "bool \<Rightarrow> panic option" where
  "write_failure unwrapped = (if unwrapped then Some UnwrapFailed else None)"

definition unwraps_write :: "request \<Rightarrow> bool" where
  "unwraps_write req \<longleftrightarrow> req_path req = ''/whip'' \<or> req_path req = ''/whep''"

fun is_reply :: "effect \<Rightarrow> bool" where
  "is_reply (Reply _) = True"
| "is_reply _ = False"

definition is_stream :: "request \<Rightarrow> bool" where
  "is_stream req \<longleftrightarrow> req_path req = ''/notifications''"

inductive program_step ::
    "bool \<Rightarrow> 'x third_party \<Rightarrow> storage_library \<Rightarrow> http_env \<Rightarrow> action \<Rightarrow> 'x program \<Rightarrow> 'x program \<Rightarrow> bool"
  for chk tp lib w where
  receive: "program_step chk tp lib w (Receive datagram rem) st (send UdpThread (start_udp_server datagram rem) st)"
| tick: "program_step chk tp lib w Tick st (send TimerThread start_timeout_interval st)"
| accept_none: "pg_workers st i = None \<Longrightarrow> pool_free st \<Longrightarrow> parse_http w stream = Inr None \<Longrightarrow>
    program_step chk tp lib w (Accept i stream) st (set_worker i (Finished None) st)"
| accept_answer: "pg_workers st i = None \<Longrightarrow> pool_free st \<Longrightarrow> parse_http w stream = Inr (Some req) \<Longrightarrow>
    serve (w\<lparr>he_files := pg_files st\<rparr>) req = Inr (Answer resp) \<Longrightarrow>
    program_step chk tp lib w (Accept i stream) st (set_worker i (Finished (Some (resp_inner resp))) st)"
| accept_ask: "pg_workers st i = None \<Longrightarrow> pool_free st \<Longrightarrow> parse_http w stream = Inr (Some req) \<Longrightarrow>
    serve (w\<lparr>he_files := pg_files st\<rparr>) req = Inr (Ask cmd k) \<Longrightarrow>
    program_step chk tp lib w (Accept i stream) st (set_worker i (Awaiting (is_stream req) k) (send (Worker i) cmd st))"
| accept_broken: "pg_workers st i = None \<Longrightarrow> pool_free st \<Longrightarrow> parse_http w stream = Inr (Some req) \<Longrightarrow>
    is_stream req \<Longrightarrow> serve (w\<lparr>he_files := pg_files st\<rparr>) req = Inr (Ask cmd k) \<Longrightarrow>
    program_step chk tp lib w (AcceptBroken i stream) st (set_worker i (Dropped None) (send (Worker i) cmd st))"
| answer_lost: "pg_workers st i = None \<Longrightarrow> pool_free st \<Longrightarrow> parse_http w stream = Inr (Some req) \<Longrightarrow>
    serve (w\<lparr>he_files := pg_files st\<rparr>) req = Inr (Answer resp) \<Longrightarrow>
    program_step chk tp lib w (AcceptBroken i stream) st (set_worker i (Dropped (write_failure (unwraps_write req))) st)"
| turn: "pg_channel st = (src, cmd) # rest \<Longrightarrow> handle_command chk tp d cmd (pg_server st) = Inr (srv, es) \<Longrightarrow>
    program_step chk tp lib w (Turn d) st (st\<lparr>pg_server := srv, pg_channel := rest,
      pg_workers := deliver src es (pg_workers st), pg_storage := pg_storage st @ thumbnails_of es\<rparr>)"
| collect: "pg_workers st i = Some (Replied b k e) \<Longrightarrow> k (Some e) = Inr out \<Longrightarrow>
    program_step chk tp lib w (Collect i) st (set_worker i (if b then Subscribed out else Finished (Some out)) st)"
| resubscribe: "pg_workers st i = Some (Subscribed out) \<Longrightarrow>
    program_step chk tp lib w (Resubscribe i) st (set_worker i (Awaiting True (next_event w out)) (send (Worker i) SendRoomsStatus st))"
| disconnect: "pg_workers st i = Some (Replied True k e) \<Longrightarrow> k None = Inr out \<Longrightarrow>
    program_step chk tp lib w (Disconnect i) st (set_worker i (Finished (Some out)) st)"
| reply_lost: "pg_workers st i = Some (Replied False k e) \<Longrightarrow> k (Some e) = Inr out \<Longrightarrow>
    program_step chk tp lib w (Disconnect i) st (set_worker i (Dropped (write_failure (is_reply e))) st)"
| store: "n < length (pg_storage st) \<Longrightarrow> pg_storage st ! n = (r, pic) \<Longrightarrow>
    program_step chk tp lib w (Store n) st (st\<lparr>pg_storage := take n (pg_storage st) @ drop (Suc n) (pg_storage st),
      pg_files := save_thumbnail_to_storage lib (he_config w) r pic (pg_files st)\<rparr>)"

inductive_cases program_stepE: "program_step chk tp lib w act st st'"
inductive_cases turnE: "program_step chk tp lib w (Turn d) st st'"

text \<open>A run, with the commands that were sent and those that were handled, in order.\<close>

fun asked :: "panic + exchange \<Rightarrow> server_command option" where
  "asked (Inr (Ask cmd k)) = Some cmd"
| "asked _ = None"

definition request_command :: "http_env \<Rightarrow> files \<Rightarrow> bytes \<Rightarrow> server_command list" where
  "request_command w fs stream = (case parse_http w stream of
       Inr (Some req) \<Rightarrow> (case asked (serve (w\<lparr>he_files := fs\<rparr>) req) of None \<Rightarrow> [] | Some cmd \<Rightarrow> [cmd])
     | _ \<Rightarrow> [])"

fun sends :: "http_env \<Rightarrow> action \<Rightarrow> 'x program \<Rightarrow> (origin \<times> server_command) list" where
  "sends w (Receive datagram rem) st = [(UdpThread, start_udp_server datagram rem)]"
| "sends w Tick st = [(TimerThread, start_timeout_interval)]"
| "sends w (Accept i stream) st = map (Pair (Worker i)) (request_command w (pg_files st) stream)"
| "sends w (AcceptBroken i stream) st = map (Pair (Worker i)) (request_command w (pg_files st) stream)"
| "sends w (Resubscribe i) st = [(Worker i, SendRoomsStatus)]"
| "sends w _ st = []"

fun handles :: "action \<Rightarrow> 'x program \<Rightarrow> (origin \<times> draws \<times> server_command) list" where
  "handles (Turn d) st = (case pg_channel st of [] \<Rightarrow> [] | (src, cmd) # _ \<Rightarrow> [(src, d, cmd)])"
| "handles _ st = []"

abbreviation program_run ::
    "bool \<Rightarrow> 'x third_party \<Rightarrow> storage_library \<Rightarrow> http_env \<Rightarrow> 'x program \<Rightarrow> action list
       \<Rightarrow> (origin \<times> server_command) list \<Rightarrow> (origin \<times> draws \<times> server_command) list \<Rightarrow> 'x program \<Rightarrow> bool" where
  "program_run chk tp lib w \<equiv> traced (program_step chk tp lib w) (sends w) handles"

definition commands_of :: "(origin \<times> draws \<times> server_command) list \<Rightarrow> (draws \<times> server_command) list" where
  "commands_of h = map snd h"

section \<open>One order of commands\<close>

lemma program_simps [simp]:
  "pg_server (send src cmd st) = pg_server st" "pg_channel (send src cmd st) = pg_channel st @ [(src, cmd)]"
  "pg_workers (send src cmd st) = pg_workers st" "pg_files (send src cmd st) = pg_files st"
  "pg_server (set_worker i wk st) = pg_server st" "pg_channel (set_worker i wk st) = pg_channel st"
  "pg_workers (set_worker i wk st) = (pg_workers st)(i \<mapsto> wk)" "pg_files (set_worker i wk st) = pg_files st"
  by (simp_all add: send_def set_worker_def)

lemma run_append: "run step (xs @ ys) s = bind_res (run step xs s) (run step ys)"
proof (induction xs arbitrary: s)
  case (Cons x xs)
  then show ?case by (cases "step x s") simp_all
qed simp

lemma commands_of_simps [simp]: "commands_of [] = []" "commands_of (h @ h') = commands_of h @ commands_of h'"
    "commands_of [(src, d, cmd)] = [(d, cmd)]"
  by (simp_all add: commands_of_def)

lemma step_fifo:
  "program_step chk tp lib w act st st' \<Longrightarrow>
     map (\<lambda>(src, d, cmd). (src, cmd)) (handles act st) @ pg_channel st' = pg_channel st @ sends w act st"
  by (cases rule: program_step.cases) (auto simp: request_command_def)

lemma step_commands:
  "program_step chk tp lib w act st st' \<Longrightarrow> run (loop_step chk tp) (commands_of (handles act st)) (pg_server st) = Inr (pg_server st')"
  by (cases rule: program_step.cases) (auto simp: loop_step_def)

text \<open>The threads keep the contract of a channel: what the command loop makes of the commands, in the
  order they were sent, is the server.\<close>

interpretation chan: channel_system "program_step chk tp lib w" "sends w" handles pg_channel "\<lambda>(src, d, cmd). (src, cmd)"
    pg_server "\<lambda>h. run (loop_step chk tp) (commands_of h)" for chk tp lib w
proof
  fix act st st' h h' and v :: "'a udp_server"
  assume st: "program_step chk tp lib w act st st'"
  show "map (\<lambda>(src, d, cmd). (src, cmd)) (handles act st) @ pg_channel st' = pg_channel st @ sends w act st"
    by (rule step_fifo [OF st])
  show "run (loop_step chk tp) (commands_of (handles act st)) (pg_server st) = Inr (pg_server st')"
    by (rule step_commands [OF st])
qed (simp_all add: run_append)

end
