(* ===== verification/Threads_Props.thy ===== *)
theory Threads_Props
  imports Threads
begin

text \<open>
  What holds of every interleaving of the threads: nobody is stuck, a worker waits for no more turns than
  there are commands before its own, every response is the one a whole exchange would give at one moment
  between the request and the response, and event streams can take up the pool.
\<close>

section \<open>No thread is stuck\<close>

text \<open>What the environment may do: whatever it likes to the sockets, but the offers it sends have short user
  names and the bodies it announces fit the memory; and a turn draws values the registry does not have.\<close>

fun action_ok :: "http_env \<Rightarrow> action \<Rightarrow> 'x program \<Rightarrow> bool" where
  "action_ok w (Accept i stream) st \<longleftrightarrow> connection_ok w stream"
| "action_ok w (AcceptBroken i stream) st \<longleftrightarrow> connection_ok w stream"
| "action_ok w (Turn d) st \<longleftrightarrow> draws_ok d (session_registry (pg_server st))"
| "action_ok w _ st \<longleftrightarrow> True"

inductive program_reach ::
    "bool \<Rightarrow> 'x third_party \<Rightarrow> storage_library \<Rightarrow> http_env \<Rightarrow> 'x program \<Rightarrow> action list \<Rightarrow> 'x program \<Rightarrow> bool"
  for chk tp lib w st0 where
  reach_start: "program_reach chk tp lib w st0 [] st0"
| reach_step: "program_reach chk tp lib w st0 acts st \<Longrightarrow> action_ok w act st \<Longrightarrow> program_step chk tp lib w act st st' \<Longrightarrow>
    program_reach chk tp lib w st0 (acts @ [act]) st'"

text \<open>The commands a worker sends, and that its continuation can use every reply to them.\<close>

definition asks :: "server_command \<Rightarrow> (effect option \<Rightarrow> panic + bytes) \<Rightarrow> bool" where
  "asks cmd k \<longleftrightarrow> (cmd = SendRoomsStatus \<or> (\<exists>raw. cmd = AddStreamer raw True) \<or> (\<exists>raw r. cmd = AddViewer raw r True))
     \<and> (\<forall>e. replies cmd e \<longrightarrow> (\<exists>out. k (Some e) = Inr out))"

text \<open>The invariant: the server is consistent, every offer in the channel has a short user name, and the
  commands of workers in the channel are those of the workers that wait, one each.\<close>

definition pending :: "nat \<Rightarrow> 'x program \<Rightarrow> server_command list" where
  "pending i st = filter_map (\<lambda>(src, cmd). if src = Worker i then Some cmd else None) (pg_channel st)"

definition worker_ok :: "worker option \<Rightarrow> server_command list \<Rightarrow> bool" where
  "worker_ok wk cmds \<longleftrightarrow> (case wk of
       Some (Awaiting b k) \<Rightarrow> (\<exists>cmd. cmds = [cmd] \<and> asks cmd k)
     | Some (Replied b k e) \<Rightarrow> cmds = [] \<and> (\<exists>out. k (Some e) = Inr out)
     | Some (Dropped p) \<Rightarrow> cmds = [] \<or> cmds = [SendRoomsStatus]
     | _ \<Rightarrow> cmds = [])"

lemma worker_ok_simps [simp]:
  "worker_ok None cmds \<longleftrightarrow> cmds = []" "worker_ok (Some (Finished out)) cmds \<longleftrightarrow> cmds = []"
  "worker_ok (Some (Subscribed bs)) cmds \<longleftrightarrow> cmds = []"
  "worker_ok (Some (Dropped p)) cmds \<longleftrightarrow> cmds = [] \<or> cmds = [SendRoomsStatus]"
  "worker_ok (Some (Awaiting b k)) cmds \<longleftrightarrow> (\<exists>cmd. cmds = [cmd] \<and> asks cmd k)"
  "worker_ok (Some (Replied b k e)) cmds \<longleftrightarrow> cmds = [] \<and> (\<exists>out. k (Some e) = Inr out)"
  by (simp_all add: worker_ok_def)

definition workers_inv :: "'x program \<Rightarrow> bool" where
  "workers_inv st \<longleftrightarrow> (\<forall>i. worker_ok (pg_workers st i) (pending i st))"

definition program_inv :: "'x program \<Rightarrow> bool" where
  "program_inv st \<longleftrightarrow> loop_inv (pg_server st) \<and> (\<forall>(src, cmd) \<in> set (pg_channel st). command_ok cmd)
     \<and> workers_inv st"

lemma filter_map_snoc [simp]: "filter_map f (xs @ [x]) = filter_map f xs @ (case f x of None \<Rightarrow> [] | Some y \<Rightarrow> [y])"
  by (induction xs) (auto split: option.splits)

lemma pending_simps [simp]:
  "pending i (send src cmd st) = (if src = Worker i then pending i st @ [cmd] else pending i st)"
  "pending i (set_worker j wk st) = pending i st"
  by (simp_all add: pending_def)

lemma serve_asks_all:
  assumes "serve w req = Inr (Ask cmd k)"
  shows "asks cmd k"
  using serve_asks [OF assms] serve_ok [of w req] assms by (auto simp: asks_def)

lemma next_event_asks: "asks SendRoomsStatus (next_event w out)"
  by (simp add: asks_def next_event_def)

lemma handled_reply:
  assumes "asks cmd k" "handle_command chk tp d cmd srv = Inr (srv', es)"
  shows "\<exists>e out. es = [e] \<and> replies cmd e \<and> k (Some e) = Inr out"
proof -
  have "\<exists>e. es = [e] \<and> replies cmd e"
    using assms by (auto simp: asks_def handle_command_def handle_add_streamer_def handle_add_viewer_def send_reply_def
        replies_def Let_def elim!: bind_resE)
  with assms(1) show ?thesis by (auto simp: asks_def)
qed

text \<open>What a worker waits for it alone sent; what does not concern it leaves it alone.\<close>

lemma idle_pending:
  assumes "workers_inv st" "\<And>b k. pg_workers st i \<noteq> Some (Awaiting b k)" "\<And>p. pg_workers st i \<noteq> Some (Dropped p)"
  shows "pending i st = []"
proof -
  have "worker_ok (pg_workers st i) (pending i st)" using assms(1) by (simp add: workers_inv_def)
  with assms(2,3) show ?thesis by (auto simp: worker_ok_def split: option.splits worker.splits)
qed

lemma pending_turn:
  "pg_channel st = (src, cmd) # rest \<Longrightarrow> pg_channel st' = rest \<Longrightarrow>
     pending i st = (if src = Worker i then [cmd] else []) @ pending i st'"
  by (simp add: pending_def)

lemma deliver_other: "src \<noteq> Worker i \<Longrightarrow> deliver src es ws i = ws i"
  by (cases "(src, es, ws)" rule: deliver.cases) (auto split: option.splits worker.splits)

lemma deliver_idle: "(\<And>b k. ws i \<noteq> Some (Awaiting b k)) \<Longrightarrow> deliver src es ws i = ws i"
  by (cases "(src, es, ws)" rule: deliver.cases) (auto split: option.splits worker.splits)

lemma set_worker_inv: "workers_inv st \<Longrightarrow> pending i st = [] \<Longrightarrow> worker_ok (Some wk) [] \<Longrightarrow> workers_inv (set_worker i wk st)"
  by (auto simp: workers_inv_def)

lemma send_worker_inv:
  "workers_inv st \<Longrightarrow> pending i st = [] \<Longrightarrow> worker_ok (Some wk) [cmd] \<Longrightarrow> workers_inv (set_worker i wk (send (Worker i) cmd st))"
  by (auto simp: workers_inv_def)

lemma stream_asks: "is_stream req \<Longrightarrow> serve w req = Inr (Ask cmd k) \<Longrightarrow> cmd = SendRoomsStatus"
  by (auto simp: is_stream_def serve_def notification_exchange_def)

lemma workers_step_inv:
  assumes "program_step chk tp lib w act st st'" "workers_inv st"
  shows "workers_inv st'"
  using assms(1)
proof cases
  case (turn src cmd rest d srv es)
  show ?thesis
    unfolding workers_inv_def
  proof
    fix i
    have ok: "worker_ok (pg_workers st i) (pending i st)" using assms(2) by (simp add: workers_inv_def)
    have p: "pending i st = (if src = Worker i then [cmd] else []) @ pending i st'"
      by (rule pending_turn [OF turn(3)]) (simp add: turn)
    show "worker_ok (pg_workers st' i) (pending i st')"
    proof (cases "\<exists>b k. pg_workers st i = Some (Awaiting b k) \<and> src = Worker i")
      case True
      then obtain b k where k: "pg_workers st i = Some (Awaiting b k)" "src = Worker i" by blast
      with ok p have "asks cmd k" "pending i st' = []" by simp_all
      with handled_reply [OF this(1) turn(4)] k turn show ?thesis by (auto simp: worker_ok_def)
    next
      case False
      then have "pg_workers st' i = pg_workers st i" using deliver_other [of src i] deliver_idle [of "pg_workers st" i src] turn by auto
      with ok p False show ?thesis by (auto simp: worker_ok_def split: option.splits worker.splits if_splits)
    qed
  qed
next
  case (accept_ask i stream req cmd k)
  then show ?thesis using send_worker_inv [OF assms(2) idle_pending [OF assms(2)]] serve_asks_all [OF accept_ask(6)] by simp
next
  case (accept_broken i stream req cmd k)
  then show ?thesis using send_worker_inv [OF assms(2) idle_pending [OF assms(2)]] stream_asks [OF accept_broken(6,7)] by simp
next
  case (resubscribe i out)
  then show ?thesis using send_worker_inv [OF assms(2) idle_pending [OF assms(2)]] next_event_asks [of w out] by simp
next
  case (store n r pic)
  with assms(2) show ?thesis by (simp add: workers_inv_def pending_def)
next
  case (receive datagram rem)
  with assms(2) show ?thesis by (simp add: workers_inv_def)
next
  case tick
  with assms(2) show ?thesis by (simp add: workers_inv_def)
qed (auto intro!: set_worker_inv [OF assms(2) idle_pending [OF assms(2)]])

lemma command_step_ok:
  assumes "program_step chk tp lib w act st st'" "action_ok w act st"
    and "\<forall>(src, cmd) \<in> set (pg_channel st). command_ok cmd"
  shows "\<forall>(src, cmd) \<in> set (pg_channel st'). command_ok cmd"
  using assms(1)
proof cases
  case (accept_ask i stream req cmd k)
  with assms(2,3) serve_asks_ok [OF accept_ask(6), of stream] show ?thesis by auto
next
  case (accept_broken i stream req cmd k)
  with assms(2,3) serve_asks_ok [OF accept_broken(7), of stream] show ?thesis by auto
qed (use assms(2,3) in \<open>auto simp: start_udp_server_def start_timeout_interval_def\<close>)

lemma server_step_ok:
  assumes "program_step chk tp lib w act st st'" "program_inv st" "tp_ok tp" "action_ok w act st"
  shows "loop_inv (pg_server st')"
  using assms(1)
proof cases
  case (turn src cmd rest d srv es)
  have al: "loop_allows tp (pg_server st) (d, cmd)" and inv: "loop_inv (pg_server st)"
    using turn assms by (auto simp: program_inv_def loop_allows_def)
  moreover have "\<not> command_panics chk tp (pg_server st) (d, cmd)"
    using command_panics_stops [OF inv al, of chk] turn(4) by (auto simp: loop_step_def)
  ultimately show ?thesis using loop_step_ok [OF inv, of chk tp d cmd] turn by (auto simp: loop_admits_def loop_step_def)
qed (use assms(2) in \<open>auto simp: program_inv_def\<close>)

lemma program_step_inv:
  assumes "program_step chk tp lib w act st st'" "program_inv st" "tp_ok tp" "action_ok w act st"
  shows "program_inv st'"
  using server_step_ok [OF assms] workers_step_inv [OF assms(1)] command_step_ok [OF assms(1,4)] assms(2)
  unfolding program_inv_def by blast

lemma program_reach_inv:
  "program_reach chk tp lib w st0 acts st \<Longrightarrow> program_inv st0 \<Longrightarrow> tp_ok tp \<Longrightarrow> program_inv st"
  by (induction rule: program_reach.induct) (auto intro: program_step_inv)

text \<open>The command thread can go on unless the next command is one of the panicking ones.\<close>

lemma turn_enabled:
  assumes "program_inv st" "tp_ok tp" "pg_channel st = (src, cmd) # rest" "draws_ok d (session_registry (pg_server st))"
  shows "(\<exists>st'. program_step chk tp lib w (Turn d) st st') \<longleftrightarrow> \<not> command_panics chk tp (pg_server st) (d, cmd)"
proof -
  have inv: "loop_inv (pg_server st)" and al: "loop_allows tp (pg_server st) (d, cmd)"
    using assms by (auto simp: program_inv_def loop_allows_def)
  have "(\<exists>st'. program_step chk tp lib w (Turn d) st st') \<longleftrightarrow> is_ok (handle_command chk tp d cmd (pg_server st))"
  proof
    assume "\<exists>st'. program_step chk tp lib w (Turn d) st st'"
    with assms(3) show "is_ok (handle_command chk tp d cmd (pg_server st))" by (auto elim!: turnE)
  next
    assume "is_ok (handle_command chk tp d cmd (pg_server st))"
    then obtain srv es where "handle_command chk tp d cmd (pg_server st) = Inr (srv, es)" by (auto simp: is_ok_ex)
    from program_step.turn [OF assms(3) this] show "\<exists>st'. program_step chk tp lib w (Turn d) st st'" by blast
  qed
  also have "\<dots> \<longleftrightarrow> (\<nexists>p. loop_step chk tp (d, cmd) (pg_server st) = Inl p)"
    by (cases "handle_command chk tp d cmd (pg_server st)") (simp_all add: loop_step_def)
  also have "\<dots> \<longleftrightarrow> \<not> command_panics chk tp (pg_server st) (d, cmd)"
    using loop.step_stops_iff [OF inv al] by blast
  finally show ?thesis .
qed

section \<open>How long a worker waits\<close>

text \<open>The commands before that of a worker, and the turns of a run.\<close>

definition ahead :: "nat \<Rightarrow> 'x program \<Rightarrow> nat" where
  "ahead i st = length (takeWhile (\<lambda>(src, _). src \<noteq> Worker i) (pg_channel st))"

fun is_turn :: "action \<Rightarrow> bool" where
  "is_turn (Turn _) = True"
| "is_turn _ = False"

lemma waiting_step:
  assumes "program_step chk tp lib w act st st'" "workers_inv st" "pg_workers st i = Some (Awaiting b k)"
  shows "if is_turn act
     then if ahead i st = 0 then \<exists>e. pg_workers st' i = Some (Replied b k e)
          else pg_workers st' i = Some (Awaiting b k) \<and> Suc (ahead i st') = ahead i st
     else pg_workers st' i = Some (Awaiting b k) \<and> ahead i st' = ahead i st"
proof -
  have "worker_ok (pg_workers st i) (pending i st)" using assms(2) by (simp add: workers_inv_def)
  with assms(3) obtain cmd where cmd: "pending i st = [cmd]" "asks cmd k" by auto
  then have "cmd \<in> set (pending i st)" by simp
  then have mem: "(Worker i, cmd) \<in> set (pg_channel st)" by (auto simp: pending_def set_filter_map split: if_splits)
  have app: "takeWhile (\<lambda>(src, _). src \<noteq> Worker i) (pg_channel st @ xs) = takeWhile (\<lambda>(src, _). src \<noteq> Worker i) (pg_channel st)" for xs
    by (rule takeWhile_append1 [OF mem]) simp
  show ?thesis
    using assms(1)
  proof cases
    case (turn src cmd' rest d srv es)
    show ?thesis
    proof (cases "src = Worker i")
      case True
      with cmd(1) turn(3) have "cmd' = cmd" by (simp add: pending_def)
      with handled_reply [OF cmd(2), of chk tp d "pg_server st" srv es] turn(4) obtain e where "es = [e]" by auto
      with True turn assms(3) show ?thesis by (simp add: ahead_def)
    next
      case False
      with turn assms(3) deliver_other [of src i es] show ?thesis by (simp add: ahead_def)
    qed
  qed (use assms(3) app in \<open>auto simp: ahead_def split: if_splits\<close>)
qed

lemma replied_step:
  assumes "program_step chk tp lib w act st st'" "pg_workers st i = Some (Replied b k e)" "act \<noteq> Collect i" "act \<noteq> Disconnect i"
  shows "pg_workers st' i = Some (Replied b k e)"
  using assms(1)
proof cases
  case (turn src cmd rest d srv es)
  with assms(2) deliver_idle [of "pg_workers st" i src es] show ?thesis by simp
qed (use assms(2-4) in \<open>auto split: if_splits\<close>)

lemma waiting_run:
  assumes "program_reach chk tp lib w st acts st'" "program_inv st" "tp_ok tp" "pg_workers st i = Some (Awaiting b k)"
    and "Collect i \<notin> set acts" "Disconnect i \<notin> set acts"
  shows "if length (filter is_turn acts) \<le> ahead i st
     then pg_workers st' i = Some (Awaiting b k) \<and> ahead i st' + length (filter is_turn acts) = ahead i st
     else \<exists>e. pg_workers st' i = Some (Replied b k e)"
  using assms(1,5,6)
proof (induction rule: program_reach.induct)
  case reach_start
  with assms(4) show ?case by simp
next
  case (reach_step acts st1 act st2)
  have inv: "workers_inv st1" using program_reach_inv [OF reach_step.hyps(1) assms(2,3)] by (simp add: program_inv_def)
  have IH: "if length (filter is_turn acts) \<le> ahead i st
     then pg_workers st1 i = Some (Awaiting b k) \<and> ahead i st1 + length (filter is_turn acts) = ahead i st
     else \<exists>e. pg_workers st1 i = Some (Replied b k e)" using reach_step by simp
  show ?case
  proof (cases "length (filter is_turn acts) \<le> ahead i st")
    case True
    with IH waiting_step [OF reach_step.hyps(3) inv, of i b k] show ?thesis by (auto split: if_splits)
  next
    case False
    with IH obtain e where "pg_workers st1 i = Some (Replied b k e)" by auto
    from replied_step [OF reach_step.hyps(3) this] reach_step.prems False show ?thesis by auto
  qed
qed

lemma accept_enabled:
  assumes "pg_workers st i = None" "pool_free st" "connection_ok w stream"
  shows "\<exists>st'. program_step chk tp lib w (Accept i stream) st st'"
proof -
  from assms(3) obtain r where r: "parse_http w stream = Inr r" using parse_http_ok unfolding connection_ok_def by blast
  show ?thesis
  proof (cases r)
    case None
    with r accept_none [OF assms(1,2)] show ?thesis by blast
  next
    case (Some req)
    obtain ex where ex: "serve (w\<lparr>he_files := pg_files st\<rparr>) req = Inr ex" using serve_ok by blast
    from accept_answer [OF assms(1,2)] accept_ask [OF assms(1,2)] r Some ex show ?thesis by (cases ex) blast+
  qed
qed

lemma start_inv: "workers_inv (program_start srv fs)" "loop_inv srv \<Longrightarrow> program_inv (program_start srv fs)"
  by (simp_all add: program_inv_def workers_inv_def program_start_def pending_def)

text \<open>C7. How long a worker waits: one that waits with \<open>n\<close> commands before its own has its reply after the
  command thread's next \<open>n + 1\<close> turns and not before, however the other threads run in between, and its
  response can then be written. Until then there is always a next command, and with new random draws the
  command thread can take its turn if and only if that command is none of those that make it panic (\<open>command_panics\<close>)
  in the state it meets; when it is, the program ends and the worker is never answered.\<close>

theorem worker_answered:
  assumes "program_inv st" "tp_ok tp" "pg_workers st i = Some (Awaiting b k)"
    and "program_reach chk tp lib w st acts st'" "Collect i \<notin> set acts" "Disconnect i \<notin> set acts"
  shows "if length (filter is_turn acts) \<le> ahead i st
     then pg_workers st' i = Some (Awaiting b k) \<and> ahead i st' + length (filter is_turn acts) = ahead i st
       \<and> (\<exists>src cmd rest. pg_channel st' = (src, cmd) # rest \<and>
            (\<forall>d. draws_ok d (session_registry (pg_server st')) \<longrightarrow>
               ((\<exists>st''. program_step chk tp lib w (Turn d) st' st'') \<longleftrightarrow> \<not> command_panics chk tp (pg_server st') (d, cmd))))
     else \<exists>e out. pg_workers st' i = Some (Replied b k e) \<and> k (Some e) = Inr out
       \<and> program_step chk tp lib w (Collect i) st' (set_worker i (if b then Subscribed out else Finished (Some out)) st')"
proof -
  have inv: "program_inv st'" by (rule program_reach_inv [OF assms(4,1,2)])
  then have w: "worker_ok (pg_workers st' i) (pending i st')" by (simp add: program_inv_def workers_inv_def)
  note r = waiting_run [OF assms(4,1-3,5,6)]
  show ?thesis
  proof (cases "length (filter is_turn acts) \<le> ahead i st")
    case True
    with r have wk: "pg_workers st' i = Some (Awaiting b k)" by simp
    with w obtain src cmd rest where c: "pg_channel st' = (src, cmd) # rest" by (cases "pg_channel st'") (auto simp: pending_def)
    with turn_enabled [OF inv assms(2) c] True r show ?thesis by simp
  next
    case False
    with r obtain e where e: "pg_workers st' i = Some (Replied b k e)" by auto
    with w obtain out where "k (Some e) = Inr out" by auto
    with e collect [OF e this] False show ?thesis by auto
  qed
qed

section \<open>Every response is that of one moment\<close>

interpretation workers: kept_by_steps "program_step chk tp lib w" workers_inv for chk tp lib w
  by unfold_locales (rule workers_step_inv)

text \<open>The reply to the command of a worker, at its turn.\<close>

definition answered ::
    "bool \<Rightarrow> 'x third_party \<Rightarrow> nat \<Rightarrow> server_command \<Rightarrow> 'x udp_server \<Rightarrow> (origin \<times> draws \<times> server_command) list \<Rightarrow> effect \<Rightarrow> bool" where
  "answered chk tp i cmd srv h e \<longleftrightarrow> (\<exists>hm d hr srv1 srv2. h = hm @ (Worker i, d, cmd) # hr
     \<and> run (loop_step chk tp) (commands_of hm) srv = Inr srv1 \<and> handle_command chk tp d cmd srv1 = Inr (srv2, [e]))"

lemma answered_append: "answered chk tp i cmd srv h e \<Longrightarrow> answered chk tp i cmd srv (h @ h') e"
  unfolding answered_def by fastforce

definition told ::
    "bool \<Rightarrow> 'x third_party \<Rightarrow> nat \<Rightarrow> server_command \<Rightarrow> (effect option \<Rightarrow> panic + bytes) \<Rightarrow> 'x udp_server
       \<Rightarrow> (origin \<times> draws \<times> server_command) list \<Rightarrow> 'x program \<Rightarrow> bool" where
  "told chk tp i cmd k srv h st \<longleftrightarrow> (case pg_workers st i of
       Some (Awaiting b k') \<Rightarrow> \<not> b \<and> k' = k \<and> pending i st = [cmd]
     | Some (Replied b k' e) \<Rightarrow> \<not> b \<and> k' = k \<and> answered chk tp i cmd srv h e
     | Some (Finished (Some out)) \<Rightarrow> \<exists>e. answered chk tp i cmd srv h e \<and> k (Some e) = Inr out
     | Some (Dropped p) \<Rightarrow> pending i st = [] \<and> (\<exists>e. answered chk tp i cmd srv h e)
     | _ \<Rightarrow> False)"

lemma told_same:
  assumes "told chk tp i cmd k srv h st" "pg_workers st' i = pg_workers st i" "pending i st' = pending i st"
  shows "told chk tp i cmd k srv (h @ h') st'"
  using assms answered_append unfolding told_def by (fastforce split: option.splits worker.splits)

lemma told_run:
  assumes "program_run chk tp lib w st0 acts sent h st" "workers_inv st0" "pg_workers st0 i = Some (Awaiting False k)" "pending i st0 = [cmd]"
  shows "told chk tp i cmd k (pg_server st0) h st"
  using assms(1)
proof (induction rule: traced.induct)
  case run_start
  with assms(3,4) show ?case by (simp add: told_def)
next
  case (run_step acts sent h st act st')
  note inv = workers.run_keeps [OF run_step.hyps(1) assms(2)]
  have ok: "worker_ok (pg_workers st i) (pending i st)" using inv by (simp add: workers_inv_def)
  note same = told_same [OF run_step.IH, where st' = st' and h' = "handles act st"]
  show ?case
    using run_step.hyps(2)
  proof cases
    case (turn src cmd' rest d srv es)
    have p: "pending i st = (if src = Worker i then [cmd'] else []) @ pending i st'"
      by (rule pending_turn [OF turn(3)]) (simp add: turn)
    show ?thesis
    proof (cases "src = Worker i")
      case True
      with p have "pending i st = cmd' # pending i st'" by simp
      with run_step.IH ok have wk: "pg_workers st i = Some (Awaiting False k)" "cmd' = cmd" "asks cmd k"
        by (auto simp: told_def split: option.splits worker.splits)
      with handled_reply [OF wk(3), of chk tp d "pg_server st" srv es] turn(4) obtain e where e: "es = [e]" by auto
      have "answered chk tp i cmd (pg_server st0) (h @ [(Worker i, d, cmd)]) e"
        unfolding answered_def using chan.run_performs [OF run_step.hyps(1)] turn(4) e wk(2) by blast
      with wk e turn True show ?thesis by (simp add: told_def)
    next
      case False
      with p have "pending i st' = pending i st" by simp
      with same False deliver_other [of src i es] turn show ?thesis by simp
    qed
  next
    case (collect j b k' e out)
    show ?thesis
    proof (cases "j = i")
      case True
      with run_step.IH collect show ?thesis by (auto simp: told_def)
    qed (use same collect in \<open>simp split: if_splits\<close>)
  next
    case (reply_lost j k' e out)
    with run_step.IH ok same show ?thesis by (cases "j = i") (auto simp: told_def)
  qed (use run_step.IH in \<open>auto simp: told_def pending_def split: option.splits worker.splits if_splits\<close>)
qed

definition responds ::
    "bool \<Rightarrow> 'x third_party \<Rightarrow> http_env \<Rightarrow> nat \<Rightarrow> bytes \<Rightarrow> 'x program \<Rightarrow> (origin \<times> draws \<times> server_command) list \<Rightarrow> bytes option \<Rightarrow> bool" where
  "responds chk tp w i stream st h out \<longleftrightarrow> (\<exists>hm hr d srv1 srv2. h = hm @ hr
     \<and> run (loop_step chk tp) (commands_of hm) (pg_server st) = Inr srv1
     \<and> http_exchange chk tp d (w\<lparr>he_files := pg_files st\<rparr>) stream srv1 = Inr (srv2, out)
     \<and> (srv2 = srv1 \<or> (\<exists>cmd hr'. hr = (Worker i, d, cmd) # hr' \<and> loop_step chk tp (d, cmd) srv1 = Inr srv2)))"

lemma finished_run:
  assumes "program_run chk tp lib w st0 acts sent h st" "pg_workers st0 i = Some (Finished out)"
  shows "pg_workers st i = Some (Finished out)"
  using assms(1)
proof (induction rule: traced.induct)
  case (run_step acts sent h st act st')
  from run_step.hyps(2) show ?case
  proof cases
    case (turn src cmd rest d srv es)
    with run_step.IH deliver_idle [of "pg_workers st" i src es] show ?thesis by simp
  qed (use run_step.IH in auto)
qed (rule assms(2))

lemma told_responds:
  assumes "told chk tp i cmd k (pg_server st1) h st" "pg_workers st i = Some (Finished out)"
    and "parse_http w stream = Inr (Some req)" "serve (w\<lparr>he_files := pg_files st1\<rparr>) req = Inr (Ask cmd k)"
  shows "responds chk tp w i stream st1 h out"
proof -
  from assms(1,2) obtain bs e where out: "out = Some bs" "answered chk tp i cmd (pg_server st1) h e" "k (Some e) = Inr bs"
    by (auto simp: told_def split: option.splits)
  then obtain hm d hr srv1 srv2 where a: "h = hm @ (Worker i, d, cmd) # hr"
      "run (loop_step chk tp) (commands_of hm) (pg_server st1) = Inr srv1" "handle_command chk tp d cmd srv1 = Inr (srv2, [e])"
    unfolding answered_def by blast
  have "http_exchange chk tp d (w\<lparr>he_files := pg_files st1\<rparr>) stream srv1 = Inr (srv2, out)"
    using assms(3,4) a(3) out by (simp add: http_exchange_def)
  moreover have "loop_step chk tp (d, cmd) srv1 = Inr srv2" using a(3) by (simp add: loop_step_def)
  ultimately show ?thesis unfolding responds_def using a(1,2) by blast
qed

lemma accepted_responds:
  assumes "program_step chk tp lib w (Accept i stream) st1 st2" "program_run chk tp lib w st2 acts sent h st" "workers_inv st1"
    and "pg_workers st i = Some (Finished out)" "\<And>req. parse_http w stream = Inr (Some req) \<Longrightarrow> \<not> is_stream req"
  shows "responds chk tp w i stream st1 h out"
  using assms(1)
proof cases
  case accept_none
  with finished_run [OF assms(2), of i None] assms(4) show ?thesis
    unfolding responds_def by (intro exI [of _ "[]"] exI [of _ h]) (simp add: http_exchange_def)
next
  case (accept_answer req resp)
  with finished_run [OF assms(2), of i "Some (resp_inner resp)"] assms(4) show ?thesis
    unfolding responds_def by (intro exI [of _ "[]"] exI [of _ h]) (simp add: http_exchange_def)
next
  case (accept_ask req cmd k)
  have "workers_inv st2" by (rule workers_step_inv [OF assms(1,3)])
  moreover have "pending i st1 = []" using idle_pending [OF assms(3)] accept_ask by simp
  ultimately have "told chk tp i cmd k (pg_server st1) h st"
    using told_run [OF assms(2), of i k cmd] assms(5) accept_ask by simp
  from told_responds [OF this assms(4)] accept_ask show ?thesis by simp
qed

text \<open>C4. The threads together behave as if each exchange happened at one moment. In every interleaving,
  commands are handled in the order they were sent; the server is what the command loop alone makes of that
  order; and the response of every worker that has finished is the one the whole exchange gives at one
  moment after the request was taken, with the files as they were when it was taken: either the exchange
  changes nothing, or it changes the server as the command of that worker did at its turn.\<close>

theorem threads_linearize:
  assumes "program_run chk tp lib w (program_start srv fs) acts sent handled st"
  shows "map (\<lambda>(src, d, cmd). (src, cmd)) handled @ pg_channel st = sent
     \<and> run (loop_step chk tp) (commands_of handled) srv = Inr (pg_server st)
     \<and> (\<forall>i stream out. Accept i stream \<in> set acts \<and> pg_workers st i = Some (Finished out)
          \<and> (\<forall>req. parse_http w stream = Inr (Some req) \<longrightarrow> \<not> is_stream req) \<longrightarrow>
          (\<exists>a1 a2 s1 h1 h2 st1. acts = a1 @ Accept i stream # a2 \<and> program_run chk tp lib w (program_start srv fs) a1 s1 h1 st1
             \<and> handled = h1 @ h2 \<and> responds chk tp w i stream st1 h2 out))"
proof (intro conjI allI impI)
  show "map (\<lambda>(src, d, cmd). (src, cmd)) handled @ pg_channel st = sent"
    using chan.run_fifo [OF assms] by (simp add: program_start_def)
  show "run (loop_step chk tp) (commands_of handled) srv = Inr (pg_server st)"
    using chan.run_performs [OF assms] by (simp add: program_start_def)
next
  fix i stream out
  assume a: "Accept i stream \<in> set acts \<and> pg_workers st i = Some (Finished out)
    \<and> (\<forall>req. parse_http w stream = Inr (Some req) \<longrightarrow> \<not> is_stream req)"
  from traced_split [OF assms, of "Accept i stream"] a obtain a1 a2 s1 s2 h1 h2 st1 st2 where
    r: "acts = a1 @ Accept i stream # a2" "program_run chk tp lib w (program_start srv fs) a1 s1 h1 st1"
       "program_step chk tp lib w (Accept i stream) st1 st2" "program_run chk tp lib w st2 a2 s2 h2 st" "handled = h1 @ h2"
    by fastforce
  have "responds chk tp w i stream st1 h2 out"
    using accepted_responds [OF r(3,4) workers.run_keeps [OF r(2) start_inv(1)]] a by blast
  with r show "\<exists>a1 a2 s1 h1 h2 st1. acts = a1 @ Accept i stream # a2 \<and> program_run chk tp lib w (program_start srv fs) a1 s1 h1 st1
      \<and> handled = h1 @ h2 \<and> responds chk tp w i stream st1 h2 out"
    by blast
qed

section \<open>Event streams\<close>

text \<open>The status of the rooms at each turn that answers a worker, in order, and a stream that has written
  its header and some of them.\<close>

fun statuses ::
    "bool \<Rightarrow> 'x third_party \<Rightarrow> nat \<Rightarrow> (origin \<times> draws \<times> server_command) list \<Rightarrow> 'x udp_server \<Rightarrow> room_status list list" where
  "statuses chk tp i [] srv = []"
| "statuses chk tp i ((src, d, cmd) # h) srv =
     (if src = Worker i then [rooms_notification (d_ids d) (session_registry srv)] else [])
       @ (case loop_step chk tp (d, cmd) srv of Inl _ \<Rightarrow> [] | Inr srv' \<Rightarrow> statuses chk tp i h srv')"

definition written :: "http_env \<Rightarrow> response \<Rightarrow> room_status list list \<Rightarrow> bytes" where
  "written w header ns = resp_inner header @ fst (notification_loop w (map (\<lambda>n. (n, True)) ns))"

definition continues :: "http_env \<Rightarrow> response \<Rightarrow> room_status list list \<Rightarrow> (effect option \<Rightarrow> panic + bytes) \<Rightarrow> bool" where
  "continues w header ns k \<longleftrightarrow> k None = Inr (written w header ns) \<and> (\<forall>n. k (Some (Notification n)) = Inr (written w header (ns @ [n])))"

lemma statuses_append:
  "run (loop_step chk tp) (commands_of h) srv = Inr srv' \<Longrightarrow>
     statuses chk tp i (h @ h') srv = statuses chk tp i h srv @ statuses chk tp i h' srv'"
proof (induction h arbitrary: srv)
  case (Cons x h)
  obtain src d cmd where x: "x = (src, d, cmd)" by (cases x)
  with Cons.prems obtain srv1 where "loop_step chk tp (d, cmd) srv = Inr srv1"
    by (cases "loop_step chk tp (d, cmd) srv") (simp_all add: commands_of_def)
  with Cons x show ?case by (simp add: commands_of_def)
qed (simp add: commands_of_def)

lemma written_snoc: "written w header (ns @ [n]) = written w header ns @ as_bytes (format_notification_to_string w n)"
proof -
  have "fst (notification_loop w (map (\<lambda>n. (n, True)) (ns @ [n])))
      = fst (notification_loop w (map (\<lambda>n. (n, True)) ns)) @ as_bytes (format_notification_to_string w n)"
    by (induction ns) (simp_all add: case_prod_beta)
  then show ?thesis by (simp add: written_def)
qed

lemma build_files [simp]: "build (w\<lparr>he_files := fs\<rparr>) b = build w b"
  by (simp add: build_def Let_def split: option.split)

lemma notification_files [simp]:
  "notification_header (w\<lparr>he_files := fs\<rparr>) = notification_header w"
  "notification_loop (w\<lparr>he_files := fs\<rparr>) rounds = notification_loop w rounds"
  by (simp add: notification_header_def, induction w rounds rule: notification_loop.induct)
    (simp_all add: format_notification_to_string_def)

lemma exchange_continues:
  assumes "notification_header w = Inr header" "notification_exchange (w\<lparr>he_files := fs\<rparr>) = Ask cmd k"
  shows "continues w header [] k"
  using assms by (auto simp: continues_def written_def notification_exchange_def notification_route_def)

lemma next_event_continues: "continues w header ns (next_event w (written w header ns))"
  by (simp add: continues_def next_event_def written_snoc)

definition streamed ::
    "bool \<Rightarrow> 'x third_party \<Rightarrow> http_env \<Rightarrow> response \<Rightarrow> nat \<Rightarrow> 'x program \<Rightarrow> room_status list list \<Rightarrow> bool" where
  "streamed chk tp w header i st ns \<longleftrightarrow> (case pg_workers st i of
       Some (Awaiting b k) \<Rightarrow> b \<and> pending i st = [SendRoomsStatus] \<and> continues w header ns k
     | Some (Replied b k e) \<Rightarrow> b \<and> (\<exists>ms n. ns = ms @ [n] \<and> e = Notification n \<and> continues w header ms k)
     | Some (Subscribed out) \<Rightarrow> out = written w header ns
     | Some (Finished out) \<Rightarrow> \<exists>m. out = Some (written w header (take m ns))
     | _ \<Rightarrow> False)"

lemma streamed_same:
  "streamed chk tp w header i st ns \<Longrightarrow> pg_workers st' i = pg_workers st i \<Longrightarrow> pending i st' = pending i st \<Longrightarrow>
     streamed chk tp w header i st' ns"
  by (auto simp: streamed_def split: option.splits worker.splits)

lemma streamed_turn:
  assumes "streamed chk tp w header i st ns" "workers_inv st" "pg_channel st = (src, cmd) # rest"
    and "handle_command chk tp d cmd (pg_server st) = Inr (srv, es)"
    and "st' = st\<lparr>pg_server := srv, pg_channel := rest, pg_workers := deliver src es (pg_workers st), pg_storage := fs\<rparr>"
  shows "streamed chk tp w header i st' (ns @ (if src = Worker i then [rooms_notification (d_ids d) (session_registry (pg_server st))] else []))"
proof -
  have p: "pending i st = (if src = Worker i then [cmd] else []) @ pending i st'"
    by (rule pending_turn [OF assms(3)]) (simp add: assms(5))
  have ok: "worker_ok (pg_workers st i) (pending i st)" using assms(2) by (simp add: workers_inv_def)
  show ?thesis
  proof (cases "src = Worker i")
    case True
    with p ok assms(1) obtain k where k: "pg_workers st i = Some (Awaiting True k)" "cmd = SendRoomsStatus" "continues w header ns k"
      by (auto simp: streamed_def split: option.splits worker.splits)
    with assms(4) have "es = [Notification (rooms_notification (d_ids d) (session_registry (pg_server st)))]"
      by (auto simp: handle_command_def)
    with k True assms(5) show ?thesis by (auto simp: streamed_def)
  next
    case False
    with p have "pending i st' = pending i st" by simp
    with streamed_same [OF assms(1), of st'] assms(5) deliver_other [of src i es] False show ?thesis by simp
  qed
qed

lemma streamed_run:
  assumes "program_run chk tp lib w st0 acts sent h st" "workers_inv st0" "streamed chk tp w header i st0 []"
  shows "streamed chk tp w header i st (statuses chk tp i h (pg_server st0))"
  using assms(1)
proof (induction rule: traced.induct)
  case run_start
  with assms(3) show ?case by simp
next
  case (run_step acts sent h st act st')
  note inv = workers.run_keeps [OF run_step.hyps(1) assms(2)]
  have ok: "worker_ok (pg_workers st i) (pending i st)" using inv by (simp add: workers_inv_def)
  let ?ns = "statuses chk tp i h (pg_server st0)"
  note same = streamed_same [OF run_step.IH, of st']
  have ns: "statuses chk tp i (h @ handles act st) (pg_server st0) = ?ns @ statuses chk tp i (handles act st) (pg_server st)"
    by (rule statuses_append [OF chan.run_performs [OF run_step.hyps(1)]])
  show ?case
    using run_step.hyps(2)
  proof cases
    case (turn src cmd rest d srv es)
    with streamed_turn [OF run_step.IH inv turn(3,4) turn(2)] ns show ?thesis by (simp add: loop_step_def)
  next
    case (collect j b k e out)
    with run_step.IH same show ?thesis by (cases "j = i") (auto simp: streamed_def continues_def)
  next
    case (resubscribe j out)
    with run_step.IH same ok next_event_continues show ?thesis by (cases "j = i") (auto simp: streamed_def)
  next
    case (disconnect j k e out)
    show ?thesis
    proof (cases "j = i")
      case True
      with run_step.IH disconnect obtain ms n where "?ns = ms @ [n]" "out = written w header ms"
        by (auto simp: streamed_def continues_def)
      with disconnect True show ?thesis by (auto simp: streamed_def intro: exI [of _ "length ms"])
    qed (use same disconnect in simp)
  qed (use run_step.IH same in \<open>auto simp: pending_def streamed_def split: option.splits worker.splits if_splits\<close>)
qed

text \<open>C14. An event stream tells the history of the rooms: whatever the interleaving, what its worker has
  written is the header and then, in order and without gaps, one event for each turn at which the command
  loop answered it, with the rooms as they were at that turn; when the connection broke, an initial part of
  that.\<close>

theorem event_stream_history:
  assumes "program_run chk tp lib w (program_start srv fs) acts sent handled st"
    and "Accept i stream \<in> set acts" "parse_http w stream = Inr (Some req)" "is_stream req"
  shows "\<exists>a1 a2 s1 h1 h2 st1 header. acts = a1 @ Accept i stream # a2
     \<and> program_run chk tp lib w (program_start srv fs) a1 s1 h1 st1 \<and> handled = h1 @ h2 \<and> notification_header w = Inr header
     \<and> (\<forall>out. pg_workers st i = Some (Subscribed out) \<longrightarrow> out = written w header (statuses chk tp i h2 (pg_server st1)))
     \<and> (\<forall>out. pg_workers st i = Some (Finished out) \<longrightarrow> (\<exists>m. out = Some (written w header (take m (statuses chk tp i h2 (pg_server st1))))))"
proof -
  from traced_split [OF assms(1,2)] obtain a1 a2 s1 s2 h1 h2 st1 st2 where
    r: "acts = a1 @ Accept i stream # a2" "program_run chk tp lib w (program_start srv fs) a1 s1 h1 st1"
       "program_step chk tp lib w (Accept i stream) st1 st2" "program_run chk tp lib w st2 a2 s2 h2 st" "handled = h1 @ h2"
    by fastforce
  note inv = workers.run_keeps [OF r(2) start_inv(1)]
  obtain header where header: "notification_header w = Inr header" using responses_ok(6) by blast
  from r(3) have "streamed chk tp w header i st2 [] \<and> pg_server st2 = pg_server st1"
  proof cases
    case (accept_ask req' cmd k)
    have "pending i st1 = []" using idle_pending [OF inv] accept_ask by simp
    moreover have "notification_exchange (w\<lparr>he_files := pg_files st1\<rparr>) = Ask cmd k" "cmd = SendRoomsStatus" "is_stream req'"
      using accept_ask assms(3,4) stream_asks by (auto simp: is_stream_def serve_def)
    ultimately show ?thesis using exchange_continues [OF header] accept_ask by (simp add: streamed_def)
  qed (use assms(3,4) in \<open>auto simp: is_stream_def serve_def notification_exchange_def\<close>)
  with streamed_run [OF r(4) workers_step_inv [OF r(3) inv]] have "streamed chk tp w header i st (statuses chk tp i h2 (pg_server st1))"
    by simp
  with r(1,2,5) header show ?thesis by (intro exI [of _ a1] exI [of _ a2] exI [of _ s1] exI [of _ h1] exI [of _ h2] exI [of _ st1]
      exI [of _ header]) (auto simp: streamed_def)
qed

section \<open>The pool\<close>

text \<open>The workers of event streams that are open.\<close>

fun streams_on :: "worker \<Rightarrow> bool" where
  "streams_on (Awaiting b _) = b"
| "streams_on (Replied b _ _) = b"
| "streams_on (Subscribed _) = True"
| "streams_on _ = False"

definition streaming :: "'x program \<Rightarrow> nat set" where
  "streaming st = {i. \<exists>wk. pg_workers st i = Some wk \<and> streams_on wk}"

lemma streaming_busy: "streaming st \<subseteq> busy st"
  by (auto simp: streaming_def busy_def elim: streams_on.elims)

lemma finite_busy: "finite (dom (pg_workers st)) \<Longrightarrow> finite (busy st)"
  by (rule finite_subset [of _ "dom (pg_workers st)"]) (auto simp: busy_def)

lemma deliver_streams: "deliver src es ws i = Some wk \<Longrightarrow> \<exists>wk'. ws i = Some wk' \<and> streams_on wk' = streams_on wk"
  by (cases "(src, es, ws)" rule: deliver.cases) (auto split: option.splits worker.splits if_splits)

lemma deliver_dom: "dom (deliver src es ws) = dom ws"
  by (cases "(src, es, ws)" rule: deliver.cases) (auto split: option.splits worker.splits)

lemma deliver_streaming: "ws i = Some wk \<Longrightarrow> \<exists>wk'. deliver src es ws i = Some wk' \<and> streams_on wk' = streams_on wk"
  using deliver_streams [of src es ws i] deliver_dom [of src es ws] by (metis domD domI option.inject)

lemma full_pool_step:
  assumes "program_step chk tp lib w act st st'" "finite (dom (pg_workers st))" "S \<subseteq> streaming st" "POOL_SIZE \<le> card S"
    and "\<And>i. i \<in> S \<Longrightarrow> act \<noteq> Disconnect i"
  shows "(\<forall>i stream. act \<noteq> Accept i stream \<and> act \<noteq> AcceptBroken i stream) \<and> finite (dom (pg_workers st')) \<and> S \<subseteq> streaming st'"
proof -
  have "card S \<le> card (busy st)" using assms(2,3) streaming_busy by (intro card_mono finite_busy) blast+
  with assms(4) have full: "\<not> pool_free st" by (simp add: pool_free_def)
  show ?thesis
    using assms(1)
  proof cases
    case (turn src cmd rest d srv es)
    with assms(2,3) deliver_streaming [of "pg_workers st"] show ?thesis by (fastforce simp: deliver_dom streaming_def)
  next
    case (collect i b k e out)
    with assms(2,3) show ?thesis by (fastforce simp: streaming_def)
  next
    case (resubscribe i out)
    with assms(2,3) show ?thesis by (fastforce simp: streaming_def)
  next
    case (disconnect i k e out)
    with assms(2,3,5) show ?thesis by (fastforce simp: streaming_def)
  qed (use assms(2,3) full in \<open>auto simp: streaming_def send_def\<close>)
qed

text \<open>C34. Event streams take up the pool: while sixty of them are open, no other connection is served, in
  no interleaving, until one of their peers goes away; a worker of an open stream never gives up its place
  by itself.\<close>

theorem streams_exhaust_pool:
  assumes "program_run chk tp lib w st acts sent handled st'" "finite (dom (pg_workers st))" "POOL_SIZE \<le> card (streaming st)"
    and "\<And>i. i \<in> streaming st \<Longrightarrow> Disconnect i \<notin> set acts"
  shows "Accept i stream \<notin> set acts \<and> AcceptBroken i stream \<notin> set acts \<and> streaming st \<subseteq> streaming st'"
proof -
  have "Accept i stream \<notin> set acts \<and> AcceptBroken i stream \<notin> set acts \<and> finite (dom (pg_workers st')) \<and> streaming st \<subseteq> streaming st'"
    using assms(1,4)
  proof (induction rule: traced.induct)
    case (run_step acts sent handled st1 act st2)
    then have "Accept i stream \<notin> set acts \<and> AcceptBroken i stream \<notin> set acts \<and> finite (dom (pg_workers st1)) \<and> streaming st \<subseteq> streaming st1"
      by simp
    with full_pool_step [OF run_step.hyps(2), of "streaming st"] assms(3) run_step.prems show ?case by force
  qed (use assms(2) in simp)
  then show ?thesis by simp
qed

end
