(* ===== verification/Threads_Safety.thy ===== *)
theory Threads_Safety
  imports Threads_Props
begin

text \<open>
  What holds of whole runs of the threads in an environment that may do anything but send long user names and
  announce bodies that do not fit the memory: the server stays consistent, every command has its cause, and
  no thumbnail is lost between the periodic checks and the browser.
\<close>

section \<open>Admitted runs\<close>

definition ok_step ::
    "bool \<Rightarrow> 'x third_party \<Rightarrow> storage_library \<Rightarrow> http_env \<Rightarrow> action \<Rightarrow> 'x program \<Rightarrow> 'x program \<Rightarrow> bool" where
  "ok_step chk tp lib w act st st' \<longleftrightarrow> action_ok w act st \<and> program_step chk tp lib w act st st'"

abbreviation ok_run ::
    "bool \<Rightarrow> 'x third_party \<Rightarrow> storage_library \<Rightarrow> http_env \<Rightarrow> 'x program \<Rightarrow> action list
       \<Rightarrow> (origin \<times> server_command) list \<Rightarrow> (origin \<times> draws \<times> server_command) list \<Rightarrow> 'x program \<Rightarrow> bool" where
  "ok_run chk tp lib w \<equiv> traced (ok_step chk tp lib w) (sends w) handles"

lemma ok_run_run: "ok_run chk tp lib w st0 acts sent h st \<Longrightarrow> program_run chk tp lib w st0 acts sent h st"
  by (induction rule: traced.induct) (auto simp: ok_step_def intro: traced.intros)

interpretation admitted_runs: kept_by_steps "ok_step chk tp lib w" "\<lambda>st. tp_ok tp \<and> program_inv st" for chk tp lib w
  by unfold_locales (auto simp: ok_step_def intro: program_step_inv)

lemma abs_run_append: "abs_run astep xs a b \<Longrightarrow> abs_run astep ys b c \<Longrightarrow> abs_run astep (xs @ ys) a c"
  by (induction rule: abs_run.induct) auto

lemma ok_step_dir:
  assumes "ok_step chk tp lib w act st st'" "tp_ok tp" "program_inv st"
  shows "abs_run dir_step (commands_of (handles act st)) (members (session_registry (pg_server st)))
     (members (session_registry (pg_server st')))"
proof -
  from assms(1) have step: "program_step chk tp lib w act st st'" and ok: "action_ok w act st" by (simp_all add: ok_step_def)
  from step show ?thesis
  proof cases
    case (turn src cmd rest d srv es)
    have inv: "loop_inv (pg_server st)" and al: "loop_allows tp (pg_server st) (d, cmd)"
      using turn assms(2,3) ok by (auto simp: program_inv_def loop_allows_def)
    moreover have "\<not> command_panics chk tp (pg_server st) (d, cmd)"
      using command_panics_stops [OF inv al, of chk] turn by (auto simp: loop_step_def)
    ultimately show ?thesis using loop_step_ok [OF inv, of chk tp d cmd] turn by (auto simp: loop_admits_def loop_step_def)
  qed auto
qed

lemma ok_run_dir:
  assumes "ok_run chk tp lib w st0 acts sent h st" "tp_ok tp" "program_inv st0"
  shows "abs_run dir_step (commands_of h) (members (session_registry (pg_server st0))) (members (session_registry (pg_server st)))"
  using assms(1)
proof (induction rule: traced.induct)
  case (run_step acts sent h st act st')
  have "program_inv st" using admitted_runs.run_keeps [OF run_step.hyps(1)] assms(2,3) by blast
  from abs_run_append [OF run_step.IH ok_step_dir [OF run_step.hyps(2) assms(2) this]] show ?case by simp
qed simp

section \<open>Where commands come from\<close>

text \<open>The action that caused a command: a datagram, a tick, or a connection with the right request.\<close>

definition caused :: "http_env \<Rightarrow> action list \<Rightarrow> origin \<times> server_command \<Rightarrow> bool" where
  "caused w acts i \<longleftrightarrow> (case snd i of
       HandlePacket packet rem \<Rightarrow> fst i = UdpThread \<and> (\<exists>datagram. Receive datagram rem \<in> set acts \<and> packet = take UDP_BUFFER datagram)
     | RunPeriodicChecks \<Rightarrow> fst i = TimerThread \<and> Tick \<in> set acts
     | AddStreamer raw listens \<Rightarrow> \<exists>j stream req. fst i = Worker j \<and> Accept j stream \<in> set acts
         \<and> parse_http w stream = Inr (Some req) \<and> req_path req = ''/whip'' \<and> authorised w req
     | AddViewer raw r listens \<Rightarrow> \<exists>j stream req. fst i = Worker j \<and> Accept j stream \<in> set acts
         \<and> parse_http w stream = Inr (Some req) \<and> req_path req = ''/whep'' \<and> req_method req = POST
     | SendRoomsStatus \<Rightarrow> \<exists>j. fst i = Worker j)"

lemma caused_more: "caused w acts i \<Longrightarrow> caused w (acts @ acts') i"
  by (auto simp: caused_def split: server_command.splits)

lemma request_caused:
  assumes "cmd \<in> set (request_command w fs stream)"
  shows "caused w (acts @ [Accept j stream]) (Worker j, cmd)"
proof -
  have asks: "asked ex = Some cmd \<longleftrightarrow> (\<exists>k. ex = Inr (Ask cmd k))" for ex by (cases ex rule: asked.cases) auto
  from assms obtain req k where "parse_http w stream = Inr (Some req)" "serve (w\<lparr>he_files := fs\<rparr>) req = Inr (Ask cmd k)"
    by (auto simp: request_command_def asks eq_commute [of "Some cmd"] split: sum.splits option.splits dest: sym)
  with serve_asks [OF this(2)] show ?thesis by (fastforce simp: caused_def)
qed

lemma step_caused:
  assumes "program_step chk tp lib w act st st'" "i \<in> set (sends w act st)"
  shows "caused w (acts @ [act]) i"
  using assms(1)
proof cases
  case (accept_ask j stream req cmd k)
  with assms(2) request_caused show ?thesis by auto
next
  case (accept_broken j stream req cmd k)
  with stream_asks [OF accept_broken(6,7)] assms(2) show ?thesis by (auto simp: request_command_def caused_def)
qed (use assms(2) in \<open>auto simp: caused_def request_command_def start_udp_server_def start_timeout_interval_def\<close>)

lemma sent_caused: "program_run chk tp lib w st0 acts sent h st \<Longrightarrow> i \<in> set sent \<Longrightarrow> caused w acts i"
  by (induction rule: traced.induct) (auto intro: caused_more step_caused)

lemma handled_caused:
  assumes "program_run chk tp lib w (program_start srv fs) acts sent handled st" "(src, d, cmd) \<in> set handled"
  shows "caused w acts (src, cmd)"
proof -
  have "map (\<lambda>(src, d, cmd). (src, cmd)) handled @ pg_channel st = sent"
    using chan.run_fifo [OF assms(1)] by (simp add: program_start_def)
  then have "set sent = (\<lambda>(src, d, cmd). (src, cmd)) ` set handled \<union> set (pg_channel st)" by (metis list.set_map set_append)
  then have "(src, cmd) \<in> set sent" using assms(2) by force
  then show ?thesis by (rule sent_caused [OF assms(1)])
qed

section \<open>Thumbnails\<close>

text \<open>The storage jobs of a run, each with whether its file was written.\<close>

definition saved :: "storage_library \<Rightarrow> http_env \<Rightarrow> room_id \<Rightarrow> image_data \<Rightarrow> files \<Rightarrow> bool" where
  "saved lib w r pic fs \<longleftrightarrow> (case thumbnail_encoded lib pic of
       None \<Rightarrow> False
     | Some enc \<Rightarrow> fst (st_write lib (path_push (storage_dir (he_config w)) (thumbnail_name r)) enc fs))"

fun stored :: "storage_library \<Rightarrow> http_env \<Rightarrow> action \<Rightarrow> 'x program \<Rightarrow> (room_id \<times> image_data \<times> bool) list" where
  "stored lib w (Store n) st = (case pg_storage st ! n of (r, pic) \<Rightarrow> [(r, pic, saved lib w r pic (pg_files st))])"
| "stored lib w _ st = []"

abbreviation storage_run ::
    "bool \<Rightarrow> 'x third_party \<Rightarrow> storage_library \<Rightarrow> http_env \<Rightarrow> 'x program \<Rightarrow> action list
       \<Rightarrow> (room_id \<times> image_data \<times> bool) list \<Rightarrow> (origin \<times> draws \<times> server_command) list \<Rightarrow> 'x program \<Rightarrow> bool" where
  "storage_run chk tp lib w \<equiv> traced (program_step chk tp lib w) (stored lib w) handles"

lemma set_without: "n < length xs \<Longrightarrow> set xs = insert (xs ! n) (set (take n xs @ drop (Suc n) xs))"
  by (subst id_take_nth_drop [of n xs]) auto

lemma job_kept:
  assumes "storage_run chk tp lib w st acts jobs h st'" "(r, pic) \<in> set (pg_storage st)"
  shows "(r, pic) \<in> set (pg_storage st') \<or> (\<exists>ok. (r, pic, ok) \<in> set jobs)"
  using assms(1)
proof (induction rule: traced.induct)
  case (run_step acts jobs h st1 act st2)
  show ?case
    using run_step.hyps(2)
  proof cases
    case (store n q pic')
    with run_step.IH set_without [OF store(3)] show ?thesis by auto
  qed (use run_step.IH in \<open>auto simp: send_def set_worker_def\<close>)
qed (use assms(2) in simp)

lemma stored_file:
  assumes "storage_run chk tp lib w st acts jobs h st'" "storage_ok lib" "thumbnail_encoded lib pic = Some enc"
    and "filter (\<lambda>j. fst j = r) jobs = js @ [(r, pic, True)]"
  shows "pg_files st' (path_push (storage_dir (he_config w)) (thumbnail_name r)) = Some enc"
  using assms(1,4)
proof (induction arbitrary: js rule: traced.induct)
  case (run_step acts jobs h st1 act st2)
  let ?p = "path_push (storage_dir (he_config w)) (thumbnail_name r)"
  show ?case
    using run_step.hyps(2)
  proof cases
    case (store n q pic')
    show ?thesis
    proof (cases "q = r")
      case True
      with run_step.prems store have "pic' = pic" "saved lib w r pic (pg_files st1)" by auto
      with save_thumbnail_stored [OF assms(2,3)] assms(3) True store show ?thesis by (simp add: saved_def)
    next
      case False
      with run_step.prems store have "filter (\<lambda>j. fst j = r) jobs = js @ [(r, pic, True)]" by simp
      from run_step.IH [OF this] False store thumbnail_path_eq show ?thesis
        by (simp add: save_thumbnail_other [OF assms(2)])
    qed
  qed (use run_step.IH run_step.prems in \<open>auto simp: send_def set_worker_def\<close>)
qed simp

text \<open>The periodic checks hand every picture that is due to a storage thread.\<close>

lemma checks_hand_over:
  assumes "loop_inv (pg_server st)" "draws_ok d (session_registry (pg_server st))"
    and "pg_channel st = (src, RunPeriodicChecks) # rest" "program_step chk tp lib w (Turn d) st st'"
    and "get_session i (session_registry (pg_server st)) = Some s" "due_picture (d_now d) s r pic"
  shows "(r, pic) \<in> set (pg_storage st')"
proof -
  let ?g = "session_registry (pg_server st)"
  have ok: "server_ok ?g" "reg_inv ?g" "enumerates (d_ids d)"
    using assms(1,2) by (simp_all add: loop_inv_def server_ok_def draws_ok_def)
  obtain g' where "run_periodic_checks (d_now d) (d_ids d) (pg_server st)
      = Inr (set_registry g' (pg_server st), thumbnail_effects (d_now d) (d_ids d) ?g)"
    using run_periodic_checks_spec [OF ok(1,3), of "d_now d"] unfolding thumbnail_effects_def by blast
  with assms(3,4) have st': "pg_storage st' = pg_storage st @ thumbnails_of (thumbnail_effects (d_now d) (d_ids d) ?g)"
    by (auto simp: handle_command_def elim!: turnE)
  have "SaveThumbnail r pic \<in> set (thumbnail_effects (d_now d) (d_ids d) ?g)"
    using set_thumbnail_effects [OF ok(2,3)] assms(5,6) by blast
  then show ?thesis unfolding st' by (force simp: thumbnails_of_def set_filter_map)
qed

text \<open>A stored image is given out.\<close>

lemma image_served:
  assumes "origin_ok w" "he_files w (path_push (storage_dir (he_config w)) (thumbnail_name r)) = Some enc"
    and "req_path req = ''/images''" "req_search req ''image'' = Some (thumbnail_name r)"
  shows "\<exists>resp h. serve w req = Inr (Answer resp) \<and> read_response (resp_inner resp) = Some (200, h, enc)
     \<and> h ''Content-Type'' = Some ''image/webp''"
proof -
  let ?b = "add_body enc (set_header ''Content-Type'' ''image/webp'' (set_status 200 response_builder_new))"
  have "rb_status ?b = Some 200" "headers_ok (rb_headers ?b)" "rb_body ?b = Some enc"
    by (auto simp: add_body_def set_header_def set_status_def response_builder_new_def headers_ok_def header_ok_def
        word_ok_def trimmed_def ascii_space_def)
  from build_read [OF this(1) _ this(2) assms(1)] this(3) obtain resp :: response and h where
    "build w ?b = Inr resp" "read_response (resp_inner resp) = Some (200, h, enc)" "h ''Content-Type'' = Some ''image/webp''"
    by (auto simp: usize_max_def add_body_def set_header_def)
  moreover from this(1) have "images_route w req = Inr resp"
    using assms(2,4) by (simp add: images_route_def thumbnail_name_file)
  ultimately show ?thesis using assms(3) by (simp add: serve_def)
qed

end
