(* ===== verification/Http_Demo.thy ===== *)
theory Http_Demo
  imports Media_Server
begin

text \<open>
  A configuration read from an environment, requests as a browser sends them, and a server with a
  thumbnail that is due, at which the theorems on the HTTP front end are instantiated.
\<close>

section \<open>A configuration\<close>

definition demo_tls :: tls_library where
  "demo_tls = \<lparr>tls_acceptor = \<lambda>_ _. True, tls_digest = \<lambda>_. Some [0xAB, 0xCD]\<rparr>"

definition demo_env :: "string \<rightharpoonup> string" where
  "demo_env = [''TCP_ADDRESS'' \<mapsto> ''127.0.0.1'', ''TCP_PORT'' \<mapsto> ''8080'', ''UDP_ADDRESS'' \<mapsto> ''127.0.0.1'',
     ''UDP_PORT'' \<mapsto> ''52000'', ''WHIP_TOKEN'' \<mapsto> ''secret'', ''FRONTEND_URL'' \<mapsto> ''http://localhost:3000'',
     ''STORAGE_DIR'' \<mapsto> ''/srv/images'', ''CERTS_DIR'' \<mapsto> ''/srv/certs'']"

definition demo_config :: config where
  "demo_config = \<lparr>ssl_config = \<lparr>fingerprint = ''AB:CD''\<rparr>,
     tcp_server_config = \<lparr>tcp_address = SockV4 0x7F000001 8080, whip_token = ''secret''\<rparr>,
     udp_server_config = \<lparr>udp_address = SockV4 0x7F000001 52000\<rparr>,
     frontend_url = ''http://localhost:3000'', storage_dir = ''/srv/images''\<rparr>"

lemma ip_loopback: "ip_from_str ''127.0.0.1'' = Some (V4 0x7F000001)"
  by (simp add: ip_from_str_def parse_all_def read_ipv4_addr_def octet_reader_def read_separator_def
      read_number_def read_given_char_def to_digit_def rd32_def)

lemma demo_config_read: "config_initialize demo_tls demo_env = Inr demo_config"
proof -
  have "parse_u16 ''8080'' = Some 8080" "parse_u16 ''52000'' = Some 52000"
    by (simp_all add: parse_u16_def parse_uint_def digit_val_def u16_max_def)
  moreover have "show_hex02 0xAB = ''AB''" "show_hex02 0xCD = ''CD''"
    by (simp_all add: show_hex02_def upper_hex_def char_of_eq_iff)
  then have "ssl_config_new demo_tls ''/srv/certs'' = Inr \<lparr>fingerprint = ''AB:CD''\<rparr>"
    by (simp add: ssl_config_new_def demo_tls_def Let_def numeral_eq_Suc)
  ultimately show ?thesis
    by (simp add: config_initialize_def demo_env_def env_names ip_loopback demo_config_def)
qed

definition demo_http :: http_env where
  "demo_http = \<lparr>he_config = demo_config, he_lower = to_ascii_lowercase, he_alloc = 1000000, he_order = demo_iter,
     he_json = \<lambda>_. ''[]'', he_files = Map.empty\<rparr>"

lemma demo_http_ok: "origin_ok demo_http" "lowers_ascii (he_lower demo_http)"
  by (simp_all add: origin_ok_def demo_http_def demo_config_def demo_iter_iterates word_ok_def trimmed_def ascii_space_def
      lowers_ascii_def)

section \<open>Requests\<close>

definition demo_headers :: "(string \<times> string) list" where
  "demo_headers = [(''Authorization'', ''Bearer secret''), (''Content-Length'', show_nat (length demo_whip))]"

definition demo_whip_request :: bytes where
  "demo_whip_request = as_bytes (request_text POST ''/whip'' [] demo_headers) @ as_bytes demo_whip"

lemma demo_headers_ok: "list_all header_ok demo_headers"
  using length_header_ok [of "length demo_whip"]
  by (simp add: demo_headers_def header_ok_def word_ok_def trimmed_def ascii_space_def)

lemma demo_names:
  "to_ascii_lowercase ''Authorization'' = ''authorization''" "to_ascii_lowercase ''Content-Length'' = ''content-length''"
  by (simp_all add: to_ascii_lowercase_def ascii_lower_def char_of_eq_iff)

lemma demo_headers_table:
  "table to_ascii_lowercase Map.empty demo_headers
     = [''authorization'' \<mapsto> ''Bearer secret'', ''content-length'' \<mapsto> show_nat (length demo_whip)]"
  by (simp add: demo_headers_def demo_names)

lemma length_demo_whip: "length demo_whip = 354"
  by (simp add: demo_whip_def demo_whip_lines_def)

lemma length_demo_request: "length (request_text POST ''/whip'' [] demo_headers) + length (as_bytes demo_whip) \<le> HTTP_LIMIT"
  by (simp add: request_text_def target_text_def header_text_def demo_headers_def length_demo_whip show_nat_3 HTTP_LIMIT_def)

text \<open>The offer as the body of a request.\<close>

definition demo_parsed_request :: request where
  "demo_parsed_request = \<lparr>req_path = ''/whip'', req_method = POST, req_search = Map.empty,
     req_headers = [''authorization'' \<mapsto> ''Bearer secret'', ''content-length'' \<mapsto> show_nat (length demo_whip)],
     req_body = Some (as_bytes demo_whip)\<rparr>"

lemma demo_request_parsed: "parse_http demo_http demo_whip_request = Inr (Some demo_parsed_request)"
  using parse_http_text [OF demo_http_ok(2) _ _ demo_headers_ok length_demo_request, of "Some (length demo_whip)"]
  by (simp add: demo_whip_request_def demo_parsed_request_def demo_headers_table length_demo_whip usize_max_def demo_http_def
      word_ok_def)

lemma demo_whip_utf8: "string_from_utf8 (as_bytes demo_whip) = Some demo_whip"
proof -
  have "is_ascii demo_whip" by (simp add: demo_whip_def demo_whip_lines_def)
  then show ?thesis by (simp add: string_from_utf8_def ascii_utf8)
qed

theorem parse_http_roundtrip_witness:
  "\<exists>req. parse_http demo_http demo_whip_request = Inr (Some req) \<and> req_body req = Some (as_bytes demo_whip)
     \<and> req_headers req ''authorization'' = Some ''Bearer secret''"
  using parse_http_roundtrip [of demo_http "''/whip''" "[]" demo_headers "as_bytes demo_whip" POST]
    demo_http_ok(2) demo_headers_ok length_demo_request
  by (simp add: demo_headers_table length_demo_whip demo_http_def word_ok_def demo_whip_request_def)

text \<open>A request without the token.\<close>

definition demo_intruder :: bytes where
  "demo_intruder = as_bytes (request_text POST ''/whip'' [] [])"

theorem http_access_control_witness:
  "\<exists>out h. http_exchange True demo_tp (demo_draws 0 7 1) demo_http demo_intruder demo_fresh_server = Inr (demo_fresh_server, Some out)
     \<and> read_response out = Some (401, h, [])"
proof -
  have p: "parse_http demo_http demo_intruder = Inr (Some \<lparr>req_path = ''/whip'', req_method = POST, req_search = Map.empty,
      req_headers = Map.empty, req_body = None\<rparr>)"
    using parse_http_text [OF demo_http_ok(2), of "''/whip''" "[]" "[]" POST "[]" None]
    by (simp add: demo_intruder_def word_ok_def request_text_def target_text_def header_text_def HTTP_LIMIT_def)
  have "get_session (d_resource_id (demo_draws 0 7 1)) (session_registry demo_fresh_server) = None"
    by (simp add: get_session_def demo_fresh_server_def registry_new_def)
  from http_access_control [OF p this demo_http_ok(1), of True demo_tp] show ?thesis by simp
qed

theorem images_confined_witness:
  "images_route demo_http \<lparr>req_path = ''/images'', req_method = GET, req_search = [''image'' \<mapsto> ''../../etc/passwd''],
       req_headers = Map.empty, req_body = None\<rparr>
     = images_route (demo_http\<lparr>he_files := [''/etc/passwd'' \<mapsto> [42]]\<rparr>) \<lparr>req_path = ''/images'', req_method = GET,
         req_search = [''image'' \<mapsto> ''../../etc/passwd''], req_headers = Map.empty, req_body = None\<rparr>"
  by (rule images_confined) (simp add: demo_http_def demo_config_def path_push_def)

theorem whip_publishes_witness:
  "\<exists>srv' out h ans. http_exchange True demo_tp (demo_draws 0 7 1) demo_http demo_whip_request demo_fresh_server = Inr (srv', Some out)
     \<and> read_response out = Some (201, h, as_bytes ans) \<and> get_sdp ans = Inr (sdp_as_parsed (sdp_answer demo_streamer))
     \<and> get_room 7 (session_registry srv') = Some \<lparr>rid = 7, owner_id = 1, viewer_ids = {}\<rparr>"
proof -
  have r: "d_random (demo_draws 0 7 1) = demo_random" "sdp_resolver demo_fresh_server = demo_resolver"
      "d_room_id (demo_draws 0 7 1) = 7" "d_resource_id (demo_draws 0 7 1) = 1"
    by (simp_all add: demo_draws_def demo_fresh_server_def)
  have "draws_ok (demo_draws 0 7 1) (session_registry demo_fresh_server)"
    by (rule demo_draws_ok) (simp_all add: demo_fresh_inv)
  from whip_publishes [OF demo_fresh_inv(1) this _ demo_http_ok(1) demo_request_parsed, of demo_whip True demo_tp]
    demo_offers_ok(1) demo_stream_accepted
  show ?thesis unfolding r
    by (auto simp: demo_parsed_request_def demo_http_def demo_config_def demo_whip_utf8 demo_decoder)
qed

section \<open>The program\<close>

definition demo_storage :: storage_library where
  "demo_storage = \<lparr>st_webp = \<lambda>pixels width height. Some pixels, st_write = \<lambda>p b fs. (True, fs(p \<mapsto> b))\<rparr>"

lemma demo_storage_ok: "storage_ok demo_storage" "\<forall>p b fs. fst (st_write demo_storage p b fs)"
  by (simp_all add: storage_ok_def demo_storage_def)

lemma demo_connection_ok: "connection_ok demo_http demo_whip_request"
proof -
  have "parse_head to_ascii_lowercase (take HTTP_LIMIT demo_whip_request) = Some (POST, ''/whip'', Map.empty,
      table to_ascii_lowercase Map.empty demo_headers, as_bytes demo_whip)"
    using parse_head_text [OF demo_http_ok(2) _ _ demo_headers_ok, of "''/whip''" "[]" POST "as_bytes demo_whip"] length_demo_request
    by (simp add: demo_whip_request_def demo_http_def word_ok_def)
  then have "announced demo_http demo_whip_request = Some 354"
    by (simp add: announced_def demo_http_def demo_headers_table length_demo_whip usize_max_def)
  with demo_request_parsed demo_offers_ok(1) show ?thesis
    by (simp add: connection_ok_def demo_http_def demo_parsed_request_def demo_whip_utf8)
qed

lemma demo_started: "main_start (\<lambda>_. True) (\<lambda>_. True) demo_tls demo_env = Inr (demo_config, demo_fresh_server)"
  using demo_new by (simp add: main_start_def get_global_config_def build_udp_socket_def demo_config_read) (simp add: demo_config_def)

text \<open>A server whose streamer has a picture.\<close>

definition demo_picture :: image_data where
  "demo_picture = \<lparr>data_buffer = [1, 2, 3], img_width = 1, img_height = 1\<rparr>"

definition demo_pictured_session :: "nat session" where
  "demo_pictured_session = (case connection_type demo_streamer_session of
       Streamer st \<Rightarrow> demo_streamer_session\<lparr>connection_type :=
         Streamer (st\<lparr>thumbnail_extractor := (thumbnail_extractor st)\<lparr>last_picture := Some demo_picture\<rparr>\<rparr>)\<rparr>
     | Viewer _ \<Rightarrow> demo_streamer_session)"

definition demo_pictured :: "nat udp_server" where
  "demo_pictured = demo_fresh_server\<lparr>session_registry := put_session 1 demo_pictured_session demo_live\<rparr>"

lemma demo_pictured_registry: "session_registry demo_pictured = put_session 1 demo_pictured_session demo_live"
  by (simp add: demo_pictured_def)

lemma demo_pictured_same: "same_identity demo_streamer_session demo_pictured_session"
    "sess_client demo_pictured_session = sess_client demo_streamer_session"
  by (auto simp: demo_pictured_session_def same_identity_def address_of_def role_def split: connection_type.splits)

lemma demo_pictured_inv: "loop_inv demo_pictured"
proof -
  have s: "sessions demo_live 1 = Some demo_streamer_session" by (simp add: demo_live_parts)
  have "server_ok (put_session 1 demo_pictured_session demo_live)"
    using put_server_ok [OF demo_live_ok s demo_pictured_same(1)] demo_pictured_same(2) alive_client [OF demo_live_ok s] by simp
  moreover have "typed (put_session 1 demo_pictured_session demo_live)"
    using demo_live_typed profiles_put [OF s profile_same [OF demo_pictured_same(1)]] by (simp add: typed_def)
  ultimately show ?thesis using demo_fresh_inv(1) by (simp add: loop_inv_def demo_pictured_def)
qed

lemma demo_pictured_due: "due_picture 0 demo_pictured_session 7 demo_picture"
  by (simp add: due_picture_def demo_pictured_session_def demo_streamer_session_def streamer_session_def extractor_with_def)

lemma demo_pictured_draws: "draws_ok (demo_draws 0 9 3) (session_registry demo_pictured)"
proof -
  have "members (put_session 1 demo_pictured_session demo_live) = members demo_live"
    using demo_pictured_same(1) by (intro members_put [of _ _ demo_streamer_session]) (simp_all add: demo_live_parts same_identity_def)
  then have "members (session_registry demo_pictured) = [1 \<mapsto> (True, 7), 2 \<mapsto> (False, 7)]"
    by (auto simp: demo_pictured_registry members_def demo_live_parts role_def demo_streamer_session_def demo_viewer_session_def
        streamer_session_def session_new_viewer_def fun_eq_iff)
  then show ?thesis by (intro demo_draws_ok [OF demo_pictured_inv]) auto
qed

definition demo_image_request :: bytes where
  "demo_image_request = as_bytes (request_text GET ''/images'' [(''image'', ''7.webp'')] [])"

lemma demo_image_parsed:
  "parse_http demo_http demo_image_request = Inr (Some \<lparr>req_path = ''/images'', req_method = GET,
     req_search = [''image'' \<mapsto> ''7.webp''], req_headers = Map.empty, req_body = None\<rparr>)"
  using parse_http_text [OF demo_http_ok(2), of "''/images''" "[(''image'', ''7.webp'')]" "[]" GET "[]" None]
  by (simp add: demo_image_request_def word_ok_def search_ok_def request_text_def target_text_def search_text_def header_text_def
      HTTP_LIMIT_def)

lemma demo_thumbnail_name: "thumbnail_name 7 = ''7.webp''"
  by (simp add: thumbnail_name_def show_nat_1 digit_def char_of_eq_iff)

end
