(* ===== verification/Threads_Demo.thy ===== *)
theory Threads_Demo
  imports Threads_Safety Http_Demo
begin

text \<open>
  Runs of the threads at which the theorems on them are instantiated: a streamer is published, an event
  stream is opened, and sixty event streams fill the pool.
\<close>

section \<open>One exchange, step by step\<close>

abbreviation demo_step :: "action \<Rightarrow> nat program \<Rightarrow> nat program \<Rightarrow> bool" where
  "demo_step \<equiv> program_step True demo_tp demo_storage demo_http"

abbreviation demo_start :: "nat program" where
  "demo_start \<equiv> program_start demo_fresh_server Map.empty"

lemmas demo_run_start = run_start [of "program_step True demo_tp demo_storage demo_http" "sends demo_http" handles]
lemmas demo_run_step = run_step [of "program_step True demo_tp demo_storage demo_http" "sends demo_http" handles]

definition demo_subscription :: bytes where
  "demo_subscription = as_bytes (request_text GET ''/notifications'' [] [])"

definition demo_subscription_request :: request where
  "demo_subscription_request = \<lparr>req_path = ''/notifications'', req_method = GET, req_search = Map.empty,
     req_headers = Map.empty, req_body = None\<rparr>"

lemma demo_subscription_parsed: "parse_http demo_http demo_subscription = Inr (Some demo_subscription_request)"
  using parse_http_text [OF demo_http_ok(2), of "''/notifications''" "[]" "[]" GET "[]" None]
  by (simp add: demo_subscription_def demo_subscription_request_def word_ok_def request_text_def target_text_def header_text_def
      HTTP_LIMIT_def)

lemma demo_subscription_ok: "connection_ok demo_http demo_subscription"
proof -
  have "parse_head to_ascii_lowercase (take HTTP_LIMIT demo_subscription) = Some (GET, ''/notifications'', Map.empty, Map.empty, [])"
    using parse_head_text [OF demo_http_ok(2), of "''/notifications''" "[]" "[]" GET "[]"]
    by (simp add: demo_subscription_def demo_http_def word_ok_def request_text_def target_text_def header_text_def HTTP_LIMIT_def)
  then have "announced demo_http demo_subscription = None" by (simp add: announced_def demo_http_def)
  with demo_subscription_parsed show ?thesis by (simp add: connection_ok_def demo_subscription_request_def)
qed

lemma demo_pool_free: "pool_free demo_start"
  by (simp add: pool_free_def busy_def program_start_def POOL_SIZE_def)

lemma demo_fresh_draws: "draws_ok (demo_draws 0 7 1) (session_registry demo_fresh_server)"
  by (rule demo_draws_ok) (simp_all add: demo_fresh_inv)

lemma demo_accepted:
  assumes "parse_http demo_http stream = Inr (Some req)" "serve (demo_http\<lparr>he_files := Map.empty\<rparr>) req = Inr (Ask cmd k)"
  shows "demo_step (Accept 0 stream) demo_start (set_worker 0 (Awaiting (is_stream req) k) (send (Worker 0) cmd demo_start))"
  using accept_ask [OF _ demo_pool_free assms(1)] assms(2) by (simp add: program_start_def)

lemma demo_asked_safe: "serve w req = Inr (Ask cmd k) \<Longrightarrow> \<not> command_panics True demo_tp srv (d, cmd)"
  using serve_asks [of w req cmd k] by (auto simp: demo_decoder)

lemma demo_served:
  assumes "parse_http demo_http stream = Inr (Some req)" "serve (demo_http\<lparr>he_files := Map.empty\<rparr>) req = Inr (Ask cmd k)"
    and "connection_ok demo_http stream"
  obtains sent handled st out where
    "ok_run True demo_tp demo_storage demo_http demo_start [Accept 0 stream, Turn (demo_draws 0 7 1), Collect 0] sent handled st"
    "pg_workers st 0 = Some (if is_stream req then Subscribed out else Finished (Some out))"
proof -
  let ?st1 = "set_worker 0 (Awaiting (is_stream req) k) (send (Worker 0) cmd demo_start)"
  note acc = demo_accepted [OF assms(1,2)]
  have inv: "program_inv ?st1"
    by (rule program_step_inv [OF acc start_inv(2) [OF demo_fresh_inv(1)] demo_tp_ok]) (simp add: assms(3))
  then have w: "workers_inv ?st1" by (simp add: program_inv_def)
  have "draws_ok (demo_draws 0 7 1) (session_registry (pg_server ?st1))" using demo_fresh_draws by (simp add: program_start_def)
  moreover have "pg_channel ?st1 = [(Worker 0, cmd)]" by (simp add: program_start_def)
  ultimately obtain st2 where st2: "demo_step (Turn (demo_draws 0 7 1)) ?st1 st2"
    using turn_enabled [OF inv demo_tp_ok, where chk = True and lib = demo_storage and w = demo_http] demo_asked_safe [OF assms(2)] by blast
  from waiting_step [OF this w, of 0 "is_stream req" k] obtain e where e: "pg_workers st2 0 = Some (Replied (is_stream req) k e)"
    by (auto simp: ahead_def program_start_def)
  moreover have "worker_ok (pg_workers st2 0) (pending 0 st2)" using workers_step_inv [OF st2 w] by (simp add: workers_inv_def)
  ultimately obtain out where out: "k (Some e) = Inr out" by auto
  let ?run = "\<lambda>acts sent handled st. ok_run True demo_tp demo_storage demo_http demo_start acts sent handled st"
  have ok: "\<And>acts sent handled st act st'. ?run acts sent handled st \<Longrightarrow> demo_step act st st' \<Longrightarrow> action_ok demo_http act st \<Longrightarrow>
      ?run (acts @ [act]) (sent @ sends demo_http act st) (handled @ handles act st) st'"
    by (rule run_step) (simp_all add: ok_step_def)
  have "action_ok demo_http (Turn (demo_draws 0 7 1)) ?st1" using demo_fresh_draws by (simp add: program_start_def)
  from ok [OF ok [OF ok [OF run_start acc] st2 this] collect [OF e out]] assms(3) show ?thesis
    by (intro that [of _ _ _ out]) (auto simp: set_worker_def)
qed

lemma demo_whip_served:
  "serve (demo_http\<lparr>he_files := Map.empty\<rparr>) demo_parsed_request
     = Inr (Ask (AddStreamer demo_whip True) (on_reply (whip_response (demo_http\<lparr>he_files := Map.empty\<rparr>))))"
  "\<not> is_stream demo_parsed_request"
  by (simp_all add: serve_def whip_route_def whip_request_def demo_parsed_request_def demo_http_def demo_config_def demo_whip_utf8
      is_stream_def)

lemma demo_subscription_served:
  "\<exists>k. serve (demo_http\<lparr>he_files := Map.empty\<rparr>) demo_subscription_request = Inr (Ask SendRoomsStatus k)"
  "is_stream demo_subscription_request"
  by (simp_all add: serve_def notification_exchange_def demo_subscription_request_def is_stream_def)

section \<open>The theorems on these runs\<close>

theorem worker_answered_witness:
  "\<exists>st st' k e out. demo_step (Accept 0 demo_whip_request) demo_start st \<and> pg_workers st 0 = Some (Awaiting False k) \<and> ahead 0 st = 0
     \<and> demo_step (Turn (demo_draws 0 7 1)) st st' \<and> pg_workers st' 0 = Some (Replied False k e) \<and> k (Some e) = Inr out"
proof -
  let ?k = "on_reply (whip_response (demo_http\<lparr>he_files := Map.empty\<rparr>))"
  let ?st = "set_worker 0 (Awaiting False ?k) (send (Worker 0) (AddStreamer demo_whip True) demo_start)"
  have acc: "demo_step (Accept 0 demo_whip_request) demo_start ?st"
    using demo_accepted [OF demo_request_parsed demo_whip_served(1)] demo_whip_served(2) by simp
  have inv: "program_inv ?st"
    by (rule program_step_inv [OF acc start_inv(2) [OF demo_fresh_inv(1)] demo_tp_ok]) (simp add: demo_connection_ok)
  have d: "draws_ok (demo_draws 0 7 1) (session_registry (pg_server ?st))" using demo_fresh_draws by (simp add: program_start_def)
  moreover have "pg_channel ?st = [(Worker 0, AddStreamer demo_whip True)]" by (simp add: program_start_def)
  ultimately obtain st' where st': "demo_step (Turn (demo_draws 0 7 1)) ?st st'"
    using turn_enabled [OF inv demo_tp_ok, where chk = True and lib = demo_storage and w = demo_http] demo_asked_safe [OF demo_whip_served(1)] by blast
  from reach_step [OF reach_start _ this] d have r: "program_reach True demo_tp demo_storage demo_http ?st [Turn (demo_draws 0 7 1)] st'" by simp
  have a: "ahead 0 ?st = 0" by (simp add: ahead_def program_start_def)
  from worker_answered [OF inv demo_tp_ok _ r, of 0 False ?k] a acc st' show ?thesis by fastforce
qed

theorem threads_linearize_witness:
  "\<exists>acts sent handled st out a1 a2 s1 h1 h2 st1. program_run True demo_tp demo_storage demo_http demo_start acts sent handled st
     \<and> pg_workers st 0 = Some (Finished (Some out)) \<and> acts = a1 @ Accept 0 demo_whip_request # a2
     \<and> program_run True demo_tp demo_storage demo_http demo_start a1 s1 h1 st1 \<and> handled = h1 @ h2
     \<and> responds True demo_tp demo_http 0 demo_whip_request st1 h2 (Some out)"
proof -
  obtain sent handled st out where
    "ok_run True demo_tp demo_storage demo_http demo_start [Accept 0 demo_whip_request, Turn (demo_draws 0 7 1), Collect 0] sent handled st"
    "pg_workers st 0 = Some (Finished (Some out))"
    by (rule demo_served [OF demo_request_parsed demo_whip_served(1) demo_connection_ok]) (simp add: demo_whip_served(2))
  note r = ok_run_run [OF this(1)] this(2)
  have "\<not> is_stream req" if "parse_http demo_http demo_whip_request = Inr (Some req)" for req
    using that demo_request_parsed demo_whip_served(2) by simp
  then have "Accept 0 demo_whip_request \<in> set [Accept 0 demo_whip_request, Turn (demo_draws 0 7 1), Collect 0]
      \<and> pg_workers st 0 = Some (Finished (Some out)) \<and> (\<forall>req. parse_http demo_http demo_whip_request = Inr (Some req) \<longrightarrow> \<not> is_stream req)"
    using r(2) by simp
  with threads_linearize [OF r(1)] have "\<exists>a1 a2 s1 h1 h2 st1. [Accept 0 demo_whip_request, Turn (demo_draws 0 7 1), Collect 0]
        = a1 @ Accept 0 demo_whip_request # a2 \<and> program_run True demo_tp demo_storage demo_http demo_start a1 s1 h1 st1
      \<and> handled = h1 @ h2 \<and> responds True demo_tp demo_http 0 demo_whip_request st1 h2 (Some out)"
    by blast
  with r show ?thesis by blast
qed

theorem event_stream_history_witness:
  "\<exists>acts sent handled st out a1 s1 h1 h2 st1 header. program_run True demo_tp demo_storage demo_http demo_start acts sent handled st
     \<and> pg_workers st 0 = Some (Subscribed out) \<and> program_run True demo_tp demo_storage demo_http demo_start a1 s1 h1 st1 \<and> handled = h1 @ h2 \<and> notification_header demo_http = Inr header
     \<and> out = written demo_http header (statuses True demo_tp 0 h2 (pg_server st1))"
proof -
  obtain k where k: "serve (demo_http\<lparr>he_files := Map.empty\<rparr>) demo_subscription_request = Inr (Ask SendRoomsStatus k)"
    using demo_subscription_served(1) by blast
  obtain sent handled st out where
    "ok_run True demo_tp demo_storage demo_http demo_start [Accept 0 demo_subscription, Turn (demo_draws 0 7 1), Collect 0] sent handled st"
    "pg_workers st 0 = Some (Subscribed out)"
    by (rule demo_served [OF demo_subscription_parsed k demo_subscription_ok]) (simp add: demo_subscription_served(2))
  note r = ok_run_run [OF this(1)] this(2)
  have "Accept 0 demo_subscription \<in> set [Accept 0 demo_subscription, Turn (demo_draws 0 7 1), Collect 0]" by simp
  from event_stream_history [OF r(1) this demo_subscription_parsed demo_subscription_served(2)] show ?thesis
  proof (elim exE conjE)
    fix a1 s1 h1 h2 st1 header
    assume a1: "program_run True demo_tp demo_storage demo_http demo_start a1 s1 h1 st1"
    assume "handled = h1 @ h2" "notification_header demo_http = Inr header"
      "\<forall>out. pg_workers st 0 = Some (Subscribed out) \<longrightarrow> out = written demo_http header (statuses True demo_tp 0 h2 (pg_server st1))"
    then have "handled = h1 @ h2 \<and> notification_header demo_http = Inr header
        \<and> out = written demo_http header (statuses True demo_tp 0 h2 (pg_server st1))"
      using r(2) by simp
    with r a1 show ?thesis by blast
  qed
qed

text \<open>Sixty subscribers, one after the other.\<close>

lemma demo_flood:
  "n \<le> POOL_SIZE \<Longrightarrow> \<exists>sent handled st. program_run True demo_tp demo_storage demo_http demo_start
     (map (\<lambda>i. Accept i demo_subscription) [0..<n]) sent handled st \<and> dom (pg_workers st) = {..<n} \<and> streaming st = {..<n}"
proof (induction n)
  case 0
  have "dom (pg_workers demo_start) = {}" "streaming demo_start = {}" by (simp_all add: program_start_def streaming_def)
  with demo_run_start [of demo_start] show ?case by auto
next
  case (Suc n)
  then obtain sent handled st where r: "program_run True demo_tp demo_storage demo_http demo_start
      (map (\<lambda>i. Accept i demo_subscription) [0..<n]) sent handled st" "dom (pg_workers st) = {..<n}" "streaming st = {..<n}"
    by auto
  have "busy st \<subseteq> {..<n}" unfolding r(2) [symmetric] by (auto simp: busy_def)
  then have "card (busy st) \<le> n" using card_mono [of "{..<n}" "busy st"] by simp
  with Suc.prems have free: "pool_free st" by (simp add: pool_free_def)
  have new: "pg_workers st n = None" using r(2) by auto
  obtain k where k: "serve (demo_http\<lparr>he_files := pg_files st\<rparr>) demo_subscription_request = Inr (Ask SendRoomsStatus k)"
    by (simp add: serve_def notification_exchange_def demo_subscription_request_def)
  from accept_ask [OF new free demo_subscription_parsed k] have "demo_step (Accept n demo_subscription) st
      (set_worker n (Awaiting True k) (send (Worker n) SendRoomsStatus st))" by (simp add: demo_subscription_served(2))
  from demo_run_step [OF r(1) this] have "program_run True demo_tp demo_storage demo_http demo_start
      (map (\<lambda>i. Accept i demo_subscription) [0..<Suc n]) (sent @ sends demo_http (Accept n demo_subscription) st) handled
      (set_worker n (Awaiting True k) (send (Worker n) SendRoomsStatus st))" by simp
  moreover have "streaming (set_worker n (Awaiting True k) (send (Worker n) SendRoomsStatus st)) = {..<Suc n}"
  proof -
    have "streaming (set_worker n (Awaiting True k) (send (Worker n) SendRoomsStatus st)) = insert n (streaming st)"
      by (auto simp: streaming_def)
    with r(3) show ?thesis by (simp add: lessThan_Suc)
  qed
  moreover have "dom (pg_workers (set_worker n (Awaiting True k) (send (Worker n) SendRoomsStatus st))) = {..<Suc n}"
    using r(2) by (simp add: lessThan_Suc)
  ultimately show ?case by blast
qed

theorem streams_exhaust_pool_witness:
  "\<exists>acts sent handled st. program_run True demo_tp demo_storage demo_http demo_start acts sent handled st \<and> card (streaming st) = 60
     \<and> (\<forall>i st'. \<not> demo_step (Accept i demo_whip_request) st st')"
proof -
  obtain sent handled st where r: "program_run True demo_tp demo_storage demo_http demo_start
      (map (\<lambda>i. Accept i demo_subscription) [0..<POOL_SIZE]) sent handled st" "dom (pg_workers st) = {..<POOL_SIZE}"
      "streaming st = {..<POOL_SIZE}"
    using demo_flood [of POOL_SIZE] by blast
  have "\<not> demo_step (Accept i demo_whip_request) st st'" for i st'
  proof
    assume "demo_step (Accept i demo_whip_request) st st'"
    from streams_exhaust_pool [OF demo_run_step [OF demo_run_start this], of i demo_whip_request] r(2,3) show False by simp
  qed
  moreover have "card (streaming st) = 60" using r(3) by (simp add: POOL_SIZE_def)
  ultimately show ?thesis using r(1) by blast
qed

end
