(* ===== verification/Sdp_Tests.thy ===== *)
theory Sdp_Tests
  imports Sdp_Demo
begin

text \<open>
  The unit tests of \<open>crates/sdp/src/resolvers.rs\<close> (its module \<open>tests\<close>), each as a boolean definition
  named after the test's module and function: the inputs of the test, the call, and what the test
  asserts of its result. That they hold of the model, for every random value the code may draw,
  checks the model against what the authors expect of the code. The last section shows which of
  them reject their input for another reason than the one they are named after.
\<close>

text \<open>\<open>Result::expect\<close> followed by assertions on the value, and \<open>Result::expect_err\<close>; a failed
  expectation panics, and the test fails.\<close>

definition expect :: "'e + 'a \<Rightarrow> ('a \<Rightarrow> bool) \<Rightarrow> bool" where
  "expect r asserts = (case r of Inl _ \<Rightarrow> False | Inr v \<Rightarrow> asserts v)"

definition expect_err :: "'e + 'a \<Rightarrow> bool" where
  "expect_err r = (\<not> is_ok r)"

definition expect_some :: "'a option \<Rightarrow> ('a \<Rightarrow> bool) \<Rightarrow> bool" where
  "expect_some r asserts = (case r of None \<Rightarrow> False | Some v \<Rightarrow> asserts v)"

lemmas expect_defs = expect_def expect_err_def expect_some_def is_ok_def

section \<open>\<open>get_sdp\<close>\<close>

text \<open>The lines of \<open>VALID_SDP\<close>, by section; the offers the other tests of the module spell out are
  put together from the same lines.\<close>

definition valid_session_lines :: "string list" where
  "valid_session_lines = [
     ''v=0'',
     ''o=rtc 3767197920 0 IN IP4 127.0.0.1'',
     ''s=-'',
     ''t=0 0'',
     ''a=group:BUNDLE 0 1'',
     ''a=group:LS 0 1'',
     ''a=msid-semantic:WMS *'',
     ''a=setup:actpass'',
     ''a=ice-ufrag:E2Fr'',
     ''a=ice-pwd:OpQzg1PAwUdeOB244chlgd'',
     ''a=ice-options:trickle'',
     ''a=fingerprint:sha-256 EF:53:C9:F2:E0:A0:4F:1D:5E:99:4C:20:B8:D7:DE:21:3B:58:15:C4:E5:88:87:46:65:27:F7:3B:C6:DC:EF:3B'']"

definition valid_audio_lines :: "string list" where
  "valid_audio_lines = [
     ''m=audio 4557 UDP/TLS/RTP/SAVPF 111'',
     ''c=IN IP4 192.168.0.198'',
     ''a=mid:0'',
     ''a=sendonly'',
     ''a=ssrc:1349455989 cname:0X2NGAsK9XcmnsuZ'',
     ''a=ssrc:1349455989 msid:qUVEoh7TF9nLCrk4 qUVEoh7TF9nLCrk4-audio'',
     ''a=msid:qUVEoh7TF9nLCrk4 qUVEoh7TF9nLCrk4-audio'',
     ''a=rtcp-mux'',
     ''a=rtpmap:111 opus/48000/2'',
     ''a=fmtp:111 minptime=10;maxaveragebitrate=96000;stereo=1;sprop-stereo=1;useinbandfec=1'',
     ''a=candidate:1 1 UDP 2015363327 192.168.0.198 4557 typ host'',
     ''a=candidate:2 1 UDP 2015363583 fe80::6c3d:5b42:1532:2f9a 10007 typ host'',
     ''a=end-of-candidates'']"

definition valid_video_lines :: "string list" where
  "valid_video_lines = [
     ''m=video 4557 UDP/TLS/RTP/SAVPF 96'',
     ''c=IN IP4 192.168.0.198'',
     ''a=mid:1'',
     ''a=sendonly'',
     ''a=ssrc:1349455990 cname:0X2NGAsK9XcmnsuZ'',
     ''a=ssrc:1349455990 msid:qUVEoh7TF9nLCrk4 qUVEoh7TF9nLCrk4-video'',
     ''a=msid:qUVEoh7TF9nLCrk4 qUVEoh7TF9nLCrk4-video'',
     ''a=rtcp-mux'',
     ''a=rtpmap:96 H264/90000'',
     ''a=rtcp-fb:96 nack'',
     ''a=rtcp-fb:96 nack pli'',
     ''a=rtcp-fb:96 goog-remb'',
     ''a=fmtp:96 profile-level-id=42e01f;packetization-mode=1;level-asymmetry-allowed=1'']"

text \<open>A text of the given lines, each ended by \<open>\r\n\<close>.\<close>

definition crlf_text :: "string list \<Rightarrow> string" where
  "crlf_text ls = concat (map (\<lambda>l. l @ CRLF) ls)"

definition VALID_SDP :: string where
  "VALID_SDP = crlf_text (valid_session_lines @ valid_audio_lines @ valid_video_lines)"

definition expected_session_media :: "sdp_line list" where
  "expected_session_media = [
     ProtocolVersion ''0'',
     OriginatorLine \<lparr>o_username = ''rtc'', o_session_id = ''3767197920'', o_session_version = ''0'',
       o_ip_addr = V4 (rd32 127 0 0 1)\<rparr>,
     SessionName ''-'',
     SessionTimeLine \<lparr>start_time = 0, end_time = 0\<rparr>,
     AttributeLine (MediaGroupAttr (Bundle [''0'', ''1''])),
     AttributeLine (MediaGroupAttr (LipSync [''0'', ''1''])),
     AttributeLine UnrecognizedAttr,
     AttributeLine (SetupAttr ActivePassive),
     AttributeLine (ICEUsernameAttr \<lparr>username = ''E2Fr''\<rparr>),
     AttributeLine (ICEPasswordAttr \<lparr>password = ''OpQzg1PAwUdeOB244chlgd''\<rparr>),
     AttributeLine (ICEOptionsAttr \<lparr>options = [Trickle]\<rparr>),
     AttributeLine (FingerprintAttr \<lparr>hash_function = SHA256,
       hash = ''EF:53:C9:F2:E0:A0:4F:1D:5E:99:4C:20:B8:D7:DE:21:3B:58:15:C4:E5:88:87:46:65:27:F7:3B:C6:DC:EF:3B''\<rparr>)]"

definition expected_audio_media :: "128 word \<Rightarrow> sdp_line list" where
  "expected_audio_media link_local = [
     MediaDescriptionLine \<lparr>md_media_type = Audio, md_transport_port = 4557,
       md_transport_protocol = DtlsSrtp, md_media_format_description = [111]\<rparr>,
     ConnectionDataLine \<lparr>cd_ip = V4 (rd32 192 168 0 198)\<rparr>,
     AttributeLine (MediaIDAttr \<lparr>mid_id = ''0''\<rparr>),
     AttributeLine SendOnly,
     AttributeLine (MediaSSRCAttr \<lparr>ssrc = 1349455989, source_attribute = CNAME ''0X2NGAsK9XcmnsuZ''\<rparr>),
     AttributeLine (MediaSSRCAttr \<lparr>ssrc = 1349455989, source_attribute = UnsupportedSource\<rparr>),
     AttributeLine UnrecognizedAttr,
     AttributeLine RTCPMux,
     AttributeLine (RTPMapAttr \<lparr>rtpmap_codec = AudioCodec Opus, rtpmap_payload_number = 111\<rparr>),
     AttributeLine (FMTPAttr \<lparr>fmtp_payload_number = 111, format_capability =
       {''minptime=10'', ''maxaveragebitrate=96000'', ''stereo=1'', ''sprop-stereo=1'', ''useinbandfec=1''}\<rparr>),
     AttributeLine (CandidateAttr \<lparr>foundation = ''1'', component_id = 1, priority = 2015363327,
       connection_address = V4 (rd32 192 168 0 198), port = 4557\<rparr>),
     AttributeLine (CandidateAttr \<lparr>foundation = ''2'', component_id = 1, priority = 2015363583,
       connection_address = V6 link_local, port = 10007\<rparr>),
     AttributeLine EndOfCandidates]"

definition expected_video_session :: "sdp_line list" where
  "expected_video_session = [
     MediaDescriptionLine \<lparr>md_media_type = Video, md_transport_port = 4557,
       md_transport_protocol = DtlsSrtp, md_media_format_description = [96]\<rparr>,
     ConnectionDataLine \<lparr>cd_ip = V4 (rd32 192 168 0 198)\<rparr>,
     AttributeLine (MediaIDAttr \<lparr>mid_id = ''1''\<rparr>),
     AttributeLine SendOnly,
     AttributeLine (MediaSSRCAttr \<lparr>ssrc = 1349455990, source_attribute = CNAME ''0X2NGAsK9XcmnsuZ''\<rparr>),
     AttributeLine (MediaSSRCAttr \<lparr>ssrc = 1349455990, source_attribute = UnsupportedSource\<rparr>),
     AttributeLine UnrecognizedAttr,
     AttributeLine RTCPMux,
     AttributeLine (RTPMapAttr \<lparr>rtpmap_codec = VideoCodec H264, rtpmap_payload_number = 96\<rparr>),
     AttributeLine UnrecognizedAttr,
     AttributeLine UnrecognizedAttr,
     AttributeLine UnrecognizedAttr,
     AttributeLine (FMTPAttr \<lparr>fmtp_payload_number = 96, format_capability =
       {''profile-level-id=42e01f'', ''packetization-mode=1'', ''level-asymmetry-allowed=1''}\<rparr>)]"

definition get_sdp_resolves_valid_sdp :: bool where
  "get_sdp_resolves_valid_sdp =
     expect (get_sdp VALID_SDP) (\<lambda>result.
       expect_some (ipv6_from_str ''fe80::6c3d:5b42:1532:2f9a'') (\<lambda>link_local.
         session_section result = expected_session_media
           \<and> audio_section result = expected_audio_media link_local
           \<and> video_section result = expected_video_session))"

definition get_sdp_rejects_sdp_with_extra_media :: bool where
  "get_sdp_rejects_sdp_with_extra_media =
     (let invalid_sdp = crlf_text (valid_session_lines @ valid_audio_lines @ valid_video_lines @ valid_video_lines)
      in expect_err (get_sdp invalid_sdp))"

definition get_sdp_rejects_sdp_with_unrecognized_media :: bool where
  "get_sdp_rejects_sdp_with_unrecognized_media =
     (let invalid_sdp = crlf_text (valid_session_lines
            @ (''m=text 4557 UDP/TLS/RTP/SAVPF 111'' # tl valid_audio_lines) @ valid_video_lines)
      in expect_err (get_sdp invalid_sdp))"

definition get_sdp_rejects_sdp_with_one_media_section :: bool where
  "get_sdp_rejects_sdp_with_one_media_section =
     (let invalid_sdp = crlf_text (valid_session_lines @ valid_audio_lines)
      in expect_err (get_sdp invalid_sdp))"

definition get_sdp_rejects_sdp_with_incorrect_session_media_items_order :: bool where
  "get_sdp_rejects_sdp_with_incorrect_session_media_items_order =
     (let invalid_sdp = crlf_text (take 2 valid_session_lines @ [''t=0 0'', ''s=-'']
            @ drop 4 valid_session_lines @ valid_audio_lines @ valid_video_lines)
      in expect_err (get_sdp invalid_sdp))"

definition get_sdp_rejects_sdp_with_missing_required_session_media_items :: bool where
  "get_sdp_rejects_sdp_with_missing_required_session_media_items =
     (let invalid_sdp = crlf_text (take 3 valid_session_lines @ drop 4 valid_session_lines
            @ valid_audio_lines @ valid_video_lines)
      in expect_err (get_sdp invalid_sdp))"

section \<open>\<open>get_ice_credentials\<close>\<close>

definition get_ice_credentials_resolves_sdp_with_default_credentials :: "host_random \<Rightarrow> bool" where
  "get_ice_credentials_resolves_sdp_with_default_credentials rnd =
     (let expected_ice_username = \<lparr>username = ''tests''\<rparr>;
          expected_ice_password = \<lparr>password = ''tests''\<rparr>;
          s = \<lparr>session_section = [
              AttributeLine (ICEUsernameAttr expected_ice_username),
              AttributeLine (ICEPasswordAttr expected_ice_password)],
            video_section = [],
            audio_section = []\<rparr> in
      expect_some (get_ice_credentials rnd s) (\<lambda>creds.
        remote_username creds = username expected_ice_username
          \<and> remote_password creds = password expected_ice_password))"

definition get_ice_credentials_resolves_sdp_with_media_credentials :: "host_random \<Rightarrow> bool" where
  "get_ice_credentials_resolves_sdp_with_media_credentials rnd =
     (let expected_ice_username = \<lparr>username = ''tests''\<rparr>;
          expected_ice_password = \<lparr>password = ''tests''\<rparr>;
          s = \<lparr>session_section = [],
            video_section = [
              AttributeLine (ICEUsernameAttr expected_ice_username),
              AttributeLine (ICEPasswordAttr expected_ice_password)],
            audio_section = [
              AttributeLine (ICEUsernameAttr expected_ice_username),
              AttributeLine (ICEPasswordAttr expected_ice_password)]\<rparr> in
      expect_some (get_ice_credentials rnd s) (\<lambda>creds.
        remote_username creds = username expected_ice_username
          \<and> remote_password creds = password expected_ice_password))"

definition get_ice_credentials_selects_media_level_ice_credentials_over_defaults :: "host_random \<Rightarrow> bool" where
  "get_ice_credentials_selects_media_level_ice_credentials_over_defaults rnd =
     (let expected_ice_username = \<lparr>username = ''tests''\<rparr>;
          expected_ice_password = \<lparr>password = ''tests''\<rparr>;
          s = \<lparr>session_section = [
              AttributeLine (ICEUsernameAttr \<lparr>username = ''default-username''\<rparr>),
              AttributeLine (ICEPasswordAttr \<lparr>password = ''default-password''\<rparr>)],
            video_section = [
              AttributeLine (ICEUsernameAttr expected_ice_username),
              AttributeLine (ICEPasswordAttr expected_ice_password)],
            audio_section = [
              AttributeLine (ICEUsernameAttr expected_ice_username),
              AttributeLine (ICEPasswordAttr expected_ice_password)]\<rparr> in
      expect_some (get_ice_credentials rnd s) (\<lambda>creds.
        remote_username creds = username expected_ice_username
          \<and> remote_password creds = password expected_ice_password))"

definition get_ice_credentials_rejects_sdp_with_partial_media_credentials :: "host_random \<Rightarrow> bool" where
  "get_ice_credentials_rejects_sdp_with_partial_media_credentials rnd =
     (let expected_ice_username = \<lparr>username = ''tests''\<rparr>;
          expected_ice_password = \<lparr>password = ''tests''\<rparr>;
          s = \<lparr>session_section = [],
            video_section = [
              AttributeLine (ICEUsernameAttr expected_ice_username),
              AttributeLine (ICEPasswordAttr expected_ice_password)],
            audio_section = []\<rparr> in
      get_ice_credentials rnd s = None)"

definition get_ice_credentials_rejects_sdp_with_partial_media_credentials_and_default_credentials :: "host_random \<Rightarrow> bool" where
  "get_ice_credentials_rejects_sdp_with_partial_media_credentials_and_default_credentials rnd =
     (let expected_ice_username = \<lparr>username = ''tests''\<rparr>;
          expected_ice_password = \<lparr>password = ''tests''\<rparr>;
          s = \<lparr>session_section = [
              AttributeLine (ICEUsernameAttr \<lparr>username = ''default-username''\<rparr>),
              AttributeLine (ICEPasswordAttr \<lparr>password = ''default-password''\<rparr>)],
            video_section = [
              AttributeLine (ICEUsernameAttr expected_ice_username),
              AttributeLine (ICEPasswordAttr expected_ice_password)],
            audio_section = []\<rparr> in
      get_ice_credentials rnd s = None)"

definition get_ice_credentials_rejects_sdp_without_ice_credentials :: "host_random \<Rightarrow> bool" where
  "get_ice_credentials_rejects_sdp_without_ice_credentials rnd =
     (let s = \<lparr>session_section = [],
            video_section = [],
            audio_section = []\<rparr> in
      get_ice_credentials rnd s = None)"

section \<open>\<open>get_media_ids\<close>\<close>

definition get_media_ids_gets_media_ids_of_valid_sdp :: bool where
  "get_media_ids_gets_media_ids_of_valid_sdp =
     (let expected_audio_id = \<lparr>mid_id = ''0''\<rparr>;
          expected_video_id = \<lparr>mid_id = ''1''\<rparr>;
          s = \<lparr>session_section = [AttributeLine (MediaGroupAttr (Bundle [''0'', ''1'']))],
               video_section = [AttributeLine (MediaIDAttr expected_video_id)],
               audio_section = [AttributeLine (MediaIDAttr expected_audio_id)]\<rparr> in
      expect (get_media_ids s) (\<lambda>(actual_audio_id, actual_video_id).
        actual_audio_id = expected_audio_id \<and> actual_video_id = expected_video_id))"

definition get_media_ids_rejects_if_mediaid_doesnt_match_bundle :: bool where
  "get_media_ids_rejects_if_mediaid_doesnt_match_bundle =
     (let s = \<lparr>session_section = [AttributeLine (MediaGroupAttr (Bundle [''0'', ''1'']))],
               video_section = [AttributeLine (MediaIDAttr \<lparr>mid_id = ''2''\<rparr>)],
               audio_section = [AttributeLine (MediaIDAttr \<lparr>mid_id = ''0''\<rparr>)]\<rparr> in
      expect_err (get_media_ids s))"

definition get_media_ids_rejects_if_missing_bundle :: bool where
  "get_media_ids_rejects_if_missing_bundle =
     (let s = \<lparr>session_section = [],
               video_section = [AttributeLine (MediaIDAttr \<lparr>mid_id = ''1''\<rparr>)],
               audio_section = [AttributeLine (MediaIDAttr \<lparr>mid_id = ''0''\<rparr>)]\<rparr> in
      expect_err (get_media_ids s))"

section \<open>\<open>get_streamer_audio_session\<close>\<close>

definition get_streamer_audio_session_resolves_valid_sdp :: "u32 \<Rightarrow> bool" where
  "get_streamer_audio_session_resolves_valid_sdp rnd_ssrc =
     (let expected_payload_number = 96;
          expected_ssrc = 1;
          audio_media = [
            AttributeLine SendOnly,
            AttributeLine RTCPMux,
            AttributeLine (FMTPAttr \<lparr>fmtp_payload_number = expected_payload_number,
              format_capability = {}\<rparr>),
            AttributeLine (RTPMapAttr \<lparr>rtpmap_codec = AudioCodec Opus,
              rtpmap_payload_number = expected_payload_number\<rparr>),
            AttributeLine (MediaSSRCAttr \<lparr>ssrc = expected_ssrc, source_attribute = CNAME ''smid''\<rparr>)] in
      expect (get_streamer_audio_session rnd_ssrc audio_media) (\<lambda>session.
        as_codec session = Opus
          \<and> as_payload_number session = expected_payload_number
          \<and> as_remote_ssrc session = Some expected_ssrc))"

definition get_streamer_audio_session_resolves_media_with_missing_ssrc :: "u32 \<Rightarrow> bool" where
  "get_streamer_audio_session_resolves_media_with_missing_ssrc rnd_ssrc =
     (let expected_payload_number = 96;
          audio_media = [
            AttributeLine SendOnly,
            AttributeLine RTCPMux,
            AttributeLine (FMTPAttr \<lparr>fmtp_payload_number = expected_payload_number,
              format_capability = {}\<rparr>),
            AttributeLine (RTPMapAttr \<lparr>rtpmap_codec = AudioCodec Opus,
              rtpmap_payload_number = expected_payload_number\<rparr>)] in
      expect (get_streamer_audio_session rnd_ssrc audio_media) (\<lambda>session.
        as_remote_ssrc session = None))"

definition get_streamer_audio_session_reject_media_with_missing_rtmp :: "u32 \<Rightarrow> bool" where
  "get_streamer_audio_session_reject_media_with_missing_rtmp rnd_ssrc =
     (let expected_payload_number = 96;
          audio_media = [
            AttributeLine SendOnly,
            AttributeLine RTCPMux,
            AttributeLine (FMTPAttr \<lparr>fmtp_payload_number = expected_payload_number,
              format_capability = {}\<rparr>),
            AttributeLine (MediaSSRCAttr \<lparr>ssrc = 1, source_attribute = CNAME ''smid''\<rparr>)] in
      expect_err (get_streamer_audio_session rnd_ssrc audio_media))"

definition get_streamer_audio_session_reject_media_with_invalid_direction :: "u32 \<Rightarrow> bool" where
  "get_streamer_audio_session_reject_media_with_invalid_direction rnd_ssrc =
     (let expected_payload_number = 96;
          audio_media = [
            AttributeLine ReceiveOnly,
            AttributeLine RTCPMux,
            AttributeLine (RTPMapAttr \<lparr>rtpmap_codec = AudioCodec Opus,
              rtpmap_payload_number = expected_payload_number\<rparr>),
            AttributeLine (MediaSSRCAttr \<lparr>ssrc = 1, source_attribute = CNAME ''smid''\<rparr>)] in
      expect_err (get_streamer_audio_session rnd_ssrc audio_media))"

definition get_streamer_audio_session_reject_non_demuxed_media :: "u32 \<Rightarrow> bool" where
  "get_streamer_audio_session_reject_non_demuxed_media rnd_ssrc =
     (let expected_payload_number = 96;
          audio_media = [
            AttributeLine SendOnly,
            AttributeLine (RTPMapAttr \<lparr>rtpmap_codec = AudioCodec Opus,
              rtpmap_payload_number = expected_payload_number\<rparr>),
            AttributeLine (MediaSSRCAttr \<lparr>ssrc = 1, source_attribute = CNAME ''smid''\<rparr>)] in
      expect_err (get_streamer_audio_session rnd_ssrc audio_media))"

definition get_streamer_audio_session_reject_media_with_unsupported_codec :: "u32 \<Rightarrow> bool" where
  "get_streamer_audio_session_reject_media_with_unsupported_codec rnd_ssrc =
     (let expected_payload_number = 96;
          audio_media = [
            AttributeLine SendOnly,
            AttributeLine RTCPMux,
            AttributeLine (RTPMapAttr \<lparr>rtpmap_codec = UnsupportedCodec,
              rtpmap_payload_number = expected_payload_number\<rparr>),
            AttributeLine (MediaSSRCAttr \<lparr>ssrc = 1, source_attribute = CNAME ''smid''\<rparr>)] in
      expect_err (get_streamer_audio_session rnd_ssrc audio_media))"

section \<open>\<open>get_streamer_video_session\<close>\<close>

definition get_streamer_video_session_resolves_valid_media :: "u32 \<Rightarrow> bool" where
  "get_streamer_video_session_resolves_valid_media rnd_ssrc =
     (let expected_payload_number = 96;
          expected_ssrc = 1;
          expected_capabilities = {''profile-tests''};
          video_media = [
            AttributeLine SendOnly,
            AttributeLine (SetupAttr ActivePassive),
            AttributeLine RTCPMux,
            AttributeLine (FMTPAttr \<lparr>fmtp_payload_number = expected_payload_number,
              format_capability = expected_capabilities\<rparr>),
            AttributeLine (RTPMapAttr \<lparr>rtpmap_codec = VideoCodec H264,
              rtpmap_payload_number = expected_payload_number\<rparr>),
            AttributeLine (MediaSSRCAttr \<lparr>ssrc = expected_ssrc, source_attribute = CNAME HOST_CNAME\<rparr>)] in
      expect (get_streamer_video_session rnd_ssrc video_media) (\<lambda>session.
        vs_codec session = H264
          \<and> vs_payload_number session = expected_payload_number
          \<and> vs_remote_ssrc session = Some expected_ssrc
          \<and> vs_capabilities session = expected_capabilities))"

definition get_streamer_video_session_resolves_media_with_missing_ssrc :: "u32 \<Rightarrow> bool" where
  "get_streamer_video_session_resolves_media_with_missing_ssrc rnd_ssrc =
     (let expected_payload_number = 96;
          expected_capabilities = {''profile-tests''};
          video_media = [
            AttributeLine SendOnly,
            AttributeLine RTCPMux,
            AttributeLine (SetupAttr ActivePassive),
            AttributeLine (FMTPAttr \<lparr>fmtp_payload_number = expected_payload_number,
              format_capability = expected_capabilities\<rparr>),
            AttributeLine (RTPMapAttr \<lparr>rtpmap_codec = VideoCodec H264,
              rtpmap_payload_number = expected_payload_number\<rparr>)] in
      expect (get_streamer_video_session rnd_ssrc video_media) (\<lambda>session.
        vs_remote_ssrc session = None))"

definition get_streamer_video_session_rejects_media_with_unsupported_codec :: "u32 \<Rightarrow> bool" where
  "get_streamer_video_session_rejects_media_with_unsupported_codec rnd_ssrc =
     (let expected_payload_number = 96;
          expected_ssrc = 1;
          expected_capabilities = {''profile-tests''};
          video_media = [
            AttributeLine SendOnly,
            AttributeLine RTCPMux,
            AttributeLine (SetupAttr ActivePassive),
            AttributeLine (FMTPAttr \<lparr>fmtp_payload_number = expected_payload_number,
              format_capability = expected_capabilities\<rparr>),
            AttributeLine (RTPMapAttr \<lparr>rtpmap_codec = UnsupportedCodec,
              rtpmap_payload_number = expected_payload_number\<rparr>),
            AttributeLine (MediaSSRCAttr \<lparr>ssrc = expected_ssrc, source_attribute = CNAME HOST_CNAME\<rparr>)] in
      expect_err (get_streamer_video_session rnd_ssrc video_media))"

definition get_streamer_video_session_rejects_media_with_missing_fmtp :: "u32 \<Rightarrow> bool" where
  "get_streamer_video_session_rejects_media_with_missing_fmtp rnd_ssrc =
     (let expected_payload_number = 96;
          expected_ssrc = 1;
          video_media = [
            AttributeLine SendOnly,
            AttributeLine RTCPMux,
            AttributeLine (SetupAttr ActivePassive),
            AttributeLine (RTPMapAttr \<lparr>rtpmap_codec = VideoCodec H264,
              rtpmap_payload_number = expected_payload_number\<rparr>),
            AttributeLine (MediaSSRCAttr \<lparr>ssrc = expected_ssrc, source_attribute = CNAME HOST_CNAME\<rparr>)] in
      expect_err (get_streamer_video_session rnd_ssrc video_media))"

definition get_streamer_video_session_rejects_non_demuxed_media :: "u32 \<Rightarrow> bool" where
  "get_streamer_video_session_rejects_non_demuxed_media rnd_ssrc =
     (let expected_payload_number = 96;
          expected_ssrc = 1;
          expected_capabilities = {''profile-tests''};
          video_media = [
            AttributeLine SendOnly,
            AttributeLine (SetupAttr ActivePassive),
            AttributeLine (RTPMapAttr \<lparr>rtpmap_codec = VideoCodec H264,
              rtpmap_payload_number = expected_payload_number\<rparr>),
            AttributeLine (MediaSSRCAttr \<lparr>ssrc = expected_ssrc, source_attribute = CNAME HOST_CNAME\<rparr>),
            AttributeLine (FMTPAttr \<lparr>fmtp_payload_number = expected_payload_number,
              format_capability = expected_capabilities\<rparr>)] in
      expect_err (get_streamer_video_session rnd_ssrc video_media))"

definition get_streamer_video_session_rejects_invalid_direction_media :: "u32 \<Rightarrow> bool" where
  "get_streamer_video_session_rejects_invalid_direction_media rnd_ssrc =
     (let expected_payload_number = 96;
          expected_ssrc = 1;
          expected_capabilities = {''profile-tests''};
          video_media = [
            AttributeLine ReceiveOnly,
            AttributeLine RTCPMux,
            AttributeLine (SetupAttr ActivePassive),
            AttributeLine (RTPMapAttr \<lparr>rtpmap_codec = VideoCodec H264,
              rtpmap_payload_number = expected_payload_number\<rparr>),
            AttributeLine (MediaSSRCAttr \<lparr>ssrc = expected_ssrc, source_attribute = CNAME HOST_CNAME\<rparr>),
            AttributeLine (FMTPAttr \<lparr>fmtp_payload_number = expected_payload_number,
              format_capability = expected_capabilities\<rparr>)] in
      expect_err (get_streamer_video_session rnd_ssrc video_media))"

section \<open>\<open>get_viewer_audio_session\<close>\<close>

definition audio_init_streamer_session :: audio_session where
  "audio_init_streamer_session =
     \<lparr>as_codec = Opus, as_payload_number = 111, as_host_ssrc = 1, as_remote_ssrc = Some 2\<rparr>"

definition get_viewer_audio_session_resolves_valid_media :: "u32 \<Rightarrow> bool" where
  "get_viewer_audio_session_resolves_valid_media rnd_ssrc =
     (let streamer_session = audio_init_streamer_session;
          expected_payload_number = 96;
          expected_ssrc = 2;
          audio_media = [
            AttributeLine ReceiveOnly,
            AttributeLine RTCPMux,
            AttributeLine (SetupAttr ActivePassive),
            AttributeLine (MediaSSRCAttr \<lparr>ssrc = expected_ssrc, source_attribute = CNAME HOST_CNAME\<rparr>),
            AttributeLine (RTPMapAttr \<lparr>rtpmap_codec = AudioCodec (as_codec streamer_session),
              rtpmap_payload_number = expected_payload_number\<rparr>)] in
      expect (get_viewer_audio_session rnd_ssrc audio_media streamer_session) (\<lambda>session.
        as_codec session = as_codec streamer_session
          \<and> as_payload_number session = expected_payload_number
          \<and> as_remote_ssrc session = Some expected_ssrc))"

definition get_viewer_audio_session_rejects_media_mismatching_streamer_codec :: "u32 \<Rightarrow> bool" where
  "get_viewer_audio_session_rejects_media_mismatching_streamer_codec rnd_ssrc =
     (let streamer_session = audio_init_streamer_session;
          expected_payload_number = 96;
          expected_ssrc = 2;
          audio_media = [
            AttributeLine ReceiveOnly,
            AttributeLine RTCPMux,
            AttributeLine (MediaSSRCAttr \<lparr>ssrc = expected_ssrc, source_attribute = CNAME HOST_CNAME\<rparr>),
            AttributeLine (RTPMapAttr \<lparr>rtpmap_codec = UnsupportedCodec,
              rtpmap_payload_number = expected_payload_number\<rparr>)] in
      expect_err (get_viewer_audio_session rnd_ssrc audio_media streamer_session))"

definition get_viewer_audio_session_rejects_media_missing_ssrc :: "u32 \<Rightarrow> bool" where
  "get_viewer_audio_session_rejects_media_missing_ssrc rnd_ssrc =
     (let streamer_session = audio_init_streamer_session;
          expected_payload_number = 96;
          audio_media = [
            AttributeLine ReceiveOnly,
            AttributeLine RTCPMux,
            AttributeLine (RTPMapAttr \<lparr>rtpmap_codec = AudioCodec (as_codec streamer_session),
              rtpmap_payload_number = expected_payload_number\<rparr>)] in
      expect_err (get_viewer_audio_session rnd_ssrc audio_media streamer_session))"

definition get_viewer_audio_session_rejects_media_with_invalid_media_direction :: "u32 \<Rightarrow> bool" where
  "get_viewer_audio_session_rejects_media_with_invalid_media_direction rnd_ssrc =
     (let streamer_session = audio_init_streamer_session;
          expected_payload_number = 96;
          expected_ssrc = 2;
          audio_media = [
            AttributeLine SendOnly,
            AttributeLine RTCPMux,
            AttributeLine (MediaSSRCAttr \<lparr>ssrc = expected_ssrc, source_attribute = CNAME HOST_CNAME\<rparr>),
            AttributeLine (RTPMapAttr \<lparr>rtpmap_codec = AudioCodec (as_codec streamer_session),
              rtpmap_payload_number = expected_payload_number\<rparr>)] in
      expect_err (get_viewer_audio_session rnd_ssrc audio_media streamer_session))"

definition get_viewer_audio_session_rejects_non_demuxed_media :: "u32 \<Rightarrow> bool" where
  "get_viewer_audio_session_rejects_non_demuxed_media rnd_ssrc =
     (let streamer_session = audio_init_streamer_session;
          expected_payload_number = 96;
          expected_ssrc = 2;
          audio_media = [
            AttributeLine ReceiveOnly,
            AttributeLine (MediaSSRCAttr \<lparr>ssrc = expected_ssrc, source_attribute = CNAME HOST_CNAME\<rparr>),
            AttributeLine (SetupAttr ActivePassive),
            AttributeLine (RTPMapAttr \<lparr>rtpmap_codec = AudioCodec (as_codec streamer_session),
              rtpmap_payload_number = expected_payload_number\<rparr>)] in
      expect_err (get_viewer_audio_session rnd_ssrc audio_media streamer_session))"

section \<open>\<open>get_viewer_video_session\<close>\<close>

definition video_init_streamer_session :: video_session where
  "video_init_streamer_session =
     \<lparr>vs_codec = H264, vs_payload_number = 111, vs_host_ssrc = 1, vs_remote_ssrc = Some 2,
      vs_capabilities = {''profile-tests''}\<rparr>"

definition get_viewer_video_session_resolves_valid_media :: "u32 \<Rightarrow> bool" where
  "get_viewer_video_session_resolves_valid_media rnd_ssrc =
     (let streamer_session = video_init_streamer_session;
          expected_payload_number = 96;
          expected_ssrc = 2;
          video_media = [
            AttributeLine ReceiveOnly,
            AttributeLine RTCPMux,
            AttributeLine (MediaSSRCAttr \<lparr>ssrc = expected_ssrc, source_attribute = CNAME HOST_CNAME\<rparr>),
            AttributeLine (RTPMapAttr \<lparr>rtpmap_codec = VideoCodec (vs_codec streamer_session),
              rtpmap_payload_number = expected_payload_number\<rparr>),
            AttributeLine (SetupAttr ActivePassive),
            AttributeLine (FMTPAttr \<lparr>fmtp_payload_number = expected_payload_number,
              format_capability = vs_capabilities streamer_session\<rparr>)] in
      expect (get_viewer_video_session rnd_ssrc video_media streamer_session) (\<lambda>session.
        vs_codec session = vs_codec streamer_session
          \<and> vs_payload_number session = expected_payload_number
          \<and> vs_remote_ssrc session = Some expected_ssrc
          \<and> vs_capabilities session = vs_capabilities streamer_session))"

definition get_viewer_video_session_rejects_media_with_unsupported_codec :: "u32 \<Rightarrow> bool" where
  "get_viewer_video_session_rejects_media_with_unsupported_codec rnd_ssrc =
     (let streamer_session = video_init_streamer_session;
          expected_payload_number = 96;
          expected_ssrc = 2;
          video_media = [
            AttributeLine ReceiveOnly,
            AttributeLine RTCPMux,
            AttributeLine (MediaSSRCAttr \<lparr>ssrc = expected_ssrc, source_attribute = CNAME HOST_CNAME\<rparr>),
            AttributeLine (SetupAttr ActivePassive),
            AttributeLine (RTPMapAttr \<lparr>rtpmap_codec = UnsupportedCodec,
              rtpmap_payload_number = expected_payload_number\<rparr>),
            AttributeLine (SetupAttr ActivePassive),
            AttributeLine (FMTPAttr \<lparr>fmtp_payload_number = expected_payload_number,
              format_capability = vs_capabilities streamer_session\<rparr>)] in
      expect_err (get_viewer_video_session rnd_ssrc video_media streamer_session))"

definition get_viewer_video_session_rejects_media_with_unsupported_fmtp :: "u32 \<Rightarrow> bool" where
  "get_viewer_video_session_rejects_media_with_unsupported_fmtp rnd_ssrc =
     (let streamer_session = video_init_streamer_session;
          expected_payload_number = 96;
          expected_ssrc = 2;
          video_media = [
            AttributeLine ReceiveOnly,
            AttributeLine RTCPMux,
            AttributeLine (MediaSSRCAttr \<lparr>ssrc = expected_ssrc, source_attribute = CNAME HOST_CNAME\<rparr>),
            AttributeLine (RTPMapAttr \<lparr>rtpmap_codec = VideoCodec (vs_codec streamer_session),
              rtpmap_payload_number = expected_payload_number\<rparr>),
            AttributeLine (SetupAttr ActivePassive),
            AttributeLine (FMTPAttr \<lparr>fmtp_payload_number = expected_payload_number,
              format_capability = {''unsupported-fmtp''}\<rparr>)] in
      expect_err (get_viewer_video_session rnd_ssrc video_media streamer_session))"

definition get_viewer_video_session_resolves_media_with_missing_ssrc :: "u32 \<Rightarrow> bool" where
  "get_viewer_video_session_resolves_media_with_missing_ssrc rnd_ssrc =
     (let streamer_session = video_init_streamer_session;
          expected_payload_number = 96;
          video_media = [
            AttributeLine ReceiveOnly,
            AttributeLine RTCPMux,
            AttributeLine (SetupAttr ActivePassive),
            AttributeLine (RTPMapAttr \<lparr>rtpmap_codec = VideoCodec (vs_codec streamer_session),
              rtpmap_payload_number = expected_payload_number\<rparr>),
            AttributeLine (FMTPAttr \<lparr>fmtp_payload_number = expected_payload_number,
              format_capability = vs_capabilities streamer_session\<rparr>)] in
      expect (get_viewer_video_session rnd_ssrc video_media streamer_session) (\<lambda>session.
        vs_remote_ssrc session = None))"

definition get_viewer_video_session_rejects_media_with_invalid_direction :: "u32 \<Rightarrow> bool" where
  "get_viewer_video_session_rejects_media_with_invalid_direction rnd_ssrc =
     (let streamer_session = video_init_streamer_session;
          expected_payload_number = 96;
          expected_ssrc = 2;
          video_media = [
            AttributeLine SendOnly,
            AttributeLine RTCPMux,
            AttributeLine (SetupAttr ActivePassive),
            AttributeLine (MediaSSRCAttr \<lparr>ssrc = expected_ssrc, source_attribute = CNAME HOST_CNAME\<rparr>),
            AttributeLine (RTPMapAttr \<lparr>rtpmap_codec = VideoCodec (vs_codec streamer_session),
              rtpmap_payload_number = expected_payload_number\<rparr>),
            AttributeLine (FMTPAttr \<lparr>fmtp_payload_number = expected_payload_number,
              format_capability = vs_capabilities streamer_session\<rparr>)] in
      expect_err (get_viewer_video_session rnd_ssrc video_media streamer_session))"

definition get_viewer_video_session_rejects_non_demuxed_media :: "u32 \<Rightarrow> bool" where
  "get_viewer_video_session_rejects_non_demuxed_media rnd_ssrc =
     (let streamer_session = video_init_streamer_session;
          expected_payload_number = 96;
          expected_ssrc = 2;
          video_media = [
            AttributeLine ReceiveOnly,
            AttributeLine (MediaSSRCAttr \<lparr>ssrc = expected_ssrc, source_attribute = CNAME HOST_CNAME\<rparr>),
            AttributeLine (SetupAttr ActivePassive),
            AttributeLine (RTPMapAttr \<lparr>rtpmap_codec = VideoCodec (vs_codec streamer_session),
              rtpmap_payload_number = expected_payload_number\<rparr>),
            AttributeLine (FMTPAttr \<lparr>fmtp_payload_number = expected_payload_number,
              format_capability = vs_capabilities streamer_session\<rparr>)] in
      expect_err (get_viewer_video_session rnd_ssrc video_media streamer_session))"

section \<open>The test suite\<close>

definition sdp_resolver_tests :: "host_random \<Rightarrow> u32 \<Rightarrow> bool list" where
  "sdp_resolver_tests rnd rnd_ssrc = [
     get_sdp_resolves_valid_sdp,
     get_sdp_rejects_sdp_with_extra_media,
     get_sdp_rejects_sdp_with_unrecognized_media,
     get_sdp_rejects_sdp_with_one_media_section,
     get_sdp_rejects_sdp_with_incorrect_session_media_items_order,
     get_sdp_rejects_sdp_with_missing_required_session_media_items,
     get_ice_credentials_resolves_sdp_with_default_credentials rnd,
     get_ice_credentials_resolves_sdp_with_media_credentials rnd,
     get_ice_credentials_selects_media_level_ice_credentials_over_defaults rnd,
     get_ice_credentials_rejects_sdp_with_partial_media_credentials rnd,
     get_ice_credentials_rejects_sdp_with_partial_media_credentials_and_default_credentials rnd,
     get_ice_credentials_rejects_sdp_without_ice_credentials rnd,
     get_media_ids_gets_media_ids_of_valid_sdp,
     get_media_ids_rejects_if_mediaid_doesnt_match_bundle,
     get_media_ids_rejects_if_missing_bundle,
     get_streamer_audio_session_resolves_valid_sdp rnd_ssrc,
     get_streamer_audio_session_resolves_media_with_missing_ssrc rnd_ssrc,
     get_streamer_audio_session_reject_media_with_missing_rtmp rnd_ssrc,
     get_streamer_audio_session_reject_media_with_invalid_direction rnd_ssrc,
     get_streamer_audio_session_reject_non_demuxed_media rnd_ssrc,
     get_streamer_audio_session_reject_media_with_unsupported_codec rnd_ssrc,
     get_streamer_video_session_resolves_valid_media rnd_ssrc,
     get_streamer_video_session_resolves_media_with_missing_ssrc rnd_ssrc,
     get_streamer_video_session_rejects_media_with_unsupported_codec rnd_ssrc,
     get_streamer_video_session_rejects_media_with_missing_fmtp rnd_ssrc,
     get_streamer_video_session_rejects_non_demuxed_media rnd_ssrc,
     get_streamer_video_session_rejects_invalid_direction_media rnd_ssrc,
     get_viewer_audio_session_resolves_valid_media rnd_ssrc,
     get_viewer_audio_session_rejects_media_mismatching_streamer_codec rnd_ssrc,
     get_viewer_audio_session_rejects_media_missing_ssrc rnd_ssrc,
     get_viewer_audio_session_rejects_media_with_invalid_media_direction rnd_ssrc,
     get_viewer_audio_session_rejects_non_demuxed_media rnd_ssrc,
     get_viewer_video_session_resolves_valid_media rnd_ssrc,
     get_viewer_video_session_rejects_media_with_unsupported_codec rnd_ssrc,
     get_viewer_video_session_rejects_media_with_unsupported_fmtp rnd_ssrc,
     get_viewer_video_session_resolves_media_with_missing_ssrc rnd_ssrc,
     get_viewer_video_session_rejects_media_with_invalid_direction rnd_ssrc,
     get_viewer_video_session_rejects_non_demuxed_media rnd_ssrc]"

section \<open>The tests hold of the model\<close>

lemmas ipv4_reader_defs =
  parse_all_def read_ipv4_addr_def octet_reader_def read_separator_def read_number_def
  read_given_char_def to_digit_def

lemma lan_address: "ipv4_from_str ''192.168.0.198'' = Some (rd32 192 168 0 198)"
  by (simp add: ipv4_from_str_def ipv4_reader_defs)

lemma loopback_address: "ipv4_from_str ''127.0.0.1'' = Some (rd32 127 0 0 1)"
  by (simp add: ipv4_from_str_def ipv4_reader_defs)

lemma lan_candidate_address: "ip_from_str ''192.168.0.198'' = Some (V4 (rd32 192 168 0 198))"
  by (simp add: ip_from_str_def ipv4_reader_defs)

lemma wildcard_address: "ipv4_from_str ''0.0.0.0'' = Some 0"
  by (simp add: ipv4_from_str_def ipv4_reader_defs rd32_def)

lemma loopback_candidate_address: "ip_from_str ''127.0.0.1'' = Some (V4 (rd32 127 0 0 1))"
  by (simp add: ip_from_str_def ipv4_reader_defs)

text \<open>The IPv6 address of the test, as the reader of \<open>std::net\<close> reads it.\<close>

abbreviation link_local_address :: "128 word" where
  "link_local_address \<equiv> of_segments6 [0xfe80, 0, 0, 0, 0x6c3d, 0x5b42, 0x1532, 0x2f9a]"

lemma link_local_read:
  "read_ipv6_addr ''fe80::6c3d:5b42:1532:2f9a'' = Some (link_local_address, [])"
  by (simp add: read_ipv6_addr_def read_groups.simps ipv4_reader_defs) (simp add: numeral_eq_Suc)

lemma link_local_from_str: "ipv6_from_str ''fe80::6c3d:5b42:1532:2f9a'' = Some link_local_address"
  by (simp add: ipv6_from_str_def parse_all_def link_local_read)

lemma link_local_candidate_address: "ip_from_str ''fe80::6c3d:5b42:1532:2f9a'' = Some (V6 link_local_address)"
proof -
  have "read_ipv4_addr ''fe80::6c3d:5b42:1532:2f9a'' = None" by (simp add: ipv4_reader_defs)
  then show ?thesis by (simp add: ip_from_str_def parse_all_def link_local_read)
qed

text \<open>The reader of a line, by its type and its attribute.\<close>

lemma typed_lines:
  "sdp_line_try_from (''c='' @ s) = map_res ConnectionDataLine (connection_data_try_from (''c='' @ s))"
  "sdp_line_try_from (''o='' @ s) = map_res OriginatorLine (originator_try_from (''o='' @ s))"
  "sdp_line_try_from (''t='' @ s) = map_res SessionTimeLine (session_time_try_from (''t='' @ s))"
  "sdp_line_try_from (''m='' @ s) = map_res MediaDescriptionLine (media_description_try_from (''m='' @ s))"
  "sdp_line_try_from (''v='' @ s) = Inr (ProtocolVersion s)"
  "sdp_line_try_from (''s='' @ s) = Inr (SessionName s)"
  by (simp_all add: sdp_line_try_from_def)

lemma keyed_lines:
  "sdp_line_try_from (''a=ice-ufrag:'' @ s) = map_res (AttributeLine \<circ> ICEUsernameAttr) (ice_username_try_from (''ice-ufrag:'' @ s))"
  "sdp_line_try_from (''a=ice-pwd:'' @ s) = map_res (AttributeLine \<circ> ICEPasswordAttr) (ice_password_try_from (''ice-pwd:'' @ s))"
  "sdp_line_try_from (''a=fingerprint:'' @ s) = map_res (AttributeLine \<circ> FingerprintAttr) (fingerprint_try_from (''fingerprint:'' @ s))"
  "sdp_line_try_from (''a=candidate:'' @ s) = map_res (AttributeLine \<circ> CandidateAttr) (candidate_try_from (''candidate:'' @ s))"
  "sdp_line_try_from (''a=ssrc:'' @ s) = map_res (AttributeLine \<circ> MediaSSRCAttr) (media_ssrc_try_from (''ssrc:'' @ s))"
  "sdp_line_try_from (''a=mid:'' @ s) = map_res (AttributeLine \<circ> MediaIDAttr) (media_id_try_from (''mid:'' @ s))"
  "sdp_line_try_from (''a=group:'' @ s) = map_res (AttributeLine \<circ> MediaGroupAttr) (media_group_try_from (''group:'' @ s))"
  "sdp_line_try_from (''a=rtpmap:'' @ s) = map_res (AttributeLine \<circ> RTPMapAttr) (rtp_map_try_from (''rtpmap:'' @ s))"
  "sdp_line_try_from (''a=fmtp:'' @ s) = map_res (AttributeLine \<circ> FMTPAttr) (fmtp_try_from (''fmtp:'' @ s))"
  "sdp_line_try_from (''a=ice-options:'' @ s) = map_res (AttributeLine \<circ> ICEOptionsAttr) (ice_options_try_from (''ice-options:'' @ s))"
  "sdp_line_try_from (''a=setup:'' @ s) = map_res (AttributeLine \<circ> SetupAttr) (setup_try_from (''setup:'' @ s))"
  by (simp_all add: sdp_line_try_from_def attribute_try_from_def attribute_of_key_def map_res_def split: list.splits sum.splits)

lemma flag_lines:
  "sdp_line_try_from ''a=sendonly'' = Inr (AttributeLine SendOnly)"
  "sdp_line_try_from ''a=recvonly'' = Inr (AttributeLine ReceiveOnly)"
  "sdp_line_try_from ''a=rtcp-mux'' = Inr (AttributeLine RTCPMux)"
  "sdp_line_try_from ''a=end-of-candidates'' = Inr (AttributeLine EndOfCandidates)"
  "sdp_line_try_from ''a=rtcp-rsize'' = Inr (AttributeLine UnrecognizedAttr)"
  "sdp_line_try_from ''a=extmap-allow-mixed'' = Inr (AttributeLine UnrecognizedAttr)"
  by (simp_all add: sdp_line_try_from_def attribute_try_from_def attribute_of_key_def)

lemma unrecognized_lines:
  "sdp_line_try_from (''a=rtcp-fb:'' @ s) = Inr (AttributeLine UnrecognizedAttr)"
  "sdp_line_try_from (''a=extmap:'' @ s) = Inr (AttributeLine UnrecognizedAttr)"
  "sdp_line_try_from (''a=rtcp:'' @ s) = Inr (AttributeLine UnrecognizedAttr)"
  "sdp_line_try_from (''a=msid:'' @ s) = Inr (AttributeLine UnrecognizedAttr)"
  "sdp_line_try_from (''a=msid-semantic:'' @ s) = Inr (AttributeLine UnrecognizedAttr)"
  by (simp_all add: sdp_line_try_from_def attribute_try_from_def attribute_of_key_def split: list.splits)

lemmas literal_lines = typed_lines [simplified append.simps] keyed_lines [simplified append.simps]
  flag_lines unrecognized_lines [simplified append.simps]

lemmas literal_reader_defs = literal_lines
  ice_username_try_from_def ice_password_try_from_def media_id_try_from_def media_group_try_from_def
  rtp_map_try_from_def fmtp_try_from_def setup_try_from_def session_time_try_from_def
  media_description_try_from_def media_type_try_from_def media_transport_protocol_try_from_def
  originator_try_from_def connection_data_try_from_def eq_ignore_ascii_case_def media_ssrc_try_from_def
  source_attribute_try_from_def candidate_try_from_def ice_options_try_from_def ice_option_try_from_def
  fingerprint_try_from_def hash_function_from_def parse_usize_def parse_uint_def digit_val_def usize_max_def
  parse_u32_def parse_u16_def u32_max_def u16_max_def to_ascii_lowercase_def ascii_lower_def char_of_eq_iff
  lan_address loopback_address wildcard_address lan_candidate_address loopback_candidate_address
  link_local_candidate_address

lemma valid_session_collected:
  "collect_res sdp_line_try_from valid_session_lines = Inr expected_session_media"
  by (simp add: valid_session_lines_def expected_session_media_def literal_reader_defs)

lemma valid_audio_collected:
  "collect_res sdp_line_try_from valid_audio_lines = Inr (expected_audio_media link_local_address)"
  by (simp add: valid_audio_lines_def expected_audio_media_def literal_reader_defs)

lemma valid_video_collected:
  "collect_res sdp_line_try_from valid_video_lines = Inr expected_video_session"
  by (simp add: valid_video_lines_def expected_video_session_def literal_reader_defs)

lemma collect_res_after:
  "collect_res f xs = Inr ys \<Longrightarrow> collect_res f (xs @ zs) = map_res ((@) ys) (collect_res f zs)"
  by (induction xs arbitrary: ys) (auto elim!: bind_resE simp: map_res_def split: sum.splits)

lemma str_lines_crlf_text: "list_all (\<lambda>l. LF \<notin> set l) ls \<Longrightarrow> str_lines (crlf_text ls) = ls"
proof (induction ls)
  case (Cons l ls)
  then show ?case using str_lines_join [of "[l]" "crlf_text ls"] by (simp add: crlf_text_def)
qed (simp add: crlf_text_def str_lines_def)

definition test_lines :: "string list \<Rightarrow> bool" where
  "test_lines ls = list_all (\<lambda>l. l \<noteq> [] \<and> LF \<notin> set l) ls"

lemma get_sdp_crlf_text:
  assumes "test_lines ls"
  shows "get_sdp (crlf_text ls) = bind_res (collect_res sdp_line_try_from ls) sections_of"
proof -
  have "str_lines (crlf_text ls) = ls" "filter (\<lambda>l. l \<noteq> []) ls = ls"
    using assms by (auto simp: test_lines_def list_all_iff intro: str_lines_crlf_text)
  then show ?thesis by (simp add: get_sdp_def)
qed

lemma test_lines_append:
  "test_lines (xs @ ys) \<longleftrightarrow> test_lines xs \<and> test_lines ys"
  "test_lines (x # xs) \<longleftrightarrow> x \<noteq> [] \<and> LF \<notin> set x \<and> test_lines xs"
  by (simp_all add: test_lines_def)

lemma valid_test_lines:
  "test_lines valid_session_lines" "test_lines valid_audio_lines" "test_lines valid_video_lines"
  by (simp_all add: test_lines_def valid_session_lines_def valid_audio_lines_def valid_video_lines_def)

lemmas valid_collected = valid_session_collected valid_audio_collected valid_video_collected

lemmas expected_media_defs = expected_session_media_def expected_audio_media_def expected_video_session_def

lemma collect_res_take: "collect_res f xs = Inr ys \<Longrightarrow> collect_res f (take n xs) = Inr (take n ys)"
  by (auto simp: collect_res_Inr)

lemma collect_res_drop: "collect_res f xs = Inr ys \<Longrightarrow> collect_res f (drop n xs) = Inr (drop n ys)"
  by (auto simp: collect_res_Inr)

lemma test_lines_parts: "test_lines ls \<Longrightarrow> test_lines (take n ls)" "test_lines ls \<Longrightarrow> test_lines (drop n ls)"
  by (auto simp: test_lines_def list_all_iff dest: in_set_takeD in_set_dropD)

text \<open>The offers of \<open>get_sdp\<close>'s tests, as the parser sees them.\<close>

lemma valid_sdp_resolved:
  "get_sdp VALID_SDP = Inr \<lparr>session_section = expected_session_media,
     video_section = expected_video_session, audio_section = expected_audio_media link_local_address\<rparr>"
proof -
  have "collect_res sdp_line_try_from (valid_session_lines @ valid_audio_lines @ valid_video_lines)
      = Inr (expected_session_media @ expected_audio_media link_local_address @ expected_video_session)"
    by (intro collect_res_append valid_collected)
  moreover have "well_sectioned \<lparr>session_section = expected_session_media,
     video_section = expected_video_session, audio_section = expected_audio_media link_local_address\<rparr>"
    by (simp add: well_sectioned_def expected_media_defs no_media_def)
  ultimately show ?thesis
    by (simp add: VALID_SDP_def get_sdp_crlf_text test_lines_append valid_test_lines sections_of_iff)
qed

lemma get_sdp_tests:
  "get_sdp_resolves_valid_sdp"
  "get_sdp_rejects_sdp_with_extra_media"
  "get_sdp_rejects_sdp_with_unrecognized_media"
  "get_sdp_rejects_sdp_with_one_media_section"
  "get_sdp_rejects_sdp_with_incorrect_session_media_items_order"
  "get_sdp_rejects_sdp_with_missing_required_session_media_items"
proof -
  note texts = get_sdp_crlf_text test_lines_append test_lines_parts valid_test_lines
  note collected = valid_collected [THEN collect_res_after] valid_collected
    valid_session_collected [THEN collect_res_take, THEN collect_res_after]
    valid_session_collected [THEN collect_res_drop, THEN collect_res_after]
  note sections = sections_of_def nth_or_def expected_media_defs expect_defs Let_def
  show "get_sdp_resolves_valid_sdp"
    by (simp add: get_sdp_resolves_valid_sdp_def valid_sdp_resolved link_local_from_str expect_defs)
  show "get_sdp_rejects_sdp_with_extra_media"
    by (simp add: get_sdp_rejects_sdp_with_extra_media_def texts collected sections)
  show "get_sdp_rejects_sdp_with_one_media_section"
    by (simp add: get_sdp_rejects_sdp_with_one_media_section_def texts collected sections)
  have "test_lines (tl valid_audio_lines)" by (simp add: drop_Suc [symmetric] test_lines_def valid_audio_lines_def)
  then show "get_sdp_rejects_sdp_with_unrecognized_media"
    by (simp add: get_sdp_rejects_sdp_with_unrecognized_media_def texts collected literal_reader_defs expect_defs)
  have "collect_res sdp_line_try_from [''t=0 0'', ''s=-'']
      = Inr [SessionTimeLine \<lparr>start_time = 0, end_time = 0\<rparr>, SessionName ''-'']"
    by (simp add: literal_reader_defs)
  then have "collect_res sdp_line_try_from (take 2 valid_session_lines @ [''t=0 0'', ''s=-'']
        @ drop 4 valid_session_lines @ valid_audio_lines @ valid_video_lines)
      = Inr (take 2 expected_session_media @ [SessionTimeLine \<lparr>start_time = 0, end_time = 0\<rparr>, SessionName ''-'']
        @ drop 4 expected_session_media @ expected_audio_media link_local_address @ expected_video_session)"
    by (intro collect_res_append collect_res_take collect_res_drop valid_collected)
  moreover have "expect_err (sections_of (take 2 expected_session_media
        @ [SessionTimeLine \<lparr>start_time = 0, end_time = 0\<rparr>, SessionName ''-''] @ rest))" for rest
    by (simp add: sections)
  moreover have "test_lines [''t=0 0'', ''s=-'']" by (simp add: test_lines_def)
  ultimately show "get_sdp_rejects_sdp_with_incorrect_session_media_items_order"
    unfolding get_sdp_rejects_sdp_with_incorrect_session_media_items_order_def Let_def
    by (metis get_sdp_crlf_text test_lines_append(1) test_lines_parts valid_test_lines bind_res_simps(2))
  show "get_sdp_rejects_sdp_with_missing_required_session_media_items"
    by (simp add: get_sdp_rejects_sdp_with_missing_required_session_media_items_def texts collected sections)
qed

lemma get_ice_credentials_tests:
  "get_ice_credentials_resolves_sdp_with_default_credentials rnd"
  "get_ice_credentials_resolves_sdp_with_media_credentials rnd"
  "get_ice_credentials_selects_media_level_ice_credentials_over_defaults rnd"
  "get_ice_credentials_rejects_sdp_with_partial_media_credentials rnd"
  "get_ice_credentials_rejects_sdp_with_partial_media_credentials_and_default_credentials rnd"
  "get_ice_credentials_rejects_sdp_without_ice_credentials rnd"
  by (simp_all add: get_ice_credentials_resolves_sdp_with_default_credentials_def
    get_ice_credentials_resolves_sdp_with_media_credentials_def
    get_ice_credentials_selects_media_level_ice_credentials_over_defaults_def
    get_ice_credentials_rejects_sdp_with_partial_media_credentials_def
    get_ice_credentials_rejects_sdp_with_partial_media_credentials_and_default_credentials_def
    get_ice_credentials_rejects_sdp_without_ice_credentials_def expect_defs get_ice_credentials_def Let_def)

lemma get_media_ids_tests:
  "get_media_ids_gets_media_ids_of_valid_sdp"
  "get_media_ids_rejects_if_mediaid_doesnt_match_bundle"
  "get_media_ids_rejects_if_missing_bundle"
  by (simp_all add: get_media_ids_gets_media_ids_of_valid_sdp_def
    get_media_ids_rejects_if_mediaid_doesnt_match_bundle_def
    get_media_ids_rejects_if_missing_bundle_def
    expect_defs get_media_ids_def nth_or_def Let_def)

lemma get_streamer_audio_session_tests:
  "get_streamer_audio_session_resolves_valid_sdp rnd_ssrc"
  "get_streamer_audio_session_resolves_media_with_missing_ssrc rnd_ssrc"
  "get_streamer_audio_session_reject_media_with_missing_rtmp rnd_ssrc"
  "get_streamer_audio_session_reject_media_with_invalid_direction rnd_ssrc"
  "get_streamer_audio_session_reject_non_demuxed_media rnd_ssrc"
  "get_streamer_audio_session_reject_media_with_unsupported_codec rnd_ssrc"
  by (simp_all add: get_streamer_audio_session_resolves_valid_sdp_def
    get_streamer_audio_session_resolves_media_with_missing_ssrc_def
    get_streamer_audio_session_reject_media_with_missing_rtmp_def
    get_streamer_audio_session_reject_media_with_invalid_direction_def
    get_streamer_audio_session_reject_non_demuxed_media_def
    get_streamer_audio_session_reject_media_with_unsupported_codec_def
    expect_defs get_streamer_audio_session_def ACCEPTED_AUDIO_CODEC_def Let_def)

lemma get_streamer_video_session_tests:
  "get_streamer_video_session_resolves_valid_media rnd_ssrc"
  "get_streamer_video_session_resolves_media_with_missing_ssrc rnd_ssrc"
  "get_streamer_video_session_rejects_media_with_unsupported_codec rnd_ssrc"
  "get_streamer_video_session_rejects_media_with_missing_fmtp rnd_ssrc"
  "get_streamer_video_session_rejects_non_demuxed_media rnd_ssrc"
  "get_streamer_video_session_rejects_invalid_direction_media rnd_ssrc"
  by (simp_all add: get_streamer_video_session_resolves_valid_media_def
    get_streamer_video_session_resolves_media_with_missing_ssrc_def
    get_streamer_video_session_rejects_media_with_unsupported_codec_def
    get_streamer_video_session_rejects_media_with_missing_fmtp_def
    get_streamer_video_session_rejects_non_demuxed_media_def
    get_streamer_video_session_rejects_invalid_direction_media_def
    expect_defs get_streamer_video_session_def ACCEPTED_VIDEO_CODEC_def Let_def)

lemma get_viewer_audio_session_tests:
  "get_viewer_audio_session_resolves_valid_media rnd_ssrc"
  "get_viewer_audio_session_rejects_media_mismatching_streamer_codec rnd_ssrc"
  "get_viewer_audio_session_rejects_media_missing_ssrc rnd_ssrc"
  "get_viewer_audio_session_rejects_media_with_invalid_media_direction rnd_ssrc"
  "get_viewer_audio_session_rejects_non_demuxed_media rnd_ssrc"
  by (simp_all add: get_viewer_audio_session_resolves_valid_media_def
    get_viewer_audio_session_rejects_media_mismatching_streamer_codec_def
    get_viewer_audio_session_rejects_media_missing_ssrc_def
    get_viewer_audio_session_rejects_media_with_invalid_media_direction_def
    get_viewer_audio_session_rejects_non_demuxed_media_def
    expect_defs get_viewer_audio_session_def audio_init_streamer_session_def Let_def)

lemma get_viewer_video_session_tests:
  "get_viewer_video_session_resolves_valid_media rnd_ssrc"
  "get_viewer_video_session_rejects_media_with_unsupported_codec rnd_ssrc"
  "get_viewer_video_session_rejects_media_with_unsupported_fmtp rnd_ssrc"
  "get_viewer_video_session_resolves_media_with_missing_ssrc rnd_ssrc"
  "get_viewer_video_session_rejects_media_with_invalid_direction rnd_ssrc"
  "get_viewer_video_session_rejects_non_demuxed_media rnd_ssrc"
  by (simp_all add: get_viewer_video_session_resolves_valid_media_def
    get_viewer_video_session_rejects_media_with_unsupported_codec_def
    get_viewer_video_session_rejects_media_with_unsupported_fmtp_def
    get_viewer_video_session_resolves_media_with_missing_ssrc_def
    get_viewer_video_session_rejects_media_with_invalid_direction_def
    get_viewer_video_session_rejects_non_demuxed_media_def
    expect_defs get_viewer_video_session_def video_init_streamer_session_def Let_def)

lemmas unit_tests = get_sdp_tests get_ice_credentials_tests get_media_ids_tests
  get_streamer_audio_session_tests get_streamer_video_session_tests
  get_viewer_audio_session_tests get_viewer_video_session_tests

section \<open>What some tests do not test\<close>

text \<open>Three tests of \<open>get_viewer_audio_session\<close> expect a rejection for a reason in their name, but
  their media has no \<open>setup\<close> line, for lack of which it is refused before. With that line the media
  without an SSRC is accepted, against the name of its test.\<close>

lemma viewer_audio_without_setup:
  assumes "find_map attr_is_passive media = None" "AttributeLine RTCPMux \<in> set media"
  shows "get_viewer_audio_session rnd_ssrc media str = Inl MalformedSDPLine"
proof -
  have "find_map attr_rtcp_mux media \<noteq> None" using assms(2) find_map_mux by blast
  with assms(1) show ?thesis by (simp add: get_viewer_audio_session_def del: find_map_None)
qed

lemma viewer_audio_without_ssrc:
  "get_viewer_audio_session rnd_ssrc
     [AttributeLine ReceiveOnly, AttributeLine RTCPMux, AttributeLine (SetupAttr ActivePassive),
      AttributeLine (RTPMapAttr \<lparr>rtpmap_codec = AudioCodec Opus, rtpmap_payload_number = 96\<rparr>)]
     audio_init_streamer_session
   = Inr \<lparr>as_codec = Opus, as_payload_number = 96, as_host_ssrc = rnd_ssrc, as_remote_ssrc = None\<rparr>"
  by (simp add: get_viewer_audio_session_def audio_init_streamer_session_def)

end
