(* ===== verification/Sdp_Acceptance.thy ===== *)
theory Sdp_Acceptance
  imports Sdp_Negotiation
begin

text \<open>
  Which offers the resolver accepts: the exact conditions, as predicates on the three sections of
  an offer, for a streamer and for a viewer. Neither the random values nor the address of the
  server decide, and neither does the \<open>ssrc\<close> of a media section. Beside the theorems on what an
  accepted offer has, these say that nothing else is asked of it.
\<close>

section \<open>The conditions\<close>

text \<open>The first bundle group starts with the ids that the audio and the video section have.\<close>

definition mids_match :: "sdp \<Rightarrow> bool" where
  "mids_match s \<longleftrightarrow> (\<exists>a v rest. find_map attr_bundle (session_section s) = Some (a # v # rest)
     \<and> find_map attr_media_id (audio_section s) = Some \<lparr>mid_id = a\<rparr>
     \<and> find_map attr_media_id (video_section s) = Some \<lparr>mid_id = v\<rparr>)"

text \<open>Either the media sections agree on the credentials, or neither has a username and the session
  section has both.\<close>

definition credentials_given :: "sdp \<Rightarrow> bool" where
  "credentials_given s \<longleftrightarrow>
     (if find_map attr_ice_username (audio_section s) = None \<and> find_map attr_ice_username (video_section s) = None
      then find_map attr_ice_username (session_section s) \<noteq> None \<and> find_map attr_ice_password (session_section s) \<noteq> None
      else find_map attr_ice_username (audio_section s) \<noteq> None \<and> find_map attr_ice_password (audio_section s) \<noteq> None
        \<and> find_map attr_ice_username (video_section s) = find_map attr_ice_username (audio_section s)
        \<and> find_map attr_ice_password (video_section s) = find_map attr_ice_password (audio_section s))"

definition maps_codec :: "sdp_line list \<Rightarrow> media_codec \<Rightarrow> usize \<Rightarrow> bool" where
  "maps_codec media c n \<longleftrightarrow> AttributeLine (RTPMapAttr \<lparr>rtpmap_codec = c, rtpmap_payload_number = n\<rparr>) \<in> set media"

definition has_format :: "sdp_line list \<Rightarrow> usize \<Rightarrow> string set \<Rightarrow> bool" where
  "has_format media n caps \<longleftrightarrow>
     AttributeLine (FMTPAttr \<lparr>fmtp_payload_number = n, format_capability = caps\<rparr>) \<in> set media"

definition stream_acceptable :: "sdp \<Rightarrow> bool" where
  "stream_acceptable s \<longleftrightarrow> mids_match s \<and> credentials_given s
     \<and> {AttributeLine RTCPMux, AttributeLine SendOnly} \<subseteq> set (audio_section s)
     \<and> {AttributeLine RTCPMux, AttributeLine SendOnly} \<subseteq> set (video_section s)
     \<and> (\<exists>n. maps_codec (audio_section s) (AudioCodec Opus) n)
     \<and> (\<exists>n caps. find_map (attr_codec_payload (VideoCodec H264)) (video_section s) = Some n
          \<and> has_format (video_section s) n caps)
     \<and> find_map attr_is_passive (session_section s) = Some False"

definition viewer_acceptable :: "negotiated_session \<Rightarrow> sdp \<Rightarrow> bool" where
  "viewer_acceptable str s \<longleftrightarrow> mids_match s \<and> credentials_given s
     \<and> {AttributeLine RTCPMux, AttributeLine ReceiveOnly} \<subseteq> set (audio_section s)
     \<and> {AttributeLine RTCPMux, AttributeLine ReceiveOnly} \<subseteq> set (video_section s)
     \<and> (\<exists>n. maps_codec (audio_section s) (AudioCodec (as_codec (audio_session str))) n)
     \<and> (\<exists>n. maps_codec (video_section s) (VideoCodec (vs_codec (video_session str))) n
          \<and> has_format (video_section s) n (vs_capabilities (video_session str)))
     \<and> find_map attr_is_passive (audio_section s) = Some False
     \<and> find_map attr_is_passive (video_section s) = Some False"

section \<open>The parts of the resolver\<close>

lemma is_ok_bind_res: "is_ok (bind_res r f) \<longleftrightarrow> (\<exists>x. r = Inr x \<and> is_ok (f x))"
  by (cases r) auto

lemma is_ok_ok_or [simp]: "is_ok (ok_or e r) \<longleftrightarrow> r \<noteq> None"
  by (cases r) (auto simp: ok_or_def)

lemma mids_match_iff: "mids_match s \<longleftrightarrow> (\<exists>m. get_media_ids s = Inr m)"
proof
  assume "mids_match s"
  then show "\<exists>m. get_media_ids s = Inr m"
    by (auto simp: mids_match_def get_media_ids_def nth_or_def ok_or_def)
next
  assume "\<exists>m. get_media_ids s = Inr m"
  then obtain g where g: "find_map attr_bundle (session_section s) = Some g" "1 < length g"
      "find_map attr_media_id (audio_section s) = Some \<lparr>mid_id = g ! 0\<rparr>"
      "find_map attr_media_id (video_section s) = Some \<lparr>mid_id = g ! 1\<rparr>"
    by (auto simp: get_media_ids_def bind_res_eq_Inr ok_or_eq_Inr nth_or_eq_Inr split: if_splits)
  from g(2) obtain a v rest where "g = a # v # rest" by (cases g; cases "tl g") auto
  with g show "mids_match s" by (auto simp: mids_match_def)
qed

lemma credentials_given_iff: "credentials_given s \<longleftrightarrow> (\<exists>c. get_ice_credentials rnd s = Some c)"
  unfolding credentials_given_def get_ice_credentials_def Let_def
  by (cases "find_map attr_ice_username (audio_section s)"; cases "find_map attr_ice_username (video_section s)";
      cases "find_map attr_ice_password (audio_section s)"; cases "find_map attr_ice_password (video_section s)";
      cases "find_map attr_ice_username (session_section s)"; cases "find_map attr_ice_password (session_section s)")
     (simp_all del: find_map_None, auto)

lemma streamer_video_ok:
  "is_ok (get_streamer_video_session r media) \<longleftrightarrow>
     {AttributeLine RTCPMux, AttributeLine SendOnly} \<subseteq> set media \<and>
     (\<exists>n caps. find_map (attr_codec_payload (VideoCodec H264)) media = Some n \<and> has_format media n caps)"
proof -
  have "(\<exists>f. find_map (attr_fmtp (\<lambda>k. k = n)) media = Some f) \<longleftrightarrow> (\<exists>caps. has_format media n caps)" for n
  proof -
    have "(\<exists>f. AttributeLine (FMTPAttr f) \<in> set media \<and> fmtp_payload_number f = n) \<longleftrightarrow> (\<exists>caps. has_format media n caps)"
      unfolding has_format_def by (metis fmtp.surjective fmtp.select_convs(1) old.unit.exhaust)
    then show ?thesis by (auto simp: find_map_ex attr_Some)
  qed
  then show ?thesis
    using find_map_mux [of media] find_map_send_only [of media]
    by (auto simp: get_streamer_video_session_def is_ok_bind_res ok_or_eq_Inr ACCEPTED_VIDEO_CODEC_def
        simp del: find_map_None)
qed

lemma viewer_audio_ok:
  "is_ok (get_viewer_audio_session r media str) \<longleftrightarrow>
     {AttributeLine RTCPMux, AttributeLine ReceiveOnly} \<subseteq> set media
     \<and> (\<exists>n. maps_codec media (AudioCodec (as_codec str)) n) \<and> find_map attr_is_passive media = Some False"
  using find_map_mux [of media] find_map_receive_only [of media]
    find_map_ex [of "attr_codec_payload (AudioCodec (as_codec str))" media]
  by (auto simp: get_viewer_audio_session_def is_ok_bind_res ok_or_eq_Inr maps_codec_def attr_Some
      simp del: find_map_None)

lemma viewer_video_ok:
  "is_ok (get_viewer_video_session r media str) \<longleftrightarrow>
     {AttributeLine RTCPMux, AttributeLine ReceiveOnly} \<subseteq> set media
     \<and> (\<exists>n. maps_codec media (VideoCodec (vs_codec str)) n \<and> has_format media n (vs_capabilities str))
     \<and> find_map attr_is_passive media = Some False"
proof -
  let ?avail = "filter_map (attr_codec_payload (VideoCodec (vs_codec str))) media"
  let ?format = "\<lambda>f. if format_capability f = vs_capabilities str then Some (fmtp_payload_number f) else None"
  have "(\<exists>n. find_map ?format (filter_map (attr_fmtp (\<lambda>n. n \<in> set ?avail)) media) = Some n)
      \<longleftrightarrow> (\<exists>f. AttributeLine (FMTPAttr f) \<in> set media \<and> maps_codec media (VideoCodec (vs_codec str)) (fmtp_payload_number f)
            \<and> format_capability f = vs_capabilities str)"
    by (auto simp: find_map_ex set_filter_map attr_Some maps_codec_def split: if_splits)
  also have "\<dots> \<longleftrightarrow> (\<exists>n. maps_codec media (VideoCodec (vs_codec str)) n \<and> has_format media n (vs_capabilities str))"
    unfolding has_format_def by (metis fmtp.surjective fmtp.select_convs(1,2) old.unit.exhaust)
  finally show ?thesis
    using find_map_mux [of media] find_map_receive_only [of media]
    by (auto simp: get_viewer_video_session_def Let_def is_ok_bind_res ok_or_eq_Inr simp del: find_map_None)
qed

section \<open>The resolver\<close>

lemma stream_acceptable_iff: "is_ok (parse_stream_offer self rnd s) \<longleftrightarrow> stream_acceptable s"
proof -
  have "is_ok (parse_stream_offer self rnd s) \<longleftrightarrow> (\<exists>m. get_media_ids s = Inr m)
      \<and> (\<exists>c. get_ice_credentials rnd s = Some c)
      \<and> (\<exists>x. get_streamer_audio_session (rnd_audio_ssrc rnd) (audio_section s) = Inr x)
      \<and> (\<exists>x. get_streamer_video_session (rnd_video_ssrc rnd) (video_section s) = Inr x)
      \<and> find_map attr_is_passive (session_section s) = Some False"
    by (auto simp: parse_stream_offer_def is_ok_bind_res ok_or_eq_Inr Let_def split: prod.splits if_splits)
  then show ?thesis
    by (simp only: stream_acceptable_def mids_match_iff [symmetric] credentials_given_iff [symmetric]
        streamer_audio_ok [unfolded is_ok_ex] streamer_video_ok [unfolded is_ok_ex] maps_codec_def) blast
qed

lemma viewer_acceptable_iff: "is_ok (parse_viewer_offer self rnd s str) \<longleftrightarrow> viewer_acceptable str s"
proof -
  have "is_ok (parse_viewer_offer self rnd s str) \<longleftrightarrow> (\<exists>m. get_media_ids s = Inr m)
      \<and> (\<exists>c. get_ice_credentials rnd s = Some c)
      \<and> (\<exists>x. get_viewer_audio_session (rnd_audio_ssrc rnd) (audio_section s) (audio_session str) = Inr x)
      \<and> (\<exists>x. get_viewer_video_session (rnd_video_ssrc rnd) (video_section s) (video_session str) = Inr x)"
    by (auto simp: parse_viewer_offer_def is_ok_bind_res ok_or_eq_Inr Let_def split: prod.splits if_splits)
  then show ?thesis
    by (simp only: viewer_acceptable_def mids_match_iff [symmetric] credentials_given_iff [symmetric]
        viewer_audio_ok [unfolded is_ok_ex] viewer_video_ok [unfolded is_ok_ex]) blast
qed

text \<open>C8. Which offers are accepted, exactly: those that \<open>get_sdp\<close> can read and that satisfy the
  conditions above, for a streamer and for a viewer. The random values, the server's address and
  fingerprint decide nothing.\<close>

theorem offers_accepted_iff:
  "(is_ok (accept_stream_offer self rnd raw) \<longleftrightarrow> (\<exists>s. get_sdp raw = Inr s \<and> stream_acceptable s))
   \<and> (is_ok (accept_viewer_offer self rnd raw str) \<longleftrightarrow> (\<exists>s. get_sdp raw = Inr s \<and> viewer_acceptable str s))"
  by (auto simp: accept_stream_offer_def accept_viewer_offer_def is_ok_bind_res
      stream_acceptable_iff viewer_acceptable_iff)

section \<open>The role of \<open>ssrc\<close> lines\<close>

definition without_ssrc :: "sdp_line list \<Rightarrow> sdp_line list" where
  "without_ssrc ls = filter (\<lambda>l. attr_media_ssrc l = None) ls"

definition sdp_without_ssrc :: "sdp \<Rightarrow> sdp" where
  "sdp_without_ssrc s = \<lparr>session_section = without_ssrc (session_section s),
     video_section = without_ssrc (video_section s), audio_section = without_ssrc (audio_section s)\<rparr>"

lemma find_map_filter: "(\<And>l. \<not> P l \<Longrightarrow> f l = None) \<Longrightarrow> find_map f (filter P ls) = find_map f ls"
  by (induction ls) (auto simp del: find_map_None split: option.splits)

lemma attr_media_ssrc_not_None: "attr_media_ssrc l \<noteq> None \<longleftrightarrow> (\<exists>m. l = AttributeLine (MediaSSRCAttr m))"
  by (cases l rule: attr_media_ssrc.cases) auto

lemma find_map_without_ssrc:
  "find_map attr_bundle (without_ssrc ls) = find_map attr_bundle ls"
  "find_map attr_media_id (without_ssrc ls) = find_map attr_media_id ls"
  "find_map attr_ice_username (without_ssrc ls) = find_map attr_ice_username ls"
  "find_map attr_ice_password (without_ssrc ls) = find_map attr_ice_password ls"
  "find_map attr_is_passive (without_ssrc ls) = find_map attr_is_passive ls"
  "find_map (attr_codec_payload c) (without_ssrc ls) = find_map (attr_codec_payload c) ls"
  unfolding without_ssrc_def by (rule find_map_filter; auto simp: attr_media_ssrc_not_None simp del: not_None_eq)+

lemma set_without_ssrc:
  "(\<And>m. a \<noteq> MediaSSRCAttr m) \<Longrightarrow> AttributeLine a \<in> set (without_ssrc ls) \<longleftrightarrow> AttributeLine a \<in> set ls"
  using attr_media_ssrc_not_None [of "AttributeLine a"] by (auto simp: without_ssrc_def)

text \<open>The \<open>ssrc\<close> lines of an offer decide nothing: an offer is acceptable iff it is without
  them, for a streamer and for a viewer, although there is an error \<open>MissingStreamSSRC\<close> and there are
  tests named after it.\<close>

lemma ssrc_never_decides:
  "(stream_acceptable (sdp_without_ssrc s) \<longleftrightarrow> stream_acceptable s)
   \<and> (viewer_acceptable str (sdp_without_ssrc s) \<longleftrightarrow> viewer_acceptable str s)"
  by (simp add: stream_acceptable_def viewer_acceptable_def mids_match_def credentials_given_def maps_codec_def
      has_format_def sdp_without_ssrc_def find_map_without_ssrc set_without_ssrc del: find_map_None)

text \<open>A line \<open>a=ssrc:n\<close> with nothing after the number, which the rejecting tests of
  \<open>crates/sdp/tests\<close> all send, makes the whole offer unreadable.\<close>

lemma bare_ssrc_malformed:
  assumes "SP \<notin> set n"
  shows "\<not> is_ok (sdp_line_try_from (''a=ssrc:'' @ n))"
proof -
  have "attribute_of_key ''ssrc'' (''ssrc:'' @ n) = map_res MediaSSRCAttr (media_ssrc_try_from (''ssrc:'' @ n))"
    by (simp add: attribute_of_key_def)
  moreover have "\<not> is_ok (media_ssrc_try_from (''ssrc:'' @ n))"
    using assms by (auto simp: media_ssrc_try_from_def is_ok_bind_res)
  ultimately show ?thesis
    by (auto simp: sdp_line_try_from_def attribute_try_from_def is_ok_ex map_res_def split: list.splits sum.splits)
qed

lemma bare_ssrc_refused:
  assumes "''a=ssrc:'' @ n \<in> set (str_lines raw)" "SP \<notin> set n"
  shows "\<not> is_ok (get_sdp raw)" "\<not> is_ok (accept_stream_offer self rnd raw)" "\<not> is_ok (accept_viewer_offer self rnd raw str)"
proof -
  let ?ls = "filter (\<lambda>l. l \<noteq> []) (str_lines raw)"
  have "''a=ssrc:'' @ n \<in> set ?ls" using assms(1) by simp
  then obtain i where "i < length ?ls" "?ls ! i = ''a=ssrc:'' @ n" by (metis in_set_conv_nth)
  then have "\<not> is_ok (collect_res sdp_line_try_from ?ls)"
    using bare_ssrc_malformed [OF assms(2)] by (auto simp: is_ok_ex collect_res_Inr)
  then show g: "\<not> is_ok (get_sdp raw)" by (auto simp: get_sdp_def is_ok_ex bind_res_eq_Inr)
  then show "\<not> is_ok (accept_stream_offer self rnd raw)" "\<not> is_ok (accept_viewer_offer self rnd raw str)"
    by (auto simp: accept_stream_offer_def accept_viewer_offer_def is_ok_ex bind_res_eq_Inr)
qed

end
