(* ===== verification/Sdp_Integration.thy ===== *)
theory Sdp_Integration
  imports Sdp_Tests Sdp_Acceptance
begin

text \<open>
  The integration tests of the crate, \<open>crates/sdp/tests/streamer_offer.rs\<close> and
  \<open>crates/sdp/tests/viewer_offer.rs\<close>, that expect an offer to be accepted: the offers of two
  browsers among them, and the exact text of the answers, which a theorem gives for every accepted
  offer. The tests of these files that expect a rejection all send an \<open>ssrc\<close> attribute without the
  source attribute that has to follow the number; any such offer is refused by the line parser,
  before the check the test is named after.
\<close>

section \<open>The text of an answer\<close>

text \<open>The lines of the answer as the tests spell them out, for any resolver and any session.\<close>

definition answer_session_lines :: "sdp_resolver \<Rightarrow> media_id \<Rightarrow> media_id \<Rightarrow> ice_credentials \<Rightarrow> string list" where
  "answer_session_lines self audio_mid video_mid creds =
     (let c = res_candidate self in
      [''v=0'',
       ''o=SMID 3767197920 0 IN '' @ ip_family (connection_address c) @ '' '' @ show_ip (connection_address c),
       ''s=SMID'',
       ''t=0 0'',
       ''a=group:BUNDLE '' @ mid_id audio_mid @ '' '' @ mid_id video_mid,
       ''a=ice-ufrag:'' @ host_username creds,
       ''a=ice-pwd:'' @ host_password creds,
       ''a=ice-options:ice2'',
       ''a=ice-lite'',
       ''a=fingerprint:sha-256 '' @ hash (res_fingerprint self),
       ''a=setup:passive''])"

definition answer_audio_lines :: "string \<Rightarrow> sdp_resolver \<Rightarrow> media_id \<Rightarrow> audio_session \<Rightarrow> string list" where
  "answer_audio_lines direction self audio_mid audio =
     (let c = res_candidate self;
          ip = show_ip (connection_address c);
          payload_number = show_nat (as_payload_number audio) in
      [''m=audio '' @ show_nat (unat (port c)) @ '' UDP/TLS/RTP/SAVPF '' @ payload_number,
       ''c=IN '' @ ip_family (connection_address c) @ '' '' @ ip,
       ''a='' @ direction,
       ''a=rtcp-mux'',
       ''a=mid:'' @ mid_id audio_mid,
       ''a=candidate:'' @ foundation c @ '' '' @ show_nat (component_id c) @ '' UDP '' @ show_nat (priority c)
         @ '' '' @ ip @ '' '' @ show_nat (unat (port c)) @ '' typ host'',
       ''a=end-of-candidates'',
       ''a=rtpmap:'' @ payload_number @ '' opus/48000/2'',
       ''a=ssrc:'' @ show_nat (unat (as_host_ssrc audio)) @ '' cname:SMID''])"

definition answer_video_lines ::
    "set_order \<Rightarrow> string \<Rightarrow> sdp_resolver \<Rightarrow> media_id \<Rightarrow> video_session \<Rightarrow> string list" where
  "answer_video_lines iter direction self video_mid video =
     (let c = res_candidate self;
          payload_number = show_nat (vs_payload_number video) in
      [''m=video '' @ show_nat (unat (port c)) @ '' UDP/TLS/RTP/SAVPF '' @ payload_number,
       ''c=IN '' @ ip_family (connection_address c) @ '' '' @ show_ip (connection_address c),
       ''a='' @ direction,
       ''a=rtcp-mux'',
       ''a=mid:'' @ mid_id video_mid,
       ''a=rtpmap:'' @ payload_number @ '' h264/90000'',
       ''a=ssrc:'' @ show_nat (unat (vs_host_ssrc video)) @ '' cname:SMID'',
       ''a=fmtp:'' @ payload_number @ '' '' @ join '';'' (iter (vs_capabilities video))])"

definition answer_text ::
    "set_order \<Rightarrow> string \<Rightarrow> sdp_resolver \<Rightarrow> media_id \<Rightarrow> media_id \<Rightarrow> negotiated_session \<Rightarrow> string" where
  "answer_text iter direction self audio_mid video_mid ns =
     crlf_text (answer_session_lines self audio_mid video_mid (ice_credentials ns)
       @ answer_audio_lines direction self audio_mid (audio_session ns)
       @ answer_video_lines iter direction self video_mid (video_session ns))"

section \<open>The resolver and the offers of the tests\<close>

definition EXPECTED_FINGERPRINT :: string where
  "EXPECTED_FINGERPRINT = ''sha-256 EF:53:C9:F2:E0:A0:4F:1D:5E:99:4C:20:B8:D7:DE:21:3B:58:15:C4:E5:88:87:46:65:27:F7:3B:C6:DC:EF:3B''"

definition init_sdp_resolver :: "panic + sdp_resolver" where
  "init_sdp_resolver = resolver_new EXPECTED_FINGERPRINT (sock_new (V4 (rd32 127 0 0 1)) 52000)"

definition multiple_codecs_lines :: "string list" where
  "multiple_codecs_lines = [
     ''v=0'',
     ''o=smid 3767197920 0 IN IP4 127.0.0.1'',
     ''s=smid'',
     ''t=0 0'',
     ''a=group:BUNDLE 0 1'',
     ''a=ice-ufrag:username'',
     ''a=ice-pwd:password'',
     ''a=ice-options:ice2'',
     ''a=fingerprint:sha-256 EF:53:C9:F2:E0:A0:4F:1D:5E:99:4C:20:B8:D7:DE:21:3B:58:15:C4:E5:88:87:46:65:27:F7:3B:C6:DC:EF:3B'',
     ''a=setup:actpass'',
     ''m=audio 52000 UDP/TLS/RTP/SAVPF 111'',
     ''c=IN IP4 127.0.0.1'',
     ''a=sendonly'',
     ''a=rtcp-mux'',
     ''a=mid:0'',
     ''a=candidate:1 1 UDP 2015363327 127.0.0.1 52000 typ host'',
     ''a=end-of-candidates'',
     ''a=rtpmap:111 opus/48000/2'',
     ''a=ssrc:2 cname:my-cname'',
     ''m=video 52000 UDP/TLS/RTP/SAVPF 96 97'',
     ''c=IN IP4 127.0.0.1'',
     ''a=sendonly'',
     ''a=rtcp-mux'',
     ''a=mid:1'',
     ''a=rtpmap:96 h264/90000'',
     ''a=rtpmap:97 v9/90000'',
     ''a=ssrc:1 cname:my-cname'',
     ''a=fmtp:96 profile-level-id=42e01f;packetization-mode=1;level-asymmetry-allowed=1'']"

definition streamer_missing_ssrc_lines :: "string list" where
  "streamer_missing_ssrc_lines = [
     ''v=0'',
     ''o=smid 3767197920 0 IN IP4 127.0.0.1'',
     ''s=smid'',
     ''t=0 0'',
     ''a=group:BUNDLE 0 1'',
     ''a=ice-ufrag:username'',
     ''a=ice-pwd:password'',
     ''a=ice-options:ice2'',
     ''a=fingerprint:sha-256 EF:53:C9:F2:E0:A0:4F:1D:5E:99:4C:20:B8:D7:DE:21:3B:58:15:C4:E5:88:87:46:65:27:F7:3B:C6:DC:EF:3B'',
     ''a=setup:actpass'',
     ''m=audio 52000 UDP/TLS/RTP/SAVPF 111'',
     ''c=IN IP4 127.0.0.1'',
     ''a=sendonly'',
     ''a=rtcp-mux'',
     ''a=mid:0'',
     ''a=candidate:1 1 UDP 2015363327 127.0.0.1 52000 typ host'',
     ''a=end-of-candidates'',
     ''a=rtpmap:111 opus/48000/2'',
     ''m=video 52000 UDP/TLS/RTP/SAVPF 96 97'',
     ''c=IN IP4 127.0.0.1'',
     ''a=sendonly'',
     ''a=rtcp-mux'',
     ''a=mid:1'',
     ''a=rtpmap:96 h264/90000'',
     ''a=rtpmap:97 v9/90000'',
     ''a=fmtp:96 profile-level-id=42e01f;packetization-mode=1;level-asymmetry-allowed=1'']"

definition valid_viewer_session_lines :: "string list" where
  "valid_viewer_session_lines = [
     ''v=0'',
     ''o=mozilla...THIS_IS_SDPARTA-99.0 7213999912078531628 0 IN IP4 0.0.0.0'',
     ''s=-'',
     ''t=0 0'',
     ''a=fingerprint:sha-256 26:62:C5:CB:BF:68:B0:42:0E:DE:40:2B:30:B3:8F:38:04:CD:D4:9E:D3:EC:9D:D7:03:48:EC:9F:AA:92:9D:34'',
     ''a=setup:actpass'',
     ''a=group:BUNDLE 0 1'',
     ''a=ice-options:trickle'',
     ''a=msid-semantic:WMS *'']"

definition valid_viewer_audio_lines :: "string list" where
  "valid_viewer_audio_lines = [
     ''m=audio 9 UDP/TLS/RTP/SAVPF 106 9 0 8 101'',
     ''c=IN IP4 0.0.0.0'',
     ''a=recvonly'',
     ''a=extmap:1 urn:ietf:params:rtp-hdrext:ssrc-audio-level'',
     ''a=extmap:2/recvonly urn:ietf:params:rtp-hdrext:csrc-audio-level'',
     ''a=extmap:3 urn:ietf:params:rtp-hdrext:sdes:mid'',
     ''a=fmtp:106 maxplaybackrate=48000;stereo=1;useinbandfec=1'',
     ''a=fmtp:101 0-15'',
     ''a=ice-pwd:07393aecfec48f9ca7f41cc50d366ad9'',
     ''a=ice-ufrag:aedfe975'',
     ''a=mid:0'',
     ''a=rtcp-mux'',
     ''a=rtpmap:106 opus/48000/2'',
     ''a=rtpmap:9 G722/8000/1'',
     ''a=rtpmap:0 PCMU/8000'',
     ''a=rtpmap:8 PCMA/8000'',
     ''a=rtpmap:101 telephone-event/8000/1'',
     ''a=setup:actpass'',
     ''a=ssrc:455694368 cname:my-cname'']"

definition valid_viewer_video_lines :: "string list" where
  "valid_viewer_video_lines = [
     ''m=video 9 UDP/TLS/RTP/SAVPF 126 127 120 124 121 125 123 122 119'',
     ''c=IN IP4 0.0.0.0'',
     ''a=recvonly'',
     ''a=extmap:3 urn:ietf:params:rtp-hdrext:sdes:mid'',
     ''a=extmap:4 http://www.webrtc.org/experiments/rtp-hdrext/abs-send-time'',
     ''a=extmap:5 urn:ietf:params:rtp-hdrext:toffset'',
     ''a=extmap:6/recvonly http://www.webrtc.org/experiments/rtp-hdrext/playout-delay'',
     ''a=extmap:7 http://www.ietf.org/id/draft-holmer-rmcat-transport-wide-cc-extensions-01'',
     ''a=fmtp:126 profile-level-id=42e01f;level-asymmetry-allowed=1;packetization-mode=1'',
     ''a=fmtp:127 apt=126'',
     ''a=fmtp:120 max-fs=12288;max-fr=60'',
     ''a=fmtp:124 apt=120'',
     ''a=fmtp:121 max-fs=12288;max-fr=60'',
     ''a=fmtp:125 apt=121'',
     ''a=fmtp:119 apt=122'',
     ''a=ice-pwd:07393aecfec48f9ca7f41cc50d366ad9'',
     ''a=ice-ufrag:aedfe975'',
     ''a=mid:1'',
     ''a=rtcp-fb:126 nack'',
     ''a=rtcp-fb:126 nack pli'',
     ''a=rtcp-fb:126 ccm fir'',
     ''a=rtcp-fb:126 goog-remb'',
     ''a=rtcp-fb:126 transport-cc'',
     ''a=rtcp-fb:120 nack'',
     ''a=rtcp-fb:120 nack pli'',
     ''a=rtcp-fb:120 ccm fir'',
     ''a=rtcp-fb:120 goog-remb'',
     ''a=rtcp-fb:120 transport-cc'',
     ''a=rtcp-fb:121 nack'',
     ''a=rtcp-fb:121 nack pli'',
     ''a=rtcp-fb:121 ccm fir'',
     ''a=rtcp-fb:121 goog-remb'',
     ''a=rtcp-fb:121 transport-cc'',
     ''a=rtcp-fb:123 nack'',
     ''a=rtcp-fb:123 nack pli'',
     ''a=rtcp-fb:123 ccm fir'',
     ''a=rtcp-fb:123 goog-remb'',
     ''a=rtcp-fb:123 transport-cc'',
     ''a=rtcp-fb:122 nack'',
     ''a=rtcp-fb:122 nack pli'',
     ''a=rtcp-fb:122 ccm fir'',
     ''a=rtcp-fb:122 goog-remb'',
     ''a=rtcp-fb:122 transport-cc'',
     ''a=rtcp-mux'',
     ''a=rtcp-rsize'',
     ''a=rtpmap:126 H264/90000'',
     ''a=rtpmap:127 rtx/90000'',
     ''a=rtpmap:120 VP8/90000'',
     ''a=rtpmap:124 rtx/90000'',
     ''a=rtpmap:121 VP9/90000'',
     ''a=rtpmap:125 rtx/90000'',
     ''a=rtpmap:123 ulpfec/90000'',
     ''a=rtpmap:122 red/90000'',
     ''a=rtpmap:119 rtx/90000'',
     ''a=setup:actpass'',
     ''a=ssrc:3804541430 cname:my-cname'']"

definition valid_viewer_lines :: "string list" where
  "valid_viewer_lines = valid_viewer_session_lines @ valid_viewer_audio_lines @ valid_viewer_video_lines"

definition viewer_missing_ssrc_session_lines :: "string list" where
  "viewer_missing_ssrc_session_lines = [
     ''v=0'',
     ''o=mozilla...THIS_IS_SDPARTA-99.0 7213999912078531628 0 IN IP4 0.0.0.0'',
     ''s=-'',
     ''t=0 0'',
     ''a=fingerprint:sha-256 26:62:C5:CB:BF:68:B0:42:0E:DE:40:2B:30:B3:8F:38:04:CD:D4:9E:D3:EC:9D:D7:03:48:EC:9F:AA:92:9D:34'',
     ''a=setup:actpass'',
     ''a=group:BUNDLE 0 1'',
     ''a=ice-options:trickle'',
     ''a=msid-semantic:WMS *'']"

definition viewer_missing_ssrc_audio_lines :: "string list" where
  "viewer_missing_ssrc_audio_lines = [
     ''m=audio 9 UDP/TLS/RTP/SAVPF 111 9 0 8 101'',
     ''c=IN IP4 0.0.0.0'',
     ''a=recvonly'',
     ''a=extmap:1 urn:ietf:params:rtp-hdrext:ssrc-audio-level'',
     ''a=extmap:2/recvonly urn:ietf:params:rtp-hdrext:csrc-audio-level'',
     ''a=extmap:3 urn:ietf:params:rtp-hdrext:sdes:mid'',
     ''a=fmtp:111 maxplaybackrate=48000;stereo=1;useinbandfec=1'',
     ''a=fmtp:101 0-15'',
     ''a=ice-pwd:07393aecfec48f9ca7f41cc50d366ad9'',
     ''a=ice-ufrag:aedfe975'',
     ''a=mid:0'',
     ''a=rtcp-mux'',
     ''a=rtpmap:111 opus/48000/2'',
     ''a=rtpmap:9 G722/8000/1'',
     ''a=rtpmap:0 PCMU/8000'',
     ''a=rtpmap:8 PCMA/8000'',
     ''a=rtpmap:101 telephone-event/8000/1'',
     ''a=setup:actpass'']"

definition viewer_missing_ssrc_video_lines :: "string list" where
  "viewer_missing_ssrc_video_lines = [
     ''m=video 9 UDP/TLS/RTP/SAVPF 106 127 120 124 121 125 123 122 119'',
     ''c=IN IP4 0.0.0.0'',
     ''a=recvonly'',
     ''a=extmap:3 urn:ietf:params:rtp-hdrext:sdes:mid'',
     ''a=extmap:4 http://www.webrtc.org/experiments/rtp-hdrext/abs-send-time'',
     ''a=extmap:5 urn:ietf:params:rtp-hdrext:toffset'',
     ''a=extmap:6/recvonly http://www.webrtc.org/experiments/rtp-hdrext/playout-delay'',
     ''a=extmap:7 http://www.ietf.org/id/draft-holmer-rmcat-transport-wide-cc-extensions-01'',
     ''a=fmtp:106 profile-level-id=42e01f;level-asymmetry-allowed=1;packetization-mode=1'',
     ''a=fmtp:127 apt=106'',
     ''a=fmtp:120 max-fs=12288;max-fr=60'',
     ''a=fmtp:124 apt=120'',
     ''a=fmtp:121 max-fs=12288;max-fr=60'',
     ''a=fmtp:125 apt=121'',
     ''a=fmtp:119 apt=122'',
     ''a=ice-pwd:07393aecfec48f9ca7f41cc50d366ad9'',
     ''a=ice-ufrag:aedfe975'',
     ''a=mid:1'',
     ''a=rtcp-fb:106 nack'',
     ''a=rtcp-fb:106 nack pli'',
     ''a=rtcp-fb:106 ccm fir'',
     ''a=rtcp-fb:106 goog-remb'',
     ''a=rtcp-fb:106 transport-cc'',
     ''a=rtcp-fb:120 nack'',
     ''a=rtcp-fb:120 nack pli'',
     ''a=rtcp-fb:120 ccm fir'',
     ''a=rtcp-fb:120 goog-remb'',
     ''a=rtcp-fb:120 transport-cc'',
     ''a=rtcp-fb:121 nack'',
     ''a=rtcp-fb:121 nack pli'',
     ''a=rtcp-fb:121 ccm fir'',
     ''a=rtcp-fb:121 goog-remb'',
     ''a=rtcp-fb:121 transport-cc'',
     ''a=rtcp-fb:123 nack'',
     ''a=rtcp-fb:123 nack pli'',
     ''a=rtcp-fb:123 ccm fir'',
     ''a=rtcp-fb:123 goog-remb'',
     ''a=rtcp-fb:123 transport-cc'',
     ''a=rtcp-fb:122 nack'',
     ''a=rtcp-fb:122 nack pli'',
     ''a=rtcp-fb:122 ccm fir'',
     ''a=rtcp-fb:122 goog-remb'',
     ''a=rtcp-fb:122 transport-cc'',
     ''a=rtcp-mux'',
     ''a=rtcp-rsize'',
     ''a=rtpmap:106 H264/90000'',
     ''a=rtpmap:127 rtx/90000'',
     ''a=rtpmap:120 VP8/90000'',
     ''a=rtpmap:124 rtx/90000'',
     ''a=rtpmap:121 VP9/90000'',
     ''a=rtpmap:125 rtx/90000'',
     ''a=rtpmap:123 ulpfec/90000'',
     ''a=rtpmap:122 red/90000'',
     ''a=rtpmap:119 rtx/90000'',
     ''a=setup:actpass'']"

definition viewer_missing_ssrc_lines :: "string list" where
  "viewer_missing_ssrc_lines = viewer_missing_ssrc_session_lines @ viewer_missing_ssrc_audio_lines @ viewer_missing_ssrc_video_lines"

definition firefox_session_lines :: "string list" where
  "firefox_session_lines = [
     ''v=0'',
     ''o=mozilla...THIS_IS_SDPARTA-99.0 6639292399016986376 0 IN IP4 0.0.0.0'',
     ''s=-'',
     ''t=0 0'',
     ''a=fingerprint:sha-256 20:E8:37:73:5C:0B:53:36:CE:27:11:31:CE:19:C0:99:9C:9B:A5:5E:68:CF:C0:5B:6F:6B:11:56:A2:E5:76:F0'',
     ''a=group:BUNDLE 0 1'',
     ''a=ice-options:trickle'',
     ''a=msid-semantic:WMS *'']"

definition firefox_audio_lines :: "string list" where
  "firefox_audio_lines = [
     ''m=audio 9 UDP/TLS/RTP/SAVPF 109 9 0 8 101'',
     ''c=IN IP4 0.0.0.0'',
     ''a=recvonly'',
     ''a=extmap:1 urn:ietf:params:rtp-hdrext:ssrc-audio-level'',
     ''a=extmap:2/recvonly urn:ietf:params:rtp-hdrext:csrc-audio-level'',
     ''a=extmap:3 urn:ietf:params:rtp-hdrext:sdes:mid'',
     ''a=fmtp:109 maxplaybackrate=48000;stereo=1;useinbandfec=1'',
     ''a=fmtp:101 0-15'',
     ''a=ice-pwd:b0a8e5ab619c83b32932d8121a6246bd'',
     ''a=ice-ufrag:d1427639'',
     ''a=mid:0'',
     ''a=rtcp-mux'',
     ''a=rtpmap:109 opus/48000/2'',
     ''a=rtpmap:9 G722/8000/1'',
     ''a=rtpmap:0 PCMU/8000'',
     ''a=rtpmap:8 PCMA/8000'',
     ''a=rtpmap:101 telephone-event/8000/1'',
     ''a=setup:actpass'',
     ''a=ssrc:1943081398 cname:{2c8a6692-45f6-4f9f-8181-e3e0e0f3c160}'']"

definition firefox_video_lines :: "string list" where
  "firefox_video_lines = [
     ''m=video 9 UDP/TLS/RTP/SAVPF 126 127 120 124 121 125 123 122 119'',
     ''c=IN IP4 0.0.0.0'',
     ''a=recvonly'',
     ''a=extmap:3 urn:ietf:params:rtp-hdrext:sdes:mid'',
     ''a=extmap:4 http://www.webrtc.org/experiments/rtp-hdrext/abs-send-time'',
     ''a=extmap:5 urn:ietf:params:rtp-hdrext:toffset'',
     ''a=extmap:6/recvonly http://www.webrtc.org/experiments/rtp-hdrext/playout-delay'',
     ''a=extmap:7 http://www.ietf.org/id/draft-holmer-rmcat-transport-wide-cc-extensions-01'',
     ''a=fmtp:126 profile-level-id=42e01f;level-asymmetry-allowed=1;packetization-mode=1'',
     ''a=fmtp:127 apt=126'',
     ''a=fmtp:120 max-fs=12288;max-fr=60'',
     ''a=fmtp:124 apt=120'',
     ''a=fmtp:121 max-fs=12288;max-fr=60'',
     ''a=fmtp:125 apt=121'',
     ''a=fmtp:119 apt=122'',
     ''a=ice-pwd:b0a8e5ab619c83b32932d8121a6246bd'',
     ''a=ice-ufrag:d1427639'',
     ''a=mid:1'',
     ''a=rtcp-fb:126 nack'',
     ''a=rtcp-fb:126 nack pli'',
     ''a=rtcp-fb:126 ccm fir'',
     ''a=rtcp-fb:126 goog-remb'',
     ''a=rtcp-fb:126 transport-cc'',
     ''a=rtcp-fb:120 nack'',
     ''a=rtcp-fb:120 nack pli'',
     ''a=rtcp-fb:120 ccm fir'',
     ''a=rtcp-fb:120 goog-remb'',
     ''a=rtcp-fb:120 transport-cc'',
     ''a=rtcp-fb:121 nack'',
     ''a=rtcp-fb:121 nack pli'',
     ''a=rtcp-fb:121 ccm fir'',
     ''a=rtcp-fb:121 goog-remb'',
     ''a=rtcp-fb:121 transport-cc'',
     ''a=rtcp-fb:123 nack'',
     ''a=rtcp-fb:123 nack pli'',
     ''a=rtcp-fb:123 ccm fir'',
     ''a=rtcp-fb:123 goog-remb'',
     ''a=rtcp-fb:123 transport-cc'',
     ''a=rtcp-fb:122 nack'',
     ''a=rtcp-fb:122 nack pli'',
     ''a=rtcp-fb:122 ccm fir'',
     ''a=rtcp-fb:122 goog-remb'',
     ''a=rtcp-fb:122 transport-cc'',
     ''a=rtcp-mux'',
     ''a=rtcp-rsize'',
     ''a=rtpmap:126 H264/90000'',
     ''a=rtpmap:127 rtx/90000'',
     ''a=rtpmap:120 VP8/90000'',
     ''a=rtpmap:124 rtx/90000'',
     ''a=rtpmap:121 VP9/90000'',
     ''a=rtpmap:125 rtx/90000'',
     ''a=rtpmap:123 ulpfec/90000'',
     ''a=rtpmap:122 red/90000'',
     ''a=rtpmap:119 rtx/90000'',
     ''a=setup:actpass'',
     ''a=ssrc:3796383410 cname:{2c8a6692-45f6-4f9f-8181-e3e0e0f3c160}'']"

definition firefox_lines :: "string list" where
  "firefox_lines = firefox_session_lines @ firefox_audio_lines @ firefox_video_lines"

definition chrome_session_lines :: "string list" where
  "chrome_session_lines = [
     ''v=0'',
     ''o=- 9071898453171296627 2 IN IP4 127.0.0.1'',
     ''s=-'',
     ''t=0 0'',
     ''a=group:BUNDLE 0 1'',
     ''a=extmap-allow-mixed'',
     ''a=msid-semantic: WMS'']"

definition chrome_audio_lines :: "string list" where
  "chrome_audio_lines = [
     ''m=audio 9 UDP/TLS/RTP/SAVPF 111 63 9 0 8 13 110 126'',
     ''c=IN IP4 0.0.0.0'',
     ''a=rtcp:9 IN IP4 0.0.0.0'',
     ''a=ice-ufrag:QD6R'',
     ''a=ice-pwd:PWMuciTb4wn9UaevikffgsO1'',
     ''a=ice-options:trickle'',
     ''a=fingerprint:sha-256 2B:1E:1D:EC:AE:DC:10:1F:F4:59:4C:BA:BD:7F:57:89:AB:54:91:D8:2C:E4:1A:24:50:EF:37:0B:4A:FD:B3:9A'',
     ''a=setup:actpass'',
     ''a=mid:0'',
     ''a=extmap:1 urn:ietf:params:rtp-hdrext:ssrc-audio-level'',
     ''a=extmap:2 http://www.webrtc.org/experiments/rtp-hdrext/abs-send-time'',
     ''a=extmap:3 http://www.ietf.org/id/draft-holmer-rmcat-transport-wide-cc-extensions-01'',
     ''a=extmap:4 urn:ietf:params:rtp-hdrext:sdes:mid'',
     ''a=recvonly'',
     ''a=rtcp-mux'',
     ''a=rtpmap:111 opus/48000/2'',
     ''a=rtcp-fb:111 transport-cc'',
     ''a=fmtp:111 minptime=10;useinbandfec=1'',
     ''a=rtpmap:63 red/48000/2'',
     ''a=fmtp:63 111/111'',
     ''a=rtpmap:9 G722/8000'',
     ''a=rtpmap:0 PCMU/8000'',
     ''a=rtpmap:8 PCMA/8000'',
     ''a=rtpmap:13 CN/8000'',
     ''a=rtpmap:110 telephone-event/48000'',
     ''a=rtpmap:126 telephone-event/8000'']"

definition chrome_video_lines :: "string list" where
  "chrome_video_lines = [
     ''m=video 9 UDP/TLS/RTP/SAVPF 96 97 98 99 100 101 35 36 37 38 102 103 104 105 106 107 108 109 127 125 39 40 41 42 43 44 45 46 47 48 112 113 114 49'',
     ''c=IN IP4 0.0.0.0'',
     ''a=rtcp:9 IN IP4 0.0.0.0'',
     ''a=ice-ufrag:QD6R'',
     ''a=ice-pwd:PWMuciTb4wn9UaevikffgsO1'',
     ''a=ice-options:trickle'',
     ''a=fingerprint:sha-256 2B:1E:1D:EC:AE:DC:10:1F:F4:59:4C:BA:BD:7F:57:89:AB:54:91:D8:2C:E4:1A:24:50:EF:37:0B:4A:FD:B3:9A'',
     ''a=setup:actpass'',
     ''a=mid:1'',
     ''a=extmap:14 urn:ietf:params:rtp-hdrext:toffset'',
     ''a=extmap:2 http://www.webrtc.org/experiments/rtp-hdrext/abs-send-time'',
     ''a=extmap:13 urn:3gpp:video-orientation'',
     ''a=extmap:3 http://www.ietf.org/id/draft-holmer-rmcat-transport-wide-cc-extensions-01'',
     ''a=extmap:5 http://www.webrtc.org/experiments/rtp-hdrext/playout-delay'',
     ''a=extmap:6 http://www.webrtc.org/experiments/rtp-hdrext/video-content-type'',
     ''a=extmap:7 http://www.webrtc.org/experiments/rtp-hdrext/video-timing'',
     ''a=extmap:8 http://www.webrtc.org/experiments/rtp-hdrext/color-space'',
     ''a=extmap:4 urn:ietf:params:rtp-hdrext:sdes:mid'',
     ''a=extmap:10 urn:ietf:params:rtp-hdrext:sdes:rtp-stream-id'',
     ''a=extmap:11 urn:ietf:params:rtp-hdrext:sdes:repaired-rtp-stream-id'',
     ''a=recvonly'',
     ''a=rtcp-mux'',
     ''a=rtcp-rsize'',
     ''a=rtpmap:96 VP8/90000'',
     ''a=rtcp-fb:96 goog-remb'',
     ''a=rtcp-fb:96 transport-cc'',
     ''a=rtcp-fb:96 ccm fir'',
     ''a=rtcp-fb:96 nack'',
     ''a=rtcp-fb:96 nack pli'',
     ''a=rtpmap:97 rtx/90000'',
     ''a=fmtp:97 apt=96'',
     ''a=rtpmap:98 VP9/90000'',
     ''a=rtcp-fb:98 goog-remb'',
     ''a=rtcp-fb:98 transport-cc'',
     ''a=rtcp-fb:98 ccm fir'',
     ''a=rtcp-fb:98 nack'',
     ''a=rtcp-fb:98 nack pli'',
     ''a=fmtp:98 profile-id=0'',
     ''a=rtpmap:99 rtx/90000'',
     ''a=fmtp:99 apt=98'',
     ''a=rtpmap:100 VP9/90000'',
     ''a=rtcp-fb:100 goog-remb'',
     ''a=rtcp-fb:100 transport-cc'',
     ''a=rtcp-fb:100 ccm fir'',
     ''a=rtcp-fb:100 nack'',
     ''a=rtcp-fb:100 nack pli'',
     ''a=fmtp:100 profile-id=2'',
     ''a=rtpmap:101 rtx/90000'',
     ''a=fmtp:101 apt=100'',
     ''a=rtpmap:35 VP9/90000'',
     ''a=rtcp-fb:35 goog-remb'',
     ''a=rtcp-fb:35 transport-cc'',
     ''a=rtcp-fb:35 ccm fir'',
     ''a=rtcp-fb:35 nack'',
     ''a=rtcp-fb:35 nack pli'',
     ''a=fmtp:35 profile-id=1'',
     ''a=rtpmap:36 rtx/90000'',
     ''a=fmtp:36 apt=35'',
     ''a=rtpmap:37 VP9/90000'',
     ''a=rtcp-fb:37 goog-remb'',
     ''a=rtcp-fb:37 transport-cc'',
     ''a=rtcp-fb:37 ccm fir'',
     ''a=rtcp-fb:37 nack'',
     ''a=rtcp-fb:37 nack pli'',
     ''a=fmtp:37 profile-id=3'',
     ''a=rtpmap:38 rtx/90000'',
     ''a=fmtp:38 apt=37'',
     ''a=rtpmap:102 H264/90000'',
     ''a=rtcp-fb:102 goog-remb'',
     ''a=rtcp-fb:102 transport-cc'',
     ''a=rtcp-fb:102 ccm fir'',
     ''a=rtcp-fb:102 nack'',
     ''a=rtcp-fb:102 nack pli'',
     ''a=fmtp:102 level-asymmetry-allowed=1;packetization-mode=1;profile-level-id=42001f'',
     ''a=rtpmap:103 rtx/90000'',
     ''a=fmtp:103 apt=102'',
     ''a=rtpmap:104 H264/90000'',
     ''a=rtcp-fb:104 goog-remb'',
     ''a=rtcp-fb:104 transport-cc'',
     ''a=rtcp-fb:104 ccm fir'',
     ''a=rtcp-fb:104 nack'',
     ''a=rtcp-fb:104 nack pli'',
     ''a=fmtp:104 level-asymmetry-allowed=1;packetization-mode=0;profile-level-id=42001f'',
     ''a=rtpmap:105 rtx/90000'',
     ''a=fmtp:105 apt=104'',
     ''a=rtpmap:106 H264/90000'',
     ''a=rtcp-fb:106 goog-remb'',
     ''a=rtcp-fb:106 transport-cc'',
     ''a=rtcp-fb:106 ccm fir'',
     ''a=rtcp-fb:106 nack'',
     ''a=rtcp-fb:106 nack pli'',
     ''a=fmtp:106 level-asymmetry-allowed=1;packetization-mode=1;profile-level-id=42e01f'',
     ''a=rtpmap:107 rtx/90000'',
     ''a=fmtp:107 apt=106'',
     ''a=rtpmap:108 H264/90000'',
     ''a=rtcp-fb:108 goog-remb'',
     ''a=rtcp-fb:108 transport-cc'',
     ''a=rtcp-fb:108 ccm fir'',
     ''a=rtcp-fb:108 nack'',
     ''a=rtcp-fb:108 nack pli'',
     ''a=fmtp:108 level-asymmetry-allowed=1;packetization-mode=0;profile-level-id=42e01f'',
     ''a=rtpmap:109 rtx/90000'',
     ''a=fmtp:109 apt=108'',
     ''a=rtpmap:127 H264/90000'',
     ''a=rtcp-fb:127 goog-remb'',
     ''a=rtcp-fb:127 transport-cc'',
     ''a=rtcp-fb:127 ccm fir'',
     ''a=rtcp-fb:127 nack'',
     ''a=rtcp-fb:127 nack pli'',
     ''a=fmtp:127 level-asymmetry-allowed=1;packetization-mode=1;profile-level-id=4d001f'',
     ''a=rtpmap:125 rtx/90000'',
     ''a=fmtp:125 apt=127'',
     ''a=rtpmap:39 H264/90000'',
     ''a=rtcp-fb:39 goog-remb'',
     ''a=rtcp-fb:39 transport-cc'',
     ''a=rtcp-fb:39 ccm fir'',
     ''a=rtcp-fb:39 nack'',
     ''a=rtcp-fb:39 nack pli'',
     ''a=fmtp:39 level-asymmetry-allowed=1;packetization-mode=0;profile-level-id=4d001f'',
     ''a=rtpmap:40 rtx/90000'',
     ''a=fmtp:40 apt=39'',
     ''a=rtpmap:41 H264/90000'',
     ''a=rtcp-fb:41 goog-remb'',
     ''a=rtcp-fb:41 transport-cc'',
     ''a=rtcp-fb:41 ccm fir'',
     ''a=rtcp-fb:41 nack'',
     ''a=rtcp-fb:41 nack pli'',
     ''a=fmtp:41 level-asymmetry-allowed=1;packetization-mode=1;profile-level-id=f4001f'',
     ''a=rtpmap:42 rtx/90000'',
     ''a=fmtp:42 apt=41'',
     ''a=rtpmap:43 H264/90000'',
     ''a=rtcp-fb:43 goog-remb'',
     ''a=rtcp-fb:43 transport-cc'',
     ''a=rtcp-fb:43 ccm fir'',
     ''a=rtcp-fb:43 nack'',
     ''a=rtcp-fb:43 nack pli'',
     ''a=fmtp:43 level-asymmetry-allowed=1;packetization-mode=0;profile-level-id=f4001f'',
     ''a=rtpmap:44 rtx/90000'',
     ''a=fmtp:44 apt=43'',
     ''a=rtpmap:45 AV1/90000'',
     ''a=rtcp-fb:45 goog-remb'',
     ''a=rtcp-fb:45 transport-cc'',
     ''a=rtcp-fb:45 ccm fir'',
     ''a=rtcp-fb:45 nack'',
     ''a=rtcp-fb:45 nack pli'',
     ''a=fmtp:45 level-idx=5;profile=0;tier=0'',
     ''a=rtpmap:46 rtx/90000'',
     ''a=fmtp:46 apt=45'',
     ''a=rtpmap:47 AV1/90000'',
     ''a=rtcp-fb:47 goog-remb'',
     ''a=rtcp-fb:47 transport-cc'',
     ''a=rtcp-fb:47 ccm fir'',
     ''a=rtcp-fb:47 nack'',
     ''a=rtcp-fb:47 nack pli'',
     ''a=fmtp:47 level-idx=5;profile=1;tier=0'',
     ''a=rtpmap:48 rtx/90000'',
     ''a=fmtp:48 apt=47'',
     ''a=rtpmap:112 red/90000'',
     ''a=rtpmap:113 rtx/90000'',
     ''a=fmtp:113 apt=112'',
     ''a=rtpmap:114 ulpfec/90000'',
     ''a=rtpmap:49 flexfec-03/90000'',
     ''a=rtcp-fb:49 goog-remb'',
     ''a=rtcp-fb:49 transport-cc'',
     ''a=fmtp:49 repair-window=10000000'']"

definition chrome_lines :: "string list" where
  "chrome_lines = chrome_session_lines @ chrome_audio_lines @ chrome_video_lines"

section \<open>The tests\<close>

text \<open>\<open>streamer_offer.rs\<close>\<close>

definition streamer_offer_resolves_valid_sdp :: "set_order \<Rightarrow> host_random \<Rightarrow> bool" where
  "streamer_offer_resolves_valid_sdp iter rnd =
     expect init_sdp_resolver (\<lambda>sdp_resolver.
     expect (accept_stream_offer sdp_resolver rnd VALID_SDP) (\<lambda>negotiated_session.
       remote_username (ice_credentials negotiated_session) = ''E2Fr''
       \<and> remote_password (ice_credentials negotiated_session) = ''OpQzg1PAwUdeOB244chlgd''
       \<and> as_codec (audio_session negotiated_session) = Opus
       \<and> as_payload_number (audio_session negotiated_session) = 111
       \<and> as_remote_ssrc (audio_session negotiated_session) = Some 1349455989
       \<and> vs_codec (video_session negotiated_session) = H264
       \<and> vs_payload_number (video_session negotiated_session) = 96
       \<and> vs_remote_ssrc (video_session negotiated_session) = Some 1349455990
       \<and> vs_capabilities (video_session negotiated_session) =
           {''profile-level-id=42e01f'', ''packetization-mode=1'', ''level-asymmetry-allowed=1''}
       \<and> expect (string_from_sdp iter (sdp_answer negotiated_session)) (\<lambda>actual_answer.
           actual_answer = crlf_text [
             ''v=0'',
             ''o=SMID 3767197920 0 IN IP4 127.0.0.1'',
             ''s=SMID'',
             ''t=0 0'',
             ''a=group:BUNDLE 0 1'',
             ''a=ice-ufrag:'' @ host_username (ice_credentials negotiated_session),
             ''a=ice-pwd:'' @ host_password (ice_credentials negotiated_session),
             ''a=ice-options:ice2'',
             ''a=ice-lite'',
             ''a=fingerprint:'' @ EXPECTED_FINGERPRINT,
             ''a=setup:passive'',
             ''m=audio 52000 UDP/TLS/RTP/SAVPF 111'',
             ''c=IN IP4 127.0.0.1'',
             ''a=recvonly'',
             ''a=rtcp-mux'',
             ''a=mid:0'',
             ''a=candidate:1 1 UDP 2015363327 127.0.0.1 52000 typ host'',
             ''a=end-of-candidates'',
             ''a=rtpmap:111 opus/48000/2'',
             ''a=ssrc:'' @ show_nat (unat (as_host_ssrc (audio_session negotiated_session))) @ '' cname:SMID'',
             ''m=video 52000 UDP/TLS/RTP/SAVPF 96'',
             ''c=IN IP4 127.0.0.1'',
             ''a=recvonly'',
             ''a=rtcp-mux'',
             ''a=mid:1'',
             ''a=rtpmap:96 h264/90000'',
             ''a=ssrc:'' @ show_nat (unat (vs_host_ssrc (video_session negotiated_session))) @ '' cname:SMID'',
             ''a=fmtp:96 '' @ join '';'' (iter (vs_capabilities (video_session negotiated_session)))])))"

definition streamer_offer_resolves_sdp_with_multiple_video_codecs :: "host_random \<Rightarrow> bool" where
  "streamer_offer_resolves_sdp_with_multiple_video_codecs rnd =
     expect init_sdp_resolver (\<lambda>sdp_resolver.
     expect (accept_stream_offer sdp_resolver rnd (crlf_text multiple_codecs_lines)) (\<lambda>result.
       vs_codec (video_session result) = H264))"

definition streamer_offer_rejects_offer_with_missing_ssrc :: "host_random \<Rightarrow> bool" where
  "streamer_offer_rejects_offer_with_missing_ssrc rnd =
     expect init_sdp_resolver (\<lambda>sdp_resolver.
     expect (accept_stream_offer sdp_resolver rnd (crlf_text streamer_missing_ssrc_lines)) (\<lambda>negotiated_session.
       vs_remote_ssrc (video_session negotiated_session) = None
       \<and> as_remote_ssrc (audio_session negotiated_session) = None))"

text \<open>\<open>viewer_offer.rs\<close>; each test negotiates its own streamer first.\<close>

definition init_tests :: "host_random \<Rightarrow> (sdp_resolver \<Rightarrow> negotiated_session \<Rightarrow> bool) \<Rightarrow> bool" where
  "init_tests rnd test =
     expect init_sdp_resolver (\<lambda>sdp_resolver.
     expect (accept_stream_offer sdp_resolver rnd VALID_SDP) (\<lambda>streamer_session.
       test sdp_resolver streamer_session))"

definition viewer_offer_resolves_valid_viewer_offer :: "set_order \<Rightarrow> host_random \<Rightarrow> host_random \<Rightarrow> bool" where
  "viewer_offer_resolves_valid_viewer_offer iter rnd rnd' =
     init_tests rnd (\<lambda>sdp_resolver streamer_session.
     expect (accept_viewer_offer sdp_resolver rnd' (crlf_text valid_viewer_lines) streamer_session) (\<lambda>viewer_session.
       remote_username (ice_credentials viewer_session) = ''aedfe975''
       \<and> remote_password (ice_credentials viewer_session) = ''07393aecfec48f9ca7f41cc50d366ad9''
       \<and> as_codec (audio_session viewer_session) = as_codec (audio_session streamer_session)
       \<and> as_remote_ssrc (audio_session viewer_session) = Some 455694368
       \<and> as_payload_number (audio_session viewer_session) = 106
       \<and> vs_codec (video_session viewer_session) = vs_codec (video_session streamer_session)
       \<and> vs_capabilities (video_session viewer_session) = vs_capabilities (video_session streamer_session)
       \<and> vs_remote_ssrc (video_session viewer_session) = Some 3804541430
       \<and> vs_payload_number (video_session viewer_session) = 126
       \<and> expect (string_from_sdp iter (sdp_answer viewer_session)) (\<lambda>actual_answer.
           actual_answer = crlf_text [
             ''v=0'',
             ''o=SMID 3767197920 0 IN IP4 127.0.0.1'',
             ''s=SMID'',
             ''t=0 0'',
             ''a=group:BUNDLE 0 1'',
             ''a=ice-ufrag:'' @ host_username (ice_credentials viewer_session),
             ''a=ice-pwd:'' @ host_password (ice_credentials viewer_session),
             ''a=ice-options:ice2'',
             ''a=ice-lite'',
             ''a=fingerprint:'' @ EXPECTED_FINGERPRINT,
             ''a=setup:passive'',
             ''m=audio 52000 UDP/TLS/RTP/SAVPF 106'',
             ''c=IN IP4 127.0.0.1'',
             ''a=sendonly'',
             ''a=rtcp-mux'',
             ''a=mid:0'',
             ''a=candidate:1 1 UDP 2015363327 127.0.0.1 52000 typ host'',
             ''a=end-of-candidates'',
             ''a=rtpmap:106 opus/48000/2'',
             ''a=ssrc:'' @ show_nat (unat (as_host_ssrc (audio_session viewer_session))) @ '' cname:SMID'',
             ''m=video 52000 UDP/TLS/RTP/SAVPF 126'',
             ''c=IN IP4 127.0.0.1'',
             ''a=sendonly'',
             ''a=rtcp-mux'',
             ''a=mid:1'',
             ''a=rtpmap:126 h264/90000'',
             ''a=ssrc:'' @ show_nat (unat (vs_host_ssrc (video_session viewer_session))) @ '' cname:SMID'',
             ''a=fmtp:126 '' @ join '';'' (iter (vs_capabilities (video_session viewer_session)))])))"

definition viewer_offer_rejects_offer_with_missing_ssrc :: "host_random \<Rightarrow> host_random \<Rightarrow> bool" where
  "viewer_offer_rejects_offer_with_missing_ssrc rnd rnd' =
     init_tests rnd (\<lambda>sdp_resolver streamer_session.
     expect (accept_viewer_offer sdp_resolver rnd' (crlf_text viewer_missing_ssrc_lines) streamer_session)
       (\<lambda>negotiated_session. as_remote_ssrc (audio_session negotiated_session) = None
         \<and> vs_remote_ssrc (video_session negotiated_session) = None))"

definition EXAMPLE_BROWSER_OFFERS :: "string list" where
  "EXAMPLE_BROWSER_OFFERS = [crlf_text firefox_lines, crlf_text chrome_lines]"

definition viewer_offer_resolves_browser_offers :: "host_random \<Rightarrow> host_random \<Rightarrow> bool" where
  "viewer_offer_resolves_browser_offers rnd rnd' =
     init_tests rnd (\<lambda>sdp_resolver streamer_session.
     list_all (\<lambda>offer. expect (accept_viewer_offer sdp_resolver rnd' offer streamer_session) (\<lambda>_. True))
       EXAMPLE_BROWSER_OFFERS)"

section \<open>The text of every answer\<close>

lemma crlf_text_join: "ls \<noteq> [] \<Longrightarrow> join CRLF ls @ CRLF @ s = crlf_text ls @ s"
  by (induction CRLF ls rule: join.induct) (simp_all add: crlf_text_def)

lemma crlf_text_append: "crlf_text (xs @ ys) = crlf_text xs @ crlf_text ys"
  by (simp add: crlf_text_def)

lemmas line_printer_defs =
  string_from_attribute_def string_from_originator_def string_from_session_time_def
  string_from_connection_data_def string_from_media_description_def string_from_ice_username_def
  string_from_ice_password_def string_from_ice_options_def string_from_media_id_def
  string_from_fingerprint_def string_from_candidate_def string_from_rtp_map_def
  string_from_media_ssrc_def string_from_fmtp_def

lemma show_nat_0: "show_nat 0 = ''0''"
  by (simp add: show_nat.simps)

lemma answer_session_printed:
  "hash_function (res_fingerprint self) = SHA256 \<Longrightarrow>
     collect_res (string_from_sdp_line iter) (session_section (answer_sdp dir self am vm creds a v))
       = Inr (answer_session_lines self am vm creds)"
  by (simp add: answer_sdp_def answer_session_lines_def line_printer_defs show_nat_0 HOST_CNAME_def Let_def)

lemma answer_audio_printed:
  assumes "attribute_name iter dir = Inr d"
  shows "collect_res (string_from_sdp_line iter) (audio_section (answer_sdp dir self am vm creds a v))
     = Inr (answer_audio_lines d self am a)"
  using assms by (cases "as_codec a") (simp add: answer_sdp_def answer_audio_lines_def line_printer_defs HOST_CNAME_def Let_def)

lemma answer_video_printed:
  assumes "attribute_name iter dir = Inr d"
  shows "collect_res (string_from_sdp_line iter) (video_section (answer_sdp dir self am vm creds a v))
     = Inr (answer_video_lines iter d self vm v)"
  using assms by (cases "vs_codec v") (simp add: answer_sdp_def answer_video_lines_def line_printer_defs HOST_CNAME_def Let_def)

lemma answer_printed:
  assumes "hash_function (res_fingerprint self) = SHA256" "attribute_name iter dir = Inr d"
    and "sdp_answer ns = answer_sdp dir self am vm (ice_credentials ns) (audio_session ns) (video_session ns)"
  shows "string_from_sdp iter (sdp_answer ns) = Inr (answer_text iter d self am vm ns)"
proof -
  have ne: "answer_session_lines self am vm c \<noteq> []" "answer_audio_lines d self am a \<noteq> []" "answer_video_lines iter d self vm v \<noteq> []" for c a v
    by (simp_all add: answer_session_lines_def answer_audio_lines_def answer_video_lines_def Let_def)
  show ?thesis
    unfolding string_from_sdp_def string_from_section_def assms(3) answer_text_def
    using ne crlf_text_join [of _ "[]"]
    by (simp add: answer_session_printed [OF assms(1)] answer_audio_printed [OF assms(2)]
        answer_video_printed [OF assms(2)] crlf_text_join crlf_text_append)
qed

text \<open>C18. The text of the answer to an accepted offer, whole: its lines, their order and what of the
  offer, the resolver and the session stands in them, for a streamer and for a viewer alike but for
  the direction of the media.\<close>

theorem answers_verbatim:
  assumes "hash_function (res_fingerprint self) = SHA256"
  shows "(accept_stream_offer self rnd raw = Inr ns \<longrightarrow>
       (\<exists>s am vm. get_sdp raw = Inr s \<and> get_media_ids s = Inr (am, vm)
          \<and> string_from_sdp iter (sdp_answer ns) = Inr (answer_text iter ''recvonly'' self am vm ns)))
     \<and> (accept_viewer_offer self rnd raw str = Inr ns \<longrightarrow>
       (\<exists>s am vm. get_sdp raw = Inr s \<and> get_media_ids s = Inr (am, vm)
          \<and> string_from_sdp iter (sdp_answer ns) = Inr (answer_text iter ''sendonly'' self am vm ns)))"
proof (intro conjI impI)
  assume "accept_stream_offer self rnd raw = Inr ns"
  then obtain s where s: "get_sdp raw = Inr s" "parse_stream_offer self rnd s = Inr ns"
    by (auto simp: accept_stream_offer_def bind_res_eq_Inr)
  then show "\<exists>s am vm. get_sdp raw = Inr s \<and> get_media_ids s = Inr (am, vm)
      \<and> string_from_sdp iter (sdp_answer ns) = Inr (answer_text iter ''recvonly'' self am vm ns)"
    using stream_answer_shape [OF s(2)] answer_printed [OF assms attribute_name.simps(3)] by blast
next
  assume "accept_viewer_offer self rnd raw str = Inr ns"
  then obtain s where s: "get_sdp raw = Inr s" "parse_viewer_offer self rnd s str = Inr ns"
    by (auto simp: accept_viewer_offer_def bind_res_eq_Inr)
  then show "\<exists>s am vm. get_sdp raw = Inr s \<and> get_media_ids s = Inr (am, vm)
      \<and> string_from_sdp iter (sdp_answer ns) = Inr (answer_text iter ''sendonly'' self am vm ns)"
    using viewer_answer_shape [OF s(2)] answer_printed [OF assms attribute_name.simps(2)] by blast
qed

theorem answers_verbatim_witness:
  "(\<exists>s am vm. get_sdp demo_whip = Inr s \<and> get_media_ids s = Inr (am, vm)
      \<and> string_from_sdp demo_iter (sdp_answer demo_streamer)
          = Inr (answer_text demo_iter ''recvonly'' demo_resolver am vm demo_streamer))
   \<and> (\<exists>s am vm. get_sdp demo_whep = Inr s \<and> get_media_ids s = Inr (am, vm)
      \<and> string_from_sdp demo_iter (sdp_answer demo_viewer)
          = Inr (answer_text demo_iter ''sendonly'' demo_resolver am vm demo_viewer))"
proof -
  have "hash_function (res_fingerprint demo_resolver) = SHA256" by (simp add: demo_resolver_def)
  then show ?thesis
    using answers_verbatim [of demo_resolver demo_random demo_whip demo_streamer demo_iter]
      answers_verbatim [of demo_resolver demo_random demo_whep demo_viewer demo_iter demo_streamer]
      demo_stream_accepted demo_viewer_accepted
    by blast
qed

section \<open>The tests hold of the model\<close>

definition test_resolver :: sdp_resolver where
  "test_resolver = \<lparr>res_fingerprint = \<lparr>hash_function = SHA256, hash = drop 8 EXPECTED_FINGERPRINT\<rparr>,
     res_candidate = \<lparr>foundation = ''1'', component_id = 1, priority = 2015363327,
       connection_address = V4 (rd32 127 0 0 1), port = 52000\<rparr>\<rparr>"

lemma init_sdp_resolver_ok: "init_sdp_resolver = Inr test_resolver"
  by (simp add: init_sdp_resolver_def resolver_new_def test_resolver_def EXPECTED_FINGERPRINT_def
      fingerprint_try_from_def hash_function_from_def)

lemmas test_negotiation_defs =
  parse_stream_offer_def parse_viewer_offer_def get_media_ids_def get_ice_credentials_def
  get_streamer_audio_session_def get_streamer_video_session_def get_viewer_audio_session_def get_viewer_video_session_def
  nth_or_def Let_def ACCEPTED_AUDIO_CODEC_def ACCEPTED_VIDEO_CODEC_def

lemma streamer_negotiated:
  "\<exists>ns. accept_stream_offer self rnd VALID_SDP = Inr ns
     \<and> remote_username (ice_credentials ns) = ''E2Fr'' \<and> remote_password (ice_credentials ns) = ''OpQzg1PAwUdeOB244chlgd''
     \<and> audio_session ns = \<lparr>as_codec = Opus, as_payload_number = 111, as_host_ssrc = rnd_audio_ssrc rnd,
          as_remote_ssrc = Some 1349455989\<rparr>
     \<and> video_session ns = \<lparr>vs_codec = H264, vs_payload_number = 96, vs_host_ssrc = rnd_video_ssrc rnd,
          vs_remote_ssrc = Some 1349455990, vs_capabilities =
            {''profile-level-id=42e01f'', ''packetization-mode=1'', ''level-asymmetry-allowed=1''}\<rparr>
     \<and> sdp_answer ns = answer_sdp ReceiveOnly self \<lparr>mid_id = ''0''\<rparr> \<lparr>mid_id = ''1''\<rparr>
          (ice_credentials ns) (audio_session ns) (video_session ns)"
  by (simp add: accept_stream_offer_def valid_sdp_resolved expected_media_defs test_negotiation_defs answer_sdp_def)

text \<open>What the viewers' tests need of the streamer they negotiate with.\<close>

definition test_streamer :: "negotiated_session \<Rightarrow> bool" where
  "test_streamer str \<longleftrightarrow> as_codec (audio_session str) = Opus \<and> vs_codec (video_session str) = H264
     \<and> vs_capabilities (video_session str) =
         {''profile-level-id=42e01f'', ''packetization-mode=1'', ''level-asymmetry-allowed=1''}"

lemma accept_viewer_crlf_text:
  "test_lines ls \<Longrightarrow> accept_viewer_offer self rnd (crlf_text ls) str
     = bind_res (bind_res (collect_res sdp_line_try_from ls) sections_of) (\<lambda>s. parse_viewer_offer self rnd s str)"
  by (simp add: accept_viewer_offer_def get_sdp_crlf_text)

text \<open>Two format parameter sets written out are compared element by element.\<close>

lemma insert_eq_insert: "insert a A = insert b B \<longleftrightarrow> insert a A \<subseteq> insert b B \<and> insert b B \<subseteq> insert a A"
  by (rule set_eq_subset)

lemmas viewer_test_defs = test_streamer_def literal_reader_defs sections_of_def test_negotiation_defs
  not_media_def insert_eq_insert

lemma streamer_tests:
  "streamer_offer_resolves_sdp_with_multiple_video_codecs rnd"
  "streamer_offer_rejects_offer_with_missing_ssrc rnd"
proof -
  note texts = init_sdp_resolver_ok expect_defs accept_stream_offer_def
  have "test_lines multiple_codecs_lines" "test_lines streamer_missing_ssrc_lines"
    by (simp_all add: test_lines_def multiple_codecs_lines_def streamer_missing_ssrc_lines_def)
  note read = this [THEN get_sdp_crlf_text]
  show "streamer_offer_resolves_sdp_with_multiple_video_codecs rnd"
    unfolding streamer_offer_resolves_sdp_with_multiple_video_codecs_def texts read
    by (simp add: multiple_codecs_lines_def viewer_test_defs)
  show "streamer_offer_rejects_offer_with_missing_ssrc rnd"
    unfolding streamer_offer_rejects_offer_with_missing_ssrc_def texts read
    by (simp add: streamer_missing_ssrc_lines_def viewer_test_defs)
qed

text \<open>A browser's offer has up to two hundred lines. Only those that decide are looked at, by the
  conditions on an acceptable offer; the others are only known to be readable.\<close>

definition read_line :: "string \<Rightarrow> sdp_line" where
  "read_line l = (case sdp_line_try_from l of Inl _ \<Rightarrow> UnrecognizedLine | Inr x \<Rightarrow> x)"

definition readable :: "string list \<Rightarrow> bool" where
  "readable ls \<longleftrightarrow> list_all (\<lambda>l. is_ok (sdp_line_try_from l)) ls"

lemma collect_readable: "readable ls \<Longrightarrow> collect_res sdp_line_try_from ls = Inr (map read_line ls)"
  by (rule collect_res_map) (auto simp: readable_def list_all_iff read_line_def is_ok_ex)

lemma read_line_in: "l \<in> set ls \<Longrightarrow> sdp_line_try_from l = Inr x \<Longrightarrow> x \<in> set (map read_line ls)"
  by (force simp: read_line_def)

lemma line_media_type: "sdp_line_try_from l = Inr (MediaDescriptionLine m) \<Longrightarrow> take 2 l = ''m=''"
  by (auto simp: sdp_line_try_from_def map_res_def bind_res_eq_Inr ok_or_eq_Inr split_once_char_Some
      split: if_splits sum.splits)

lemma no_media_read: "list_all (\<lambda>l. take 2 l \<noteq> ''m='') ls \<Longrightarrow> no_media (map read_line ls)"
proof -
  have "line_media (read_line l) = None" if "take 2 l \<noteq> ''m=''" for l
    using that line_media_type [of l] by (cases "read_line l") (auto simp: read_line_def split: sum.splits)
  then show "list_all (\<lambda>l. take 2 l \<noteq> ''m='') ls \<Longrightarrow> no_media (map read_line ls)"
    by (auto simp: no_media_def list_all_iff)
qed

lemma readable_parts: "readable (take n ls) \<Longrightarrow> readable (drop n ls) \<Longrightarrow> readable ls"
  by (metis append_take_drop_id list_all_append readable_def)

lemma find_map_first: "find_map f (map read_line (take n ls)) = Some y \<Longrightarrow> find_map f (map read_line ls) = Some y"
  by (metis append_take_drop_id find_map_append map_append option.simps(5))

text \<open>Lines of one section, opened by a media line of the given type.\<close>

definition media_text :: "media_type \<Rightarrow> string list \<Rightarrow> bool" where
  "media_text t ls \<longleftrightarrow> test_lines ls \<and> readable ls \<and> list_all (\<lambda>l. take 2 l \<noteq> ''m='') (tl ls)
     \<and> ls \<noteq> [] \<and> (\<exists>m. read_line (hd ls) = MediaDescriptionLine m \<and> md_media_type m = t)"

lemma media_text_lines:
  assumes "media_text t ls"
  shows "\<exists>m rest. map read_line ls = MediaDescriptionLine m # rest \<and> md_media_type m = t \<and> no_media rest"
proof -
  from assms obtain l rest where "ls = l # rest" by (cases ls) (auto simp: media_text_def)
  with assms no_media_read [of rest] show ?thesis by (auto simp: media_text_def)
qed

text \<open>What a viewer's offer has to have in its lines.\<close>

locale viewer_offer_lines =
  fixes session audio video :: "string list" and a v u p :: string and audio_pn video_pn :: usize and caps :: "string set"
  assumes session_text: "test_lines session" "readable session" "list_all (\<lambda>l. take 2 l \<noteq> ''m='') session"
      "session_head (map read_line session)"
    and audio_text: "media_text Audio audio"
    and video_text: "media_text Video video"
    and group: "find_map attr_bundle (map read_line session) = Some [a, v]"
    and first_audio: "find_map attr_media_id (map read_line audio) = Some \<lparr>mid_id = a\<rparr>"
      "find_map attr_ice_username (map read_line audio) = Some \<lparr>username = u\<rparr>"
      "find_map attr_ice_password (map read_line audio) = Some \<lparr>password = p\<rparr>"
      "find_map attr_is_passive (map read_line audio) = Some False"
    and first_video: "find_map attr_media_id (map read_line video) = Some \<lparr>mid_id = v\<rparr>"
      "find_map attr_ice_username (map read_line video) = Some \<lparr>username = u\<rparr>"
      "find_map attr_ice_password (map read_line video) = Some \<lparr>password = p\<rparr>"
      "find_map attr_is_passive (map read_line video) = Some False"
    and flags: "{''a=rtcp-mux'', ''a=recvonly''} \<subseteq> set audio" "{''a=rtcp-mux'', ''a=recvonly''} \<subseteq> set video"
    and audio_codec: "maps_codec (map read_line audio) (AudioCodec Opus) audio_pn"
    and video_codec: "maps_codec (map read_line video) (VideoCodec H264) video_pn" "has_format (map read_line video) video_pn caps"
begin

lemma parsed:
  "get_sdp (crlf_text (session @ audio @ video)) = Inr \<lparr>session_section = map read_line session,
     video_section = map read_line video, audio_section = map read_line audio\<rparr>"
proof -
  have "collect_res sdp_line_try_from (session @ audio @ video)
      = Inr (map read_line session @ map read_line audio @ map read_line video)"
    using session_text(2) audio_text video_text by (intro collect_res_append collect_readable) (simp_all add: media_text_def)
  moreover have "well_sectioned \<lparr>session_section = map read_line session,
     video_section = map read_line video, audio_section = map read_line audio\<rparr>"
    using session_text(4) no_media_read [OF session_text(3)] media_text_lines [OF audio_text] media_text_lines [OF video_text]
    by (simp add: well_sectioned_def session_head_def)
  moreover have "test_lines (session @ audio @ video)"
    using session_text(1) audio_text video_text by (simp add: test_lines_append media_text_def)
  ultimately show ?thesis by (simp add: get_sdp_crlf_text sections_of_iff)
qed

lemma fits:
  assumes "as_codec (audio_session str) = Opus" "vs_codec (video_session str) = H264"
    "vs_capabilities (video_session str) = caps"
  shows "viewer_acceptable str \<lparr>session_section = map read_line session,
     video_section = map read_line video, audio_section = map read_line audio\<rparr>"
proof -
  have "AttributeLine RTCPMux \<in> set (map read_line audio)" "AttributeLine ReceiveOnly \<in> set (map read_line audio)"
    "AttributeLine RTCPMux \<in> set (map read_line video)" "AttributeLine ReceiveOnly \<in> set (map read_line video)"
    using flags read_line_in [OF _ flag_lines(3)] read_line_in [OF _ flag_lines(2)] by (simp_all del: set_map)
  then show ?thesis
    using assms group first_audio first_video audio_codec video_codec
    by (auto simp: viewer_acceptable_def mids_match_def credentials_given_def simp del: find_map_None set_map)
qed

lemma accepted:
  assumes "as_codec (audio_session str) = Opus" "vs_codec (video_session str) = H264"
    "vs_capabilities (video_session str) = caps"
  shows "\<exists>ns. accept_viewer_offer self rnd (crlf_text (session @ audio @ video)) str = Inr ns"
  using viewer_acceptable_iff fits [OF assms] parsed
  by (simp add: accept_viewer_offer_def is_ok_ex)

end

text \<open>The four offers of the tests.\<close>

abbreviation test_caps :: "string set" where
  "test_caps \<equiv> {''profile-level-id=42e01f'', ''packetization-mode=1'', ''level-asymmetry-allowed=1''}"

lemmas line_reader_defs = read_line_def literal_reader_defs

lemma firefox_session_text:
  "test_lines firefox_session_lines" "readable firefox_session_lines" "list_all (\<lambda>l. take 2 l \<noteq> ''m='') firefox_session_lines"
  "session_head (map read_line firefox_session_lines)"
  "find_map attr_bundle (map read_line firefox_session_lines) = Some [''0'', ''1'']"
  by (simp_all add: firefox_session_lines_def test_lines_def readable_def session_head_def line_reader_defs)

lemma firefox_audio_text: "media_text Audio firefox_audio_lines"
  unfolding media_text_def
  by (intro conjI) (simp_all add: firefox_audio_lines_def test_lines_def readable_def line_reader_defs)

lemma firefox_first_audio:
  "find_map attr_media_id (map read_line firefox_audio_lines) = Some \<lparr>mid_id = ''0''\<rparr>"
  "find_map attr_ice_username (map read_line firefox_audio_lines) = Some \<lparr>username = ''d1427639''\<rparr>"
  "find_map attr_ice_password (map read_line firefox_audio_lines) = Some \<lparr>password = ''b0a8e5ab619c83b32932d8121a6246bd''\<rparr>"
  by (rule find_map_first [where n = 11], simp add: firefox_audio_lines_def line_reader_defs)+

lemma firefox_setup_audio: "find_map attr_is_passive (map read_line firefox_audio_lines) = Some False"
  by (rule find_map_first [where n = 18]) (simp add: firefox_audio_lines_def line_reader_defs)

lemma firefox_video_text: "media_text Video firefox_video_lines"
  unfolding media_text_def
  by (intro conjI) (simp_all add: firefox_video_lines_def test_lines_def readable_def line_reader_defs)

lemma firefox_first_video:
  "find_map attr_media_id (map read_line firefox_video_lines) = Some \<lparr>mid_id = ''1''\<rparr>"
  "find_map attr_ice_username (map read_line firefox_video_lines) = Some \<lparr>username = ''d1427639''\<rparr>"
  "find_map attr_ice_password (map read_line firefox_video_lines) = Some \<lparr>password = ''b0a8e5ab619c83b32932d8121a6246bd''\<rparr>"
  by (rule find_map_first [where n = 18], simp add: firefox_video_lines_def line_reader_defs)+

lemma firefox_setup_video: "find_map attr_is_passive (map read_line firefox_video_lines) = Some False"
  by (rule find_map_first [where n = 55]) (simp add: firefox_video_lines_def line_reader_defs)

lemma firefox_in:
  "{''a=rtcp-mux'', ''a=recvonly'', ''a=rtpmap:109 opus/48000/2''} \<subseteq> set firefox_audio_lines"
  "{''a=rtcp-mux'', ''a=recvonly'', ''a=rtpmap:126 H264/90000'', ''a=fmtp:126 profile-level-id=42e01f;level-asymmetry-allowed=1;packetization-mode=1''} \<subseteq> set firefox_video_lines"
  by (simp_all add: firefox_audio_lines_def firefox_video_lines_def)

lemma firefox_codecs:
  "maps_codec (map read_line firefox_audio_lines) (AudioCodec Opus) 109"
  "maps_codec (map read_line firefox_video_lines) (VideoCodec H264) 126"
  "has_format (map read_line firefox_video_lines) 126 test_caps"
  unfolding maps_codec_def has_format_def using firefox_in
    read_line_in [of "''a=rtpmap:109 opus/48000/2''"] read_line_in [of "''a=rtpmap:126 H264/90000''"]
    read_line_in [of "''a=fmtp:126 profile-level-id=42e01f;level-asymmetry-allowed=1;packetization-mode=1''"]
  by (simp_all add: literal_reader_defs insert_commute del: set_map)

lemma chrome_session_text:
  "test_lines chrome_session_lines" "readable chrome_session_lines" "list_all (\<lambda>l. take 2 l \<noteq> ''m='') chrome_session_lines"
  "session_head (map read_line chrome_session_lines)"
  "find_map attr_bundle (map read_line chrome_session_lines) = Some [''0'', ''1'']"
  by (simp_all add: chrome_session_lines_def test_lines_def readable_def session_head_def line_reader_defs)

lemma chrome_audio_text: "media_text Audio chrome_audio_lines"
  unfolding media_text_def
  by (intro conjI) (simp_all add: chrome_audio_lines_def test_lines_def readable_def line_reader_defs)

lemma chrome_first_audio:
  "find_map attr_media_id (map read_line chrome_audio_lines) = Some \<lparr>mid_id = ''0''\<rparr>"
  "find_map attr_ice_username (map read_line chrome_audio_lines) = Some \<lparr>username = ''QD6R''\<rparr>"
  "find_map attr_ice_password (map read_line chrome_audio_lines) = Some \<lparr>password = ''PWMuciTb4wn9UaevikffgsO1''\<rparr>"
  by (rule find_map_first [where n = 9], simp add: chrome_audio_lines_def line_reader_defs)+

lemma chrome_setup_audio: "find_map attr_is_passive (map read_line chrome_audio_lines) = Some False"
  by (rule find_map_first [where n = 8]) (simp add: chrome_audio_lines_def line_reader_defs)

lemma chrome_video_readable: "readable (take 80 chrome_video_lines)" "readable (drop 80 chrome_video_lines)"
  subgoal by (simp add: chrome_video_lines_def readable_def line_reader_defs)
  subgoal by (simp add: chrome_video_lines_def readable_def line_reader_defs)
  done

lemma chrome_video_text: "media_text Video chrome_video_lines"
  unfolding media_text_def using readable_parts [OF chrome_video_readable]
  by (intro conjI) (simp_all add: chrome_video_lines_def test_lines_def line_reader_defs)

lemma chrome_first_video:
  "find_map attr_media_id (map read_line chrome_video_lines) = Some \<lparr>mid_id = ''1''\<rparr>"
  "find_map attr_ice_username (map read_line chrome_video_lines) = Some \<lparr>username = ''QD6R''\<rparr>"
  "find_map attr_ice_password (map read_line chrome_video_lines) = Some \<lparr>password = ''PWMuciTb4wn9UaevikffgsO1''\<rparr>"
  by (rule find_map_first [where n = 9], simp add: chrome_video_lines_def line_reader_defs)+

lemma chrome_setup_video: "find_map attr_is_passive (map read_line chrome_video_lines) = Some False"
  by (rule find_map_first [where n = 8]) (simp add: chrome_video_lines_def line_reader_defs)

lemma chrome_in:
  "{''a=rtcp-mux'', ''a=recvonly'', ''a=rtpmap:111 opus/48000/2''} \<subseteq> set chrome_audio_lines"
  "{''a=rtcp-mux'', ''a=recvonly'', ''a=rtpmap:106 H264/90000'', ''a=fmtp:106 level-asymmetry-allowed=1;packetization-mode=1;profile-level-id=42e01f''} \<subseteq> set chrome_video_lines"
  by (simp_all add: chrome_audio_lines_def chrome_video_lines_def)

lemma chrome_codecs:
  "maps_codec (map read_line chrome_audio_lines) (AudioCodec Opus) 111"
  "maps_codec (map read_line chrome_video_lines) (VideoCodec H264) 106"
  "has_format (map read_line chrome_video_lines) 106 test_caps"
  unfolding maps_codec_def has_format_def using chrome_in
    read_line_in [of "''a=rtpmap:111 opus/48000/2''"] read_line_in [of "''a=rtpmap:106 H264/90000''"]
    read_line_in [of "''a=fmtp:106 level-asymmetry-allowed=1;packetization-mode=1;profile-level-id=42e01f''"]
  by (simp_all add: literal_reader_defs insert_commute del: set_map)

lemma valid_viewer_session_text:
  "test_lines valid_viewer_session_lines" "readable valid_viewer_session_lines" "list_all (\<lambda>l. take 2 l \<noteq> ''m='') valid_viewer_session_lines"
  "session_head (map read_line valid_viewer_session_lines)"
  "find_map attr_bundle (map read_line valid_viewer_session_lines) = Some [''0'', ''1'']"
  by (simp_all add: valid_viewer_session_lines_def test_lines_def readable_def session_head_def line_reader_defs)

lemma valid_viewer_audio_text: "media_text Audio valid_viewer_audio_lines"
  unfolding media_text_def
  by (intro conjI) (simp_all add: valid_viewer_audio_lines_def test_lines_def readable_def line_reader_defs)

lemma valid_viewer_first_audio:
  "find_map attr_media_id (map read_line valid_viewer_audio_lines) = Some \<lparr>mid_id = ''0''\<rparr>"
  "find_map attr_ice_username (map read_line valid_viewer_audio_lines) = Some \<lparr>username = ''aedfe975''\<rparr>"
  "find_map attr_ice_password (map read_line valid_viewer_audio_lines) = Some \<lparr>password = ''07393aecfec48f9ca7f41cc50d366ad9''\<rparr>"
  by (rule find_map_first [where n = 11], simp add: valid_viewer_audio_lines_def line_reader_defs)+

lemma valid_viewer_setup_audio: "find_map attr_is_passive (map read_line valid_viewer_audio_lines) = Some False"
  by (rule find_map_first [where n = 18]) (simp add: valid_viewer_audio_lines_def line_reader_defs)

lemma valid_viewer_video_text: "media_text Video valid_viewer_video_lines"
  unfolding media_text_def
  by (intro conjI) (simp_all add: valid_viewer_video_lines_def test_lines_def readable_def line_reader_defs)

lemma valid_viewer_first_video:
  "find_map attr_media_id (map read_line valid_viewer_video_lines) = Some \<lparr>mid_id = ''1''\<rparr>"
  "find_map attr_ice_username (map read_line valid_viewer_video_lines) = Some \<lparr>username = ''aedfe975''\<rparr>"
  "find_map attr_ice_password (map read_line valid_viewer_video_lines) = Some \<lparr>password = ''07393aecfec48f9ca7f41cc50d366ad9''\<rparr>"
  by (rule find_map_first [where n = 18], simp add: valid_viewer_video_lines_def line_reader_defs)+

lemma valid_viewer_setup_video: "find_map attr_is_passive (map read_line valid_viewer_video_lines) = Some False"
  by (rule find_map_first [where n = 55]) (simp add: valid_viewer_video_lines_def line_reader_defs)

lemma valid_viewer_in:
  "{''a=rtcp-mux'', ''a=recvonly'', ''a=rtpmap:106 opus/48000/2''} \<subseteq> set valid_viewer_audio_lines"
  "{''a=rtcp-mux'', ''a=recvonly'', ''a=rtpmap:126 H264/90000'', ''a=fmtp:126 profile-level-id=42e01f;level-asymmetry-allowed=1;packetization-mode=1''} \<subseteq> set valid_viewer_video_lines"
  by (simp_all add: valid_viewer_audio_lines_def valid_viewer_video_lines_def)

lemma valid_viewer_codecs:
  "maps_codec (map read_line valid_viewer_audio_lines) (AudioCodec Opus) 106"
  "maps_codec (map read_line valid_viewer_video_lines) (VideoCodec H264) 126"
  "has_format (map read_line valid_viewer_video_lines) 126 test_caps"
  unfolding maps_codec_def has_format_def using valid_viewer_in
    read_line_in [of "''a=rtpmap:106 opus/48000/2''"] read_line_in [of "''a=rtpmap:126 H264/90000''"]
    read_line_in [of "''a=fmtp:126 profile-level-id=42e01f;level-asymmetry-allowed=1;packetization-mode=1''"]
  by (simp_all add: literal_reader_defs insert_commute del: set_map)

lemma viewer_missing_ssrc_session_text:
  "test_lines viewer_missing_ssrc_session_lines" "readable viewer_missing_ssrc_session_lines" "list_all (\<lambda>l. take 2 l \<noteq> ''m='') viewer_missing_ssrc_session_lines"
  "session_head (map read_line viewer_missing_ssrc_session_lines)"
  "find_map attr_bundle (map read_line viewer_missing_ssrc_session_lines) = Some [''0'', ''1'']"
  by (simp_all add: viewer_missing_ssrc_session_lines_def test_lines_def readable_def session_head_def line_reader_defs)

lemma viewer_missing_ssrc_audio_text: "media_text Audio viewer_missing_ssrc_audio_lines"
  unfolding media_text_def
  by (intro conjI) (simp_all add: viewer_missing_ssrc_audio_lines_def test_lines_def readable_def line_reader_defs)

lemma viewer_missing_ssrc_first_audio:
  "find_map attr_media_id (map read_line viewer_missing_ssrc_audio_lines) = Some \<lparr>mid_id = ''0''\<rparr>"
  "find_map attr_ice_username (map read_line viewer_missing_ssrc_audio_lines) = Some \<lparr>username = ''aedfe975''\<rparr>"
  "find_map attr_ice_password (map read_line viewer_missing_ssrc_audio_lines) = Some \<lparr>password = ''07393aecfec48f9ca7f41cc50d366ad9''\<rparr>"
  by (rule find_map_first [where n = 11], simp add: viewer_missing_ssrc_audio_lines_def line_reader_defs)+

lemma viewer_missing_ssrc_setup_audio: "find_map attr_is_passive (map read_line viewer_missing_ssrc_audio_lines) = Some False"
  by (rule find_map_first [where n = 18]) (simp add: viewer_missing_ssrc_audio_lines_def line_reader_defs)

lemma viewer_missing_ssrc_video_text: "media_text Video viewer_missing_ssrc_video_lines"
  unfolding media_text_def
  by (intro conjI) (simp_all add: viewer_missing_ssrc_video_lines_def test_lines_def readable_def line_reader_defs)

lemma viewer_missing_ssrc_first_video:
  "find_map attr_media_id (map read_line viewer_missing_ssrc_video_lines) = Some \<lparr>mid_id = ''1''\<rparr>"
  "find_map attr_ice_username (map read_line viewer_missing_ssrc_video_lines) = Some \<lparr>username = ''aedfe975''\<rparr>"
  "find_map attr_ice_password (map read_line viewer_missing_ssrc_video_lines) = Some \<lparr>password = ''07393aecfec48f9ca7f41cc50d366ad9''\<rparr>"
  by (rule find_map_first [where n = 18], simp add: viewer_missing_ssrc_video_lines_def line_reader_defs)+

lemma viewer_missing_ssrc_setup_video: "find_map attr_is_passive (map read_line viewer_missing_ssrc_video_lines) = Some False"
  by (rule find_map_first [where n = 55]) (simp add: viewer_missing_ssrc_video_lines_def line_reader_defs)

lemma viewer_missing_ssrc_in:
  "{''a=rtcp-mux'', ''a=recvonly'', ''a=rtpmap:111 opus/48000/2''} \<subseteq> set viewer_missing_ssrc_audio_lines"
  "{''a=rtcp-mux'', ''a=recvonly'', ''a=rtpmap:106 H264/90000'', ''a=fmtp:106 profile-level-id=42e01f;level-asymmetry-allowed=1;packetization-mode=1''} \<subseteq> set viewer_missing_ssrc_video_lines"
  by (simp_all add: viewer_missing_ssrc_audio_lines_def viewer_missing_ssrc_video_lines_def)

lemma viewer_missing_ssrc_codecs:
  "maps_codec (map read_line viewer_missing_ssrc_audio_lines) (AudioCodec Opus) 111"
  "maps_codec (map read_line viewer_missing_ssrc_video_lines) (VideoCodec H264) 106"
  "has_format (map read_line viewer_missing_ssrc_video_lines) 106 test_caps"
  unfolding maps_codec_def has_format_def using viewer_missing_ssrc_in
    read_line_in [of "''a=rtpmap:111 opus/48000/2''"] read_line_in [of "''a=rtpmap:106 H264/90000''"]
    read_line_in [of "''a=fmtp:106 profile-level-id=42e01f;level-asymmetry-allowed=1;packetization-mode=1''"]
  by (simp_all add: literal_reader_defs insert_commute del: set_map)

interpretation firefox_offer: viewer_offer_lines firefox_session_lines firefox_audio_lines firefox_video_lines
  "''0''" "''1''" "''d1427639''" "''b0a8e5ab619c83b32932d8121a6246bd''" 109 126 test_caps
  using firefox_in
  by unfold_locales (simp_all add: firefox_session_text firefox_audio_text firefox_video_text firefox_first_audio firefox_first_video
    firefox_setup_audio firefox_setup_video firefox_codecs)

interpretation chrome_offer: viewer_offer_lines chrome_session_lines chrome_audio_lines chrome_video_lines
  "''0''" "''1''" "''QD6R''" "''PWMuciTb4wn9UaevikffgsO1''" 111 106 test_caps
  using chrome_in
  by unfold_locales (simp_all add: chrome_session_text chrome_audio_text chrome_video_text chrome_first_audio chrome_first_video
    chrome_setup_audio chrome_setup_video chrome_codecs)

interpretation valid_viewer_offer: viewer_offer_lines valid_viewer_session_lines valid_viewer_audio_lines valid_viewer_video_lines
  "''0''" "''1''" "''aedfe975''" "''07393aecfec48f9ca7f41cc50d366ad9''" 106 126 test_caps
  using valid_viewer_in
  by unfold_locales (simp_all add: valid_viewer_session_text valid_viewer_audio_text valid_viewer_video_text valid_viewer_first_audio valid_viewer_first_video
    valid_viewer_setup_audio valid_viewer_setup_video valid_viewer_codecs)

interpretation viewer_missing_ssrc_offer: viewer_offer_lines viewer_missing_ssrc_session_lines viewer_missing_ssrc_audio_lines viewer_missing_ssrc_video_lines
  "''0''" "''1''" "''aedfe975''" "''07393aecfec48f9ca7f41cc50d366ad9''" 111 106 test_caps
  using viewer_missing_ssrc_in
  by unfold_locales (simp_all add: viewer_missing_ssrc_session_text viewer_missing_ssrc_audio_text viewer_missing_ssrc_video_text viewer_missing_ssrc_first_audio viewer_missing_ssrc_first_video
    viewer_missing_ssrc_setup_audio viewer_missing_ssrc_setup_video viewer_missing_ssrc_codecs)

text \<open>The sessions two of the tests compare, worked out line by line.\<close>

lemma valid_viewer_sessions:
  "as_codec str = Opus \<Longrightarrow> get_viewer_audio_session r (map read_line valid_viewer_audio_lines) str
     = Inr \<lparr>as_codec = Opus, as_payload_number = 106, as_host_ssrc = r, as_remote_ssrc = Some 455694368\<rparr>"
  "vs_codec str' = H264 \<Longrightarrow> vs_capabilities str' = test_caps \<Longrightarrow>
     get_viewer_video_session r (map read_line valid_viewer_video_lines) str'
     = Inr \<lparr>vs_codec = H264, vs_payload_number = 126, vs_host_ssrc = r, vs_remote_ssrc = Some 3804541430,
            vs_capabilities = test_caps\<rparr>"
  subgoal by (simp add: get_viewer_audio_session_def valid_viewer_audio_lines_def line_reader_defs)
  subgoal by (simp add: get_viewer_video_session_def valid_viewer_video_lines_def line_reader_defs Let_def insert_eq_insert)
  done

lemma viewer_missing_ssrc_sessions:
  "as_codec str = Opus \<Longrightarrow> get_viewer_audio_session r (map read_line viewer_missing_ssrc_audio_lines) str
     = Inr \<lparr>as_codec = Opus, as_payload_number = 111, as_host_ssrc = r, as_remote_ssrc = None\<rparr>"
  "vs_codec str' = H264 \<Longrightarrow> vs_capabilities str' = test_caps \<Longrightarrow>
     get_viewer_video_session r (map read_line viewer_missing_ssrc_video_lines) str'
     = Inr \<lparr>vs_codec = H264, vs_payload_number = 106, vs_host_ssrc = r, vs_remote_ssrc = None,
            vs_capabilities = test_caps\<rparr>"
  subgoal by (simp add: get_viewer_audio_session_def viewer_missing_ssrc_audio_lines_def line_reader_defs)
  subgoal by (simp add: get_viewer_video_session_def viewer_missing_ssrc_video_lines_def line_reader_defs Let_def insert_eq_insert)
  done

lemma viewer_negotiated:
  assumes "test_streamer str"
  shows "\<exists>ns. accept_viewer_offer self rnd (crlf_text valid_viewer_lines) str = Inr ns
     \<and> remote_username (ice_credentials ns) = ''aedfe975''
     \<and> remote_password (ice_credentials ns) = ''07393aecfec48f9ca7f41cc50d366ad9''
     \<and> audio_session ns = \<lparr>as_codec = Opus, as_payload_number = 106, as_host_ssrc = rnd_audio_ssrc rnd,
          as_remote_ssrc = Some 455694368\<rparr>
     \<and> video_session ns = \<lparr>vs_codec = H264, vs_payload_number = 126, vs_host_ssrc = rnd_video_ssrc rnd,
          vs_remote_ssrc = Some 3804541430, vs_capabilities = test_caps\<rparr>
     \<and> sdp_answer ns = answer_sdp SendOnly self \<lparr>mid_id = ''0''\<rparr> \<lparr>mid_id = ''1''\<rparr>
          (ice_credentials ns) (audio_session ns) (video_session ns)"
  using assms
  by (simp add: accept_viewer_offer_def valid_viewer_lines_def valid_viewer_offer.parsed parse_viewer_offer_def
      get_media_ids_def get_ice_credentials_def nth_or_def Let_def valid_viewer_session_text valid_viewer_first_audio
      valid_viewer_first_video valid_viewer_sessions test_streamer_def answer_sdp_def del: find_map_None list.map)

lemma viewer_missing_ssrc_accepted:
  assumes "test_streamer str"
  shows "\<exists>ns. accept_viewer_offer self rnd (crlf_text viewer_missing_ssrc_lines) str = Inr ns
     \<and> as_remote_ssrc (audio_session ns) = None \<and> vs_remote_ssrc (video_session ns) = None"
  using assms
  by (simp add: accept_viewer_offer_def viewer_missing_ssrc_lines_def viewer_missing_ssrc_offer.parsed parse_viewer_offer_def
      get_media_ids_def get_ice_credentials_def nth_or_def Let_def viewer_missing_ssrc_session_text
      viewer_missing_ssrc_first_audio viewer_missing_ssrc_first_video viewer_missing_ssrc_sessions test_streamer_def
      del: find_map_None list.map)

lemma browsers_accepted:
  assumes "test_streamer str"
  shows "\<exists>ns. accept_viewer_offer self rnd (crlf_text firefox_lines) str = Inr ns"
    "\<exists>ns. accept_viewer_offer self rnd (crlf_text chrome_lines) str = Inr ns"
  using assms firefox_offer.accepted chrome_offer.accepted
  by (simp_all add: test_streamer_def firefox_lines_def chrome_lines_def)

section \<open>The suites\<close>

lemma show_nat_literals:
  "show_nat (Suc 0) = ''1''" "show_nat 96 = ''96''" "show_nat 106 = ''106''" "show_nat 111 = ''111''"
  "show_nat 126 = ''126''" "show_nat 127 = ''127''" "show_nat 52000 = ''52000''" "show_nat 2015363327 = ''2015363327''"
  by (simp_all add: show_nat.simps digit_def char_of_eq_iff)

lemma show_loopback: "show_ip (V4 (rd32 127 0 0 1)) = ''127.0.0.1''"
  by (simp add: show_ipv4_alt rd32_def show_nat_0 show_nat_literals)

lemma test_answer_text:
  "answer_text iter d test_resolver \<lparr>mid_id = ''0''\<rparr> \<lparr>mid_id = ''1''\<rparr> ns = crlf_text [
     ''v=0'', ''o=SMID 3767197920 0 IN IP4 127.0.0.1'', ''s=SMID'', ''t=0 0'', ''a=group:BUNDLE 0 1'',
     ''a=ice-ufrag:'' @ host_username (ice_credentials ns), ''a=ice-pwd:'' @ host_password (ice_credentials ns),
     ''a=ice-options:ice2'', ''a=ice-lite'', ''a=fingerprint:'' @ EXPECTED_FINGERPRINT, ''a=setup:passive'',
     ''m=audio 52000 UDP/TLS/RTP/SAVPF '' @ show_nat (as_payload_number (audio_session ns)),
     ''c=IN IP4 127.0.0.1'', ''a='' @ d, ''a=rtcp-mux'', ''a=mid:0'',
     ''a=candidate:1 1 UDP 2015363327 127.0.0.1 52000 typ host'', ''a=end-of-candidates'',
     ''a=rtpmap:'' @ show_nat (as_payload_number (audio_session ns)) @ '' opus/48000/2'',
     ''a=ssrc:'' @ show_nat (unat (as_host_ssrc (audio_session ns))) @ '' cname:SMID'',
     ''m=video 52000 UDP/TLS/RTP/SAVPF '' @ show_nat (vs_payload_number (video_session ns)),
     ''c=IN IP4 127.0.0.1'', ''a='' @ d, ''a=rtcp-mux'', ''a=mid:1'',
     ''a=rtpmap:'' @ show_nat (vs_payload_number (video_session ns)) @ '' h264/90000'',
     ''a=ssrc:'' @ show_nat (unat (vs_host_ssrc (video_session ns))) @ '' cname:SMID'',
     ''a=fmtp:'' @ show_nat (vs_payload_number (video_session ns)) @ '' ''
       @ join '';'' (iter (vs_capabilities (video_session ns)))]"
  by (simp add: answer_text_def answer_session_lines_def answer_audio_lines_def answer_video_lines_def
      Let_def test_resolver_def EXPECTED_FINGERPRINT_def show_nat_literals show_loopback [simplified])

lemma test_resolver_sha256: "hash_function (res_fingerprint test_resolver) = SHA256"
  by (simp add: test_resolver_def)

lemma streamer_text_test: "streamer_offer_resolves_valid_sdp iter rnd"
proof -
  obtain ns where ns: "accept_stream_offer test_resolver rnd VALID_SDP = Inr ns"
      "remote_username (ice_credentials ns) = ''E2Fr''" "remote_password (ice_credentials ns) = ''OpQzg1PAwUdeOB244chlgd''"
      "audio_session ns = \<lparr>as_codec = Opus, as_payload_number = 111, as_host_ssrc = rnd_audio_ssrc rnd,
          as_remote_ssrc = Some 1349455989\<rparr>"
      "video_session ns = \<lparr>vs_codec = H264, vs_payload_number = 96, vs_host_ssrc = rnd_video_ssrc rnd,
          vs_remote_ssrc = Some 1349455990, vs_capabilities =
            {''profile-level-id=42e01f'', ''packetization-mode=1'', ''level-asymmetry-allowed=1''}\<rparr>"
      "sdp_answer ns = answer_sdp ReceiveOnly test_resolver \<lparr>mid_id = ''0''\<rparr> \<lparr>mid_id = ''1''\<rparr>
          (ice_credentials ns) (audio_session ns) (video_session ns)"
    using streamer_negotiated [of test_resolver rnd] by blast
  note printed = answer_printed [OF test_resolver_sha256 attribute_name.simps(3) ns(6), of iter]
  show ?thesis
    unfolding streamer_offer_resolves_valid_sdp_def init_sdp_resolver_ok expect_def sum.case ns(1) printed test_answer_text
    by (simp add: ns(2-5) show_nat_literals)
qed

lemma viewer_text_test: "viewer_offer_resolves_valid_viewer_offer iter rnd rnd'"
proof -
  obtain str where str: "accept_stream_offer test_resolver rnd VALID_SDP = Inr str" "test_streamer str"
    using streamer_negotiated [of test_resolver rnd] by (auto simp: test_streamer_def)
  obtain ns where ns: "accept_viewer_offer test_resolver rnd' (crlf_text valid_viewer_lines) str = Inr ns"
      "remote_username (ice_credentials ns) = ''aedfe975''"
      "remote_password (ice_credentials ns) = ''07393aecfec48f9ca7f41cc50d366ad9''"
      "audio_session ns = \<lparr>as_codec = Opus, as_payload_number = 106, as_host_ssrc = rnd_audio_ssrc rnd',
          as_remote_ssrc = Some 455694368\<rparr>"
      "video_session ns = \<lparr>vs_codec = H264, vs_payload_number = 126, vs_host_ssrc = rnd_video_ssrc rnd',
          vs_remote_ssrc = Some 3804541430, vs_capabilities = test_caps\<rparr>"
      "sdp_answer ns = answer_sdp SendOnly test_resolver \<lparr>mid_id = ''0''\<rparr> \<lparr>mid_id = ''1''\<rparr>
          (ice_credentials ns) (audio_session ns) (video_session ns)"
    using viewer_negotiated [OF str(2), of test_resolver rnd'] by blast
  note printed = answer_printed [OF test_resolver_sha256 attribute_name.simps(2) ns(6), of iter]
  show ?thesis
    unfolding viewer_offer_resolves_valid_viewer_offer_def init_tests_def init_sdp_resolver_ok expect_def sum.case
      str(1) ns(1) printed test_answer_text
    using str(2) by (simp add: ns(2-5) show_nat_literals test_streamer_def)
qed

lemma viewer_tests:
  "viewer_offer_rejects_offer_with_missing_ssrc rnd rnd'"
  "viewer_offer_resolves_browser_offers rnd rnd'"
proof -
  obtain str where str: "accept_stream_offer test_resolver rnd VALID_SDP = Inr str" "test_streamer str"
    using streamer_negotiated [of test_resolver rnd] by (auto simp: test_streamer_def)
  show "viewer_offer_rejects_offer_with_missing_ssrc rnd rnd'"
    using viewer_missing_ssrc_accepted [OF str(2), of test_resolver rnd'] str(1)
    by (auto simp: viewer_offer_rejects_offer_with_missing_ssrc_def init_tests_def init_sdp_resolver_ok expect_def)
  show "viewer_offer_resolves_browser_offers rnd rnd'"
    using browsers_accepted [OF str(2), of test_resolver rnd'] str(1)
    by (auto simp: viewer_offer_resolves_browser_offers_def EXAMPLE_BROWSER_OFFERS_def init_tests_def
        init_sdp_resolver_ok expect_def)
qed

end
