(* ===== verification/Sdp_Rejections.thy ===== *)
theory Sdp_Rejections
  imports Sdp_Integration
begin

text \<open>
  The integration tests of \<open>crates/sdp/tests\<close> that expect an offer to be rejected. They pass, but all
  for one reason: their \<open>ssrc\<close> lines have a number and nothing else, which the line parser refuses.
  With the source attribute added, each of the streamers' offers is still rejected, now by the check
  that the test is named after.
\<close>

section \<open>The tests\<close>

text \<open>The tests that expect a rejection. Their offers differ in a few lines from one that is accepted,
  and in the \<open>ssrc\<close> lines, which have no source attribute.\<close>

definition bare_ssrc :: "string list \<Rightarrow> string list" where
  "bare_ssrc ls = map (\<lambda>l. if take 7 l = ''a=ssrc:'' then takeWhile (\<lambda>c. c \<noteq> SP) l else l) ls"

definition swap_line :: "string \<Rightarrow> string \<Rightarrow> string list \<Rightarrow> string list" where
  "swap_line old new ls = map (\<lambda>l. if l = old then new else l) ls"

definition drop_lines :: "string list \<Rightarrow> string list \<Rightarrow> string list" where
  "drop_lines xs ls = filter (\<lambda>l. l \<notin> set xs) ls"

definition viewer_bare_ssrc_lines :: "string list" where
  "viewer_bare_ssrc_lines = take 27 viewer_missing_ssrc_lines @ [''a=ssrc:455694368'']
     @ drop 27 viewer_missing_ssrc_lines @ [''a=ssrc:3804541430'']"

definition streamer_rejects_sdp_with_unsupported_video_codecs_lines :: "string list" where
  "streamer_rejects_sdp_with_unsupported_video_codecs_lines =
     drop_lines [''a=setup:actpass'', ''a=rtpmap:97 v9/90000'']
       (swap_line ''m=video 52000 UDP/TLS/RTP/SAVPF 96 97'' ''m=video 52000 UDP/TLS/RTP/SAVPF 96''
       (swap_line ''a=rtpmap:96 h264/90000'' ''a=rtpmap:96 v9/90000'' (bare_ssrc multiple_codecs_lines)))"

definition streamer_rejects_invalid_direction_offer_lines :: "string list" where
  "streamer_rejects_invalid_direction_offer_lines =
     swap_line ''a=sendonly'' ''a=recvonly'' (bare_ssrc multiple_codecs_lines)"

definition streamer_rejects_non_demuxed_sdp_lines :: "string list" where
  "streamer_rejects_non_demuxed_sdp_lines =
     drop_lines [''a=rtcp-mux''] (bare_ssrc multiple_codecs_lines)"

definition streamer_rejects_non_bundled_media_lines :: "string list" where
  "streamer_rejects_non_bundled_media_lines =
     drop_lines [''a=group:BUNDLE 0 1'', ''a=mid:0'', ''a=mid:1''] (bare_ssrc multiple_codecs_lines)"

definition streamer_rejects_invalid_dtls_role_lines :: "string list" where
  "streamer_rejects_invalid_dtls_role_lines =
     [
       ''v=0'',
       ''o=smid 3767197920 0 IN IP4 127.0.0.1'',
       ''s=smid'',
       ''t=0 0'',
       ''a=group:BUNDLE 0 1'',
       ''a=ice-ufrag:username'',
       ''a=ice-pwd:password'',
       ''a=ice-options:ice2'',
       ''a=fingerprint:sha-256 EF:53:C9:F2:E0:A0:4F:1D:5E:99:4C:20:B8:D7:DE:21:3B:58:15:C4:E5:88:87:46:65:27:F7:3B:C6:DC:EF:3B'',
       ''a=setup:passive'',
       ''m=audio 52000 UDP/TLS/RTP/SAVPF 111'',
       ''c=IN IP4 127.0.0.1'',
       ''a=mid:0'',
       ''a=sendonly'',
       ''a=rtcp-mux'',
       ''a=candidate:1 1 UDP 2015363327 127.0.0.1 52000 typ host'',
       ''a=end-of-candidates'',
       ''a=rtpmap:111 opus/48000/2'',
       ''a=ssrc:2'',
       ''m=video 52000 UDP/TLS/RTP/SAVPF 96 97'',
       ''c=IN IP4 127.0.0.1'',
       ''a=mid:1'',
       ''a=sendonly'',
       ''a=rtcp-mux'',
       ''a=rtpmap:96 h264/90000'',
       ''a=rtpmap:97 v9/90000'',
       ''a=ssrc:1'',
       ''a=fmtp:96 profile-level-id=42e01f;packetization-mode=1;level-asymmetry-allowed=1'']"

definition streamer_rejects_invalid_formatted_sdp_lines :: "string list" where
  "streamer_rejects_invalid_formatted_sdp_lines =
     take 2 multiple_codecs_lines @ [''t=0 0'', ''s=smid''] @ drop 4 (bare_ssrc multiple_codecs_lines)"

definition streamer_rejects_offer_with_missing_video_fmtp_lines :: "string list" where
  "streamer_rejects_offer_with_missing_video_fmtp_lines =
     take 27 (bare_ssrc multiple_codecs_lines)"

definition streamer_rejects_media_with_missing_credentials_lines :: "string list" where
  "streamer_rejects_media_with_missing_credentials_lines =
     drop_lines [''a=ice-ufrag:username'', ''a=ice-pwd:password''] (bare_ssrc multiple_codecs_lines)"

definition viewer_rejects_offer_without_matching_video_codec_lines :: "string list" where
  "viewer_rejects_offer_without_matching_video_codec_lines =
     swap_line ''a=rtpmap:106 H264/90000'' ''a=rtpmap:106 VP8/90000'' viewer_bare_ssrc_lines"

definition viewer_rejects_offer_without_matching_video_fmtp_lines :: "string list" where
  "viewer_rejects_offer_without_matching_video_fmtp_lines =
     swap_line ''a=fmtp:106 profile-level-id=42e01f;level-asymmetry-allowed=1;packetization-mode=1''
       ''a=fmtp:106 profile-level-id=42e01f;level-asymmetry-allowed=0;packetization-mode=1'' viewer_bare_ssrc_lines"

definition viewer_rejects_offer_without_audio_codec_lines :: "string list" where
  "viewer_rejects_offer_without_audio_codec_lines =
     swap_line ''a=rtpmap:111 opus/48000/2'' ''a=rtpmap:111 G722/8000/1'' viewer_bare_ssrc_lines"

definition viewer_rejects_offer_with_invalid_media_direction_lines :: "string list" where
  "viewer_rejects_offer_with_invalid_media_direction_lines =
     swap_line ''a=recvonly'' ''a=sendonly'' viewer_bare_ssrc_lines"

definition viewer_rejects_offer_with_missing_ice_credentials_lines :: "string list" where
  "viewer_rejects_offer_with_missing_ice_credentials_lines =
     drop_lines [''a=ice-pwd:07393aecfec48f9ca7f41cc50d366ad9'', ''a=ice-ufrag:aedfe975'']
       viewer_bare_ssrc_lines"

definition viewer_rejects_non_demuxed_offer_lines :: "string list" where
  "viewer_rejects_non_demuxed_offer_lines =
     drop_lines [''a=rtcp-mux''] viewer_bare_ssrc_lines"

definition viewer_rejects_non_bundled_offer_lines :: "string list" where
  "viewer_rejects_non_bundled_offer_lines =
     drop_lines [''a=group:BUNDLE 0 1''] viewer_bare_ssrc_lines"

definition viewer_rejects_invalid_dtls_role_lines :: "string list" where
  "viewer_rejects_invalid_dtls_role_lines =
     take 5 viewer_bare_ssrc_lines @ take 4 (drop 6 viewer_bare_ssrc_lines) @ [''a=setup:passive'']
       @ take 20 (drop 10 viewer_bare_ssrc_lines) @ [''a=setup:passive''] @ drop 30 viewer_bare_ssrc_lines"

definition streamer_offer_rejects_sdp_with_unsupported_video_codecs :: "host_random \<Rightarrow> bool" where
  "streamer_offer_rejects_sdp_with_unsupported_video_codecs rnd =
     expect init_sdp_resolver (\<lambda>sdp_resolver.
       expect_err (accept_stream_offer sdp_resolver rnd (crlf_text streamer_rejects_sdp_with_unsupported_video_codecs_lines)))"

definition streamer_offer_rejects_invalid_direction_offer :: "host_random \<Rightarrow> bool" where
  "streamer_offer_rejects_invalid_direction_offer rnd =
     expect init_sdp_resolver (\<lambda>sdp_resolver.
       expect_err (accept_stream_offer sdp_resolver rnd (crlf_text streamer_rejects_invalid_direction_offer_lines)))"

definition streamer_offer_rejects_non_demuxed_sdp :: "host_random \<Rightarrow> bool" where
  "streamer_offer_rejects_non_demuxed_sdp rnd =
     expect init_sdp_resolver (\<lambda>sdp_resolver.
       expect_err (accept_stream_offer sdp_resolver rnd (crlf_text streamer_rejects_non_demuxed_sdp_lines)))"

definition streamer_offer_rejects_non_bundled_media :: "host_random \<Rightarrow> bool" where
  "streamer_offer_rejects_non_bundled_media rnd =
     expect init_sdp_resolver (\<lambda>sdp_resolver.
       expect_err (accept_stream_offer sdp_resolver rnd (crlf_text streamer_rejects_non_bundled_media_lines)))"

definition streamer_offer_rejects_invalid_dtls_role :: "host_random \<Rightarrow> bool" where
  "streamer_offer_rejects_invalid_dtls_role rnd =
     expect init_sdp_resolver (\<lambda>sdp_resolver.
       expect_err (accept_stream_offer sdp_resolver rnd (crlf_text streamer_rejects_invalid_dtls_role_lines)))"

definition streamer_offer_rejects_invalid_formatted_sdp :: "host_random \<Rightarrow> bool" where
  "streamer_offer_rejects_invalid_formatted_sdp rnd =
     expect init_sdp_resolver (\<lambda>sdp_resolver.
       expect_err (accept_stream_offer sdp_resolver rnd (crlf_text streamer_rejects_invalid_formatted_sdp_lines)))"

definition streamer_offer_rejects_offer_with_missing_video_fmtp :: "host_random \<Rightarrow> bool" where
  "streamer_offer_rejects_offer_with_missing_video_fmtp rnd =
     expect init_sdp_resolver (\<lambda>sdp_resolver.
       expect_err (accept_stream_offer sdp_resolver rnd (crlf_text streamer_rejects_offer_with_missing_video_fmtp_lines)))"

definition streamer_offer_rejects_media_with_missing_credentials :: "host_random \<Rightarrow> bool" where
  "streamer_offer_rejects_media_with_missing_credentials rnd =
     expect init_sdp_resolver (\<lambda>sdp_resolver.
       expect_err (accept_stream_offer sdp_resolver rnd (crlf_text streamer_rejects_media_with_missing_credentials_lines)))"

definition viewer_offer_rejects_offer_without_matching_video_codec :: "host_random \<Rightarrow> host_random \<Rightarrow> bool" where
  "viewer_offer_rejects_offer_without_matching_video_codec rnd rnd' =
     init_tests rnd (\<lambda>sdp_resolver streamer_session.
       expect_err (accept_viewer_offer sdp_resolver rnd' (crlf_text viewer_rejects_offer_without_matching_video_codec_lines) streamer_session))"

definition viewer_offer_rejects_offer_without_matching_video_fmtp :: "host_random \<Rightarrow> host_random \<Rightarrow> bool" where
  "viewer_offer_rejects_offer_without_matching_video_fmtp rnd rnd' =
     init_tests rnd (\<lambda>sdp_resolver streamer_session.
       expect_err (accept_viewer_offer sdp_resolver rnd' (crlf_text viewer_rejects_offer_without_matching_video_fmtp_lines) streamer_session))"

definition viewer_offer_rejects_offer_without_audio_codec :: "host_random \<Rightarrow> host_random \<Rightarrow> bool" where
  "viewer_offer_rejects_offer_without_audio_codec rnd rnd' =
     init_tests rnd (\<lambda>sdp_resolver streamer_session.
       expect_err (accept_viewer_offer sdp_resolver rnd' (crlf_text viewer_rejects_offer_without_audio_codec_lines) streamer_session))"

definition viewer_offer_rejects_offer_with_invalid_media_direction :: "host_random \<Rightarrow> host_random \<Rightarrow> bool" where
  "viewer_offer_rejects_offer_with_invalid_media_direction rnd rnd' =
     init_tests rnd (\<lambda>sdp_resolver streamer_session.
       expect_err (accept_viewer_offer sdp_resolver rnd' (crlf_text viewer_rejects_offer_with_invalid_media_direction_lines) streamer_session))"

definition viewer_offer_rejects_offer_with_missing_ice_credentials :: "host_random \<Rightarrow> host_random \<Rightarrow> bool" where
  "viewer_offer_rejects_offer_with_missing_ice_credentials rnd rnd' =
     init_tests rnd (\<lambda>sdp_resolver streamer_session.
       expect_err (accept_viewer_offer sdp_resolver rnd' (crlf_text viewer_rejects_offer_with_missing_ice_credentials_lines) streamer_session))"

definition viewer_offer_rejects_non_demuxed_offer :: "host_random \<Rightarrow> host_random \<Rightarrow> bool" where
  "viewer_offer_rejects_non_demuxed_offer rnd rnd' =
     init_tests rnd (\<lambda>sdp_resolver streamer_session.
       expect_err (accept_viewer_offer sdp_resolver rnd' (crlf_text viewer_rejects_non_demuxed_offer_lines) streamer_session))"

definition viewer_offer_rejects_non_bundled_offer :: "host_random \<Rightarrow> host_random \<Rightarrow> bool" where
  "viewer_offer_rejects_non_bundled_offer rnd rnd' =
     init_tests rnd (\<lambda>sdp_resolver streamer_session.
       expect_err (accept_viewer_offer sdp_resolver rnd' (crlf_text viewer_rejects_non_bundled_offer_lines) streamer_session))"

definition viewer_offer_rejects_invalid_dtls_role :: "host_random \<Rightarrow> host_random \<Rightarrow> bool" where
  "viewer_offer_rejects_invalid_dtls_role rnd rnd' =
     init_tests rnd (\<lambda>sdp_resolver streamer_session.
       expect_err (accept_viewer_offer sdp_resolver rnd' (crlf_text viewer_rejects_invalid_dtls_role_lines) streamer_session))"

text \<open>The offers with the source attribute added.\<close>

definition with_cname :: "string list \<Rightarrow> string list" where
  "with_cname ls = map (\<lambda>l. if take 7 l = ''a=ssrc:'' then l @ '' cname:my-cname'' else l) ls"

section \<open>The tests hold of the model\<close>

lemma str_lines_crlf: "test_lines ls \<Longrightarrow> str_lines (crlf_text ls) = ls"
  by (auto simp: test_lines_def list_all_iff intro: str_lines_crlf_text)

lemma bare_ssrc_test:
  "test_lines ls \<Longrightarrow> ''a=ssrc:'' @ n \<in> set ls \<Longrightarrow> SP \<notin> set n \<Longrightarrow>
     expect_err (accept_stream_offer self rnd (crlf_text ls)) \<and> expect_err (accept_viewer_offer self rnd (crlf_text ls) str)"
  using bare_ssrc_refused [of n "crlf_text ls"] by (simp add: str_lines_crlf expect_err_def)

lemma test_lines_edits:
  "test_lines ls \<Longrightarrow> new \<noteq> [] \<Longrightarrow> LF \<notin> set new \<Longrightarrow> test_lines (swap_line old new ls)"
  "test_lines ls \<Longrightarrow> test_lines (drop_lines xs ls)"
  by (auto simp: test_lines_def swap_line_def drop_lines_def list_all_iff)

lemma test_lines_Nil: "test_lines []"
  by (simp add: test_lines_def)

lemma in_edits:
  "x \<in> set ls \<Longrightarrow> x \<noteq> old \<Longrightarrow> x \<in> set (swap_line old new ls)"
  "x \<in> set ls \<Longrightarrow> x \<notin> set xs \<Longrightarrow> x \<in> set (drop_lines xs ls)"
  by (force simp: swap_line_def, simp add: drop_lines_def)

lemmas streamer_rejecting_lines =
  streamer_rejects_sdp_with_unsupported_video_codecs_lines_def
  streamer_rejects_invalid_direction_offer_lines_def
  streamer_rejects_non_demuxed_sdp_lines_def
  streamer_rejects_non_bundled_media_lines_def
  streamer_rejects_invalid_dtls_role_lines_def
  streamer_rejects_invalid_formatted_sdp_lines_def
  streamer_rejects_offer_with_missing_video_fmtp_lines_def
  streamer_rejects_media_with_missing_credentials_lines_def

lemmas viewer_rejecting_lines =
  viewer_rejects_offer_without_matching_video_codec_lines_def
  viewer_rejects_offer_without_matching_video_fmtp_lines_def
  viewer_rejects_offer_without_audio_codec_lines_def
  viewer_rejects_offer_with_invalid_media_direction_lines_def
  viewer_rejects_offer_with_missing_ice_credentials_lines_def
  viewer_rejects_non_demuxed_offer_lines_def
  viewer_rejects_non_bundled_offer_lines_def
  viewer_rejects_invalid_dtls_role_lines_def

text \<open>Every offer has the bare line in it.\<close>

lemma streamer_base:
  "test_lines multiple_codecs_lines" "test_lines (bare_ssrc multiple_codecs_lines)"
  "''a=ssrc:2'' \<in> set (drop 4 (bare_ssrc multiple_codecs_lines))"
  "''a=ssrc:2'' \<in> set (take 27 (bare_ssrc multiple_codecs_lines))"
  by (simp_all add: bare_ssrc_def multiple_codecs_lines_def test_lines_def)

lemma viewer_base:
  "test_lines viewer_bare_ssrc_lines" "''a=ssrc:455694368'' \<in> set viewer_bare_ssrc_lines"
  "''a=ssrc:455694368'' \<in> set (take 20 (drop 10 viewer_bare_ssrc_lines))"
proof -
  have "test_lines viewer_missing_ssrc_lines"
    using viewer_missing_ssrc_audio_text viewer_missing_ssrc_video_text
    by (simp add: viewer_missing_ssrc_lines_def test_lines_append viewer_missing_ssrc_session_text media_text_def)
  then show "test_lines viewer_bare_ssrc_lines"
    by (simp add: viewer_bare_ssrc_lines_def test_lines_append test_lines_parts test_lines_Nil)
  have n: "length viewer_missing_ssrc_lines = 82"
    by (simp add: viewer_missing_ssrc_lines_def viewer_missing_ssrc_session_lines_def viewer_missing_ssrc_audio_lines_def
        viewer_missing_ssrc_video_lines_def)
  show "''a=ssrc:455694368'' \<in> set viewer_bare_ssrc_lines" by (simp add: viewer_bare_ssrc_lines_def)
  show "''a=ssrc:455694368'' \<in> set (take 20 (drop 10 viewer_bare_ssrc_lines))"
    using n by (simp add: viewer_bare_ssrc_lines_def)
qed

lemmas edit_lemmas = test_lines_edits test_lines_append test_lines_parts test_lines_Nil in_edits
  set_mp [OF set_drop_subset streamer_base(3)]

lemma streamer_refused_lines:
  "test_lines streamer_rejects_sdp_with_unsupported_video_codecs_lines \<and> ''a=ssrc:2'' \<in> set streamer_rejects_sdp_with_unsupported_video_codecs_lines"
  "test_lines streamer_rejects_invalid_direction_offer_lines \<and> ''a=ssrc:2'' \<in> set streamer_rejects_invalid_direction_offer_lines"
  "test_lines streamer_rejects_non_demuxed_sdp_lines \<and> ''a=ssrc:2'' \<in> set streamer_rejects_non_demuxed_sdp_lines"
  "test_lines streamer_rejects_non_bundled_media_lines \<and> ''a=ssrc:2'' \<in> set streamer_rejects_non_bundled_media_lines"
  "test_lines streamer_rejects_invalid_dtls_role_lines \<and> ''a=ssrc:2'' \<in> set streamer_rejects_invalid_dtls_role_lines"
  "test_lines streamer_rejects_invalid_formatted_sdp_lines \<and> ''a=ssrc:2'' \<in> set streamer_rejects_invalid_formatted_sdp_lines"
  "test_lines streamer_rejects_offer_with_missing_video_fmtp_lines \<and> ''a=ssrc:2'' \<in> set streamer_rejects_offer_with_missing_video_fmtp_lines"
  "test_lines streamer_rejects_media_with_missing_credentials_lines \<and> ''a=ssrc:2'' \<in> set streamer_rejects_media_with_missing_credentials_lines"
  by (simp_all add: streamer_rejecting_lines streamer_base edit_lemmas)

lemma viewer_refused_lines:
  "test_lines viewer_rejects_offer_without_matching_video_codec_lines \<and> ''a=ssrc:455694368'' \<in> set viewer_rejects_offer_without_matching_video_codec_lines"
  "test_lines viewer_rejects_offer_without_matching_video_fmtp_lines \<and> ''a=ssrc:455694368'' \<in> set viewer_rejects_offer_without_matching_video_fmtp_lines"
  "test_lines viewer_rejects_offer_without_audio_codec_lines \<and> ''a=ssrc:455694368'' \<in> set viewer_rejects_offer_without_audio_codec_lines"
  "test_lines viewer_rejects_offer_with_invalid_media_direction_lines \<and> ''a=ssrc:455694368'' \<in> set viewer_rejects_offer_with_invalid_media_direction_lines"
  "test_lines viewer_rejects_offer_with_missing_ice_credentials_lines \<and> ''a=ssrc:455694368'' \<in> set viewer_rejects_offer_with_missing_ice_credentials_lines"
  "test_lines viewer_rejects_non_demuxed_offer_lines \<and> ''a=ssrc:455694368'' \<in> set viewer_rejects_non_demuxed_offer_lines"
  "test_lines viewer_rejects_non_bundled_offer_lines \<and> ''a=ssrc:455694368'' \<in> set viewer_rejects_non_bundled_offer_lines"
  "test_lines viewer_rejects_invalid_dtls_role_lines \<and> ''a=ssrc:455694368'' \<in> set viewer_rejects_invalid_dtls_role_lines"
  by (simp_all add: viewer_rejecting_lines viewer_base edit_lemmas)

lemma streamer_rejecting_tests:
  "streamer_offer_rejects_sdp_with_unsupported_video_codecs rnd"
  "streamer_offer_rejects_invalid_direction_offer rnd"
  "streamer_offer_rejects_non_demuxed_sdp rnd"
  "streamer_offer_rejects_non_bundled_media rnd"
  "streamer_offer_rejects_invalid_dtls_role rnd"
  "streamer_offer_rejects_invalid_formatted_sdp rnd"
  "streamer_offer_rejects_offer_with_missing_video_fmtp rnd"
  "streamer_offer_rejects_media_with_missing_credentials rnd"
  using streamer_refused_lines [THEN conjunct1, THEN bare_ssrc_test [where n = "''2''"]] streamer_refused_lines
  by (simp_all add: streamer_offer_rejects_sdp_with_unsupported_video_codecs_def
    streamer_offer_rejects_invalid_direction_offer_def
    streamer_offer_rejects_non_demuxed_sdp_def
    streamer_offer_rejects_non_bundled_media_def
    streamer_offer_rejects_invalid_dtls_role_def
    streamer_offer_rejects_invalid_formatted_sdp_def
    streamer_offer_rejects_offer_with_missing_video_fmtp_def
    streamer_offer_rejects_media_with_missing_credentials_def
    init_sdp_resolver_ok expect_def)

lemma viewer_rejecting_tests:
  "viewer_offer_rejects_offer_without_matching_video_codec rnd rnd'"
  "viewer_offer_rejects_offer_without_matching_video_fmtp rnd rnd'"
  "viewer_offer_rejects_offer_without_audio_codec rnd rnd'"
  "viewer_offer_rejects_offer_with_invalid_media_direction rnd rnd'"
  "viewer_offer_rejects_offer_with_missing_ice_credentials rnd rnd'"
  "viewer_offer_rejects_non_demuxed_offer rnd rnd'"
  "viewer_offer_rejects_non_bundled_offer rnd rnd'"
  "viewer_offer_rejects_invalid_dtls_role rnd rnd'"
proof -
  obtain str where str: "accept_stream_offer test_resolver rnd VALID_SDP = Inr str"
    using streamer_negotiated [of test_resolver rnd] by blast
  note refused = viewer_refused_lines [THEN conjunct1, THEN bare_ssrc_test [where n = "''455694368''"]]
  show "viewer_offer_rejects_offer_without_matching_video_codec rnd rnd'"
    using refused(1) viewer_refused_lines(1) by (simp add: viewer_offer_rejects_offer_without_matching_video_codec_def init_tests_def init_sdp_resolver_ok expect_def str)
  show "viewer_offer_rejects_offer_without_matching_video_fmtp rnd rnd'"
    using refused(2) viewer_refused_lines(2) by (simp add: viewer_offer_rejects_offer_without_matching_video_fmtp_def init_tests_def init_sdp_resolver_ok expect_def str)
  show "viewer_offer_rejects_offer_without_audio_codec rnd rnd'"
    using refused(3) viewer_refused_lines(3) by (simp add: viewer_offer_rejects_offer_without_audio_codec_def init_tests_def init_sdp_resolver_ok expect_def str)
  show "viewer_offer_rejects_offer_with_invalid_media_direction rnd rnd'"
    using refused(4) viewer_refused_lines(4) by (simp add: viewer_offer_rejects_offer_with_invalid_media_direction_def init_tests_def init_sdp_resolver_ok expect_def str)
  show "viewer_offer_rejects_offer_with_missing_ice_credentials rnd rnd'"
    using refused(5) viewer_refused_lines(5) by (simp add: viewer_offer_rejects_offer_with_missing_ice_credentials_def init_tests_def init_sdp_resolver_ok expect_def str)
  show "viewer_offer_rejects_non_demuxed_offer rnd rnd'"
    using refused(6) viewer_refused_lines(6) by (simp add: viewer_offer_rejects_non_demuxed_offer_def init_tests_def init_sdp_resolver_ok expect_def str)
  show "viewer_offer_rejects_non_bundled_offer rnd rnd'"
    using refused(7) viewer_refused_lines(7) by (simp add: viewer_offer_rejects_non_bundled_offer_def init_tests_def init_sdp_resolver_ok expect_def str)
  show "viewer_offer_rejects_invalid_dtls_role rnd rnd'"
    using refused(8) viewer_refused_lines(8) by (simp add: viewer_offer_rejects_invalid_dtls_role_def init_tests_def init_sdp_resolver_ok expect_def str)
qed

section \<open>The offers with their \<open>ssrc\<close> lines repaired\<close>

lemma streamer_repaired_lines:
  "test_lines (with_cname streamer_rejects_sdp_with_unsupported_video_codecs_lines)"
  "test_lines (with_cname streamer_rejects_invalid_direction_offer_lines)"
  "test_lines (with_cname streamer_rejects_non_demuxed_sdp_lines)"
  "test_lines (with_cname streamer_rejects_non_bundled_media_lines)"
  "test_lines (with_cname streamer_rejects_invalid_dtls_role_lines)"
  "test_lines (with_cname streamer_rejects_invalid_formatted_sdp_lines)"
  "test_lines (with_cname streamer_rejects_offer_with_missing_video_fmtp_lines)"
  "test_lines (with_cname streamer_rejects_media_with_missing_credentials_lines)"
  by (simp_all add: streamer_rejecting_lines with_cname_def bare_ssrc_def multiple_codecs_lines_def swap_line_def drop_lines_def
      test_lines_def)

text \<open>Each of the offers is refused for the reason the test has in its name.\<close>

lemma streamer_repaired_rejected:
  "accept_stream_offer self rnd (crlf_text (with_cname streamer_rejects_sdp_with_unsupported_video_codecs_lines))
     = Inl UnsupportedMediaCodecs"
  "accept_stream_offer self rnd (crlf_text (with_cname streamer_rejects_invalid_direction_offer_lines))
     = Inl InvalidStreamDirection"
  "accept_stream_offer self rnd (crlf_text (with_cname streamer_rejects_non_demuxed_sdp_lines))
     = Inl DemuxRequired"
  "accept_stream_offer self rnd (crlf_text (with_cname streamer_rejects_non_bundled_media_lines))
     = Inl BundleRequired"
  "accept_stream_offer self rnd (crlf_text (with_cname streamer_rejects_invalid_dtls_role_lines))
     = Inl InvalidDTLSRole"
  "accept_stream_offer self rnd (crlf_text (with_cname streamer_rejects_invalid_formatted_sdp_lines))
     = Inl SequenceError"
  "accept_stream_offer self rnd (crlf_text (with_cname streamer_rejects_offer_with_missing_video_fmtp_lines))
     = Inl MissingVideoCapabilities"
  "accept_stream_offer self rnd (crlf_text (with_cname streamer_rejects_media_with_missing_credentials_lines))
     = Inl MissingICECredentials"
proof -
  note defs = with_cname_def bare_ssrc_def multiple_codecs_lines_def swap_line_def drop_lines_def viewer_test_defs
  note texts = accept_stream_offer_def streamer_repaired_lines [THEN get_sdp_crlf_text]
  show "accept_stream_offer self rnd (crlf_text (with_cname streamer_rejects_sdp_with_unsupported_video_codecs_lines))
      = Inl UnsupportedMediaCodecs"
    unfolding texts by (simp add: streamer_rejects_sdp_with_unsupported_video_codecs_lines_def defs)
  show "accept_stream_offer self rnd (crlf_text (with_cname streamer_rejects_invalid_direction_offer_lines))
      = Inl InvalidStreamDirection"
    unfolding texts by (simp add: streamer_rejects_invalid_direction_offer_lines_def defs)
  show "accept_stream_offer self rnd (crlf_text (with_cname streamer_rejects_non_demuxed_sdp_lines))
      = Inl DemuxRequired"
    unfolding texts by (simp add: streamer_rejects_non_demuxed_sdp_lines_def defs)
  show "accept_stream_offer self rnd (crlf_text (with_cname streamer_rejects_non_bundled_media_lines))
      = Inl BundleRequired"
    unfolding texts by (simp add: streamer_rejects_non_bundled_media_lines_def defs)
  show "accept_stream_offer self rnd (crlf_text (with_cname streamer_rejects_invalid_dtls_role_lines))
      = Inl InvalidDTLSRole"
    unfolding texts by (simp add: streamer_rejects_invalid_dtls_role_lines_def defs)
  show "accept_stream_offer self rnd (crlf_text (with_cname streamer_rejects_invalid_formatted_sdp_lines))
      = Inl SequenceError"
    unfolding texts by (simp add: streamer_rejects_invalid_formatted_sdp_lines_def defs)
  show "accept_stream_offer self rnd (crlf_text (with_cname streamer_rejects_offer_with_missing_video_fmtp_lines))
      = Inl MissingVideoCapabilities"
    unfolding texts by (simp add: streamer_rejects_offer_with_missing_video_fmtp_lines_def defs)
  show "accept_stream_offer self rnd (crlf_text (with_cname streamer_rejects_media_with_missing_credentials_lines))
      = Inl MissingICECredentials"
    unfolding texts by (simp add: streamer_rejects_media_with_missing_credentials_lines_def defs)
qed

section \<open>All tests of the crate\<close>

definition streamer_offer_tests :: "set_order \<Rightarrow> host_random \<Rightarrow> bool list" where
  "streamer_offer_tests iter rnd = [
     streamer_offer_resolves_valid_sdp iter rnd,
     streamer_offer_resolves_sdp_with_multiple_video_codecs rnd,
     streamer_offer_rejects_offer_with_missing_ssrc rnd,
     streamer_offer_rejects_sdp_with_unsupported_video_codecs rnd,
     streamer_offer_rejects_invalid_direction_offer rnd,
     streamer_offer_rejects_non_demuxed_sdp rnd,
     streamer_offer_rejects_non_bundled_media rnd,
     streamer_offer_rejects_invalid_dtls_role rnd,
     streamer_offer_rejects_invalid_formatted_sdp rnd,
     streamer_offer_rejects_offer_with_missing_video_fmtp rnd,
     streamer_offer_rejects_media_with_missing_credentials rnd]"

definition viewer_offer_tests :: "set_order \<Rightarrow> host_random \<Rightarrow> host_random \<Rightarrow> bool list" where
  "viewer_offer_tests iter rnd rnd' = [
     viewer_offer_resolves_valid_viewer_offer iter rnd rnd',
     viewer_offer_rejects_offer_with_missing_ssrc rnd rnd',
     viewer_offer_resolves_browser_offers rnd rnd',
     viewer_offer_rejects_offer_without_matching_video_codec rnd rnd',
     viewer_offer_rejects_offer_without_matching_video_fmtp rnd rnd',
     viewer_offer_rejects_offer_without_audio_codec rnd rnd',
     viewer_offer_rejects_offer_with_invalid_media_direction rnd rnd',
     viewer_offer_rejects_offer_with_missing_ice_credentials rnd rnd',
     viewer_offer_rejects_non_demuxed_offer rnd rnd',
     viewer_offer_rejects_non_bundled_offer rnd rnd',
     viewer_offer_rejects_invalid_dtls_role rnd rnd']"

text \<open>The model passes every test of the crate: the 38 unit tests of \<open>resolvers.rs\<close>, the 11 tests of
  \<open>streamer_offer.rs\<close> and the 11 of \<open>viewer_offer.rs\<close>, with the answers compared letter by letter and
  the offers of two browsers among them, translated with their inputs and assertions, hold of the
  modelled resolver, whatever it draws at random and however sets are iterated.\<close>

lemma crate_tests_pass:
  "list_all (\<lambda>passed. passed)
     (sdp_resolver_tests rnd rnd_ssrc @ streamer_offer_tests iter rnd @ viewer_offer_tests iter rnd rnd')"
  by (simp add: sdp_resolver_tests_def streamer_offer_tests_def viewer_offer_tests_def unit_tests
      streamer_text_test streamer_tests streamer_rejecting_tests viewer_text_test viewer_tests viewer_rejecting_tests)

end
