(* ===== verification/Spec2Isabelle.thy ===== *)
theory Spec2Isabelle
  imports Threads_Demo Sdp_Rejections
begin

text \<open>
  \<^bold>\<open>SigmaMediaServer\<close>: a media server in Rust that takes one WebRTC stream per room from a streamer (WHIP)
  and forwards it to the viewers of the room (WHEP). This development models the program and proves what
  makes it correct.

  \<^bold>\<open>The program.\<close> One thread owns all state and takes commands from a channel (\<open>src/main.rs\<close>). A UDP
  thread sends it the datagrams, a pool of HTTP workers (\<open>src/http\<close>) sends it the offers of streamers and
  viewers and requests for the rooms' status, a timer sends periodic checks. The server (\<open>src/server.rs\<close>)
  tells STUN requests (\<open>src/stun.rs\<close>), which nominate the address of a session, from DTLS and SRTP packets,
  which go through the session's client (\<open>src/client.rs\<close>); decrypted media of a streamer is remapped
  (\<open>src/rtp.rs\<close>) and encrypted for each viewer of its room. The registry (\<open>src/ice_registry.rs\<close>) keeps
  sessions, rooms and the maps from addresses and user names. Offers are parsed and answered by the crate
  \<open>crates/sdp\<close>; the crate \<open>crates/thumbnail_image_extractor\<close> reassembles H.264 access units and keeps the
  last decoded picture, which the periodic checks give to \<open>src/thumbnail.rs\<close>.

  \<^bold>\<open>The theories\<close>, in the order in which they build on each other:
  \<^item> Prelude, Rust_Str, Rust_Io, Rust_Text, Net_Addr, Ipv6_Text: results and panics, the interfaces
    (locales \<open>codec\<close>, \<open>machine\<close>, \<open>simulation\<close>, \<open>exact_simulation\<close>) and what the code uses of the standard library: strings,
    numbers, UTF-8, lines, paths, Internet addresses and their text, which is proved to be read back.
  \<^item> Sdp_Lines (\<open>line_parsers.rs\<close>), Sdp_Codec (every valid line is read back as printed, one \<open>codec\<close> per
    line type), Sdp_Resolver (\<open>resolvers.rs\<close>), Sdp_Negotiation (what an accepted offer has, the partition
    of a session description into sections), Sdp_Acceptance (exactly which offers are accepted), Sdp_Answer
    (answers are readable), Sdp_Demo (instances).
  \<^item> Sdp_Tests, Sdp_Integration, Sdp_Rejections: the tests of the crate \<open>sdp\<close> as definitions, and that the
    model passes them all; the text of every answer; what is wrong with the tests that expect a rejection.
    The locale \<open>viewer_offer_lines\<close> says what the lines of a viewer's offer need to have, and is interpreted
    on the offers of the tests, two browsers' among them.
  \<^item> Stun, Stun_Props (\<open>stun.rs\<close>): requests with the panics of the parser, responses with their buffers.
  \<^item> Rtp_Remap (\<open>rtp.rs\<close>): the header rewrite, on bits.
  \<^item> Nal, Access_Unit, Access_Unit_Props, Extractor (the thumbnail crate): packets, NAL units, reassembly,
    decoding, and the reader of recorded streams.
  \<^item> Client (\<open>client.rs\<close>): the peer stream as a queue, the handshake as a state machine.
  \<^item> Registry (\<open>ice_registry.rs\<close>): the invariant that ties sessions, rooms, names and addresses together,
    kept by every operation.
  \<^item> Udp_Server, Udp_Server_Props (\<open>server.rs\<close>): dispatch, nomination, forwarding.
  \<^item> Command_Loop (\<open>main.rs\<close>, the loop): every command and the periodic checks. Session_Types: what a
    registered session is, its credentials and how a viewer fits its streamer, decided by the negotiation
    and kept by everything after. Command_Loop_Props, Command_Loop_Safety: exactly which commands panic, and
    the loop as an \<open>exact_simulation\<close> of the directory of members.
  \<^item> Config (\<open>config.rs\<close>, \<open>acceptor.rs\<close>), Http, Http_Props (\<open>src/http\<close>): the environment, the request
    parser, the responses, the routes and the exchange of a connection with the loop.
  \<^item> Thumbnail_Storage (\<open>thumbnail.rs\<close>), Media_Server (\<open>main.rs\<close>): the start of the program, what the UDP thread
    and the timer send, and which requests a worker serves to their end; Http_Demo has instances.
  \<^item> Traces: runs of systems with a channel (locales \<open>channel_system\<close>, \<open>kept_by_steps\<close>).
    Threads (\<open>main.rs\<close> and \<open>http/server.rs\<close>, the concurrency): the command channel, the reply channels, the
    pool of sixty workers, event streams and storage threads, as a step relation in which any thread may go
    next. Threads_Props: no interleaving gets stuck, a worker waits no longer than the commands before its
    own, responses are those of whole exchanges at one moment, event streams tell the history of the rooms, and
    enough of them take up the pool. Threads_Safety: every command has its cause, the server stays consistent
    in every interleaving, and no thumbnail is lost on its way to the browser. Threads_Demo has runs.
  \<^item> This theory: the properties that span everything.

  \<^bold>\<open>How the code is rendered.\<close> Structs are records, enums datatypes; a function that can panic returns a
  sum with the kind of panic on the left; \<open>Option\<close> and \<open>Result\<close> are \<open>option\<close> and sums; integers keep their
  width as words where they are packed or can overflow, and are naturals where the code only compares or
  prints them, with the bound of the type written out. Strings are lists of characters, each one byte of the
  UTF-8 form. Mutation is explicit state passing. Hash tables are maps; where the code walks one, the order
  is an argument, and the theorems hold for every order. Random values, the clock (nanoseconds) and the
  orders used while a command is handled are the record \<open>draws\<close>; random strings are built from an endless
  sequence of sampled letters and digits, as the code builds them. A flag tells whether arithmetic overflow
  panics (debug) or wraps (release). Loops are structural recursions or recursions with a proved measure;
  no fuel is used.

  \<^bold>\<open>Code of others\<close> is a parameter: HMAC-SHA1 and CRC-32, DTLS and SRTP contexts, the H.264 decoder and the
  splitting into NAL units (record \<open>third_party\<close>), the certificate library, the WebP encoder, writing files,
  JSON, Unicode lower case, the allocator, binding and duplicating the socket. What the theorems need of it is
  named and every such hypothesis has an instance: \<open>tp_ok\<close> (a digest has 20 bytes, accepting on a stream without
  packets waits, a handshake that is resumed does not fail to set up, a decrypted RTP packet has its header),
  \<open>storage_ok\<close> (a write that succeeds leaves the file with its content, and no write touches another file), \<open>lowers_ascii\<close>. SRTP keys,
  decoders, duplicates of the socket and writes may fail at any time.

  \<^bold>\<open>What limits the safety theorems.\<close> Some commands do make the server thread panic, and with it the program.
  They are told exactly by \<open>command_panics\<close>, in terms of the sources by \<open>command_panics_exactly\<close>: datagrams on
  which the STUN parser panics (\<open>get_stun_packet_panics\<close> has some); a datagram that finishes a handshake for
  which the DTLS library gives no SRTP keys; a nomination when the socket cannot be duplicated; a decrypted
  video packet that continues an access unit with a payload the extractor cannot index
  (\<open>au_process_packet_ok_iff\<close>); a streamer when no H.264 decoder initialises; a command whose worker stopped
  listening for the reply. \<open>program_safe\<close>, \<open>sessions_typed\<close>, \<open>worker_answered\<close> and \<open>loop_refines_directory\<close> cover runs
  that come to such commands: the thread goes on if and only if the next command is none of them.
  Beyond \<open>tp_ok\<close>, the runs are limited to offers whose ICE user names have at most 91
  characters, what fits the 200 bytes of a STUN response beside the four characters of the host's name, to
  request bodies that can be allocated, and to random ids that are not in use. Within a run a decoder always
  initialises or never does, and the socket can always be duplicated or never. A command reads the clock once,
  where the code reads it at each use. HTTP requests are read up to 15000 bytes, datagrams up to 3600.

  \<^bold>\<open>Not modelled\<close>: connections that fail before they are read (their worker panics at once and is
  replaced), logging, \<open>Debug\<close> text, the tests of the thumbnail crate, which decode a recorded stream with the
  H.264 library, and tests that are commented out. A TCP address that cannot be bound ends the HTTP thread:
  what the rest does then is a run of Threads without connections. Between two of their meeting points the
  threads of Threads run without being interrupted; what they do there concerns no other thread, but for
  the files of the thumbnails, which are read and written whole.
\<close>

section \<open>The whole program\<close>

lemma config_fingerprint: "config_initialize tls env = Inr cfg \<Longrightarrow> LF \<notin> set (fingerprint (ssl_config cfg))"
  using fingerprint_no_LF by (auto simp: config_initialize_def ssl_config_new_def Let_def elim!: bind_resE split: if_splits)

text \<open>C1. The program as a whole, in every interleaving of its threads: whenever the environment holds a
  configuration, the UDP socket can be bound and duplicated twice and the libraries behave as documented,
  the program starts. Then, whatever datagrams, ticks, connections, broken connections and storage threads
  come and in whatever order, as long as user names are short, announced bodies fit the memory and random
  ids are new, the server is consistent. Seen through the directory of members, the commands handled so far
  only let members leave at ticks of the timer, admit a viewer only to a room that is streamed, and a streamer
  only for a connection that presented the configured token, under an id and a room that were free. The
  command thread can take its next turn if and only if the next command is none of those that make it
  panic (\<open>command_panics\<close>); a free worker can take a connection, and a worker that has its reply can finish.\<close>

theorem program_safe:
  fixes tp :: "'x third_party"
  assumes "config_initialize tls env = Inr cfg" "binds (udp_address (udp_server_config cfg))" "clones 0" "clones 1" "tp_ok tp"
  shows "\<exists>srv. main_start binds clones tls env = Inr (cfg, srv) \<and>
     (\<forall>w fs acts sent handled st. he_config w = cfg \<and> ok_run chk tp lib w (program_start srv fs) acts sent handled st \<longrightarrow>
         loop_inv (pg_server st)
       \<and> abs_run dir_step (commands_of handled) Map.empty (members (session_registry (pg_server st)))
       \<and> (\<forall>src d. (src, d, RunPeriodicChecks) \<in> set handled \<longrightarrow> src = TimerThread)
       \<and> (\<forall>src d raw listens. (src, d, AddStreamer raw listens) \<in> set handled \<longrightarrow>
            (\<exists>i stream req. src = Worker i \<and> Accept i stream \<in> set acts \<and> parse_http w stream = Inr (Some req)
               \<and> req_headers req ''authorization'' = Some (''Bearer '' @ whip_token (tcp_server_config cfg))))
       \<and> (\<forall>src cmd rest d. pg_channel st = (src, cmd) # rest \<and> draws_ok d (session_registry (pg_server st)) \<longrightarrow>
            ((\<exists>st'. program_step chk tp lib w (Turn d) st st') \<longleftrightarrow> \<not> command_panics chk tp (pg_server st) (d, cmd)))
       \<and> (\<forall>i stream. pg_workers st i = None \<and> pool_free st \<and> connection_ok w stream \<longrightarrow>
            (\<exists>st'. program_step chk tp lib w (Accept i stream) st st'))
       \<and> (\<forall>i b k e. pg_workers st i = Some (Replied b k e) \<longrightarrow> (\<exists>st'. program_step chk tp lib w (Collect i) st st')))"
proof -
  from config_fingerprint [OF assms(1)] obtain srv :: "'x udp_server" where
    srv: "udp_server_new (fingerprint (ssl_config cfg)) (udp_address (udp_server_config cfg)) = Inr srv" "loop_inv srv"
      "members (session_registry srv) = Map.empty"
    using udp_server_new_inv by blast
  have main: "main_start binds clones tls env = Inr (cfg, srv)"
    using srv(1) assms(1-4) by (simp add: main_start_def get_global_config_def build_udp_socket_def)
  show ?thesis
  proof (rule exI [of _ srv], rule conjI [OF main], intro allI impI)
    fix w fs acts sent handled st
    assume a: "he_config w = cfg \<and> ok_run chk tp lib w (program_start srv fs) acts sent handled st"
    note inv0 = start_inv(2) [OF srv(2), of fs]
    note inv = admitted_runs.run_keeps [OF conjunct2 [OF a] conjI [OF assms(5) inv0], THEN conjunct2]
    note caused = handled_caused [OF ok_run_run [OF conjunct2 [OF a]], unfolded caused_def]
    show "loop_inv (pg_server st)
       \<and> abs_run dir_step (commands_of handled) Map.empty (members (session_registry (pg_server st)))
       \<and> (\<forall>src d. (src, d, RunPeriodicChecks) \<in> set handled \<longrightarrow> src = TimerThread)
       \<and> (\<forall>src d raw listens. (src, d, AddStreamer raw listens) \<in> set handled \<longrightarrow>
            (\<exists>i stream req. src = Worker i \<and> Accept i stream \<in> set acts \<and> parse_http w stream = Inr (Some req)
               \<and> req_headers req ''authorization'' = Some (''Bearer '' @ whip_token (tcp_server_config cfg))))
       \<and> (\<forall>src cmd rest d. pg_channel st = (src, cmd) # rest \<and> draws_ok d (session_registry (pg_server st)) \<longrightarrow>
            ((\<exists>st'. program_step chk tp lib w (Turn d) st st') \<longleftrightarrow> \<not> command_panics chk tp (pg_server st) (d, cmd)))
       \<and> (\<forall>i stream. pg_workers st i = None \<and> pool_free st \<and> connection_ok w stream \<longrightarrow>
            (\<exists>st'. program_step chk tp lib w (Accept i stream) st st'))
       \<and> (\<forall>i b k e. pg_workers st i = Some (Replied b k e) \<longrightarrow> (\<exists>st'. program_step chk tp lib w (Collect i) st st'))"
    proof (intro conjI allI impI)
      show "loop_inv (pg_server st)" using inv by (simp add: program_inv_def)
      show "abs_run dir_step (commands_of handled) Map.empty (members (session_registry (pg_server st)))"
        using ok_run_dir [OF conjunct2 [OF a] assms(5) inv0] srv(3) by (simp add: program_start_def)
      show "src = TimerThread" if "(src, d, RunPeriodicChecks) \<in> set handled" for src d using caused [OF that] by simp
      show "\<exists>i stream req. src = Worker i \<and> Accept i stream \<in> set acts \<and> parse_http w stream = Inr (Some req)
          \<and> req_headers req ''authorization'' = Some (''Bearer '' @ whip_token (tcp_server_config cfg))"
        if "(src, d, AddStreamer raw listens) \<in> set handled" for src d raw listens
        using caused [OF that] a by (auto simp: authorised_def)
      show "(\<exists>st'. program_step chk tp lib w (Turn d) st st') \<longleftrightarrow> \<not> command_panics chk tp (pg_server st) (d, cmd)"
        if "pg_channel st = (src, cmd) # rest \<and> draws_ok d (session_registry (pg_server st))" for src cmd rest d
        using turn_enabled [OF inv assms(5)] that by blast
      show "\<exists>st'. program_step chk tp lib w (Accept i stream) st st'"
        if "pg_workers st i = None \<and> pool_free st \<and> connection_ok w stream" for i stream using accept_enabled that by blast
      show "\<exists>st'. program_step chk tp lib w (Collect i) st st'" if "pg_workers st i = Some (Replied b k e)" for i b k e
        using collect [OF that] inv that unfolding program_inv_def workers_inv_def by (metis worker_ok_simps(6))
    qed
  qed
qed

section \<open>Thumbnails\<close>

text \<open>C15. Thumbnails reach the browser, whatever the order in which the storage threads and all others run:
  a turn that handles the periodic checks hands the picture of every streamer whose thumbnail is due to a
  storage thread. From then on, in every run, either that thread has stored the picture or it is still there
  and can go next. And as long as the last picture stored for a room is this one and its write succeeded, a
  worker that takes a request for the room's image answers it with status 200 and the picture as the encoder
  made it.\<close>

theorem thumbnail_published:
  assumes "program_inv st" "draws_ok d (session_registry (pg_server st))" "origin_ok w" "storage_ok lib"
    and "pg_channel st = (src, RunPeriodicChecks) # rest" "program_step chk tp lib w (Turn d) st st1"
    and "get_session i (session_registry (pg_server st)) = Some s" "due_picture (d_now d) s r pic" "thumbnail_encoded lib pic = Some enc"
    and "storage_run chk tp lib w st1 acts jobs h st2"
  shows "((\<exists>ok. (r, pic, ok) \<in> set jobs)
       \<or> (\<exists>n st3. n < length (pg_storage st2) \<and> pg_storage st2 ! n = (r, pic) \<and> program_step chk tp lib w (Store n) st2 st3))
     \<and> (\<forall>js j stream req. filter (\<lambda>job. fst job = r) jobs = js @ [(r, pic, True)]
          \<and> pg_workers st2 j = None \<and> pool_free st2 \<and> parse_http w stream = Inr (Some req) \<and> req_path req = ''/images''
          \<and> req_search req ''image'' = Some (thumbnail_name r) \<longrightarrow>
          (\<exists>out hdrs. program_step chk tp lib w (Accept j stream) st2 (set_worker j (Finished (Some out)) st2)
             \<and> read_response out = Some (200, hdrs, enc) \<and> hdrs ''Content-Type'' = Some ''image/webp''))"
proof (intro conjI allI impI)
  have "(r, pic) \<in> set (pg_storage st1)"
    using checks_hand_over [OF _ assms(2,5-8)] assms(1) by (simp add: program_inv_def)
  from job_kept [OF assms(10) this]
  show "(\<exists>ok. (r, pic, ok) \<in> set jobs)
       \<or> (\<exists>n st3. n < length (pg_storage st2) \<and> pg_storage st2 ! n = (r, pic) \<and> program_step chk tp lib w (Store n) st2 st3)"
    by (metis in_set_conv_nth store)
next
  fix js j stream req
  assume a: "filter (\<lambda>job. fst job = r) jobs = js @ [(r, pic, True)]
      \<and> pg_workers st2 j = None \<and> pool_free st2 \<and> parse_http w stream = Inr (Some req) \<and> req_path req = ''/images''
      \<and> req_search req ''image'' = Some (thumbnail_name r)"
  let ?w = "w\<lparr>he_files := pg_files st2\<rparr>"
  have "origin_ok ?w" using assms(3) by (simp add: origin_ok_def)
  moreover have "he_files ?w (path_push (storage_dir (he_config ?w)) (thumbnail_name r)) = Some enc"
    using stored_file [OF assms(10,4,9)] a by simp
  ultimately obtain resp hdrs where "serve ?w req = Inr (Answer resp)" "read_response (resp_inner resp) = Some (200, hdrs, enc)"
      "hdrs ''Content-Type'' = Some ''image/webp''"
    using image_served a by blast
  note served = this
  have "program_step chk tp lib w (Accept j stream) st2 (set_worker j (Finished (Some (resp_inner resp))) st2)"
    using a served(1) by (intro accept_answer) simp_all
  with served(2,3) show "\<exists>out hdrs. program_step chk tp lib w (Accept j stream) st2 (set_worker j (Finished (Some out)) st2)
      \<and> read_response out = Some (200, hdrs, enc) \<and> hdrs ''Content-Type'' = Some ''image/webp''"
    by (intro exI conjI)
qed

section \<open>A program that runs\<close>

theorem program_safe_witness:
  "\<exists>acts sent handled st out. main_start (\<lambda>_. True) (\<lambda>_. True) demo_tls demo_env = Inr (demo_config, demo_fresh_server)
     \<and> ok_run True demo_tp demo_storage demo_http demo_start acts sent handled st \<and> acts \<noteq> []
     \<and> pg_workers st 0 = Some (Finished (Some out)) \<and> loop_inv (pg_server st)"
proof -
  obtain sent handled st out where
    r: "ok_run True demo_tp demo_storage demo_http demo_start [Accept 0 demo_whip_request, Turn (demo_draws 0 7 1), Collect 0] sent handled st"
       "pg_workers st 0 = Some (Finished (Some out))"
    by (rule demo_served [OF demo_request_parsed demo_whip_served(1) demo_connection_ok]) (simp add: demo_whip_served(2))
  have c: "he_config demo_http = demo_config" by (simp add: demo_http_def)
  from program_safe [OF demo_config_read, of "\<lambda>_. True" "\<lambda>_. True" demo_tp True demo_storage] demo_tp_ok
  have "\<forall>w fs acts sent handled st. he_config w = demo_config
      \<and> ok_run True demo_tp demo_storage w (program_start demo_fresh_server fs) acts sent handled st \<longrightarrow> loop_inv (pg_server st)"
    unfolding demo_started by auto
  with r(1) c have "loop_inv (pg_server st)" by blast
  with r demo_started show ?thesis by (intro exI conjI) (assumption | simp)+
qed

theorem thumbnail_published_witness:
  "\<exists>st acts jobs h st2 out hdrs. storage_run True demo_tp demo_storage demo_http st acts jobs h st2 \<and> acts \<noteq> []
     \<and> demo_step (Accept 0 demo_image_request) st2 (set_worker 0 (Finished (Some out)) st2)
     \<and> read_response out = Some (200, hdrs, [1, 2, 3])"
proof -
  let ?st = "send TimerThread RunPeriodicChecks (program_start demo_pictured Map.empty)"
  let ?d = "demo_draws 0 9 3"
  have chan: "pg_channel ?st = [(TimerThread, RunPeriodicChecks)]" and srv: "pg_server ?st = demo_pictured"
    by (simp_all add: program_start_def)
  have inv: "program_inv ?st"
    by (rule program_step_inv [where chk = True and lib = demo_storage and w = demo_http and act = Tick, OF _ start_inv(2) [OF demo_pictured_inv] demo_tp_ok])
      (use tick [of True demo_tp demo_storage demo_http "program_start demo_pictured Map.empty"] in
        \<open>simp_all add: start_timeout_interval_def\<close>)
  have d: "draws_ok ?d (session_registry (pg_server ?st))" unfolding srv by (rule demo_pictured_draws)
  obtain st1 where st1: "demo_step (Turn ?d) ?st st1"
    using turn_enabled [OF inv demo_tp_ok chan d, of True demo_storage demo_http] by auto
  have enc: "thumbnail_encoded demo_storage demo_picture = Some [1, 2, 3]"
    by (simp add: thumbnail_encoded_def demo_storage_def demo_picture_def)
  have s: "get_session 1 (session_registry (pg_server ?st)) = Some demo_pictured_session"
    unfolding srv demo_pictured_registry by (simp add: get_session_def put_session_def)
  have due: "due_picture (d_now ?d) demo_pictured_session 7 demo_picture" using demo_pictured_due by (simp add: demo_draws_def)
  note published = thumbnail_published [OF inv d demo_http_ok(1) demo_storage_ok(1) chan st1 s due enc]
  note start = run_start [of "program_step True demo_tp demo_storage demo_http" "stored demo_storage demo_http" handles st1]
  from published [OF start] obtain n st3 where n: "n < length (pg_storage st1)" "pg_storage st1 ! n = (7, demo_picture)"
      "demo_step (Store n) st1 st3" by auto
  from run_step [OF start n(3)] have r: "storage_run True demo_tp demo_storage demo_http st1 [Store n] (stored demo_storage demo_http (Store n) st1) [] st3"
    by simp
  have jobs: "stored demo_storage demo_http (Store n) st1 = [(7, demo_picture, True)]"
    using n(2) enc demo_storage_ok(2) by (simp add: saved_def)
  have "pg_workers st1 = Map.empty" using st1 chan by (auto elim!: turnE simp: program_start_def split: list.splits)
  then have w: "pg_workers st3 0 = None" "pool_free st3"
    using n(3) by (auto elim!: program_stepE simp: pool_free_def busy_def POOL_SIZE_def)
  obtain req where req: "parse_http demo_http demo_image_request = Inr (Some req)" "req_path req = ''/images''"
    "req_search req ''image'' = Some (thumbnail_name 7)"
    using demo_image_parsed demo_thumbnail_name by simp
  have "filter (\<lambda>job. fst job = 7) (stored demo_storage demo_http (Store n) st1) = [] @ [(7, demo_picture, True)]"
    unfolding jobs by simp
  then have "\<exists>out hdrs. demo_step (Accept 0 demo_image_request) st3 (set_worker 0 (Finished (Some out)) st3)
      \<and> read_response out = Some (200, hdrs, [1, 2, 3]) \<and> hdrs ''Content-Type'' = Some ''image/webp''"
    using w req by (intro published [OF r, THEN conjunct2, rule_format] conjI)
  then obtain out hdrs where "demo_step (Accept 0 demo_image_request) st3 (set_worker 0 (Finished (Some out)) st3)"
    "read_response out = Some (200, hdrs, [1, 2, 3])" by blast
  with r show ?thesis by (intro exI conjI) (assumption | simp)+
qed

end
